(* ===== verification/Auth_Prelude.thy ===== *)
theory Auth_Prelude
  imports Main "HOL-Library.AList" "HOL-Library.Sublist"
begin

text \<open>
  Shared ground of the development: the types every component uses (byte strings, clock readings,
  sentinel errors, fallible results), the functions of Go's \<open>strings\<close> package that the modelled
  packages call, the regular expressions of the repository as bool-valued matchers, and the lemmas
  about them.  Go strings are byte sequences, so a \<open>string\<close> of HOL (a list of 8-bit characters) is
  exactly one.  A Go map that the code iterates over is an association list: the order of the list
  stands for the (unspecified) iteration order, and every theorem is about an arbitrary list.
\<close>

section \<open>Types\<close>

text \<open>Nanoseconds since the Unix epoch (\<open>time.Time\<close>) and nanoseconds (\<open>time.Duration\<close>).\<close>

type_synonym time = int
type_synonym duration = int

abbreviation nanosecond :: duration where "nanosecond \<equiv> 1"
definition second :: duration where "second = 1000000000"
definition minute :: duration where "minute = 60 * second"
definition hour :: duration where "hour = 60 * minute"

text \<open>Go's zero time, 1 January of year 1.\<close>

definition zero_time :: time where "zero_time = - 62135596800 * second"

text \<open>
  An error value: a sentinel of a package (named by package and variable, the identity \<open>errors.Is\<close>
  compares), the policy error with its detail, or any other error (an I/O failure, a wrapped library
  error).
\<close>

datatype err = Sentinel string | ErrPolicy string | ErrOther string

abbreviation ErrNotFound :: err where "ErrNotFound \<equiv> Sentinel ''store.ErrNotFound''"
abbreviation ErrConflict :: err where "ErrConflict \<equiv> Sentinel ''store.ErrConflict''"
abbreviation ErrCredentialExists :: err where "ErrCredentialExists \<equiv> Sentinel ''store.ErrCredentialExists''"
abbreviation ErrMalformed :: err where "ErrMalformed \<equiv> Sentinel ''permref.ErrMalformed''"
abbreviation ErrNoActor :: err where "ErrNoActor \<equiv> Sentinel ''tenantctx.ErrNoActor''"
abbreviation ErrCrossTenant :: err where "ErrCrossTenant \<equiv> Sentinel ''tenantctx.ErrCrossTenant''"
abbreviation ErrNoOperatorGrant :: err where "ErrNoOperatorGrant \<equiv> Sentinel ''tenantctx.ErrNoOperatorGrant''"
abbreviation ErrBadSlug :: err where "ErrBadSlug \<equiv> Sentinel ''tenant.ErrBadSlug''"
abbreviation ErrNotOperator :: err where "ErrNotOperator \<equiv> Sentinel ''tenant.ErrNotOperator''"
abbreviation ErrValidation :: err where "ErrValidation \<equiv> Sentinel ''tenant.ErrValidation''"
abbreviation ErrNoSession :: err where "ErrNoSession \<equiv> Sentinel ''session.ErrNoSession''"
abbreviation ErrInvalidCode :: err where "ErrInvalidCode \<equiv> Sentinel ''mfa.ErrInvalidCode''"
abbreviation ErrNotEnrolled :: err where "ErrNotEnrolled \<equiv> Sentinel ''mfa.ErrNotEnrolled''"
abbreviation ErrRequired :: err where "ErrRequired \<equiv> Sentinel ''mfa.ErrRequired''"
abbreviation ErrNoPending :: err where "ErrNoPending \<equiv> Sentinel ''mfa.ErrNoPending''"
abbreviation ErrInvalidCredentials :: err where "ErrInvalidCredentials \<equiv> Sentinel ''user.ErrInvalidCredentials''"
abbreviation ErrLocked :: err where "ErrLocked \<equiv> Sentinel ''user.ErrLocked''"
abbreviation ErrRateLimited :: err where "ErrRateLimited \<equiv> Sentinel ''user.ErrRateLimited''"
abbreviation ErrKeyFlagged :: err where "ErrKeyFlagged \<equiv> Sentinel ''webauthn.ErrKeyFlagged''"
abbreviation ErrNoKeys :: err where "ErrNoKeys \<equiv> Sentinel ''webauthn.ErrNoKeys''"
abbreviation ErrLastFactor :: err where "ErrLastFactor \<equiv> Sentinel ''webauthn.ErrLastFactor''"
abbreviation ErrConfirmationFailed :: err where "ErrConfirmationFailed \<equiv> Sentinel ''webauthn.ErrConfirmationFailed''"
abbreviation ErrKeysLocked :: err where "ErrKeysLocked \<equiv> Sentinel ''webauthn.ErrLocked''"
abbreviation ErrInvalidName :: err where "ErrInvalidName \<equiv> Sentinel ''webauthn.ErrInvalidName''"
abbreviation ErrNameTaken :: err where "ErrNameTaken \<equiv> Sentinel ''webauthn.ErrNameTaken''"
abbreviation ErrKeyLimit :: err where "ErrKeyLimit \<equiv> Sentinel ''webauthn.ErrKeyLimit''"
abbreviation ErrAlreadyRegistered :: err where "ErrAlreadyRegistered \<equiv> Sentinel ''webauthn.ErrAlreadyRegistered''"
abbreviation ErrRegistrationFailed :: err where "ErrRegistrationFailed \<equiv> Sentinel ''webauthn.ErrRegistrationFailed''"
abbreviation ErrAssertionFailed :: err where "ErrAssertionFailed \<equiv> Sentinel ''webauthn.ErrAssertionFailed''"
abbreviation ErrTooLarge :: err where "ErrTooLarge \<equiv> Sentinel ''webauthn.ErrTooLarge''"
abbreviation ErrInvalidRequest :: err where "ErrInvalidRequest \<equiv> Sentinel ''oauth.ErrInvalidRequest''"
abbreviation ErrInvalidGrant :: err where "ErrInvalidGrant \<equiv> Sentinel ''oauth.ErrInvalidGrant''"
abbreviation ErrInvalidClient :: err where "ErrInvalidClient \<equiv> Sentinel ''oauth.ErrInvalidClient''"
abbreviation ErrPKCE :: err where "ErrPKCE \<equiv> Sentinel ''oauth.ErrPKCE''"
abbreviation ErrTooShort :: err where "ErrTooShort \<equiv> Sentinel ''password.ErrTooShort''"
abbreviation ErrTooLong :: err where "ErrTooLong \<equiv> Sentinel ''password.ErrTooLong''"
abbreviation ErrWeak :: err where "ErrWeak \<equiv> Sentinel ''password.ErrWeak''"
abbreviation ErrInvalidToken :: err where "ErrInvalidToken \<equiv> Sentinel ''password.ErrInvalidToken''"
abbreviation ErrCurrent :: err where "ErrCurrent \<equiv> Sentinel ''password.ErrCurrent''"
abbreviation ErrNoActiveKey :: err where "ErrNoActiveKey \<equiv> Sentinel ''token.ErrNoActiveKey''"
abbreviation ErrBrokenKey :: err where "ErrBrokenKey \<equiv> Sentinel ''token.ErrBrokenKey''"
abbreviation ErrEnrollmentExpired :: err where "ErrEnrollmentExpired \<equiv> Sentinel ''token.ErrEnrollmentExpired''"
abbreviation ErrEnrollmentNotYetValid :: err where "ErrEnrollmentNotYetValid \<equiv> Sentinel ''token.ErrEnrollmentNotYetValid''"
abbreviation ErrUnauthenticated :: err where "ErrUnauthenticated \<equiv> Sentinel ''authclient.ErrUnauthenticated''"
abbreviation ErrRevoked :: err where "ErrRevoked \<equiv> Sentinel ''authclient.ErrRevoked''"
abbreviation ErrStale :: err where "ErrStale \<equiv> Sentinel ''authclient.ErrStale''"
abbreviation ErrWrongTenant :: err where "ErrWrongTenant \<equiv> Sentinel ''authclient.ErrWrongTenant''"
abbreviation ErrForbidden :: err where "ErrForbidden \<equiv> Sentinel ''authz.ErrForbidden''"
abbreviation ErrLastOwner :: err where "ErrLastOwner \<equiv> Sentinel ''authz.ErrLastOwner''"
abbreviation ErrSelfEscalation :: err where "ErrSelfEscalation \<equiv> Sentinel ''authz.ErrSelfEscalation''"
abbreviation ErrBuiltin :: err where "ErrBuiltin \<equiv> Sentinel ''authz.ErrBuiltin''"
abbreviation ErrRoleRef :: err where "ErrRoleRef \<equiv> Sentinel ''authz.ErrRoleRef''"
abbreviation ErrManagedRole :: err where "ErrManagedRole \<equiv> Sentinel ''authz.ErrManagedRole''"
abbreviation ErrRoleRetired :: err where "ErrRoleRetired \<equiv> Sentinel ''authz.ErrRoleRetired''"
abbreviation ErrRoleConflict :: err where "ErrRoleConflict \<equiv> Sentinel ''authz.ErrRoleConflict''"
abbreviation ErrOwnerViaGroup :: err where "ErrOwnerViaGroup \<equiv> Sentinel ''authz.ErrOwnerViaGroup''"
abbreviation ErrMemberCountMismatch :: err where "ErrMemberCountMismatch \<equiv> Sentinel ''authz.ErrMemberCountMismatch''"
abbreviation ErrBadPermission :: err where "ErrBadPermission \<equiv> Sentinel ''authz.ErrBadPermission''"
abbreviation ErrTargetRefused :: err where "ErrTargetRefused \<equiv> Sentinel ''ldapdir.ErrTargetRefused''"
abbreviation ErrInvalidURL :: err where "ErrInvalidURL \<equiv> Sentinel ''ldapdir.ErrInvalidURL''"
abbreviation ErrInvalidFilter :: err where "ErrInvalidFilter \<equiv> Sentinel ''ldapdir.ErrInvalidFilter''"
abbreviation ErrInvalidBase :: err where "ErrInvalidBase \<equiv> Sentinel ''ldapdir.ErrInvalidBase''"

type_synonym 'a result = "err + 'a"

text \<open>A fallible operation on a state: effects made before an error was returned persist.\<close>

type_synonym ('s, 'a) op = "'s \<Rightarrow> 'a result \<times> 's"

named_theorems go_simps \<open>computation rules of the Go library functions\<close>
named_theorems key_simps \<open>key families of the cache are pairwise disjoint\<close>

section \<open>Go's strings package\<close>

text \<open>\<open>strings.Split (s, sep)\<close> for a separator of one byte.\<close>

fun split_on :: "char \<Rightarrow> string \<Rightarrow> string list" where
  "split_on c [] = [[]]"
| "split_on c (x # xs) =
     (if x = c then [] # split_on c xs
      else (case split_on c xs of [] \<Rightarrow> [[x]] | y # ys \<Rightarrow> (x # y) # ys))"

text \<open>\<open>strings.Cut (s, sep)\<close> for one byte: the text before and after the first separator.\<close>

fun cut_byte :: "char \<Rightarrow> string \<Rightarrow> (string \<times> string) option" where
  "cut_byte c [] = None"
| "cut_byte c (x # xs) = (if x = c then Some ([], xs) else map_option (apfst ((#) x)) (cut_byte c xs))"

text \<open>\<open>strings.CutPrefix\<close>, \<open>strings.HasPrefix\<close> and the suffix variants.\<close>

fun cut_prefix :: "string \<Rightarrow> string \<Rightarrow> string option" where
  "cut_prefix [] s = Some s"
| "cut_prefix (p # ps) [] = None"
| "cut_prefix (p # ps) (x # xs) = (if p = x then cut_prefix ps xs else None)"

definition has_prefix :: "string \<Rightarrow> string \<Rightarrow> bool" where
  "has_prefix s p \<longleftrightarrow> cut_prefix p s \<noteq> None"

definition cut_suffix :: "string \<Rightarrow> string \<Rightarrow> string option" where
  "cut_suffix suf s = map_option rev (cut_prefix (rev suf) (rev s))"

text \<open>\<open>strings.IndexByte\<close> and \<open>strings.LastIndexByte\<close>; \<open>None\<close> stands for -1.\<close>

fun index_byte :: "char \<Rightarrow> string \<Rightarrow> nat option" where
  "index_byte c [] = None"
| "index_byte c (x # xs) = (if x = c then Some 0 else map_option Suc (index_byte c xs))"

definition last_index_byte :: "char \<Rightarrow> string \<Rightarrow> nat option" where
  "last_index_byte c s = map_option (\<lambda>i. length s - 1 - i) (index_byte c (rev s))"

definition contains_any :: "string \<Rightarrow> string \<Rightarrow> bool" where
  "contains_any s cs \<longleftrightarrow> list_ex (\<lambda>c. c \<in> set cs) s"

text \<open>
  \<open>strings.TrimSpace\<close>: the encodings of the Unicode white-space characters are cut from both
  ends.  On a byte string this is exact: a prefix (suffix) that is one of these encodings is what
  Go decodes there.
\<close>

definition bytes :: "nat list \<Rightarrow> string" where
  "bytes ns = map char_of ns"

definition white_space :: "string list" where
  "white_space =
     map bytes
      ([[9], [10], [11], [12], [13], [32], [194, 133], [194, 160], [225, 154, 128]]
       @ map (\<lambda>n. [226, 128, n]) [128 ..< 139]
       @ [[226, 128, 168], [226, 128, 169], [226, 128, 175], [226, 129, 159], [227, 128, 128]])"

lemma white_space_code [code]:
  "white_space =
     [[CHR 0x09],
      [CHR 0x0A],
      [CHR 0x0B],
      [CHR 0x0C],
      [CHR 0x0D],
      [CHR 0x20],
      [CHR 0xC2, CHR 0x85],
      [CHR 0xC2, CHR 0xA0],
      [CHR 0xE1, CHR 0x9A, CHR 0x80],
      [CHR 0xE2, CHR 0x80, CHR 0x80],
      [CHR 0xE2, CHR 0x80, CHR 0x81],
      [CHR 0xE2, CHR 0x80, CHR 0x82],
      [CHR 0xE2, CHR 0x80, CHR 0x83],
      [CHR 0xE2, CHR 0x80, CHR 0x84],
      [CHR 0xE2, CHR 0x80, CHR 0x85],
      [CHR 0xE2, CHR 0x80, CHR 0x86],
      [CHR 0xE2, CHR 0x80, CHR 0x87],
      [CHR 0xE2, CHR 0x80, CHR 0x88],
      [CHR 0xE2, CHR 0x80, CHR 0x89],
      [CHR 0xE2, CHR 0x80, CHR 0x8A],
      [CHR 0xE2, CHR 0x80, CHR 0xA8],
      [CHR 0xE2, CHR 0x80, CHR 0xA9],
      [CHR 0xE2, CHR 0x80, CHR 0xAF],
      [CHR 0xE2, CHR 0x81, CHR 0x9F],
      [CHR 0xE3, CHR 0x80, CHR 0x80]]"
  by (simp add: white_space_def bytes_def upt_rec char_of_eq_iff)

definition strip_one :: "string list \<Rightarrow> string \<Rightarrow> string option" where
  "strip_one ws s =
     (case filter (\<lambda>w. w \<noteq> [] \<and> has_prefix s w) ws of
        [] \<Rightarrow> None | w # _ \<Rightarrow> Some (drop (length w) s))"

function trim_left :: "string list \<Rightarrow> string \<Rightarrow> string" where
  "trim_left ws s = (case strip_one ws s of None \<Rightarrow> s | Some t \<Rightarrow> trim_left ws t)"
  by pat_completeness auto
termination
proof (relation "measure (\<lambda>(ws, s). length s)")
  show "wf (measure (\<lambda>(ws :: string list, s :: string). length s))" by simp
next
  fix ws :: "string list" and s t :: string
  assume st: "strip_one ws s = Some t"
  then obtain w where "w \<noteq> []" "has_prefix s w" "t = drop (length w) s"
    by (auto simp: strip_one_def split: list.splits dest: filter_eq_ConsD)
  moreover from \<open>has_prefix s w\<close> \<open>w \<noteq> []\<close> have "s \<noteq> []"
    by (cases w; cases s) (auto simp: has_prefix_def)
  ultimately show "((ws, t), (ws, s)) \<in> measure (\<lambda>(ws, s). length s)"
    by (cases w; cases s) auto
qed

definition trim_space :: "string \<Rightarrow> string" where
  "trim_space s =
     rev (trim_left (map rev white_space) (rev (trim_left white_space s)))"

text \<open>
  \<open>strings.ToLower\<close>: exact on ASCII text; the Unicode case table applied to any other text is a
  parameter \<open>ul\<close>.
\<close>

definition is_ascii :: "char \<Rightarrow> bool" where
  "is_ascii c \<longleftrightarrow> (of_char c :: nat) < 128"

definition lower_ascii :: "char \<Rightarrow> char" where
  "lower_ascii c =
     (if 65 \<le> (of_char c :: nat) \<and> (of_char c :: nat) \<le> 90 then char_of ((of_char c :: nat) + 32)
      else c)"

definition to_lower :: "(string \<Rightarrow> string) \<Rightarrow> string \<Rightarrow> string" where
  "to_lower ul s = (if list_all is_ascii s then map lower_ascii s else ul s)"

section \<open>Character classes and the shapes of the regular expressions\<close>

definition is_az :: "char \<Rightarrow> bool" where
  "is_az c \<longleftrightarrow> 97 \<le> (of_char c :: nat) \<and> (of_char c :: nat) \<le> 122"

definition is_AZ :: "char \<Rightarrow> bool" where
  "is_AZ c \<longleftrightarrow> 65 \<le> (of_char c :: nat) \<and> (of_char c :: nat) \<le> 90"

definition is_09 :: "char \<Rightarrow> bool" where
  "is_09 c \<longleftrightarrow> 48 \<le> (of_char c :: nat) \<and> (of_char c :: nat) \<le> 57"

definition is_hexdigit :: "char \<Rightarrow> bool" where
  "is_hexdigit c \<longleftrightarrow> is_09 c \<or> (97 \<le> (of_char c :: nat) \<and> (of_char c :: nat) \<le> 102)"

lemmas char_classes = is_az_def is_AZ_def is_09_def is_hexdigit_def is_ascii_def lower_ascii_def

section \<open>Executable bytes\<close>

text \<open>
  Code equations that compute with bytes as integers in binary.  The library's own go through the
  classes of bit operations and unary naturals, which makes evaluating a long string slow.
\<close>

definition byte_int :: "char \<Rightarrow> int" where "byte_int c = of_char c"

definition byte_nat :: "char \<Rightarrow> nat" where "byte_nat c = of_char c"

definition int_byte :: "int \<Rightarrow> char" where "int_byte n = char_of n"

definition nat_byte :: "nat \<Rightarrow> char" where "nat_byte n = char_of n"

lemma byte_int_code [code]: "byte_int (Char b0 b1 b2 b3 b4 b5 b6 b7)
    = (if b0 then 1 else 0) + (if b1 then 2 else 0) + (if b2 then 4 else 0) + (if b3 then 8 else 0) + (if b4 then 16 else 0)
      + (if b5 then 32 else 0) + (if b6 then 64 else 0) + (if b7 then 128 else 0)"
  by (simp add: byte_int_def of_char_Char horner_sum_simps)

lemma int_byte_code [code]: "int_byte k =
    Char (k mod 2 = 1) (k div 2 mod 2 = 1) (k div 4 mod 2 = 1) (k div 8 mod 2 = 1)
      (k div 16 mod 2 = 1) (k div 32 mod 2 = 1) (k div 64 mod 2 = 1) (k div 128 mod 2 = 1)"
  by (simp add: int_byte_def char_of_def bit_iff_odd odd_iff_mod_2_eq_one)

lemma of_char_nat_int: "(of_char c :: nat) = nat (byte_int c)"
  by (metis byte_int_def nat_int of_nat_of_char)

lemma int_of_char: "int (of_char c) = byte_int c"
  by (simp only: byte_int_def of_nat_of_char)

lemma byte_nat_code [code]: "byte_nat c = nat (byte_int c)"
  by (simp only: byte_nat_def of_char_nat_int)

lemma nat_byte_code [code]: "nat_byte n = int_byte (int n)"
  unfolding nat_byte_def int_byte_def by (rule char_of_nat [symmetric])

lemma byte_code_unfold [code_unfold]: "of_char = byte_int" "of_char = byte_nat" "char_of = int_byte" "char_of = nat_byte"
  by (simp_all only: fun_eq_iff byte_int_def byte_nat_def int_byte_def nat_byte_def simp_thms)

lemma of_char_le: "(numeral n \<le> (of_char c :: nat)) = (numeral n \<le> byte_int c)"
    "((of_char c :: nat) \<le> numeral n) = (byte_int c \<le> numeral n)" "((of_char c :: nat) < numeral n) = (byte_int c < numeral n)"
  by (simp_all only: int_of_char [symmetric] of_nat_numeral [symmetric, where 'a = int] of_nat_le_iff of_nat_less_iff)

lemmas class_code [code] = is_ascii_def [unfolded of_char_le] is_az_def [unfolded of_char_le] is_AZ_def [unfolded of_char_le]
  is_09_def [unfolded of_char_le] is_hexdigit_def [unfolded of_char_le]

lemma lower_ascii_code [code]: "lower_ascii c = (if 65 \<le> byte_int c \<and> byte_int c \<le> 90 then int_byte (byte_int c + 32) else c)"
  using char_of_nat [of "of_char c + 32", where 'a = int] by (simp add: lower_ascii_def of_char_le int_byte_def int_of_char)

text \<open>\<open>^A B{0,n}$\<close>\<close>

definition match_name :: "(char \<Rightarrow> bool) \<Rightarrow> (char \<Rightarrow> bool) \<Rightarrow> nat \<Rightarrow> string \<Rightarrow> bool" where
  "match_name a b n s \<longleftrightarrow>
     (case s of [] \<Rightarrow> False | c # cs \<Rightarrow> a c \<and> list_all b cs \<and> length cs \<le> n)"

text \<open>\<open>^A(?:B{0,n}A)?$\<close>\<close>

definition match_label :: "(char \<Rightarrow> bool) \<Rightarrow> (char \<Rightarrow> bool) \<Rightarrow> nat \<Rightarrow> string \<Rightarrow> bool" where
  "match_label a b n s \<longleftrightarrow>
     (case s of
        [] \<Rightarrow> False
      | c # cs \<Rightarrow> a c \<and> (cs = [] \<or> (list_all b (butlast cs) \<and> length (butlast cs) \<le> n \<and> a (last cs))))"

text \<open>\<open>^[0-9a-f]{8}-[0-9a-f]{4}-[0-9a-f]{4}-[0-9a-f]{4}-[0-9a-f]{12}$\<close>: \<open>True\<close> stands for a dash.\<close>

definition uuid_shape :: "bool list" where
  "uuid_shape =
     replicate 8 False @ [True] @ replicate 4 False @ [True] @ replicate 4 False @ [True]
     @ replicate 4 False @ [True] @ replicate 12 False"

definition match_uuid :: "string \<Rightarrow> bool" where
  "match_uuid s \<longleftrightarrow>
     length s = length uuid_shape
     \<and> list_all2 (\<lambda>dash c. if dash then c = CHR ''-'' else is_hexdigit c) uuid_shape s"

section \<open>Lemmas\<close>

subsection \<open>Splitting and cutting\<close>

lemma split_on_neq_Nil [simp]: "split_on c s \<noteq> []"
  by (induction s) (auto split: list.splits)

lemma split_on_notin [go_simps]: "c \<notin> set s \<Longrightarrow> split_on c s = [s]"
  by (induction s) auto

lemma split_on_append [go_simps]:
  "c \<notin> set xs \<Longrightarrow> split_on c (xs @ c # ys) = xs # split_on c ys"
  by (induction xs) auto

lemma split_on_pieces: "p \<in> set (split_on c s) \<Longrightarrow> c \<notin> set p"
proof (induction s arbitrary: p)
  case (Cons x xs)
  then show ?case
    by (cases "split_on c xs") (auto split: if_splits)
qed simp

lemma concat_split_on: "concat (map (\<lambda>p. p @ [c]) (split_on c s)) = s @ [c]"
proof (induction s)
  case (Cons x xs)
  then show ?case
    by (cases "split_on c xs") auto
qed simp

lemma count_split_on: "length (split_on c s) = Suc (count_list s c)"
proof (induction s)
  case (Cons x xs)
  then show ?case
    by (cases "split_on c xs") auto
qed simp

lemma cut_byte_notin [go_simps]: "c \<notin> set s \<Longrightarrow> cut_byte c s = None"
  by (induction s) auto

lemma cut_byte_append [go_simps]: "c \<notin> set xs \<Longrightarrow> cut_byte c (xs @ c # ys) = Some (xs, ys)"
  by (induction xs) auto

lemma cut_byte_SomeD: "cut_byte c s = Some (a, b) \<Longrightarrow> s = a @ c # b \<and> c \<notin> set a"
  by (induction s arbitrary: a) (auto split: if_splits)

lemma cut_byte_Some_iff: "cut_byte c s = Some (a, b) \<longleftrightarrow> s = a @ c # b \<and> c \<notin> set a"
  using cut_byte_SomeD cut_byte_append by blast

lemma cut_prefix_Some_iff: "cut_prefix p s = Some t \<longleftrightarrow> s = p @ t"
  by (induction p s rule: cut_prefix.induct) auto

lemma cut_prefix_append [simp, go_simps]: "cut_prefix p (p @ t) = Some t"
  by (simp add: cut_prefix_Some_iff)

lemma cut_prefix_append_assoc [go_simps]: "cut_prefix p (p @ (t @ u)) = Some (t @ u)"
  by simp

lemma cut_suffix_Some_iff: "cut_suffix suf s = Some t \<longleftrightarrow> s = t @ suf"
proof -
  have "cut_suffix suf s = Some t \<longleftrightarrow> cut_prefix (rev suf) (rev s) = Some (rev t)"
    by (auto simp: cut_suffix_def)
  also have "\<dots> \<longleftrightarrow> rev s = rev (t @ suf)"
    by (simp add: cut_prefix_Some_iff)
  finally show ?thesis
    by (simp only: rev_is_rev_conv)
qed

lemma cut_suffix_append [simp, go_simps]: "cut_suffix suf (t @ suf) = Some t"
  by (simp add: cut_suffix_Some_iff)

lemma has_prefix_iff: "has_prefix s p \<longleftrightarrow> (\<exists>t. s = p @ t)"
  by (auto simp: has_prefix_def cut_prefix_Some_iff)

subsection \<open>Names and labels exclude what their classes exclude\<close>

lemma match_name_notin:
  "match_name a b n s \<Longrightarrow> \<not> a c \<Longrightarrow> \<not> b c \<Longrightarrow> c \<notin> set s"
  by (auto simp: match_name_def list_all_iff split: list.splits)

lemma match_label_notin:
  assumes "match_label a b n s" "\<not> a c" "\<not> b c"
  shows "c \<notin> set s"
proof (cases s)
  case (Cons x xs)
  show ?thesis
  proof (cases xs rule: rev_cases)
    case Nil
    with assms Cons show ?thesis by (auto simp: match_label_def)
  next
    case (snoc ys y)
    with assms Cons show ?thesis by (auto simp: match_label_def list_all_iff)
  qed
qed simp

lemma match_name_neq_Nil: "match_name a b n s \<Longrightarrow> s \<noteq> []"
  by (auto simp: match_name_def)

lemma match_name_length: "match_name a b n s \<Longrightarrow> length s \<le> Suc n"
  by (auto simp: match_name_def split: list.splits)

lemma match_label_length: "match_label a b n s \<Longrightarrow> length s \<le> n + 2"
  by (auto simp: match_label_def split: list.splits)

lemma match_label_neq_Nil: "match_label a b n s \<Longrightarrow> s \<noteq> []"
  by (auto simp: match_label_def)

lemma match_uuid_class:
  assumes "match_uuid s" "c \<in> set s"
  shows "c = CHR ''-'' \<or> is_hexdigit c"
proof -
  from assms(2) obtain i where i: "i < length s" "s ! i = c"
    by (auto simp: in_set_conv_nth)
  with assms(1) have "if uuid_shape ! i then s ! i = CHR ''-'' else is_hexdigit (s ! i)"
    unfolding match_uuid_def by (auto dest: list_all2_nthD2)
  with i show ?thesis
    by (cases "uuid_shape ! i") simp_all
qed

lemma match_uuid_notin: "match_uuid s \<Longrightarrow> c \<noteq> CHR ''-'' \<Longrightarrow> \<not> is_hexdigit c \<Longrightarrow> c \<notin> set s"
  using match_uuid_class by blast

lemma match_uuid_length: "match_uuid s \<Longrightarrow> length s = 36"
  by (simp add: match_uuid_def uuid_shape_def)

subsection \<open>Association lists\<close>

lemma map_of_update [simp]: "map_of (AList.update k v al) = (map_of al)(k \<mapsto> v)"
  by (rule update_conv')

lemma map_of_map_keyed: "map_of (map (\<lambda>(k, v). (k, f k v)) al) k = map_option (f k) (map_of al k)"
  by (induction al) auto

lemma distinct_keys_update: "distinct (map fst al) \<Longrightarrow> distinct (map fst (AList.update k v al))"
  by (rule distinct_update)

subsection \<open>Results\<close>

lemma result_cases [case_names Err Ok]:
  "(\<And>e. r = Inl e \<Longrightarrow> P) \<Longrightarrow> (\<And>x. r = Inr x \<Longrightarrow> P) \<Longrightarrow> P"
  by (cases r) auto

end
