(* ===== verification/Effects.thy ===== *)
theory Effects
  imports Auth_Prelude
begin

text \<open>
  Go functions that read and write shared state and return an error.  An operation maps a state to
  a result and a new state; effects made before an error was returned persist, as they do in the
  code.  The combinators are the Go idioms: \<open>bind_op\<close> is \<open>x, err := m; if err != nil { return err }\<close>,
  \<open>try_op\<close> is \<open>x, err := m\<close> with the error kept as a value, \<open>ignore_op\<close> is \<open>_ = m\<close>.  \<open>wp\<close> is the
  weakest-precondition transformer of an operation; its rules compute, so a statement about an
  operation is reduced by the simplifier to the reads and writes the operation makes.
\<close>

named_theorems wp_simps \<open>weakest preconditions, computed\<close>

definition ret :: "'a \<Rightarrow> ('s, 'a) op" where
  "ret a = (\<lambda>s. (Inr a, s))"

definition throw :: "err \<Rightarrow> ('s, 'a) op" where
  "throw e = (\<lambda>s. (Inl e, s))"

definition bind_op :: "('s, 'a) op \<Rightarrow> ('a \<Rightarrow> ('s, 'b) op) \<Rightarrow> ('s, 'b) op" where
  "bind_op m f = (\<lambda>s. case m s of (Inl e, s') \<Rightarrow> (Inl e, s') | (Inr a, s') \<Rightarrow> f a s')"

definition seq_op :: "('s, 'a) op \<Rightarrow> ('s, 'b) op \<Rightarrow> ('s, 'b) op" where
  "seq_op m n = bind_op m (\<lambda>_. n)"

definition try_op :: "('s, 'a) op \<Rightarrow> ('a result \<Rightarrow> ('s, 'b) op) \<Rightarrow> ('s, 'b) op" where
  "try_op m f = (\<lambda>s. case m s of (r, s') \<Rightarrow> f r s')"

definition ignore_op :: "('s, 'a) op \<Rightarrow> ('s, 'b) op \<Rightarrow> ('s, 'b) op" where
  "ignore_op m n = try_op m (\<lambda>_. n)"

definition of_result :: "'a result \<Rightarrow> ('s, 'a) op" where
  "of_result r = (\<lambda>s. (r, s))"

definition gets_op :: "('s \<Rightarrow> 'a) \<Rightarrow> ('s, 'a) op" where
  "gets_op g = (\<lambda>s. (Inr (g s), s))"

definition modify_op :: "('s \<Rightarrow> 's) \<Rightarrow> ('s, unit) op" where
  "modify_op g = (\<lambda>s. (Inr (), g s))"

definition check_op :: "bool \<Rightarrow> err \<Rightarrow> ('s, unit) op" where
  "check_op b e = (if b then ret () else throw e)"

definition when_op :: "bool \<Rightarrow> ('s, unit) op \<Rightarrow> ('s, unit) op" where
  "when_op b m = (if b then m else ret ())"

text \<open>A \<open>for\<close> loop whose body may return early with an error.\<close>

fun for_op :: "'a list \<Rightarrow> ('a \<Rightarrow> ('s, unit) op) \<Rightarrow> ('s, unit) op" where
  "for_op [] f = ret ()"
| "for_op (x # xs) f = seq_op (f x) (for_op xs f)"

definition wp :: "('s, 'a) op \<Rightarrow> ('a result \<Rightarrow> 's \<Rightarrow> bool) \<Rightarrow> 's \<Rightarrow> bool" where
  "wp m Q s = (case m s of (r, s') \<Rightarrow> Q r s')"

lemma wp_iff: "wp m Q s \<longleftrightarrow> Q (fst (m s)) (snd (m s))"
  by (simp add: wp_def split: prod.split)

lemma wp_intro: "(\<And>r s'. m s = (r, s') \<Longrightarrow> Q r s') \<Longrightarrow> wp m Q s"
  by (simp add: wp_def split: prod.split)

lemma wp_elim: "wp m Q s \<Longrightarrow> m s = (r, s') \<Longrightarrow> Q r s'"
  by (simp add: wp_def)

lemma wp_mono: "wp m Q s \<Longrightarrow> (\<And>r s'. Q r s' \<Longrightarrow> R r s') \<Longrightarrow> wp m R s"
  by (simp add: wp_iff)

lemma wp_conj: "wp m (\<lambda>r s. P r s \<and> Q r s) s \<longleftrightarrow> wp m P s \<and> wp m Q s"
  by (simp add: wp_iff)

lemma wp_ret [wp_simps]: "wp (ret a) Q s = Q (Inr a) s"
  by (simp add: wp_def ret_def)

lemma wp_throw [wp_simps]: "wp (throw e) Q s = Q (Inl e) s"
  by (simp add: wp_def throw_def)

lemma wp_bind [wp_simps]:
  "wp (bind_op m f) Q s =
     wp m (\<lambda>r s'. case r of Inl e \<Rightarrow> Q (Inl e) s' | Inr a \<Rightarrow> wp (f a) Q s') s"
  by (simp add: wp_def bind_op_def split: prod.split sum.split)

lemma wp_seq [wp_simps]:
  "wp (seq_op m n) Q s = wp m (\<lambda>r s'. case r of Inl e \<Rightarrow> Q (Inl e) s' | Inr _ \<Rightarrow> wp n Q s') s"
  by (simp add: seq_op_def wp_bind)

lemma wp_try [wp_simps]: "wp (try_op m f) Q s = wp m (\<lambda>r s'. wp (f r) Q s') s"
  by (simp add: wp_def try_op_def split: prod.split)

lemma wp_ignore [wp_simps]: "wp (ignore_op m n) Q s = wp m (\<lambda>r s'. wp n Q s') s"
  by (simp add: ignore_op_def wp_try)

lemma wp_of_result [wp_simps]: "wp (of_result r) Q s = Q r s"
  by (simp add: wp_def of_result_def)

lemma wp_gets [wp_simps]: "wp (gets_op g) Q s = Q (Inr (g s)) s"
  by (simp add: wp_def gets_op_def)

lemma wp_modify [wp_simps]: "wp (modify_op g) Q s = Q (Inr ()) (g s)"
  by (simp add: wp_def modify_op_def)

lemma wp_check [wp_simps]: "wp (check_op b e) Q s = (if b then Q (Inr ()) s else Q (Inl e) s)"
  by (simp add: check_op_def wp_simps)

lemma wp_when [wp_simps]: "wp (when_op b m) Q s = (if b then wp m Q s else Q (Inr ()) s)"
  by (simp add: when_op_def wp_simps)

lemma wp_if [wp_simps]: "wp (if b then m else n) Q s = (if b then wp m Q s else wp n Q s)"
  by simp

lemma wp_case_sum [wp_simps]:
  "wp (case r of Inl e \<Rightarrow> f e | Inr a \<Rightarrow> g a) Q s =
     (case r of Inl e \<Rightarrow> wp (f e) Q s | Inr a \<Rightarrow> wp (g a) Q s)"
  by (cases r) simp_all

lemma wp_case_option [wp_simps]:
  "wp (case x of None \<Rightarrow> m | Some a \<Rightarrow> g a) Q s =
     (case x of None \<Rightarrow> wp m Q s | Some a \<Rightarrow> wp (g a) Q s)"
  by (cases x) simp_all

lemma wp_case_prod [wp_simps]: "wp (case x of (a, b) \<Rightarrow> g a b) Q s = (case x of (a, b) \<Rightarrow> wp (g a b) Q s)"
  by (cases x) simp

lemma wp_Let [wp_simps]: "wp (Let x f) Q s = Let x (\<lambda>y. wp (f y) Q s)"
  by simp

text \<open>
  Every state an operation can leave satisfies \<open>P\<close> when the state it starts in does; the loop rule
  is the only induction.
\<close>

definition keeps :: "('s \<Rightarrow> bool) \<Rightarrow> ('s, 'a) op \<Rightarrow> bool" where
  "keeps P m \<longleftrightarrow> (\<forall>s. P s \<longrightarrow> P (snd (m s)))"

named_theorems keeps_intros \<open>operations that keep a property of the state\<close>

lemma keepsI: "(\<And>s. P s \<Longrightarrow> wp m (\<lambda>_. P) s) \<Longrightarrow> keeps P m"
  by (simp add: keeps_def wp_iff)

lemma keepsD: "keeps P m \<Longrightarrow> P s \<Longrightarrow> P (snd (m s))"
  by (simp add: keeps_def)

lemma keeps_wp: "keeps P m \<Longrightarrow> P s \<Longrightarrow> wp m (\<lambda>_. P) s"
  by (simp add: keeps_def wp_iff)

lemma keeps_ret [keeps_intros]: "keeps P (ret a)"
  by (rule keepsI) (simp add: wp_simps)

lemma keeps_throw [keeps_intros]: "keeps P (throw e)"
  by (rule keepsI) (simp add: wp_simps)

lemma keeps_of_result [keeps_intros]: "keeps P (of_result r)"
  by (rule keepsI) (simp add: wp_simps)

lemma keeps_gets [keeps_intros]: "keeps P (gets_op g)"
  by (rule keepsI) (simp add: wp_simps)

lemma keeps_bind [keeps_intros]:
  assumes "keeps P m" "\<And>a. keeps P (f a)" shows "keeps P (bind_op m f)"
  using assms by (auto simp: keeps_def bind_op_def split: prod.splits sum.splits)

lemma keeps_try [keeps_intros]:
  assumes "keeps P m" "\<And>r. keeps P (f r)" shows "keeps P (try_op m f)"
  using assms by (auto simp: keeps_def try_op_def split: prod.splits)

lemma keeps_seq [keeps_intros]: "keeps P m \<Longrightarrow> keeps P n \<Longrightarrow> keeps P (seq_op m n)"
  by (simp add: seq_op_def keeps_bind)

lemma keeps_ignore [keeps_intros]: "keeps P m \<Longrightarrow> keeps P n \<Longrightarrow> keeps P (ignore_op m n)"
  by (simp add: ignore_op_def keeps_try)

lemma keeps_check [keeps_intros]: "keeps P (check_op b e)"
  by (simp add: check_op_def keeps_intros)

lemma keeps_when [keeps_intros]: "keeps P m \<Longrightarrow> keeps P (when_op b m)"
  by (simp add: when_op_def keeps_intros)

lemma keeps_if [keeps_intros]: "keeps P m \<Longrightarrow> keeps P n \<Longrightarrow> keeps P (if b then m else n)"
  by simp

lemma keeps_case_sum [keeps_intros]:
  "(\<And>e. keeps P (f e)) \<Longrightarrow> (\<And>a. keeps P (g a)) \<Longrightarrow> keeps P (case r of Inl e \<Rightarrow> f e | Inr a \<Rightarrow> g a)"
  by (cases r) simp_all

lemma keeps_case_option [keeps_intros]:
  "keeps P m \<Longrightarrow> (\<And>a. keeps P (g a)) \<Longrightarrow> keeps P (case x of None \<Rightarrow> m | Some a \<Rightarrow> g a)"
  by (cases x) simp_all

lemma keeps_case_prod [keeps_intros]: "(\<And>a b. keeps P (g a b)) \<Longrightarrow> keeps P (case x of (a, b) \<Rightarrow> g a b)"
  by (cases x) simp

lemma keeps_Let [keeps_intros]: "(\<And>y. keeps P (f y)) \<Longrightarrow> keeps P (Let x f)"
  by simp

lemma keeps_for [keeps_intros]: "(\<And>x. keeps P (f x)) \<Longrightarrow> keeps P (for_op xs f)"
  by (induction xs) (simp_all add: keeps_intros)

lemma wp_for:
  assumes step: "\<And>x s. I s \<Longrightarrow> wp (f x) (\<lambda>r s'. case r of Inl e \<Rightarrow> Q (Inl e) s' | Inr _ \<Rightarrow> I s') s"
    and "I s" and fin: "\<And>s. I s \<Longrightarrow> Q (Inr ()) s"
  shows "wp (for_op xs f) Q s"
  using \<open>I s\<close>
proof (induction xs arbitrary: s)
  case Nil
  then show ?case by (simp add: wp_simps fin)
next
  case (Cons x xs)
  have "wp (f x) (\<lambda>r s'. case r of Inl e \<Rightarrow> Q (Inl e) s' | Inr _ \<Rightarrow> wp (for_op xs f) Q s') s"
    by (rule wp_mono [OF step [OF Cons.prems]]) (auto split: sum.splits intro: Cons.IH)
  then show ?case by (simp add: wp_simps)
qed

text \<open>Combining invariants, and running on from an operation that keeps one.\<close>

lemma keeps_conj: "keeps P m \<Longrightarrow> keeps Q m \<Longrightarrow> keeps (\<lambda>s. P s \<and> Q s) m"
  by (simp add: keeps_def)

lemma wpD: "wp m (\<lambda>_. P) w \<Longrightarrow> P (snd (m w))"
  by (simp add: wp_iff)

lemma wp_bind_keeps:
  assumes "keeps P m" "P w" "\<And>a w'. P w' \<Longrightarrow> wp (f a) Q w'" "\<And>e w'. P w' \<Longrightarrow> Q (Inl e) w'"
  shows "wp (bind_op m f) Q w"
  unfolding wp_bind by (rule wp_mono [OF keeps_wp [OF assms(1,2)]]) (auto intro: assms(3,4) split: sum.split)

lemma wp_seq_inv:
  assumes "wp m (\<lambda>_. P) w" "keeps P n"
  shows "wp (seq_op m n) (\<lambda>_. P) w"
  unfolding wp_seq by (rule wp_mono [OF assms(1)]) (auto intro: keeps_wp [OF assms(2)] split: sum.split)

end
