(* ===== verification/Cache_KV.thy ===== *)
theory Cache_KV
  imports Effects
begin

text \<open>
  The cache: \<open>internal/cache/cache.go\<close> (the \<open>KV\<close> interface, the key families, the service's
  operations over it) and \<open>internal/cache/memory.go\<close> (its in-memory implementation).  The interface
  is a record of operations, as a Go interface value is; the locale \<open>kv_store\<close> states what a client
  may rely on, as an abstract map whose entries expire, and is interpreted by the memory
  implementation.  A stored value is text or a JSON document; a document is represented by the
  value it encodes (the type parameter), so decoding the encoding of a value gives that value.
\<close>

section \<open>64-bit integers and their decimal text\<close>

definition wrap64 :: "int \<Rightarrow> int" where
  "wrap64 n = (n + 2 ^ 63) mod 2 ^ 64 - 2 ^ 63"

definition int64 :: "int \<Rightarrow> bool" where
  "int64 n \<longleftrightarrow> - (2 ^ 63) \<le> n \<and> n < 2 ^ 63"

definition digit_char :: "nat \<Rightarrow> char" where
  "digit_char d = char_of (48 + d)"

text \<open>The loop of \<open>itoa\<close>: \<open>b = append ([]byte{'0' + n % 10}, b...); n /= 10\<close>.\<close>

function itoa_loop :: "int \<Rightarrow> string \<Rightarrow> string" where
  "itoa_loop n b = (if n > 0 then itoa_loop (n div 10) (digit_char (nat (n mod 10)) # b) else b)"
  by pat_completeness auto
termination
  by (relation "measure (\<lambda>(n, b). nat n)") auto

declare itoa_loop.simps [simp del]

definition itoa :: "int \<Rightarrow> string" where
  "itoa n = (if n = 0 then ''0'' else itoa_loop n [])"

text \<open>\<open>for _, ch := range v { n = n*10 + int64 (ch - '0') }\<close>\<close>

definition digits_of :: "string \<Rightarrow> int" where
  "digits_of v = foldl (\<lambda>n ch. n * 10 + (int (of_char ch) - 48)) 0 v"

text \<open>\<open>strconv.FormatInt (n, 10)\<close> and \<open>strconv.ParseInt (s, 10, 64)\<close>.\<close>

definition FormatInt :: "int \<Rightarrow> string" where
  "FormatInt n = (if n < 0 then CHR ''-'' # itoa (- n) else itoa n)"

lemma digit_char_code [code]: "digit_char d = int_byte (48 + int d)"
  using char_of_nat [of "48 + d", where 'a = int] by (simp add: digit_char_def int_byte_def)

lemma digits_of_code [code]: "digits_of v = foldl (\<lambda>n ch. n * 10 + (byte_int ch - 48)) 0 v"
  unfolding digits_of_def int_of_char ..

lemma wrap64_code [code]: "wrap64 n = (n + 9223372036854775808) mod 18446744073709551616 - 9223372036854775808"
  by (simp add: wrap64_def)

lemma int64_code [code]: "int64 n \<longleftrightarrow> - 9223372036854775808 \<le> n \<and> n < 9223372036854775808"
  by (simp add: int64_def)

definition parse_digits :: "string \<Rightarrow> int option" where
  "parse_digits s = (if s \<noteq> [] \<and> list_all is_09 s then Some (digits_of s) else None)"

definition ParseInt :: "string \<Rightarrow> int result" where
  "ParseInt s =
     (case (case s of
              [] \<Rightarrow> None
            | c # r \<Rightarrow>
                if c = CHR ''-'' then map_option uminus (parse_digits r)
                else if c = CHR ''+'' then parse_digits r
                else parse_digits s) of
        None \<Rightarrow> Inl (ErrOther ''strconv.ParseInt'')
      | Some n \<Rightarrow> if int64 n then Inr n else Inl (ErrOther ''strconv.ParseInt''))"

section \<open>Keys\<close>

definition SessionKey :: "string \<Rightarrow> string" where "SessionKey sid = ''sess:'' @ sid"
definition RevokedSessionKey :: "string \<Rightarrow> string" where "RevokedSessionKey sid = ''rev:sid:'' @ sid"
definition RevokedUserKey :: "string \<Rightarrow> string" where "RevokedUserKey uid = ''rev:user:'' @ uid"
definition RevokedTenantKey :: "string \<Rightarrow> string" where "RevokedTenantKey tid = ''rev:tenant:'' @ tid"
definition LockKey :: "string \<Rightarrow> string" where "LockKey uid = ''lock:'' @ uid"
definition RateKey :: "string \<Rightarrow> string \<Rightarrow> string" where
  "RateKey kind subject = ''rl:'' @ kind @ '':'' @ subject"
definition DecisionKey :: "string \<Rightarrow> string \<Rightarrow> string \<Rightarrow> string" where
  "DecisionKey tid uid perm = ''dec:'' @ tid @ '':'' @ uid @ '':'' @ perm"
definition TenantVersionKey :: "string \<Rightarrow> string" where "TenantVersionKey tid = ''tenantver:'' @ tid"
definition CodeKey :: "string \<Rightarrow> string" where "CodeKey hash = ''code:'' @ hash"
definition ChallengeKey :: "string \<Rightarrow> string" where "ChallengeKey ident = ''mfa:'' @ ident"
definition WebAuthnKey :: "string \<Rightarrow> string \<Rightarrow> string" where
  "WebAuthnKey purpose subject = ''challenge:webauthn:'' @ purpose @ '':'' @ subject"

lemmas key_defs =
  SessionKey_def RevokedSessionKey_def RevokedUserKey_def RevokedTenantKey_def LockKey_def
  RateKey_def DecisionKey_def TenantVersionKey_def CodeKey_def ChallengeKey_def WebAuthnKey_def

definition RevokedChannel :: string where "RevokedChannel = ''auth:revoked''"

section \<open>The interface and the memory implementation\<close>

datatype 'j kv_value = Text string | Doc 'j

record ('s, 'j) KV =
  kv_Get :: "time \<Rightarrow> string \<Rightarrow> ('s, 'j kv_value option) op"
  kv_GetDel :: "time \<Rightarrow> string \<Rightarrow> ('s, 'j kv_value option) op"
  kv_Set :: "time \<Rightarrow> string \<Rightarrow> 'j kv_value \<Rightarrow> duration \<Rightarrow> ('s, unit) op"
  kv_Del :: "time \<Rightarrow> string list \<Rightarrow> ('s, unit) op"
  kv_Incr :: "time \<Rightarrow> string \<Rightarrow> duration \<Rightarrow> ('s, int) op"
  kv_Publish :: "string \<Rightarrow> string \<Rightarrow> ('s, unit) op"

record 'j mem_entry =
  ent_v :: "'j kv_value"
  ent_exp :: "time option"

text \<open>Published messages are recorded in order; the subscribers are other instances.\<close>

record 'j memory =
  mem_data :: "string \<Rightarrow> 'j mem_entry option"
  mem_published :: "(string \<times> string) list"

definition NewMemory :: "'j memory" where
  "NewMemory = \<lparr>mem_data = (\<lambda>_. None), mem_published = []\<rparr>"

definition expired :: "time \<Rightarrow> 'j mem_entry \<Rightarrow> bool" where
  "expired now e \<longleftrightarrow> (case ent_exp e of None \<Rightarrow> False | Some x \<Rightarrow> \<not> now < x)"

definition mem_delete :: "string \<Rightarrow> 'j memory \<Rightarrow> 'j memory" where
  "mem_delete k m = m\<lparr>mem_data := (mem_data m)(k := None)\<rparr>"

definition mem_put :: "string \<Rightarrow> 'j mem_entry \<Rightarrow> 'j memory \<Rightarrow> 'j memory" where
  "mem_put k e m = m\<lparr>mem_data := (mem_data m)(k := Some e)\<rparr>"

text \<open>\<open>live\<close> drops an entry whose time has come.\<close>

definition live :: "time \<Rightarrow> string \<Rightarrow> 'j memory \<Rightarrow> 'j mem_entry option \<times> 'j memory" where
  "live now k m =
     (case mem_data m k of
        None \<Rightarrow> (None, m)
      | Some e \<Rightarrow> if expired now e then (None, mem_delete k m) else (Some e, m))"

definition Mem_Get :: "time \<Rightarrow> string \<Rightarrow> ('j memory, 'j kv_value option) op" where
  "Mem_Get now k m = (case live now k m of (e, m') \<Rightarrow> (Inr (map_option ent_v e), m'))"

definition Mem_GetDel :: "time \<Rightarrow> string \<Rightarrow> ('j memory, 'j kv_value option) op" where
  "Mem_GetDel now k m =
     (case live now k m of (e, m') \<Rightarrow> (Inr (map_option ent_v e), mem_delete k m'))"

definition Mem_Set :: "time \<Rightarrow> string \<Rightarrow> 'j kv_value \<Rightarrow> duration \<Rightarrow> ('j memory, unit) op" where
  "Mem_Set now k v ttl m =
     (Inr (), mem_put k \<lparr>ent_v = v, ent_exp = (if ttl > 0 then Some (now + ttl) else None)\<rparr> m)"

definition Mem_Del :: "time \<Rightarrow> string list \<Rightarrow> ('j memory, unit) op" where
  "Mem_Del now ks m = (Inr (), fold mem_delete ks m)"

text \<open>
  Counting on a key that holds a document is an error here, as it is in Valkey; no caller does so
  (the counter keys are \<open>rl:\<close> and \<open>tenantver:\<close>).
\<close>

definition Mem_Incr :: "time \<Rightarrow> string \<Rightarrow> duration \<Rightarrow> ('j memory, int) op" where
  "Mem_Incr now k ttl m =
     (case live now k m of
        (None, m') \<Rightarrow>
          (Inr 1, mem_put k \<lparr>ent_v = Text (itoa 1),
                             ent_exp = (if ttl > 0 then Some (now + ttl) else None)\<rparr> m')
      | (Some e, m') \<Rightarrow>
          (case ent_v e of
             Doc _ \<Rightarrow> (Inl (ErrOther ''value is not an integer''), m')
           | Text v \<Rightarrow>
               let n = wrap64 (digits_of v + 1)
               in (Inr n, mem_put k \<lparr>ent_v = Text (itoa n), ent_exp = ent_exp e\<rparr> m')))"

definition Mem_Publish :: "string \<Rightarrow> string \<Rightarrow> ('j memory, unit) op" where
  "Mem_Publish channel msg m = (Inr (), m\<lparr>mem_published := mem_published m @ [(channel, msg)]\<rparr>)"

definition Memory_KV :: "('j memory, 'j) KV" where
  "Memory_KV =
     \<lparr>kv_Get = Mem_Get, kv_GetDel = Mem_GetDel, kv_Set = Mem_Set, kv_Del = Mem_Del,
      kv_Incr = Mem_Incr, kv_Publish = Mem_Publish\<rparr>"

section \<open>The service's operations\<close>

definition MarkRevoked ::
    "('s, 'j) KV \<Rightarrow> time \<Rightarrow> string \<Rightarrow> time \<Rightarrow> duration \<Rightarrow> ('s, unit) op" where
  "MarkRevoked kv now key at ttl =
     seq_op (kv_Set kv now key (Text (FormatInt (wrap64 at))) ttl)
       (kv_Publish kv RevokedChannel (key @ ''|'' @ FormatInt (wrap64 at)))"

definition RevokedAt :: "('s, 'j) KV \<Rightarrow> time \<Rightarrow> string \<Rightarrow> ('s, time option) op" where
  "RevokedAt kv now key =
     bind_op (kv_Get kv now key) (\<lambda>v.
       case v of
         None \<Rightarrow> ret None
       | Some (Text s) \<Rightarrow> (case ParseInt s of Inl e \<Rightarrow> throw e | Inr n \<Rightarrow> ret (Some n))
       | Some (Doc _) \<Rightarrow> throw (ErrOther ''cache: corrupt revocation mark''))"

definition Count :: "('s, 'j) KV \<Rightarrow> time \<Rightarrow> string \<Rightarrow> duration \<Rightarrow> ('s, int) op" where
  "Count kv now key window = kv_Incr kv now key window"

definition Locked :: "('s, 'j) KV \<Rightarrow> time \<Rightarrow> string \<Rightarrow> ('s, bool) op" where
  "Locked kv now uid = bind_op (kv_Get kv now (LockKey uid)) (\<lambda>v. ret (v \<noteq> None))"

definition Lock :: "('s, 'j) KV \<Rightarrow> time \<Rightarrow> string \<Rightarrow> duration \<Rightarrow> ('s, unit) op" where
  "Lock kv now uid d = kv_Set kv now (LockKey uid) (Text ''1'') d"

definition Unlock :: "('s, 'j) KV \<Rightarrow> time \<Rightarrow> string \<Rightarrow> ('s, unit) op" where
  "Unlock kv now uid = kv_Del kv now [LockKey uid]"

definition TenantVersion :: "('s, 'j) KV \<Rightarrow> time \<Rightarrow> string \<Rightarrow> ('s, int) op" where
  "TenantVersion kv now tid =
     bind_op (kv_Get kv now (TenantVersionKey tid)) (\<lambda>v.
       case v of
         None \<Rightarrow> ret 0
       | Some (Text s) \<Rightarrow> of_result (ParseInt s)
       | Some (Doc _) \<Rightarrow> throw (ErrOther ''strconv.ParseInt''))"

definition BumpTenantVersion :: "('s, 'j) KV \<Rightarrow> time \<Rightarrow> string \<Rightarrow> ('s, int) op" where
  "BumpTenantVersion kv now tid = kv_Incr kv now (TenantVersionKey tid) 0"


section \<open>Lemmas: decimal text\<close>

lemma wrap64_id [simp]: "int64 n \<Longrightarrow> wrap64 n = n"
  by (simp add: wrap64_def int64_def)

lemma int64_wrap64 [simp]: "int64 (wrap64 n)"
  by (simp add: wrap64_def int64_def)

lemma of_char_digit [simp]: "d < 10 \<Longrightarrow> (of_char (digit_char d) :: nat) = 48 + d"
  by (simp add: digit_char_def)

lemma is_09_digit [simp]: "d < 10 \<Longrightarrow> is_09 (digit_char d)"
  by (simp add: char_classes)

lemma digits_of_Nil [simp]: "digits_of [] = 0"
  by (simp add: digits_of_def)

lemma foldl_digits:
  "foldl (\<lambda>n ch. n * 10 + (int (of_char ch) - 48)) a s = a * 10 ^ length s + digits_of s"
proof (induction s rule: rev_induct)
  case (snoc c s)
  then show ?case by (simp add: digits_of_def algebra_simps)
qed (simp add: digits_of_def)

lemma digits_of_Cons: "digits_of (c # s) = (int (of_char c) - 48) * 10 ^ length s + digits_of s"
  using foldl_digits [of "int (of_char c) - 48" s] by (simp add: digits_of_def)

lemma digits_itoa_loop: "0 \<le> n \<Longrightarrow> digits_of (itoa_loop n b) = n * 10 ^ length b + digits_of b"
proof (induction n b rule: itoa_loop.induct)
  case (1 n b)
  show ?case
  proof (cases "n > 0")
    case True
    have "digits_of (itoa_loop n b) = digits_of (itoa_loop (n div 10) (digit_char (nat (n mod 10)) # b))"
      using True by (subst itoa_loop.simps) simp
    also have "\<dots> = n div 10 * 10 ^ Suc (length b) + digits_of (digit_char (nat (n mod 10)) # b)"
      using 1 True by simp
    also have "\<dots> = (n div 10 * 10 + n mod 10) * 10 ^ length b + digits_of b"
      unfolding digits_of_Cons distrib_right by (simp add: nat_less_iff)
    finally show ?thesis by simp
  qed (use 1 in \<open>simp add: itoa_loop.simps\<close>)
qed

lemma itoa_loop_digits: "list_all is_09 b \<Longrightarrow> list_all is_09 (itoa_loop n b)"
proof (induction n b rule: itoa_loop.induct)
  case (1 n b)
  show ?case
  proof (cases "n > 0")
    case True
    then have "nat (n mod 10) < 10" by (simp add: nat_less_iff)
    then show ?thesis using 1 True by (subst itoa_loop.simps) simp
  qed (use 1 in \<open>simp add: itoa_loop.simps\<close>)
qed

lemma itoa_loop_nonempty: "b \<noteq> [] \<Longrightarrow> itoa_loop n b \<noteq> []"
proof (induction n b rule: itoa_loop.induct)
  case (1 n b)
  then show ?case by (cases "n > 0") (subst itoa_loop.simps; simp)+
qed

lemma digits_itoa [simp]: "0 \<le> n \<Longrightarrow> digits_of (itoa n) = n"
  by (simp add: itoa_def digits_itoa_loop) (simp add: digits_of_def)

lemma itoa_is_digits: "0 \<le> n \<Longrightarrow> itoa n \<noteq> [] \<and> list_all is_09 (itoa n)"
  by (auto simp: itoa_def itoa_loop_digits char_classes)
    (subst (asm) itoa_loop.simps, simp add: itoa_loop_nonempty)

lemma ParseInt_FormatInt [simp]: "int64 n \<Longrightarrow> ParseInt (FormatInt n) = Inr n"
proof (cases "n < 0")
  case True
  then show "int64 n \<Longrightarrow> ParseInt (FormatInt n) = Inr n"
    using itoa_is_digits [of "- n"] by (simp add: FormatInt_def ParseInt_def parse_digits_def)
next
  case False
  then have d: "itoa n \<noteq> []" "list_all is_09 (itoa n)" using itoa_is_digits [of n] by auto
  then obtain c r where cr: "itoa n = c # r" by (cases "itoa n") auto
  with d have "is_09 c" by simp
  then have "c \<noteq> CHR ''-''" "c \<noteq> CHR ''+''" by (auto simp: char_classes)
  then show "int64 n \<Longrightarrow> ParseInt (FormatInt n) = Inr n"
    using False d digits_itoa [of n] by (simp add: FormatInt_def ParseInt_def parse_digits_def cr)
qed

section \<open>Lemmas: keys\<close>

lemma key_inj [simp, key_simps]:
  "SessionKey a = SessionKey b \<longleftrightarrow> a = b"
  "RevokedSessionKey a = RevokedSessionKey b \<longleftrightarrow> a = b"
  "RevokedUserKey a = RevokedUserKey b \<longleftrightarrow> a = b"
  "RevokedTenantKey a = RevokedTenantKey b \<longleftrightarrow> a = b"
  "LockKey a = LockKey b \<longleftrightarrow> a = b"
  "TenantVersionKey a = TenantVersionKey b \<longleftrightarrow> a = b"
  "CodeKey a = CodeKey b \<longleftrightarrow> a = b"
  "ChallengeKey a = ChallengeKey b \<longleftrightarrow> a = b"
  by (simp_all add: key_defs)

lemma session_key_neq [simp, key_simps]:
  "SessionKey a \<noteq> RevokedSessionKey b" "SessionKey a \<noteq> RevokedUserKey b"
  "SessionKey a \<noteq> RevokedTenantKey b" "SessionKey a \<noteq> LockKey b" "SessionKey a \<noteq> RateKey k b"
  "SessionKey a \<noteq> DecisionKey t u p" "SessionKey a \<noteq> TenantVersionKey b"
  "SessionKey a \<noteq> CodeKey b" "SessionKey a \<noteq> ChallengeKey b" "SessionKey a \<noteq> WebAuthnKey k b"
  by (simp_all add: key_defs)

lemma revoked_session_key_neq [simp, key_simps]:
  "RevokedSessionKey a \<noteq> SessionKey b" "RevokedSessionKey a \<noteq> RevokedUserKey b"
  "RevokedSessionKey a \<noteq> RevokedTenantKey b" "RevokedSessionKey a \<noteq> LockKey b"
  "RevokedSessionKey a \<noteq> RateKey k b" "RevokedSessionKey a \<noteq> DecisionKey t u p"
  "RevokedSessionKey a \<noteq> TenantVersionKey b" "RevokedSessionKey a \<noteq> CodeKey b"
  "RevokedSessionKey a \<noteq> ChallengeKey b" "RevokedSessionKey a \<noteq> WebAuthnKey k b"
  by (simp_all add: key_defs)

lemma revoked_user_key_neq [simp, key_simps]:
  "RevokedUserKey a \<noteq> SessionKey b" "RevokedUserKey a \<noteq> RevokedSessionKey b"
  "RevokedUserKey a \<noteq> RevokedTenantKey b" "RevokedUserKey a \<noteq> LockKey b"
  "RevokedUserKey a \<noteq> RateKey k b" "RevokedUserKey a \<noteq> DecisionKey t u p"
  "RevokedUserKey a \<noteq> TenantVersionKey b" "RevokedUserKey a \<noteq> CodeKey b"
  "RevokedUserKey a \<noteq> ChallengeKey b" "RevokedUserKey a \<noteq> WebAuthnKey k b"
  by (simp_all add: key_defs)

lemma revoked_tenant_key_neq [simp, key_simps]:
  "RevokedTenantKey a \<noteq> SessionKey b" "RevokedTenantKey a \<noteq> RevokedSessionKey b"
  "RevokedTenantKey a \<noteq> RevokedUserKey b" "RevokedTenantKey a \<noteq> LockKey b"
  "RevokedTenantKey a \<noteq> RateKey k b" "RevokedTenantKey a \<noteq> DecisionKey t u p"
  "RevokedTenantKey a \<noteq> TenantVersionKey b" "RevokedTenantKey a \<noteq> CodeKey b"
  "RevokedTenantKey a \<noteq> ChallengeKey b" "RevokedTenantKey a \<noteq> WebAuthnKey k b"
  by (simp_all add: key_defs)

lemma other_key_neq [simp, key_simps]:
  "LockKey a \<noteq> RateKey k b" "RateKey k b \<noteq> LockKey a" "LockKey a \<noteq> ChallengeKey b"
  "ChallengeKey b \<noteq> LockKey a" "ChallengeKey a \<noteq> RateKey k b" "RateKey k b \<noteq> ChallengeKey a"
  "ChallengeKey a \<noteq> SessionKey b" "ChallengeKey a \<noteq> WebAuthnKey k b" "WebAuthnKey k b \<noteq> ChallengeKey a"
  "CodeKey a \<noteq> ChallengeKey b" "ChallengeKey b \<noteq> CodeKey a" "RateKey k a \<noteq> WebAuthnKey j b"
  "WebAuthnKey j b \<noteq> RateKey k a" "CodeKey a \<noteq> RateKey k b" "RateKey k b \<noteq> CodeKey a"
  "LockKey a \<noteq> SessionKey b" "RateKey k a \<noteq> SessionKey b" "TenantVersionKey a \<noteq> SessionKey b"
  "TenantVersionKey a \<noteq> RateKey k b" "RateKey k b \<noteq> TenantVersionKey a"
  "TenantVersionKey a \<noteq> LockKey b" "LockKey b \<noteq> TenantVersionKey a"
  "DecisionKey t u p \<noteq> TenantVersionKey a" "TenantVersionKey a \<noteq> DecisionKey t u p"
  by (simp_all add: key_defs)


section \<open>What a client relies on\<close>

text \<open>
  The abstract store: at each time, the value each key reads as.  A write with a positive lifetime
  is visible until its end; counting keeps the expiry of the window it counts in.
\<close>

type_synonym 'j kv_view = "time \<Rightarrow> string \<Rightarrow> 'j kv_value option"

definition view_set :: "time \<Rightarrow> string \<Rightarrow> 'j kv_value \<Rightarrow> duration \<Rightarrow> 'j kv_view \<Rightarrow> 'j kv_view" where
  "view_set now k v ttl f =
     (\<lambda>t k'. if k' = k then (if ttl > 0 \<and> now + ttl \<le> t then None else Some v) else f t k')"

definition view_del :: "string list \<Rightarrow> 'j kv_view \<Rightarrow> 'j kv_view" where
  "view_del ks f = (\<lambda>t k. if k \<in> set ks then None else f t k)"

definition view_count :: "time \<Rightarrow> string \<Rightarrow> 'j kv_view \<Rightarrow> int option" where
  "view_count now k f =
     (case f now k of None \<Rightarrow> Some 0 | Some (Text v) \<Rightarrow> Some (digits_of v) | Some (Doc _) \<Rightarrow> None)"

definition view_incr :: "time \<Rightarrow> string \<Rightarrow> duration \<Rightarrow> int \<Rightarrow> 'j kv_view \<Rightarrow> 'j kv_view" where
  "view_incr now k ttl n f =
     (if f now k = None then view_set now k (Text (itoa n)) ttl f
      else (\<lambda>t k'. if k' = k then map_option (\<lambda>_. Text (itoa n)) (f t k) else f t k'))"

definition same_from :: "time \<Rightarrow> 'j kv_view \<Rightarrow> 'j kv_view \<Rightarrow> bool" where
  "same_from now f g \<longleftrightarrow> (\<forall>t \<ge> now. f t = g t)"

text \<open>
  The outcome of a call: an error means that nothing is known to have happened, the write may or
  may not have been made.
\<close>

definition outcome :: "time \<Rightarrow> 'j kv_view \<Rightarrow> 'j kv_view \<Rightarrow> 'j kv_view \<Rightarrow> 'a result \<Rightarrow> bool" where
  "outcome now old upd new r \<longleftrightarrow>
     same_from now new upd \<or> (\<exists>e. r = Inl e) \<and> same_from now new old"

lemmas view_defs = view_set_def view_del_def view_count_def view_incr_def

lemma same_fromD: "same_from now f g \<Longrightarrow> now \<le> t \<Longrightarrow> f t = g t"
  by (simp add: same_from_def)

lemma same_from_refl [simp]: "same_from now f f"
  by (simp add: same_from_def)

lemma outcome_ok [simp]: "outcome now old upd new (Inr a) \<longleftrightarrow> same_from now new upd"
  by (simp add: outcome_def)

text \<open>How a revocation mark reads.\<close>

definition decode_mark :: "'j kv_value option \<Rightarrow> time option result" where
  "decode_mark v =
     (case v of
        None \<Rightarrow> Inr None
      | Some (Text s) \<Rightarrow> (case ParseInt s of Inl e \<Rightarrow> Inl e | Inr n \<Rightarrow> Inr (Some n))
      | Some (Doc _) \<Rightarrow> Inl (ErrOther ''cache: corrupt revocation mark''))"

lemma RevokedAt_alt:
  "RevokedAt kv now key = bind_op (kv_Get kv now key) (\<lambda>v. of_result (decode_mark v))"
  unfolding RevokedAt_def
  by (rule arg_cong [where f = "bind_op (kv_Get kv now key)"], rule ext)
    (simp add: decode_mark_def ret_def throw_def of_result_def
      split: option.split kv_value.split sum.split)

lemma decode_mark_None [simp]: "decode_mark None = Inr None"
  by (simp add: decode_mark_def)

lemma decode_mark_text [simp]: "int64 at \<Longrightarrow> decode_mark (Some (Text (FormatInt at))) = Inr (Some at)"
  by (simp add: decode_mark_def)

lemma decode_mark_none_iff [simp]: "decode_mark v = Inr None \<longleftrightarrow> v = None"
  by (simp add: decode_mark_def split: option.split kv_value.split sum.split)

locale kv_store =
  fixes kv :: "('s, 'j) KV"
    and val :: "'s \<Rightarrow> 'j kv_view"
  assumes Get: "wp (kv_Get kv now k) (\<lambda>r s'. outcome now (val s) (val s) (val s') r
                  \<and> (\<forall>v. r = Inr v \<longrightarrow> v = val s now k)) s"
    and GetDel: "wp (kv_GetDel kv now k) (\<lambda>r s'. outcome now (val s) (view_del [k] (val s)) (val s') r
                  \<and> (\<forall>v. r = Inr v \<longrightarrow> v = val s now k)) s"
    and Set: "wp (kv_Set kv now k v ttl)
                  (\<lambda>r s'. outcome now (val s) (view_set now k v ttl (val s)) (val s') r) s"
    and Del: "wp (kv_Del kv now ks) (\<lambda>r s'. outcome now (val s) (view_del ks (val s)) (val s') r) s"
    and Incr: "view_count now k (val s) = Some c \<Longrightarrow>
                wp (kv_Incr kv now k ttl)
                  (\<lambda>r s'. outcome now (val s) (view_incr now k ttl (wrap64 (c + 1)) (val s)) (val s') r
                     \<and> (\<forall>n. r = Inr n \<longrightarrow> n = wrap64 (c + 1))) s"
    and Publish: "wp (kv_Publish kv ch msg) (\<lambda>r s'. val s' = val s) s"
begin

lemma MarkRevoked_effect:
  "wp (MarkRevoked kv now key at ttl)
     (\<lambda>r s'. outcome now (val s) (view_set now key (Text (FormatInt (wrap64 at))) ttl (val s)) (val s') r) s"
  unfolding MarkRevoked_def wp_simps
  by (rule wp_mono [OF Set]) (auto simp: outcome_def split: sum.splits intro: wp_mono [OF Publish])

lemma RevokedAt_reads:
  "wp (RevokedAt kv now key)
     (\<lambda>r s'. same_from now (val s') (val s) \<and> ((\<exists>e. r = Inl e) \<or> r = decode_mark (val s now key))) s"
  unfolding RevokedAt_alt wp_simps
  by (rule wp_mono [OF Get]) (auto simp: wp_simps outcome_def split: sum.splits)

lemma Locked_reads:
  "wp (Locked kv now uid)
     (\<lambda>r s'. same_from now (val s') (val s) \<and> (\<forall>b. r = Inr b \<longrightarrow> b = (val s now (LockKey uid) \<noteq> None))) s"
  unfolding Locked_def wp_simps
  by (rule wp_mono [OF Get]) (auto simp: wp_simps outcome_def split: sum.splits)

end

section \<open>The memory implementation refines it\<close>

definition mem_view :: "'j memory \<Rightarrow> 'j kv_view" where
  "mem_view m t k =
     (case mem_data m k of None \<Rightarrow> None | Some e \<Rightarrow> if expired t e then None else Some (ent_v e))"

lemma live_value: "map_option ent_v (fst (live now k m)) = mem_view m now k"
  by (simp add: live_def mem_view_def split: option.split)

lemma live_view: "same_from now (mem_view (snd (live now k m))) (mem_view m)"
  by (auto simp: live_def mem_view_def same_from_def mem_delete_def expired_def fun_eq_iff
      split: option.split)

lemma mem_view_delete [simp]: "mem_view (mem_delete k m) = view_del [k] (mem_view m)"
  by (auto simp: mem_view_def mem_delete_def view_del_def fun_eq_iff)

lemma mem_view_fold_delete: "mem_view (fold mem_delete ks m) = view_del ks (mem_view m)"
  by (induction ks arbitrary: m) (auto simp: view_del_def fun_eq_iff)

lemma mem_view_put:
  "mem_view (mem_put k \<lparr>ent_v = v, ent_exp = (if ttl > 0 then Some (now + ttl) else None)\<rparr> m)
     = view_set now k v ttl (mem_view m)"
  by (auto simp: mem_view_def mem_put_def view_set_def fun_eq_iff expired_def)

lemma mem_view_put_keep:
  "mem_data m k = Some e \<Longrightarrow>
   mem_view (mem_put k \<lparr>ent_v = v, ent_exp = ent_exp e\<rparr> m) t k'
     = (if k' = k then map_option (\<lambda>_. v) (mem_view m t k) else mem_view m t k')"
  by (auto simp: mem_view_def mem_put_def expired_def)

lemma same_from_del: "same_from now f g \<Longrightarrow> same_from now (view_del ks f) (view_del ks g)"
  by (auto simp: same_from_def view_del_def)

lemma same_from_set: "same_from now f g \<Longrightarrow> same_from now (view_set n k v ttl f) (view_set n k v ttl g)"
  by (auto simp: same_from_def view_set_def fun_eq_iff)

lemma mem_view_publish [simp]: "mem_view (m\<lparr>mem_published := p\<rparr>) = mem_view m"
  by (simp add: mem_view_def fun_eq_iff)

lemma Mem_Incr_new:
  assumes "mem_view m now k = None"
  shows "wp (Mem_Incr now k ttl) (\<lambda>r m'. r = Inr 1
           \<and> same_from now (mem_view m') (view_set now k (Text (itoa 1)) ttl (mem_view m))) m"
proof (rule wp_intro)
  fix r m' assume m': "Mem_Incr now k ttl m = (r, m')"
  obtain l m1 where l: "live now k m = (l, m1)" by force
  with assms live_value [of now k m] have "l = None" by simp
  with m' l show "r = Inr 1 \<and> same_from now (mem_view m') (view_set now k (Text (itoa 1)) ttl (mem_view m))"
    using live_view [of now k m]
    by (auto simp: Mem_Incr_def mem_view_put same_from_set)
qed

lemma Mem_Incr_old:
  assumes "mem_view m now k = Some (Text v)"
  shows "wp (Mem_Incr now k ttl) (\<lambda>r m'. r = Inr (wrap64 (digits_of v + 1))
           \<and> mem_view m' = (\<lambda>t k'. if k' = k
                then map_option (\<lambda>_. Text (itoa (wrap64 (digits_of v + 1)))) (mem_view m t k)
                else mem_view m t k')) m"
proof -
  obtain e where e: "mem_data m k = Some e" "\<not> expired now e" "ent_v e = Text v"
    using assms by (auto simp: mem_view_def split: option.splits if_splits)
  then have "live now k m = (Some e, m)" by (simp add: live_def)
  with e show ?thesis
    by (auto simp: Mem_Incr_def Let_def wp_def mem_view_put_keep fun_eq_iff)
qed

interpretation mem: kv_store Memory_KV mem_view
proof
  fix now k and s :: "'a memory"
  show "wp (kv_Get Memory_KV now k) (\<lambda>r s'. outcome now (mem_view s) (mem_view s) (mem_view s') r
          \<and> (\<forall>v. r = Inr v \<longrightarrow> v = mem_view s now k)) s"
    using live_view [of now k s] live_value [of now k s]
    by (auto simp: Memory_KV_def Mem_Get_def wp_def split: prod.split)
  show "wp (kv_GetDel Memory_KV now k)
          (\<lambda>r s'. outcome now (mem_view s) (view_del [k] (mem_view s)) (mem_view s') r
          \<and> (\<forall>v. r = Inr v \<longrightarrow> v = mem_view s now k)) s"
    using same_from_del [OF live_view [of now k s], of "[k]"] live_value [of now k s]
    by (auto simp: Memory_KV_def Mem_GetDel_def wp_def split: prod.split)
  fix v ttl
  show "wp (kv_Set Memory_KV now k v ttl)
          (\<lambda>r s'. outcome now (mem_view s) (view_set now k v ttl (mem_view s)) (mem_view s') r) s"
    by (simp only: Memory_KV_def KV.simps Mem_Set_def wp_def prod.case mem_view_put) simp
  fix ks
  show "wp (kv_Del Memory_KV now ks)
          (\<lambda>r s'. outcome now (mem_view s) (view_del ks (mem_view s)) (mem_view s') r) s"
    by (simp add: Memory_KV_def Mem_Del_def wp_def mem_view_fold_delete)
  fix ch msg
  show "wp (kv_Publish Memory_KV ch msg) (\<lambda>r s'. mem_view s' = mem_view s) s"
    by (simp add: Memory_KV_def Mem_Publish_def wp_def)
next
  fix now k ttl c and s :: "'a memory"
  assume c: "view_count now k (mem_view s) = Some c"
  show "wp (kv_Incr Memory_KV now k ttl)
          (\<lambda>r s'. outcome now (mem_view s) (view_incr now k ttl (wrap64 (c + 1)) (mem_view s)) (mem_view s') r
             \<and> (\<forall>n. r = Inr n \<longrightarrow> n = wrap64 (c + 1))) s"
  proof (cases "mem_view s now k")
    case None
    then show ?thesis
      using c
      by (auto simp: Memory_KV_def view_count_def view_incr_def int64_def intro!: wp_mono [OF Mem_Incr_new [OF None]])
  next
    case (Some x)
    then obtain v where v: "x = Text v" "c = digits_of v"
      using c by (auto simp: view_count_def split: kv_value.splits)
    show ?thesis
      using Some v
      by (auto simp: Memory_KV_def view_incr_def same_from_def intro!: wp_mono [OF Mem_Incr_old])
  qed
qed


section \<open>Counting in a window\<close>

text \<open>The results of counting at each time of a list.\<close>

fun counts :: "string \<Rightarrow> duration \<Rightarrow> time list \<Rightarrow> 'j memory \<Rightarrow> int result list \<times> 'j memory" where
  "counts k w [] m = ([], m)"
| "counts k w (t # ts) m =
     (case Count Memory_KV t k w m of (r, m') \<Rightarrow>
        case counts k w ts m' of (rs, m'') \<Rightarrow> (r # rs, m''))"

text \<open>A counter that stands at \<open>n\<close> until the window closes at \<open>x\<close>.\<close>

definition window_at :: "string \<Rightarrow> int \<Rightarrow> time \<Rightarrow> time \<Rightarrow> 'j memory \<Rightarrow> bool" where
  "window_at k n x now m \<longleftrightarrow>
     (\<forall>t \<ge> now. mem_view m t k = (if t < x then Some (Text (itoa n)) else None))"

lemma Count_first:
  assumes "mem_view m t k = None" "0 < w" "Count Memory_KV t k w m = (r, m')"
  shows "r = Inr 1 \<and> window_at k 1 (t + w) t m'"
  using wp_elim [OF Mem_Incr_new [OF assms(1), of w], of r m'] assms
  by (auto simp: Count_def Memory_KV_def window_at_def same_from_def view_set_def fun_eq_iff)

lemma Count_next:
  assumes "window_at k n x now m" "now \<le> t" "t < x" "0 \<le> n" "int64 (n + 1)"
    "Count Memory_KV t k w m = (r, m')"
  shows "r = Inr (n + 1) \<and> window_at k (n + 1) x t m'"
proof -
  have "mem_view m t k = Some (Text (itoa n))"
    using assms by (simp add: window_at_def)
  from wp_elim [OF Mem_Incr_old [OF this, of w], of r m'] assms show ?thesis
    by (auto simp: Count_def Memory_KV_def window_at_def)
qed

lemma counts_window:
  assumes "window_at k n x now m" "0 \<le> n" "sorted (now # ts)" "\<forall>t \<in> set ts. t < x"
    "int64 (n + int (length ts))"
  shows "fst (counts k w ts m) = map Inr [n + 1 .. n + int (length ts)]
    \<and> (\<exists>now'. window_at k (n + int (length ts)) x now' (snd (counts k w ts m)) \<and> now' \<le> last (now # ts))"
  using assms
proof (induction ts arbitrary: n now m)
  case (Cons t ts)
  obtain r m' where c: "Count Memory_KV t k w m = (r, m')" by force
  have n1: "int64 (n + 1)" using Cons.prems by (auto simp: int64_def)
  from Cons.prems n1 have r: "r = Inr (n + 1)" and w': "window_at k (n + 1) x t m'"
    using Count_next [OF Cons.prems(1) _ _ _ _ c] by auto
  have "[n + 1 .. n + int (length (t # ts))] = (n + 1) # [n + 1 + 1 .. n + 1 + int (length ts)]"
    by (subst upto_rec1) (simp_all add: algebra_simps)
  moreover have "fst (counts k w ts m') = map Inr [n + 1 + 1 .. n + 1 + int (length ts)]
    \<and> (\<exists>now'. window_at k (n + 1 + int (length ts)) x now' (snd (counts k w ts m')) \<and> now' \<le> last (t # ts))"
    using Cons.prems by (intro Cons.IH [OF w']) (simp_all add: algebra_simps)
  ultimately show ?case
    using c r by (auto simp: algebra_simps split: prod.split)
qed (auto)

text \<open>
  A windowed counter counts.  Starting from a key with no live counter, the calls made at times
  \<open>t0 \<le> t1 \<le> ...\<close> before the window closes at \<open>t0 + w\<close> return 1, 2, 3 and so on, and from \<open>t0 + w\<close> on
  the counter is gone, however often it was incremented (incrementing never extends the window).
\<close>

theorem count_window:
  assumes "mem_view m t0 k = None" "0 < w" "sorted (t0 # ts)" "\<forall>t \<in> set ts. t < t0 + w"
    "length ts < 2 ^ 62" "t0 + w \<le> t"
  shows "fst (counts k w (t0 # ts) m) = map Inr [1 .. int (length ts) + 1]
    \<and> mem_view (snd (counts k w (t0 # ts) m)) t k = None"
proof -
  obtain r m' where c: "Count Memory_KV t0 k w m = (r, m')" by force
  have first: "r = Inr 1" "window_at k 1 (t0 + w) t0 m'"
    using Count_first [OF assms(1,2) c] by auto
  have "int64 (1 + int (length ts))" using assms(5) by (simp add: int64_def)
  from counts_window [OF first(2) _ assms(3,4) this, of w]
  obtain now' where rest: "fst (counts k w ts m') = map Inr [2 .. int (length ts) + 1]"
    "window_at k (1 + int (length ts)) (t0 + w) now' (snd (counts k w ts m'))" "now' \<le> last (t0 # ts)"
    by (auto simp: algebra_simps)
  have "last (t0 # ts) < t0 + w" using assms(2,4) last_in_set [of "t0 # ts"] by auto
  with rest assms(6) have "mem_view (snd (counts k w ts m')) t k = None"
    by (simp add: window_at_def)
  moreover have "[1 .. int (length ts) + 1] = 1 # [2 .. int (length ts) + 1]"
    by (subst upto_rec1) simp_all
  ultimately show ?thesis using c first(1) rest(1) by (simp split: prod.split) force
qed

theorem count_window_witness:
  "fst (counts (RateKey ''ip'' ''a'') (60 * second) [0, 5, 5] (NewMemory :: unit memory)) = map Inr [1 .. 3]
   \<and> mem_view (snd (counts (RateKey ''ip'' ''a'') (60 * second) [0, 5, 5] (NewMemory :: unit memory)))
        (60 * second) (RateKey ''ip'' ''a'') = None"
proof -
  have "mem_view (NewMemory :: unit memory) 0 (RateKey ''ip'' ''a'') = None"
    by (simp add: mem_view_def NewMemory_def)
  from count_window [OF this, of "60 * second" "[5, 5]" "60 * second"] show ?thesis
    by (simp add: second_def)
qed

end
