(* ===== verification/Durations.thy ===== *)
theory Durations
  imports Cache_KV
begin

text \<open>
  The text of durations: \<open>time.Duration.String\<close> and \<open>time.ParseDuration\<close> of Go's standard library, which
  the policy codec of \<open>internal/tenant/policy.go\<close> is made of.  Fractions go through 64-bit floating
  point in Go, and so they do here: a float is an integer fraction, rounded to a significand of 53 bits
  (the exponents that occur are far from the limits of the format).
\<close>

section \<open>Printing\<close>

text \<open>\<open>fmtFrac\<close> drops trailing zeros, and the point with them.\<close>

fun fmtFrac :: "nat \<Rightarrow> int \<Rightarrow> bool \<Rightarrow> string \<Rightarrow> string \<times> int" where
  "fmtFrac 0 v shown buf = (if shown then CHR ''.'' # buf else buf, v)"
| "fmtFrac (Suc prec) v shown buf =
     (let digit = v mod 10; shown' = (shown \<or> digit \<noteq> 0)
      in fmtFrac prec (v div 10) shown' (if shown' then digit_char (nat digit) # buf else buf))"

definition fmtInt :: "int \<Rightarrow> string \<Rightarrow> string" where
  "fmtInt v buf = (if v = 0 then CHR ''0'' # buf else itoa_loop v buf)"

text \<open>The two bytes of the micro sign.\<close>

definition micro :: string where "micro = [CHR 0xC2, CHR 0xB5]"

definition fmt_unit :: "nat \<Rightarrow> int \<Rightarrow> string \<Rightarrow> string" where
  "fmt_unit prec u unit_name = (case fmtFrac prec u False unit_name of (buf, n) \<Rightarrow> fmtInt n buf)"

definition fmt_clock :: "int \<Rightarrow> string" where
  "fmt_clock u =
     (case fmtFrac 9 u False ''s'' of
        (buf, s) \<Rightarrow>
          let m = s div 60; buf = fmtInt (s mod 60) buf in
          if m > 0 then
            let h = m div 60; buf = fmtInt (m mod 60) (CHR ''m'' # buf) in
            if h > 0 then fmtInt h (CHR ''h'' # buf) else buf
          else buf)"

definition Duration_String :: "duration \<Rightarrow> string" where
  "Duration_String d =
     (let u = \<bar>d\<bar>;
          text = (if u < second then
                    (if u = 0 then ''0s''
                     else if u < 1000 then fmt_unit 0 u ''ns''
                     else if u < 1000000 then fmt_unit 3 u (micro @ ''s'')
                     else fmt_unit 6 u ''ms'')
                  else fmt_clock u)
      in if d < 0 then CHR ''-'' # text else text)"

section \<open>Floating point\<close>

fun bit_count :: "nat \<Rightarrow> nat" where
  "bit_count n = (if n = 0 then 0 else Suc (bit_count (n div 2)))"

declare bit_count.simps [simp del]

definition bitlen :: "int \<Rightarrow> int" where "bitlen n = int (bit_count (nat n))"

definition round_even :: "int \<Rightarrow> int \<Rightarrow> int" where
  "round_even n d =
     (let q = n div d; r = n mod d in if 2 * r < d \<or> 2 * r = d \<and> even q then q else q + 1)"

text \<open>\<open>n / d\<close> over a power of two, and the nearest multiple of that power.\<close>

definition over_pow :: "int \<Rightarrow> int \<times> int \<Rightarrow> int \<times> int" where
  "over_pow e x = (if e \<ge> 0 then (fst x, snd x * 2 ^ nat e) else (fst x * 2 ^ nat (- e), snd x))"

definition nearest :: "int \<Rightarrow> int \<times> int \<Rightarrow> int \<times> int" where
  "nearest e x =
     (let m = round_even (fst (over_pow e x)) (snd (over_pow e x))
      in if e \<ge> 0 then (m * 2 ^ nat e, 1) else (m, 2 ^ nat (- e)))"

definition float64 :: "int \<times> int \<Rightarrow> int \<times> int" where
  "float64 x =
     (if fst x = 0 then (0, 1)
      else
        let e = bitlen (fst x) - bitlen (snd x) - 53; y = over_pow e x
        in nearest (if fst y < 2 ^ 53 * snd y then e else e + 1) x)"

definition float_mul :: "int \<times> int \<Rightarrow> int \<times> int \<Rightarrow> int \<times> int" where
  "float_mul x y = float64 (fst x * fst y, snd x * snd y)"

definition float_div :: "int \<times> int \<Rightarrow> int \<times> int \<Rightarrow> int \<times> int" where
  "float_div x y = float64 (fst x * snd y, snd x * fst y)"

definition of_int64 :: "int \<Rightarrow> int \<times> int" where "of_int64 n = float64 (n, 1)"

definition to_int64 :: "int \<times> int \<Rightarrow> int" where "to_int64 x = fst x div snd x"

section \<open>Parsing\<close>

definition digit_value :: "char \<Rightarrow> int" where "digit_value c = int (of_char c) - 48"

fun leadingInt :: "int \<Rightarrow> string \<Rightarrow> (int \<times> string) option" where
  "leadingInt x [] = Some (x, [])"
| "leadingInt x (c # s) =
     (if \<not> is_09 c then Some (x, c # s)
      else if x > 2 ^ 63 div 10 then None
      else let x = x * 10 + digit_value c in if x > 2 ^ 63 then None else leadingInt x s)"

fun leadingFraction :: "int \<Rightarrow> int \<times> int \<Rightarrow> bool \<Rightarrow> string \<Rightarrow> int \<times> (int \<times> int) \<times> string" where
  "leadingFraction x scale overflow [] = (x, scale, [])"
| "leadingFraction x scale overflow (c # s) =
     (if \<not> is_09 c then (x, scale, c # s)
      else if overflow \<or> x > (2 ^ 63 - 1) div 10 then leadingFraction x scale True s
      else
        let y = x * 10 + digit_value c in
        if y > 2 ^ 63 then leadingFraction x scale True s
        else leadingFraction y (float_mul scale (10, 1)) False s)"

definition unitMap :: "(string \<times> int) list" where
  "unitMap = [(''ns'', 1), (''us'', 1000), (micro @ ''s'', 1000), ([CHR 0xCE, CHR 0xBC] @ ''s'', 1000), (''ms'', 1000000),
     (''s'', second), (''m'', minute), (''h'', hour)]"

text \<open>\<open>quote\<close>: bytes that are not printable ASCII are written in hexadecimal.\<close>

definition quote_byte :: "char \<Rightarrow> string" where
  "quote_byte c =
     (let n = byte_int c in
      if n \<ge> 128 \<or> n < 32 then [CHR 0x5C, CHR ''x'', ''0123456789abcdef'' ! nat (n div 16), ''0123456789abcdef'' ! nat (n mod 16)]
      else if c = CHR 0x22 \<or> c = CHR 0x5C then [CHR 0x5C, c]
      else [c])"

definition quote :: "string \<Rightarrow> string" where
  "quote s = [CHR 0x22] @ concat (map quote_byte s) @ [CHR 0x22]"

definition invalid_duration :: "string \<Rightarrow> err" where
  "invalid_duration orig = ErrOther (''time: invalid duration '' @ quote orig)"

definition no_unit_char :: "char \<Rightarrow> bool" where "no_unit_char c \<longleftrightarrow> c = CHR ''.'' \<or> is_09 c"

text \<open>The value of a number, its fraction and its unit.\<close>

definition unit_value :: "string \<Rightarrow> int \<Rightarrow> int \<Rightarrow> int \<times> int \<Rightarrow> int \<Rightarrow> int result" where
  "unit_value orig v f scale u =
     (if v > 2 ^ 63 div u then Inl (invalid_duration orig)
      else
        let v = v * u in
        if f > 0 then
          let v = v + to_int64 (float_mul (of_int64 f) (float_div (of_int64 u) scale)) in
          if v > 2 ^ 63 then Inl (invalid_duration orig) else Inr v
        else Inr v)"

text \<open>One round of the loop: \<open>[0-9]*(\.[0-9]*)?[a-z]+\<close>, with what follows.\<close>

definition parse_term :: "string \<Rightarrow> string \<Rightarrow> (int \<times> string) result" where
  "parse_term orig s =
     (if s = [] \<or> \<not> no_unit_char (hd s) then Inl (invalid_duration orig)
      else case leadingInt 0 s of
        None \<Rightarrow> Inl (invalid_duration orig)
      | Some (v, s1) \<Rightarrow>
          let pre = (length s \<noteq> length s1);
              point = (s1 \<noteq> [] \<and> hd s1 = CHR ''.'');
              (f, scale, s2) = (if point then leadingFraction 0 (1, 1) False (tl s1) else (0, (1, 1), s1));
              post = (point \<and> length (tl s1) \<noteq> length s2);
              u = takeWhile (\<lambda>c. \<not> no_unit_char c) s2; rest = dropWhile (\<lambda>c. \<not> no_unit_char c) s2
          in if \<not> pre \<and> \<not> post then Inl (invalid_duration orig)
             else if u = [] then Inl (ErrOther (''time: missing unit in duration '' @ quote orig))
             else case map_of unitMap u of
               None \<Rightarrow> Inl (ErrOther (''time: unknown unit '' @ quote u @ '' in duration '' @ quote orig))
             | Some n \<Rightarrow> map_sum (\<lambda>e. e) (\<lambda>v. (v, rest)) (unit_value orig v f scale n))"

lemma leadingInt_shorter: "leadingInt x s = Some (v, r) \<Longrightarrow> length r \<le> length s"
  by (induction x s rule: leadingInt.induct) (fastforce simp: Let_def split: if_splits)+

lemma leadingFraction_shorter: "leadingFraction x sc ov s = (f, scale, r) \<Longrightarrow> length r \<le> length s"
  by (induction x sc ov s rule: leadingFraction.induct) (fastforce simp: Let_def split: if_splits)+

lemma takeWhile_shorter: "takeWhile P s \<noteq> [] \<Longrightarrow> length (dropWhile P s) < length s"
  by (metis append_Nil length_append length_greater_0_conv less_add_same_cancel2 takeWhile_dropWhile_id)

lemma parse_term_shorter: "parse_term orig s = Inr (v, rest) \<Longrightarrow> length rest < length s"
proof -
  assume ok: "parse_term orig s = Inr (v, rest)"
  then obtain v0 s1 where 1: "leadingInt 0 s = Some (v0, s1)"
    by (auto simp: parse_term_def split: if_splits option.splits)
  obtain f sc s2 where 2: "(if s1 \<noteq> [] \<and> hd s1 = CHR ''.'' then leadingFraction 0 (1, 1) False (tl s1) else (0, (1, 1), s1)) = (f, sc, s2)"
    by (metis prod_cases3)
  then have "length s2 \<le> length s1"
    using leadingFraction_shorter [of 0 "(1, 1)" False "tl s1"] by (auto split: if_splits)
  moreover have "takeWhile (\<lambda>c. \<not> no_unit_char c) s2 \<noteq> [] \<and> rest = dropWhile (\<lambda>c. \<not> no_unit_char c) s2"
    using ok unfolding parse_term_def 1 option.case prod.case Let_def 2
    by (auto split: if_splits option.splits sum.splits simp: map_sum_def)
  ultimately show ?thesis using leadingInt_shorter [OF 1] takeWhile_shorter by fastforce
qed

function parse_terms :: "string \<Rightarrow> int \<Rightarrow> string \<Rightarrow> int result" where
  "parse_terms orig d s =
     (if s = [] then Inr d
      else case parse_term orig s of
        Inl e \<Rightarrow> Inl e
      | Inr (v, rest) \<Rightarrow>
          let d = (d + v) mod 2 ^ 64 in if d > 2 ^ 63 then Inl (invalid_duration orig) else parse_terms orig d rest)"
  by pat_completeness auto
termination
  by (relation "measure (\<lambda>(orig, d, s). length s)") (auto dest: parse_term_shorter)

declare parse_terms.simps [simp del]

definition ParseDuration :: "string \<Rightarrow> duration result" where
  "ParseDuration orig =
     (let sign = (orig \<noteq> [] \<and> (hd orig = CHR ''-'' \<or> hd orig = CHR ''+''));
          neg = (sign \<and> hd orig = CHR ''-'');
          s = (if sign then tl orig else orig)
      in if s = ''0'' then Inr 0
         else if s = [] then Inl (invalid_duration orig)
         else case parse_terms orig 0 s of
           Inl e \<Rightarrow> Inl e
         | Inr d \<Rightarrow>
             if neg then Inr (wrap64 (- wrap64 d))
             else if d > 2 ^ 63 - 1 then Inl (invalid_duration orig)
             else Inr d)"

section \<open>Lemmas: integers are exact\<close>

lemma bit_count_bounds: "n < 2 ^ bit_count n \<and> (0 < n \<longrightarrow> 2 ^ (bit_count n - 1) \<le> n)"
proof (induction n rule: bit_count.induct)
  case (1 n)
  show ?case
  proof (cases "n div 2 = 0")
    case True
    then have "n = 0 \<or> n = 1" by auto
    then show ?thesis by (auto simp: bit_count.simps [of n] bit_count.simps [of 0])
  next
    case False
    then have "bit_count n = Suc (bit_count (n div 2))" "0 < bit_count (n div 2)" "0 < n div 2"
      by (auto simp: bit_count.simps [of n] bit_count.simps [of "n div 2"])
    then obtain k where k: "bit_count n = Suc (Suc k)" "bit_count (n div 2) = Suc k" by (metis gr0_implies_Suc)
    have "n div 2 < 2 ^ Suc k" "2 ^ k \<le> n div 2" using 1 False k by auto
    then have "n < 2 ^ Suc (Suc k)" "2 ^ Suc k \<le> n" unfolding power_Suc by linarith+
    then show ?thesis by (simp add: k)
  qed
qed

lemma bitlen_bounds:
  assumes "0 < n" shows "2 ^ nat (bitlen n - 1) \<le> n" "n < 2 ^ nat (bitlen n)"
proof -
  have "bit_count (nat n) \<noteq> 0" using assms by (simp add: bit_count.simps)
  then have "nat (bitlen n - 1) = bit_count (nat n) - 1" "nat (bitlen n) = bit_count (nat n)" by (simp_all add: bitlen_def nat_diff_distrib)
  moreover have "int (nat n) < int (2 ^ bit_count (nat n))" "int (2 ^ (bit_count (nat n) - 1)) \<le> int (nat n)"
    using bit_count_bounds [of "nat n"] assms unfolding of_nat_less_iff of_nat_le_iff by auto
  ultimately show "2 ^ nat (bitlen n - 1) \<le> n" "n < 2 ^ nat (bitlen n)" using assms by simp_all
qed

lemma bitlen_nonneg: "0 \<le> bitlen n"
  by (simp add: bitlen_def)

lemma bitlen_code [code]: "bitlen n = (if n \<le> 0 then 0 else 1 + bitlen (n div 2))"
  by (simp add: bitlen_def bit_count.simps [of "nat n"] nat_div_distrib bit_count.simps [of 0])

lemma round_even_exact: "0 < d \<Longrightarrow> round_even (q * d) d = q"
  by (simp add: round_even_def)

text \<open>A quotient that is an integer of at most 53 bits is not rounded.\<close>

lemma float64_exact:
  assumes d: "0 < d" and q: "0 \<le> q" "q < 2 ^ 53"
  shows "fst (float64 (q * d, d)) = q * snd (float64 (q * d, d)) \<and> 0 < snd (float64 (q * d, d))"
proof (cases "q = 0")
  case False
  let ?n = "q * d"
  let ?e = "bitlen ?n - bitlen d - 53"
  have n: "0 < ?n" using False q d by simp
  define e where "e = (if fst (over_pow ?e (?n, d)) < 2 ^ 53 * snd (over_pow ?e (?n, d)) then ?e else ?e + 1)"
  have fl: "float64 (?n, d) = nearest e (?n, d)" using False d by (simp add: float64_def e_def Let_def)
  have "e \<le> 0"
  proof (rule ccontr)
    assume pos: "\<not> e \<le> 0"
    show False
    proof (cases "e = ?e")
      case True
      have top: "2 ^ nat (bitlen ?n - 1) \<le> ?n" and bd: "d < 2 ^ nat (bitlen d)"
        using bitlen_bounds [OF n] bitlen_bounds [OF d] by auto
      have "0 \<le> bitlen d" by (simp add: bitlen_nonneg)
      then have eq: "nat (bitlen ?n - 1) = nat (bitlen d) + nat (52 + ?e)" using pos True by (simp add: nat_add_distrib [symmetric])
      have "2 ^ nat (bitlen d) * (2 :: int) ^ 53 \<le> 2 ^ nat (bitlen d) * 2 ^ nat (52 + ?e)"
        using pos True by (intro mult_left_mono power_increasing) auto
      also have "\<dots> \<le> ?n" using top unfolding eq power_add .
      also have "?n < 2 ^ 53 * d" using q(2) d by (rule mult_strict_right_mono)
      also have "\<dots> < 2 ^ 53 * 2 ^ nat (bitlen d)" using bd by (intro mult_strict_left_mono) auto
      finally show False by (simp only: mult.commute less_irrefl)
    next
      case False
      then have e: "e = ?e + 1" "\<not> fst (over_pow ?e (?n, d)) < 2 ^ 53 * snd (over_pow ?e (?n, d))"
        by (auto simp: e_def split: if_splits)
      have "?n < 2 ^ 53 * d" using q(2) d by (rule mult_strict_right_mono)
      also have "2 ^ 53 * d \<le> 2 ^ 53 * (d * 2 ^ nat ?e)" using d by (intro mult_left_mono) auto
      also have "\<dots> \<le> ?n" using e pos by (simp add: over_pow_def)
      finally show False by simp
    qed
  qed
  have "nearest e (?n, d) = (q * 2 ^ nat (- e), 2 ^ nat (- e))"
  proof (cases "e = 0")
    case True
    then show ?thesis using round_even_exact [OF d, of q] by (simp add: nearest_def over_pow_def)
  next
    case False
    have "round_even (?n * 2 ^ nat (- e)) d = q * 2 ^ nat (- e)"
      using round_even_exact [OF d, of "q * 2 ^ nat (- e)"] by (simp add: mult_ac)
    then show ?thesis using False \<open>e \<le> 0\<close> by (simp add: nearest_def over_pow_def)
  qed
  then show ?thesis by (simp add: fl)
qed (simp add: float64_def)

definition is_value :: "int \<times> int \<Rightarrow> int \<Rightarrow> bool" where
  "is_value x n \<longleftrightarrow> fst x = n * snd x \<and> 0 < snd x"

lemma is_value_float: "is_value x n \<Longrightarrow> 0 \<le> n \<Longrightarrow> n < 2 ^ 53 \<Longrightarrow> is_value (float64 x) n"
  using float64_exact [of "snd x" n] by (simp add: is_value_def) (metis prod.collapse)

lemma is_value_of_int64: "0 \<le> n \<Longrightarrow> n < 2 ^ 53 \<Longrightarrow> is_value (of_int64 n) n"
  unfolding of_int64_def by (rule is_value_float) (simp_all add: is_value_def)

lemma is_value_mul: "is_value x m \<Longrightarrow> is_value y n \<Longrightarrow> 0 \<le> m * n \<Longrightarrow> m * n < 2 ^ 53 \<Longrightarrow> is_value (float_mul x y) (m * n)"
  unfolding float_mul_def by (rule is_value_float) (simp_all add: is_value_def)

lemma is_value_div:
  assumes "is_value x (m * n)" "is_value y n" "0 < n" "0 \<le> m" "m < 2 ^ 53"
  shows "is_value (float_div x y) m"
  unfolding float_div_def by (rule is_value_float) (use assms in \<open>simp_all add: is_value_def\<close>)

lemma is_value_to_int64: "is_value x n \<Longrightarrow> to_int64 x = n"
  by (auto simp: is_value_def to_int64_def)


section \<open>Lemmas: parsing undoes printing\<close>

lemma digits_of_append: "digits_of (a @ b) = digits_of a * 10 ^ length b + digits_of b"
  by (induction a) (simp_all add: digits_of_Cons power_add algebra_simps)

lemma digits_nonneg: "list_all is_09 s \<Longrightarrow> 0 \<le> digits_of s"
  by (induction s) (simp_all add: digits_of_Cons char_classes)

lemma is_09_value: "is_09 c \<Longrightarrow> 0 \<le> digit_value c \<and> digit_value c < 10"
  by (simp add: digit_value_def char_classes)

text \<open>Where a run of digits stops.\<close>

definition no_digit :: "string \<Rightarrow> bool" where "no_digit s \<longleftrightarrow> s = [] \<or> \<not> is_09 (hd s)"

lemma leadingInt_stop: "no_digit s \<Longrightarrow> leadingInt x s = Some (x, s)"
  by (cases s) (simp_all add: no_digit_def)

lemma leadingInt_digits:
  assumes "list_all is_09 ds" "no_digit r" "0 \<le> x" "x * 10 ^ length ds + digits_of ds \<le> 2 ^ 63"
  shows "leadingInt x (ds @ r) = Some (x * 10 ^ length ds + digits_of ds, r)"
  using assms
proof (induction ds arbitrary: x)
  case (Cons c ds)
  let ?y = "x * 10 + digit_value c"
  have c: "is_09 c" and v: "0 \<le> digit_value c" using Cons.prems(1) is_09_value by auto
  have eq: "x * 10 ^ length (c # ds) + digits_of (c # ds) = ?y * 10 ^ length ds + digits_of ds"
    by (simp add: digits_of_Cons digit_value_def algebra_simps)
  have dn: "0 \<le> digits_of ds" using Cons.prems(1) by (simp add: digits_nonneg)
  have "?y * 1 \<le> ?y * 10 ^ length ds" using Cons.prems(3) v by (intro mult_left_mono) auto
  also have "\<dots> \<le> ?y * 10 ^ length ds + digits_of ds" using dn by simp
  also have "\<dots> \<le> 2 ^ 63" using Cons.prems(4) unfolding eq .
  finally have y: "?y \<le> 2 ^ 63" by simp
  then have "x \<le> 2 ^ 63 div 10" using v by linarith
  with c y show ?case
    using Cons.IH [of ?y] Cons.prems v unfolding eq by (simp add: Let_def)
qed (simp add: leadingInt_stop)

lemma leadingFraction_stop: "no_digit s \<Longrightarrow> leadingFraction x sc False s = (x, sc, s)"
  by (cases s) (simp_all add: no_digit_def)

lemma leadingFraction_digits:
  assumes "list_all is_09 ds" "no_digit r" "is_value sc (10 ^ k)" "k + length ds \<le> 9" "0 \<le> x" "x < 10 ^ k"
  shows "\<exists>sc'. leadingFraction x sc False (ds @ r) = (x * 10 ^ length ds + digits_of ds, sc', r)
    \<and> is_value sc' (10 ^ (k + length ds))"
  using assms
proof (induction ds arbitrary: x k sc)
  case (Cons c ds)
  let ?y = "x * 10 + digit_value c"
  have c: "is_09 c" and v: "0 \<le> digit_value c" "digit_value c < 10" using Cons.prems(1) is_09_value by auto
  have eq: "x * 10 ^ length (c # ds) + digits_of (c # ds) = ?y * 10 ^ length ds + digits_of ds"
    by (simp add: digits_of_Cons digit_value_def algebra_simps)
  have lim: "(10 :: int) ^ Suc k \<le> 10 ^ 9" using Cons.prems(4) by (intro power_increasing) auto
  have y: "0 \<le> ?y" "?y < 10 ^ Suc k" using Cons.prems(5,6) v by auto
  have "?y < 10 ^ 9" using y(2) lim by (rule less_le_trans)
  then have yn: "?y < 1000000000" by simp
  have small: "x \<le> (2 ^ 63 - 1) div 10" "?y \<le> 2 ^ 63" using yn v by simp_all
  have "(10 :: int) ^ k * 10 < 2 ^ 53" using lim by simp
  then have "is_value (float_mul sc (10, 1)) (10 ^ k * 10)"
    by (intro is_value_mul Cons.prems(3)) (simp_all add: is_value_def)
  then have sc: "is_value (float_mul sc (10, 1)) (10 ^ Suc k)" by (simp add: mult.commute)
  obtain sc' where "leadingFraction ?y (float_mul sc (10, 1)) False (ds @ r) = (?y * 10 ^ length ds + digits_of ds, sc', r)"
    "is_value sc' (10 ^ (Suc k + length ds))"
    using Cons.IH [OF _ Cons.prems(2) sc _ y] Cons.prems(1,4) by auto
  moreover have "leadingFraction x sc False ((c # ds) @ r) = leadingFraction ?y (float_mul sc (10, 1)) False (ds @ r)"
    using c small by (simp add: Let_def)
  ultimately show ?case unfolding eq by (intro exI [of _ sc']) simp
qed (simp add: leadingFraction_stop)

text \<open>What \<open>fmtFrac\<close> writes: the digits of the fraction without trailing zeros.\<close>

lemma digits_snoc: "digits_of ds = v div 10 mod 10 ^ n \<Longrightarrow> digits_of (ds @ [digit_char (nat (v mod 10))]) = v mod 10 ^ Suc n"
proof -
  assume ds: "digits_of ds = v div 10 mod 10 ^ n"
  have "nat (v mod 10) < 10" by (simp add: nat_less_iff)
  then have "digits_of (ds @ [digit_char (nat (v mod 10))]) = (v div 10 mod 10 ^ n) * 10 + v mod 10"
    by (simp add: digits_of_append digits_of_Cons ds)
  also have "\<dots> = v mod 10 ^ Suc n" by (simp add: zmod_zmult2_eq)
  finally show ?thesis .
qed

lemma fmtFrac_shown:
  assumes "0 \<le> v"
  shows "\<exists>ds. fmtFrac n v True buf = (CHR ''.'' # ds @ buf, v div 10 ^ n) \<and> list_all is_09 ds \<and> length ds = n
    \<and> digits_of ds = v mod 10 ^ n"
  using assms
proof (induction n arbitrary: v buf)
  case (Suc n)
  let ?c = "digit_char (nat (v mod 10))"
  have pos: "0 \<le> v div 10" using Suc.prems by (simp add: pos_imp_zdiv_nonneg_iff)
  obtain ds where ds: "fmtFrac n (v div 10) True (?c # buf) = (CHR ''.'' # ds @ ?c # buf, v div 10 div 10 ^ n)"
    "list_all is_09 ds" "length ds = n" "digits_of ds = v div 10 mod 10 ^ n"
    using Suc.IH [OF pos, of "?c # buf"] by blast
  have m: "nat (v mod 10) < 10" by (simp add: nat_less_iff)
  have step: "fmtFrac (Suc n) v True buf = fmtFrac n (v div 10) True (?c # buf)" by (simp add: Let_def)
  show ?case
    unfolding step ds(1) using ds(2,3) m digits_snoc [OF ds(4)]
    by (intro exI [of _ "ds @ [?c]"]) (simp add: zdiv_zmult2_eq)
qed simp

lemma fmtFrac_hidden:
  assumes "0 \<le> v"
  shows "\<exists>ds. fmtFrac n v False buf = ((if v mod 10 ^ n = 0 then buf else CHR ''.'' # ds @ buf), v div 10 ^ n)
    \<and> (v mod 10 ^ n \<noteq> 0 \<longrightarrow> ds \<noteq> [] \<and> list_all is_09 ds \<and> length ds \<le> n \<and> digits_of ds * 10 ^ (n - length ds) = v mod 10 ^ n)"
  using assms
proof (induction n arbitrary: v buf)
  case (Suc n)
  have split: "v mod 10 ^ Suc n = 10 * (v div 10 mod 10 ^ n) + v mod 10" by (simp add: zmod_zmult2_eq)
  have quot: "v div 10 ^ Suc n = v div 10 div 10 ^ n" by (simp add: zdiv_zmult2_eq)
  have pos: "0 \<le> v div 10" using Suc.prems by (simp add: pos_imp_zdiv_nonneg_iff)
  show ?case
  proof (cases "v mod 10 = 0")
    case True
    obtain ds where ds: "fmtFrac n (v div 10) False buf = ((if v div 10 mod 10 ^ n = 0 then buf else CHR ''.'' # ds @ buf), v div 10 div 10 ^ n)"
      "v div 10 mod 10 ^ n \<noteq> 0 \<longrightarrow> ds \<noteq> [] \<and> list_all is_09 ds \<and> length ds \<le> n \<and> digits_of ds * 10 ^ (n - length ds) = v div 10 mod 10 ^ n"
      using Suc.IH [OF pos, of buf] by (elim exE conjE) (rule that)
    have step: "fmtFrac (Suc n) v False buf = fmtFrac n (v div 10) False buf" using True by (simp add: Let_def)
    have eq: "v mod 10 ^ Suc n = 10 * (v div 10 mod 10 ^ n)" unfolding split True by simp
    have written: "fmtFrac (Suc n) v False buf
        = ((if v mod 10 ^ Suc n = 0 then buf else CHR ''.'' # ds @ buf), v div 10 ^ Suc n)"
      unfolding step ds(1) quot eq by (simp only: mult_eq_0_iff simp_thms) simp
    show ?thesis
    proof (intro exI [of _ ds] conjI [OF written] impI)
      assume "v mod 10 ^ Suc n \<noteq> 0"
      then have "v div 10 mod 10 ^ n \<noteq> 0" unfolding eq by simp
      with ds(2) have d: "ds \<noteq> []" "list_all is_09 ds" "length ds \<le> n" "digits_of ds * 10 ^ (n - length ds) = v div 10 mod 10 ^ n"
        by (simp_all only: simp_thms)
      have "digits_of ds * 10 ^ (Suc n - length ds) = 10 * (digits_of ds * 10 ^ (n - length ds))"
        using d(3) by (simp only: Suc_diff_le power_Suc mult.left_commute)
      then have "digits_of ds * 10 ^ (Suc n - length ds) = v mod 10 ^ Suc n" unfolding eq d(4) .
      with d le_SucI [OF d(3)] show "ds \<noteq> [] \<and> list_all is_09 ds \<and> length ds \<le> Suc n \<and> digits_of ds * 10 ^ (Suc n - length ds) = v mod 10 ^ Suc n"
        by (intro conjI)
    qed
  next
    case False
    let ?c = "digit_char (nat (v mod 10))"
    obtain ds where ds: "fmtFrac n (v div 10) True (?c # buf) = (CHR ''.'' # ds @ ?c # buf, v div 10 div 10 ^ n)"
      "list_all is_09 ds" "length ds = n" "digits_of ds = v div 10 mod 10 ^ n"
      using fmtFrac_shown [OF pos, of n "?c # buf"] by blast
    have m: "nat (v mod 10) < 10" by (simp add: nat_less_iff)
    have "(10 * (v div 10 mod 10 ^ n) + v mod 10) mod 10 = v mod 10" by simp
    with False have nz: "v mod 10 ^ Suc n \<noteq> 0" unfolding split by (metis (no_types) mod_0)
    have step: "fmtFrac (Suc n) v False buf = fmtFrac n (v div 10) True (?c # buf)" using False by (simp add: Let_def)
    have "fmtFrac (Suc n) v False buf
        = ((if v mod 10 ^ Suc n = 0 then buf else CHR ''.'' # (ds @ [?c]) @ buf), v div 10 ^ Suc n)"
      unfolding step ds(1) quot if_not_P [OF nz] by (simp only: append_assoc append.simps)
    moreover have "list_all is_09 (ds @ [?c])" "length (ds @ [?c]) = Suc n" using ds(2,3) m by simp_all
    moreover have "digits_of (ds @ [?c]) * 10 ^ (Suc n - length (ds @ [?c])) = v mod 10 ^ Suc n"
      unfolding calculation(3) digits_snoc [OF ds(4)] by simp
    ultimately show ?thesis by (intro exI [of _ "ds @ [?c]"] conjI impI) (assumption | simp only: append_is_Nil_conv list.distinct simp_thms le_refl not_False_eq_True)+
  qed
qed simp


lemma itoa_loop_append: "itoa_loop n (b @ c) = itoa_loop n b @ c"
proof (induction n b rule: itoa_loop.induct)
  case (1 n b)
  then show ?case by (cases "n > 0") (subst (1 2) itoa_loop.simps; simp)+
qed

lemma fmtInt_itoa: "fmtInt n b = itoa n @ b"
  using itoa_loop_append [of n "[]" b] by (simp add: fmtInt_def itoa_def)

text \<open>A unit name, and what may follow it.\<close>

definition unit_name :: "string \<Rightarrow> bool" where
  "unit_name s \<longleftrightarrow> s \<noteq> [] \<and> list_all (\<lambda>c. \<not> no_unit_char c) s"

definition next_term :: "string \<Rightarrow> bool" where "next_term s \<longleftrightarrow> s = [] \<or> no_unit_char (hd s)"

lemma unit_split:
  assumes "unit_name name" "next_term rest"
  shows "takeWhile (\<lambda>c. \<not> no_unit_char c) (name @ rest) = name" "dropWhile (\<lambda>c. \<not> no_unit_char c) (name @ rest) = rest"
proof -
  have "takeWhile (\<lambda>c. \<not> no_unit_char c) rest = []" "dropWhile (\<lambda>c. \<not> no_unit_char c) rest = rest"
    using assms(2) by (cases rest; simp add: next_term_def)+
  then show "takeWhile (\<lambda>c. \<not> no_unit_char c) (name @ rest) = name" "dropWhile (\<lambda>c. \<not> no_unit_char c) (name @ rest) = rest"
    using assms(1) by (simp_all add: unit_name_def list_all_iff)
qed

lemma unit_name_front:
  assumes "unit_name name" shows "no_digit (name @ rest)" "hd (name @ rest) \<noteq> CHR ''.''"
  using assms by (cases name; simp add: unit_name_def no_digit_def no_unit_char_def)+

lemma leadingInt_itoa:
  assumes "0 \<le> n" "n \<le> 2 ^ 63" "no_digit r"
  shows "leadingInt 0 (itoa n @ r) = Some (n, r)"
  using leadingInt_digits [of "itoa n" r 0] itoa_is_digits [of n] assms by simp

lemma parse_term_itoa:
  assumes "0 \<le> n" "n \<le> 2 ^ 63" "no_digit r"
  shows "parse_term orig (itoa n @ r) =
     (let point = (r \<noteq> [] \<and> hd r = CHR ''.'');
          (f, scale, s2) = (if point then leadingFraction 0 (1, 1) False (tl r) else (0, (1, 1), r));
          u = takeWhile (\<lambda>c. \<not> no_unit_char c) s2; rest = dropWhile (\<lambda>c. \<not> no_unit_char c) s2
      in if u = [] then Inl (ErrOther (''time: missing unit in duration '' @ quote orig))
         else case map_of unitMap u of
           None \<Rightarrow> Inl (ErrOther (''time: unknown unit '' @ quote u @ '' in duration '' @ quote orig))
         | Some m \<Rightarrow> map_sum (\<lambda>e. e) (\<lambda>v. (v, rest)) (unit_value orig n f scale m))"
proof -
  obtain c cs where i: "itoa n = c # cs" "is_09 c" using itoa_is_digits [OF assms(1)] by (cases "itoa n") auto
  have "length (itoa n @ r) \<noteq> length r" by (simp add: i)
  moreover have "\<not> (itoa n @ r = [] \<or> \<not> no_unit_char (hd (itoa n @ r)))" by (simp add: i no_unit_char_def)
  ultimately show ?thesis
    unfolding parse_term_def leadingInt_itoa [OF assms] by (simp add: Let_def split_beta split: option.split)
qed

lemma no_overflow:
  assumes "0 < u" "n * u \<le> (2 :: int) ^ 63" shows "\<not> n > 2 ^ 63 div u" "0 \<le> n \<Longrightarrow> n \<le> 2 ^ 63"
proof -
  have "n * u div u \<le> 2 ^ 63 div u" using assms by (intro zdiv_mono1)
  then show "\<not> n > 2 ^ 63 div u" using assms(1) by simp
  assume "0 \<le> n"
  then have "n * 1 \<le> n * u" using assms(1) by (intro mult_left_mono) auto
  with assms(2) show "n \<le> 2 ^ 63" by simp
qed

lemma parse_whole:
  assumes n: "0 \<le> n" "n * u \<le> 2 ^ 63" and u: "unit_name name" "map_of unitMap name = Some u" "0 < u" and rest: "next_term rest"
  shows "parse_term orig (itoa n @ name @ rest) = Inr (n * u, rest)"
proof -
  have "name \<noteq> []" using u(1) by (simp add: unit_name_def)
  then show ?thesis
    unfolding parse_term_itoa [OF n(1) no_overflow(2) [OF u(3) n(2) n(1)] unit_name_front(1) [OF u(1)]]
    using unit_name_front(2) [OF u(1), of rest] no_overflow(1) [OF u(3) n(2)]
    by (simp add: Let_def unit_split [OF u(1) rest] u(2) unit_value_def)
qed

lemma parse_fraction:
  assumes n: "0 \<le> n" "n * 10 ^ p + digits_of ds * 10 ^ (p - length ds) \<le> 2 ^ 63" and p: "p \<le> 9"
    and ds: "list_all is_09 ds" "length ds \<le> p" "0 < digits_of ds" "digits_of ds * 10 ^ (p - length ds) < 10 ^ p"
    and u: "unit_name name" "map_of unitMap name = Some (10 ^ p)" and rest: "next_term rest"
  shows "parse_term orig (itoa n @ CHR ''.'' # ds @ name @ rest) = Inr (n * 10 ^ p + digits_of ds * 10 ^ (p - length ds), rest)"
proof -
  let ?f = "digits_of ds" and ?k = "length ds"
  have big: "(10 :: int) ^ p \<le> 10 ^ 9" using p by (intro power_increasing) auto
  have pos: "0 < (10 :: int) ^ p" by simp
  have "0 \<le> ?f * 10 ^ (p - ?k)" using ds(3) by simp
  then have whole: "n * 10 ^ p \<le> 2 ^ 63" using n(2) by linarith
  have nd: "no_digit (CHR ''.'' # r)" for r by (simp add: no_digit_def char_classes)
  obtain sc where fr: "leadingFraction 0 (1, 1) False (ds @ name @ rest) = (?f, sc, name @ rest)" and sc: "is_value sc (10 ^ ?k)"
    using leadingFraction_digits [OF ds(1) unit_name_front(1) [OF u(1)], of "(1, 1)" 0 0 rest] ds(2) p by (auto simp: is_value_def)
  have "?f * 1 \<le> ?f * 10 ^ (p - ?k)" using ds(3) by (intro mult_left_mono) auto
  then have f: "?f < 2 ^ 53" "?f * 10 ^ (p - ?k) < 2 ^ 53" using ds(4) big by simp_all
  have "(10 :: int) ^ (p - ?k) \<le> 10 ^ 9" using p by (intro power_increasing) auto
  then have q: "(10 :: int) ^ (p - ?k) < 2 ^ 53" by simp
  have "is_value (of_int64 (10 ^ p)) (10 ^ (p - ?k) * 10 ^ ?k)"
    using is_value_of_int64 [of "10 ^ p"] big ds(2) by (simp add: power_add [symmetric])
  then have "is_value (float_div (of_int64 (10 ^ p)) sc) (10 ^ (p - ?k))" using sc q by (intro is_value_div) auto
  then have "is_value (float_mul (of_int64 ?f) (float_div (of_int64 (10 ^ p)) sc)) (?f * 10 ^ (p - ?k))"
    using f ds(3) is_value_of_int64 [of ?f] by (intro is_value_mul) auto
  then have v: "to_int64 (float_mul (of_int64 ?f) (float_div (of_int64 (10 ^ p)) sc)) = ?f * 10 ^ (p - ?k)"
    by (rule is_value_to_int64)
  have val: "unit_value orig n ?f sc (10 ^ p) = Inr (n * 10 ^ p + ?f * 10 ^ (p - ?k))"
    unfolding unit_value_def Let_def v
    by (simp only: if_not_P [OF no_overflow(1) [OF pos whole]] if_P [OF ds(3)] if_not_P [OF leD [OF n(2)]])
  have "name \<noteq> []" using u(1) by (simp add: unit_name_def)
  then show ?thesis
    unfolding parse_term_itoa [OF n(1) no_overflow(2) [OF pos whole n(1)] nd]
    by (simp add: Let_def fr unit_split [OF u(1) rest] u(2) val)
qed

text \<open>A number with the digits \<open>fmtFrac\<close> writes after it.\<close>

lemma parse_printed:
  assumes n: "0 \<le> n" "n * 10 ^ p + v mod 10 ^ p \<le> 2 ^ 63" and v: "0 \<le> v" and p: "p \<le> 9"
    and u: "unit_name name" "map_of unitMap name = Some (10 ^ p)" and rest: "next_term rest"
  shows "parse_term orig (fmtInt n (fst (fmtFrac p v False (name @ rest)))) = Inr (n * 10 ^ p + v mod 10 ^ p, rest)"
proof -
  obtain ds where ds: "fst (fmtFrac p v False (name @ rest)) = (if v mod 10 ^ p = 0 then name @ rest else CHR ''.'' # ds @ name @ rest)"
    "v mod 10 ^ p \<noteq> 0 \<longrightarrow> ds \<noteq> [] \<and> list_all is_09 ds \<and> length ds \<le> p \<and> digits_of ds * 10 ^ (p - length ds) = v mod 10 ^ p"
    using fmtFrac_hidden [OF v, of p "name @ rest"] by (elim exE conjE) (simp only: fst_conv that)
  show ?thesis
  proof (cases "v mod 10 ^ p = 0")
    case True
    then show ?thesis unfolding ds(1) fmtInt_itoa using parse_whole [OF n(1) _ u _ rest, of orig] n(2) by simp
  next
    case False
    with ds(2) have d: "list_all is_09 ds" "length ds \<le> p" and eq: "digits_of ds * 10 ^ (p - length ds) = v mod 10 ^ p"
      by (simp_all only: simp_thms)
    have "0 \<le> v mod 10 ^ p" "v mod 10 ^ p < 10 ^ p" by simp_all
    moreover have "digits_of ds \<noteq> 0" using False eq by auto
    ultimately have "0 < digits_of ds" using digits_nonneg [OF d(1)] by linarith
    from parse_fraction [OF n(1) _ p d this _ u rest, of orig] False show ?thesis
      unfolding ds(1) fmtInt_itoa eq using n(2) by simp
  qed
qed


lemma parse_terms_step:
  assumes "parse_term orig s = Inr (v, rest)" "0 \<le> d" "0 \<le> v" "d + v \<le> 2 ^ 63"
  shows "parse_terms orig d s = parse_terms orig (d + v) rest"
proof -
  have "s \<noteq> []" using assms(1) by (auto simp: parse_term_def)
  moreover have "(d + v) mod 2 ^ 64 = d + v" using assms(2-4) by (intro mod_pos_pos_trivial) auto
  ultimately show ?thesis
    using assms(1,4) by (subst parse_terms.simps) (simp add: Let_def)
qed

lemma parse_terms_Nil [simp]: "parse_terms orig d [] = Inr d"
  by (simp add: parse_terms.simps)

lemma fmtInt_front: "0 \<le> n \<Longrightarrow> fmtInt n b \<noteq> [] \<and> is_09 (hd (fmtInt n b))"
  using itoa_is_digits [of n] by (cases "itoa n") (auto simp: fmtInt_itoa)

lemma next_term_fmtInt: "0 \<le> n \<Longrightarrow> next_term (fmtInt n b)"
  using fmtInt_front [of n b] by (simp add: next_term_def no_unit_char_def)

lemma fmt_unit_eq: "0 \<le> u \<Longrightarrow> fmt_unit p u name = fmtInt (u div 10 ^ p) (fst (fmtFrac p u False name))"
  using fmtFrac_hidden [of u p name] by (auto simp: fmt_unit_def)

lemma parse_fmt_unit:
  assumes "0 \<le> u" "u \<le> 2 ^ 63" "p \<le> 9" "unit_name name" "map_of unitMap name = Some (10 ^ p)"
  shows "parse_terms orig 0 (fmt_unit p u name) = Inr u"
proof -
  have n: "0 \<le> u div 10 ^ p" using assms(1) by (simp add: pos_imp_zdiv_nonneg_iff)
  have eq: "u div 10 ^ p * 10 ^ p + u mod 10 ^ p = u" by (rule div_mult_mod_eq)
  have "parse_term orig (fmt_unit p u name) = Inr (u, [])"
    using parse_printed [OF n _ assms(1,3-5), of "[]" orig] assms(2)
    unfolding fmt_unit_eq [OF assms(1)] eq by (simp add: next_term_def)
  from parse_terms_step [OF this, of 0] assms show ?thesis by simp
qed

lemma unit_names: "unit_name ''ns''" "unit_name (micro @ ''s'')" "unit_name ''ms''" "unit_name ''s''" "unit_name ''m''" "unit_name ''h''"
  by (simp_all add: unit_name_def no_unit_char_def micro_def char_classes)

lemma units:
  "map_of unitMap ''ns'' = Some (10 ^ 0)" "map_of unitMap (micro @ ''s'') = Some (10 ^ 3)" "map_of unitMap ''ms'' = Some (10 ^ 6)"
  "map_of unitMap ''s'' = Some (10 ^ 9)" "map_of unitMap ''m'' = Some minute" "map_of unitMap ''h'' = Some hour"
  by (simp_all add: unitMap_def micro_def second_def)

lemma clock_sum:
  "u = s * 10 ^ 9 + f \<Longrightarrow> s = m * 60 + a \<Longrightarrow> m = h * 60 + b \<Longrightarrow> u = h * hour + b * minute + (a * 10 ^ 9 + f)"
  by (simp add: hour_def minute_def second_def)

lemma parse_fmt_clock:
  assumes "0 \<le> u" "u \<le> 2 ^ 63"
  shows "parse_terms orig 0 (fmt_clock u) = Inr u"
proof -
  define s where "s = u div 10 ^ 9"
  define m where "m = s div 60"
  define h where "h = m div 60"
  define ss mm where rests: "ss = s mod 60" "mm = m mod 60"
  define A B C where parts: "A = h * hour" "B = mm * minute" "C = ss * 10 ^ 9 + u mod 10 ^ 9"
  define secs where "secs = fmtInt ss (fst (fmtFrac 9 u False ''s''))"
  define mins where "mins = fmtInt mm (CHR ''m'' # secs)"
  have "snd (fmtFrac 9 u False ''s'') = s"
    using fmtFrac_hidden [OF assms(1), of 9 "''s''"] by (auto simp: s_def)
  then have clock: "fmt_clock u = (if m > 0 then if h > 0 then fmtInt h (CHR ''h'' # mins) else mins else secs)"
    by (simp only: fmt_clock_def Let_def split_beta m_def [symmetric] h_def [symmetric] rests [symmetric] secs_def [symmetric] mins_def [symmetric])
  have s: "0 \<le> s" "0 \<le> m" "0 \<le> h" using assms(1) by (simp_all add: s_def m_def h_def pos_imp_zdiv_nonneg_iff)
  have r: "0 \<le> ss" "0 \<le> mm" by (simp_all add: rests)
  have sum: "A + B + C = u"
    unfolding parts rests by (rule clock_sum [symmetric]) (unfold s_def m_def h_def, (rule div_mult_mod_eq [symmetric])+)
  have units_pos: "0 < minute" "0 < hour" by (simp_all add: hour_def minute_def second_def)
  have nn: "0 \<le> A" "0 \<le> B" "0 \<le> C" using s(3) r units_pos unfolding parts by simp_all
  have small: "A \<le> 2 ^ 63" "B \<le> 2 ^ 63" "C \<le> 2 ^ 63" "A + B \<le> 2 ^ 63" "B + C \<le> 2 ^ 63" "A + B + C \<le> 2 ^ 63"
    using sum nn assms(2) by linarith+
  have end_of_text: "next_term []" by (simp add: next_term_def)
  have S: "parse_term orig secs = Inr (C, [])"
    using parse_printed [OF r(1) small(3) [unfolded parts(3)] assms(1) order_refl unit_names(4) units(4) end_of_text, of orig, folded parts(3)]
    unfolding append_Nil2 secs_def .
  have M: "parse_term orig mins = Inr (B, secs)"
    using parse_whole [OF r(2) small(2) [unfolded parts(2)] unit_names(5) units(5) units_pos(1) next_term_fmtInt [OF r(1)], of orig, folded parts(2)]
    unfolding mins_def secs_def fmtInt_itoa [of mm] append_Cons append_Nil .
  have H: "parse_term orig (fmtInt h (CHR ''h'' # mins)) = Inr (A, mins)"
    using parse_whole [OF s(3) small(1) [unfolded parts(1)] unit_names(6) units(6) units_pos(2) next_term_fmtInt [OF r(2)], of orig, folded parts(1)]
    unfolding mins_def fmtInt_itoa [of h] append_Cons append_Nil .
  have none: "m = 0 \<Longrightarrow> A = 0 \<and> B = 0" "h = 0 \<Longrightarrow> A = 0" by (simp_all add: parts rests h_def)
  consider "m = 0" | "m > 0" "h = 0" | "m > 0" "h > 0" using s(2,3) by linarith
  then show ?thesis
  proof cases
    case 1
    then show ?thesis using none parse_terms_step [OF S, of 0] nn small sum by (simp add: clock)
  next
    case 2
    then show ?thesis using none parse_terms_step [OF M, of 0] parse_terms_step [OF S, of B] nn small sum by (simp add: clock)
  next
    case 3
    then show ?thesis
      using parse_terms_step [OF H, of 0] parse_terms_step [OF M, of A] parse_terms_step [OF S, of "A + B"] nn small sum by (simp add: clock)
  qed
qed

text \<open>\<open>ParseDuration\<close> reads every 64-bit duration back from what \<open>String\<close> writes.\<close>

definition unsigned_text :: "int \<Rightarrow> string" where
  "unsigned_text u =
     (if u < second then
        (if u = 0 then ''0s''
         else if u < 1000 then fmt_unit 0 u ''ns''
         else if u < 1000000 then fmt_unit 3 u (micro @ ''s'')
         else fmt_unit 6 u ''ms'')
      else fmt_clock u)"

lemma Duration_String_sign: "Duration_String d = (if d < 0 then CHR ''-'' # unsigned_text \<bar>d\<bar> else unsigned_text \<bar>d\<bar>)"
  by (simp only: Duration_String_def unsigned_text_def Let_def)

lemma parse_unsigned_text:
  assumes "0 \<le> u" "u \<le> 2 ^ 63"
  shows "parse_terms orig 0 (unsigned_text u) = Inr u"
proof -
  have "parse_terms orig 0 ''0s'' = parse_terms orig 0 (fmt_clock 0)"
    by (simp add: fmt_clock_def fmtInt_def numeral_eq_Suc)
  then have "parse_terms orig 0 ''0s'' = Inr 0" using parse_fmt_clock [of 0 orig] by simp
  then show ?thesis
    using parse_fmt_unit [OF assms _ unit_names(1) units(1)] parse_fmt_unit [OF assms _ unit_names(2) units(2)]
      parse_fmt_unit [OF assms _ unit_names(3) units(3)] parse_fmt_clock [OF assms]
    by (simp add: unsigned_text_def)
qed

lemma fmt_clock_front:
  assumes "0 \<le> u" shows "fmt_clock u \<noteq> [] \<and> is_09 (hd (fmt_clock u))"
proof -
  define s where "s = snd (fmtFrac 9 u False ''s'')"
  obtain b c d where "fmt_clock u = (if s div 60 > 0 then if s div 60 div 60 > 0 then fmtInt (s div 60 div 60) b else fmtInt (s div 60 mod 60) c
      else fmtInt (s mod 60) d)"
    by (simp only: fmt_clock_def Let_def split_beta s_def)
  moreover have "0 < s div 60 div 60 \<Longrightarrow> 0 \<le> s div 60 div 60" "0 \<le> s div 60 mod 60" "0 \<le> s mod 60" by simp_all
  ultimately show ?thesis using fmtInt_front by (simp only: split: if_split) blast
qed

lemma fmt_unit_front: "0 \<le> u \<Longrightarrow> fmt_unit p u name \<noteq> [] \<and> is_09 (hd (fmt_unit p u name))"
  unfolding fmt_unit_eq by (rule fmtInt_front) (simp add: pos_imp_zdiv_nonneg_iff)

lemma unsigned_text_front: "0 \<le> u \<Longrightarrow> unsigned_text u \<noteq> [] \<and> is_09 (hd (unsigned_text u))"
  using fmt_clock_front [of u] fmt_unit_front [of u] by (simp add: unsigned_text_def char_classes)

lemma wrap64_negate: "int64 d \<Longrightarrow> d < 0 \<Longrightarrow> wrap64 (- wrap64 (- d)) = d"
  by (cases "d = - (2 ^ 63)") (simp add: wrap64_def, subst wrap64_id, simp_all add: int64_def)

lemma no_unit_no_duration: "isl (parse_terms [] 0 ''0'')"
  by code_simp

theorem ParseDuration_String:
  assumes "int64 d"
  shows "ParseDuration (Duration_String d) = Inr d"
proof -
  define t where "t = unsigned_text \<bar>d\<bar>"
  have u: "0 \<le> \<bar>d\<bar>" "\<bar>d\<bar> \<le> 2 ^ 63" "\<not> d > 2 ^ 63 - 1" using assms by (auto simp: int64_def)
  have front: "t \<noteq> []" "is_09 (hd t)" using unsigned_text_front [OF u(1)] by (simp_all add: t_def)
  then have sign: "hd t \<noteq> CHR ''-''" "hd t \<noteq> CHR ''+''" by (auto simp: char_classes)
  have val: "parse_terms orig 0 t = Inr \<bar>d\<bar>" for orig unfolding t_def by (rule parse_unsigned_text [OF u(1,2)])
  have t0: "t \<noteq> ''0''" using val [of "[]"] no_unit_no_duration by auto
  show ?thesis
  proof (cases "d < 0")
    case True
    have "Duration_String d = CHR ''-'' # t" using True by (simp only: Duration_String_sign t_def if_True)
    moreover have "wrap64 (- wrap64 \<bar>d\<bar>) = d" using wrap64_negate [OF assms True] True by simp
    ultimately show ?thesis using front(1) t0 by (simp add: ParseDuration_def val Let_def del: wrap64_id)
  next
    case False
    have "Duration_String d = t" unfolding Duration_String_sign t_def by (rule if_not_P [OF False])
    moreover have "\<bar>d\<bar> = d" using False by simp
    ultimately show ?thesis using front(1) t0 sign u(3) by (simp add: ParseDuration_def val Let_def)
  qed
qed

end
