(* ===== verification/Tenant_Policy.thy ===== *)
theory Tenant_Policy
  imports Durations
begin

text \<open>
  The per-tenant security policy and tenant slugs: \<open>internal/tenant/policy.go\<close> and
  \<open>internal/tenant/slug.go\<close>.  The stored policy is JSON; its bytes are represented by what the
  scanner of \<open>encoding/json\<close> reads from them: nothing at all, something that is not JSON, or a
  document, a tree whose strings are decoded and whose numbers are still text.  What the decoder and the
  encoder do with that tree for the fields of the policy is written out, the duration codec with
  it.  The public-suffix list is a parameter.
\<close>

section \<open>The policy\<close>

record policy =
  SessionLifetime :: duration
  IdleTimeout :: duration
  AccessTokenLifetime :: duration
  PasswordMinLength :: int
  MFARequired :: bool
  LockoutThreshold :: int
  LockoutDuration :: duration

definition MaxSessionLifetime :: duration where "MaxSessionLifetime = 24 * hour"
definition MaxAccessTokenLifetime :: duration where "MaxAccessTokenLifetime = 15 * minute"
definition MinPasswordLength :: int where "MinPasswordLength = 8"

lemmas policy_limits = MaxSessionLifetime_def MaxAccessTokenLifetime_def MinPasswordLength_def
lemmas time_units = hour_def minute_def second_def

definition DefaultPolicy :: policy where
  "DefaultPolicy =
     \<lparr>SessionLifetime = 8 * hour, IdleTimeout = hour, AccessTokenLifetime = 15 * minute,
      PasswordMinLength = 12, MFARequired = False, LockoutThreshold = 10,
      LockoutDuration = 15 * minute\<rparr>"

text \<open>Go's zero value.\<close>

definition zero_policy :: policy where
  "zero_policy =
     \<lparr>SessionLifetime = 0, IdleTimeout = 0, AccessTokenLifetime = 0, PasswordMinLength = 0,
      MFARequired = False, LockoutThreshold = 0, LockoutDuration = 0\<rparr>"

datatype json =
  JNull | JBool bool | JNumber string | JString string | JArray "json list" | JObject "(string \<times> json) list"

datatype policy_json = NoBytes | BadJSON string | Document json

text \<open>
  \<open>json.UnmarshalTypeError\<close>, with the kind of value and the Go type, and any other error; the decoder
  adds the field to the text of the former.
\<close>

datatype decode_err = UnmarshalTypeError string string | CodecError err

fun json_kind :: "json \<Rightarrow> string" where
  "json_kind JNull = ''null''"
| "json_kind (JBool _) = ''bool''"
| "json_kind (JNumber _) = ''number''"
| "json_kind (JString _) = ''string''"
| "json_kind (JArray _) = ''array''"
| "json_kind (JObject _) = ''object''"

fun decode_text :: "string \<Rightarrow> decode_err \<Rightarrow> string" where
  "decode_text place (UnmarshalTypeError val typ) = ''json: cannot unmarshal '' @ val @ '' into Go '' @ place @ '' of type '' @ typ"
| "decode_text place (CodecError e) = (case e of Sentinel s \<Rightarrow> s | ErrPolicy s \<Rightarrow> s | ErrOther s \<Rightarrow> s)"

text \<open>
  \<open>json.Unmarshal (b, &s)\<close> leaves the empty string in place for \<open>null\<close>, which \<open>ParseDuration\<close> then
  refuses.
\<close>

definition Duration_UnmarshalJSON :: "json \<Rightarrow> decode_err + duration" where
  "Duration_UnmarshalJSON b =
     (case (case b of JString s \<Rightarrow> Inr s | JNull \<Rightarrow> Inr [] | _ \<Rightarrow> Inl (UnmarshalTypeError (json_kind b) ''string'')) of
        Inl e \<Rightarrow> Inl e
      | Inr s \<Rightarrow> (case ParseDuration s of Inl e \<Rightarrow> Inl (CodecError e) | Inr v \<Rightarrow> Inr v))"

definition Duration_MarshalJSON :: "duration \<Rightarrow> json" where "Duration_MarshalJSON d = JString (Duration_String d)"

text \<open>Integers and booleans: \<open>null\<close> leaves the field as it is.\<close>

definition decode_int :: "json \<Rightarrow> int \<Rightarrow> decode_err + int" where
  "decode_int b old =
     (case b of
        JNull \<Rightarrow> Inr old
      | JNumber s \<Rightarrow> (case ParseInt s of Inl _ \<Rightarrow> Inl (UnmarshalTypeError (''number '' @ s) ''int'') | Inr n \<Rightarrow> Inr n)
      | _ \<Rightarrow> Inl (UnmarshalTypeError (json_kind b) ''int''))"

definition decode_bool :: "json \<Rightarrow> bool \<Rightarrow> decode_err + bool" where
  "decode_bool b old =
     (case b of JNull \<Rightarrow> Inr old | JBool v \<Rightarrow> Inr v | _ \<Rightarrow> Inl (UnmarshalTypeError (json_kind b) ''bool''))"

text \<open>
  One field: an error of \<open>UnmarshalJSON\<close> stops the decoder (\<open>Inl\<close>); a value of the wrong type is passed
  over, and its error kept for the end.
\<close>

definition stopping :: "decode_err + 'v \<Rightarrow> ('v \<Rightarrow> policy) \<Rightarrow> decode_err + policy \<times> decode_err option" where
  "stopping r set_it = (case r of Inl e \<Rightarrow> Inl e | Inr v \<Rightarrow> Inr (set_it v, None))"

definition passing :: "policy \<Rightarrow> decode_err + 'v \<Rightarrow> ('v \<Rightarrow> policy) \<Rightarrow> decode_err + policy \<times> decode_err option" where
  "passing p r set_it = (case r of Inl e \<Rightarrow> Inr (p, Some e) | Inr v \<Rightarrow> Inr (set_it v, None))"

definition policy_fields :: "string list" where
  "policy_fields =
     [''session_lifetime'', ''idle_timeout'', ''access_token_lifetime'', ''password_min_length'', ''mfa_required'',
      ''lockout_threshold'', ''lockout_duration'']"

definition decode_field :: "string \<Rightarrow> json \<Rightarrow> policy \<Rightarrow> decode_err + policy \<times> decode_err option" where
  "decode_field f v p =
     (if f = ''session_lifetime'' then stopping (Duration_UnmarshalJSON v) (\<lambda>d. p\<lparr>SessionLifetime := d\<rparr>)
      else if f = ''idle_timeout'' then stopping (Duration_UnmarshalJSON v) (\<lambda>d. p\<lparr>IdleTimeout := d\<rparr>)
      else if f = ''access_token_lifetime'' then stopping (Duration_UnmarshalJSON v) (\<lambda>d. p\<lparr>AccessTokenLifetime := d\<rparr>)
      else if f = ''password_min_length'' then passing p (decode_int v (PasswordMinLength p)) (\<lambda>n. p\<lparr>PasswordMinLength := n\<rparr>)
      else if f = ''mfa_required'' then passing p (decode_bool v (MFARequired p)) (\<lambda>b. p\<lparr>MFARequired := b\<rparr>)
      else if f = ''lockout_threshold'' then passing p (decode_int v (LockoutThreshold p)) (\<lambda>n. p\<lparr>LockoutThreshold := n\<rparr>)
      else stopping (Duration_UnmarshalJSON v) (\<lambda>d. p\<lparr>LockoutDuration := d\<rparr>))"

text \<open>
  The field a key names: exactly, or up to case.  Two letters outside ASCII fold to ASCII ones, the
  long s and the Kelvin sign.
\<close>

fun fold_name :: "string \<Rightarrow> string" where
  "fold_name (a # b # c # s) =
     (if a = CHR 0xC5 \<and> b = CHR 0xBF then CHR ''s'' # fold_name (c # s)
      else if a = CHR 0xE2 \<and> b = CHR 0x84 \<and> c = CHR 0xAA then CHR ''k'' # fold_name s
      else lower_ascii a # fold_name (b # c # s))"
| "fold_name [a, b] = (if a = CHR 0xC5 \<and> b = CHR 0xBF then ''s'' else [lower_ascii a, lower_ascii b])"
| "fold_name s = map lower_ascii s"

definition field_of :: "string \<Rightarrow> string option" where
  "field_of k = (if k \<in> set policy_fields then Some k else find (\<lambda>f. fold_name f = fold_name k) policy_fields)"

text \<open>The members of an object in their order; the error kept is the first one.\<close>

fun decode_members :: "(string \<times> json) list \<Rightarrow> policy \<Rightarrow> string option \<Rightarrow> string + policy \<times> string option" where
  "decode_members [] p saved = Inr (p, saved)"
| "decode_members ((k, v) # ms) p saved =
     (case field_of k of
        None \<Rightarrow> decode_members ms p saved
      | Some f \<Rightarrow>
          (case decode_field f v p of
             Inl e \<Rightarrow> Inl (decode_text (''struct field Policy.'' @ f) e)
           | Inr (p', None) \<Rightarrow> decode_members ms p' saved
           | Inr (p', Some e) \<Rightarrow>
               decode_members ms p' (if saved = None then Some (decode_text (''struct field Policy.'' @ f) e) else saved)))"

text \<open>\<open>json.Unmarshal (raw, &p)\<close>.\<close>

definition unmarshal_policy :: "json \<Rightarrow> policy \<Rightarrow> string + policy" where
  "unmarshal_policy j p =
     (case j of
        JNull \<Rightarrow> Inr p
      | JObject ms \<Rightarrow>
          (case decode_members ms p None of
             Inl e \<Rightarrow> Inl e
           | Inr (p', Some e) \<Rightarrow> Inl e
           | Inr (p', None) \<Rightarrow> Inr p')
      | _ \<Rightarrow> Inl (decode_text ''value'' (UnmarshalTypeError (json_kind j) ''tenant.Policy'')))"

definition Validate :: "policy \<Rightarrow> unit result" where
  "Validate p =
     (if SessionLifetime p \<le> 0 \<or> SessionLifetime p > MaxSessionLifetime
      then Inl (ErrPolicy ''session_lifetime must be within (0, 24h]'')
      else if IdleTimeout p \<le> 0 \<or> IdleTimeout p > SessionLifetime p
      then Inl (ErrPolicy ''idle_timeout must be within (0, session_lifetime]'')
      else if AccessTokenLifetime p \<le> 0 \<or> AccessTokenLifetime p > MaxAccessTokenLifetime
      then Inl (ErrPolicy ''access_token_lifetime must be within (0, 15m]'')
      else if PasswordMinLength p < MinPasswordLength \<or> PasswordMinLength p > 256
      then Inl (ErrPolicy ''password_min_length must be within [8, 256]'')
      else if LockoutThreshold p < 3 \<or> LockoutThreshold p > 20
      then Inl (ErrPolicy ''lockout_threshold must be within [3, 20]'')
      else if LockoutDuration p < minute \<or> LockoutDuration p > hour
      then Inl (ErrPolicy ''lockout_duration must be within [1m, 1h]'')
      else Inr ())"

text \<open>
  The policy and the error are both returned: callers that ignore the error use the policy as it
  is, the zero policy when the JSON does not decode.
\<close>

definition ParsePolicy :: "policy_json \<Rightarrow> bool \<Rightarrow> policy \<times> unit result" where
  "ParsePolicy raw platform =
     (case (case raw of
              NoBytes \<Rightarrow> Inr DefaultPolicy
            | BadJSON e \<Rightarrow> Inl e
            | Document j \<Rightarrow> unmarshal_policy j DefaultPolicy) of
        Inl e \<Rightarrow> (zero_policy, Inl (ErrPolicy e))
      | Inr p \<Rightarrow>
          let p = (if platform then p\<lparr>MFARequired := True\<rparr> else p)
          in (p, Validate p))"

text \<open>\<open>json.Marshal\<close> writes every field in the order of the struct.\<close>

definition Policy_JSON :: "policy \<Rightarrow> policy_json" where
  "Policy_JSON p =
     Document (JObject
       [(''session_lifetime'', Duration_MarshalJSON (SessionLifetime p)), (''idle_timeout'', Duration_MarshalJSON (IdleTimeout p)),
        (''access_token_lifetime'', Duration_MarshalJSON (AccessTokenLifetime p)),
        (''password_min_length'', JNumber (FormatInt (PasswordMinLength p))), (''mfa_required'', JBool (MFARequired p)),
        (''lockout_threshold'', JNumber (FormatInt (LockoutThreshold p))),
        (''lockout_duration'', Duration_MarshalJSON (LockoutDuration p))])"

section \<open>Slugs\<close>

definition slugRE :: "string \<Rightarrow> bool" where
  "slugRE =
     match_label (\<lambda>c. is_az c \<or> is_09 c) (\<lambda>c. is_az c \<or> is_09 c \<or> c = CHR ''-'') 61"

definition reserved :: "string list" where
  "reserved =
     [''api'', ''www'', ''admin'', ''operator'', ''auth'', ''static'', ''assets'', ''login'']"

definition ParseSlug :: "string \<Rightarrow> string result" where
  "ParseSlug s = (if \<not> slugRE s then Inl ErrBadSlug else if s \<in> set reserved then Inl ErrBadSlug else Inr s)"

definition trim_suffix :: "string \<Rightarrow> string \<Rightarrow> string" where
  "trim_suffix suf s = (case cut_suffix suf s of None \<Rightarrow> s | Some t \<Rightarrow> t)"

text \<open>
  \<open>ul\<close> is the Unicode lower-casing of non-ASCII text, \<open>etld1\<close> the public-suffix library's
  \<open>EffectiveTLDPlusOne\<close>.
\<close>

definition SlugFromEmail ::
    "(string \<Rightarrow> string) \<Rightarrow> (string \<Rightarrow> string result) \<Rightarrow> string \<Rightarrow> string result" where
  "SlugFromEmail ul etld1 email0 =
     (let email = to_lower ul (trim_space email0) in
      case index_byte (CHR ''@'') email of
        None \<Rightarrow> Inl ErrBadSlug
      | Some at \<Rightarrow>
          if at = 0 \<or> Some at \<noteq> last_index_byte (CHR ''@'') email then Inl ErrBadSlug
          else
            let domain = trim_suffix ''.'' (drop (at + 1) email) in
            if domain = '''' \<or> contains_any domain ''[]:'' then Inl ErrBadSlug
            else
              (case etld1 domain of
                 Inl _ \<Rightarrow> Inl ErrBadSlug
               | Inr reg \<Rightarrow>
                   ParseSlug (case cut_byte (CHR ''.'') reg of None \<Rightarrow> reg | Some (l, _) \<Rightarrow> l)))"

definition Lookup ::
    "(string \<Rightarrow> string) \<Rightarrow> (string \<Rightarrow> string result) \<Rightarrow> (string \<Rightarrow> 't result) \<Rightarrow> 't result
     \<Rightarrow> string \<Rightarrow> string \<Rightarrow> 't result" where
  "Lookup ul etld1 bySlug sole given email =
     (if trim_space given \<noteq> '''' then
        (case ParseSlug given of Inl e \<Rightarrow> Inl e | Inr slug \<Rightarrow> bySlug slug)
      else
        (case SlugFromEmail ul etld1 email of
           Inl _ \<Rightarrow> sole
         | Inr slug \<Rightarrow> if bySlug slug = Inl ErrNotFound then sole else bySlug slug))"

section \<open>Lemmas\<close>

text \<open>The documented ranges.\<close>

definition policy_ok :: "policy \<Rightarrow> bool" where
  "policy_ok p \<longleftrightarrow>
     0 < SessionLifetime p \<and> SessionLifetime p \<le> 24 * hour
     \<and> 0 < IdleTimeout p \<and> IdleTimeout p \<le> SessionLifetime p
     \<and> 0 < AccessTokenLifetime p \<and> AccessTokenLifetime p \<le> 15 * minute
     \<and> 8 \<le> PasswordMinLength p \<and> PasswordMinLength p \<le> 256
     \<and> 3 \<le> LockoutThreshold p \<and> LockoutThreshold p \<le> 20
     \<and> minute \<le> LockoutDuration p \<and> LockoutDuration p \<le> hour"

lemma Validate_ok_iff: "Validate p = Inr () \<longleftrightarrow> policy_ok p"
  by (auto simp: Validate_def policy_ok_def policy_limits)

lemma policy_ok_MFA [simp]: "policy_ok (p\<lparr>MFARequired := b\<rparr>) = policy_ok p"
  by (simp add: policy_ok_def)

lemma ParsePolicy_ok: "ParsePolicy raw platform = (p, Inr ()) \<Longrightarrow> policy_ok p"
  by (auto simp: ParsePolicy_def Let_def Validate_ok_iff split: sum.splits)

lemma ParsePolicy_platform: "ParsePolicy raw True = (p, Inr ()) \<Longrightarrow> MFARequired p"
  by (auto simp: ParsePolicy_def Let_def split: sum.splits)

lemma Duration_codec [simp]: "int64 d \<Longrightarrow> Duration_UnmarshalJSON (Duration_MarshalJSON d) = Inr d"
  by (simp add: Duration_UnmarshalJSON_def Duration_MarshalJSON_def ParseDuration_String)

lemma decode_int_FormatInt [simp]: "int64 n \<Longrightarrow> decode_int (JNumber (FormatInt n)) m = Inr n"
  by (simp add: decode_int_def)

lemma policy_ok_int64:
  assumes "policy_ok p"
  shows "int64 (SessionLifetime p)" "int64 (IdleTimeout p)" "int64 (AccessTokenLifetime p)" "int64 (PasswordMinLength p)"
    "int64 (LockoutThreshold p)" "int64 (LockoutDuration p)"
  using assms by (auto simp: policy_ok_def int64_def time_units)

lemma field_of_name [simp]: "f \<in> set policy_fields \<Longrightarrow> field_of f = Some f"
  by (simp add: field_of_def)

lemma unmarshal_JSON:
  assumes "policy_ok p" shows "\<exists>j. Policy_JSON p = Document j \<and> unmarshal_policy j q = Inr p"
  using policy_ok_int64 [OF assms]
  by (simp add: Policy_JSON_def unmarshal_policy_def policy_fields_def decode_field_def stopping_def passing_def decode_bool_def)

lemma ParsePolicy_JSON:
  assumes "policy_ok p"
  shows "ParsePolicy (Policy_JSON p) platform = (let q = (if platform then p\<lparr>MFARequired := True\<rparr> else p) in (q, Inr ()))"
  using unmarshal_JSON [OF assms, of DefaultPolicy] assms by (auto simp: ParsePolicy_def Let_def Validate_ok_iff)

lemma DefaultPolicy_ok: "policy_ok DefaultPolicy"
  by (simp add: policy_ok_def DefaultPolicy_def time_units)

lemma ParseSlug_Inr_iff: "ParseSlug s = Inr t \<longleftrightarrow> t = s \<and> slugRE s \<and> s \<notin> set reserved"
  by (auto simp: ParseSlug_def)

lemma SlugFromEmail_slug:
  "SlugFromEmail ul etld1 e = Inr s \<Longrightarrow> slugRE s \<and> s \<notin> set reserved"
  by (auto simp: SlugFromEmail_def Let_def ParseSlug_Inr_iff split: option.splits if_splits sum.splits)

text \<open>
  C36: a policy that \<open>ParsePolicy\<close> accepts is within every documented range (so the idle timeout never
  exceeds the session lifetime and lockout always has a threshold of at least three attempts), a
  platform tenant always requires a second factor, and storing an accepted policy and parsing it
  again gives the same policy.  The stored form is the text that \<open>time.Duration.String\<close> writes for each
  duration, and the last part says that \<open>UnmarshalJSON\<close> reads every 64-bit duration back from what
  \<open>MarshalJSON\<close> writes for it.
\<close>

theorem ParsePolicy_sound:
  assumes "ParsePolicy raw platform = (p, Inr ())"
  shows "policy_ok p \<and> (platform \<longrightarrow> MFARequired p)
    \<and> ParsePolicy (Policy_JSON p) platform = (p, Inr ())
    \<and> (\<forall>d. int64 d \<longrightarrow> Duration_UnmarshalJSON (Duration_MarshalJSON d) = Inr d)"
proof -
  have ok: "policy_ok p"
    using assms by (rule ParsePolicy_ok)
  have mfa: "platform \<longrightarrow> MFARequired p"
    using assms by (auto dest: ParsePolicy_platform)
  have "(if platform then p\<lparr>MFARequired := True\<rparr> else p) = p"
    using mfa by (cases p) auto
  with ok mfa show ?thesis
    by (simp add: ParsePolicy_JSON Let_def)
qed

text \<open>A document that sets three of the fields, one of them under another spelling.\<close>

definition demo_policy_document :: policy_json where
  "demo_policy_document =
     Document (JObject [(''session_lifetime'', JString ''1h30m''), (''Idle_Timeout'', JString ''0.5h''), (''lockout_threshold'', JNumber ''5'')])"

definition demo_policy :: policy where
  "demo_policy =
     \<lparr>SessionLifetime = 5400000000000, IdleTimeout = 1800000000000, AccessTokenLifetime = 900000000000, PasswordMinLength = 12,
      MFARequired = True, LockoutThreshold = 5, LockoutDuration = 900000000000\<rparr>"

lemma demo_policy_parsed: "ParsePolicy demo_policy_document True = (demo_policy, Inr ())"
  by code_simp

theorem ParsePolicy_sound_witness:
  "ParsePolicy demo_policy_document True = (demo_policy, Inr ()) \<and> policy_ok demo_policy
   \<and> ParsePolicy (Policy_JSON demo_policy) True = (demo_policy, Inr ())
   \<and> Duration_UnmarshalJSON (Duration_MarshalJSON 5400000000001) = Inr 5400000000001"
  using ParsePolicy_sound [OF demo_policy_parsed] demo_policy_parsed by (simp add: int64_def)

end
