(* ===== verification/Permref.thy ===== *)
theory Permref
  imports Auth_Prelude
begin

text \<open>
  The grammar of module-scoped permissions, \<open>internal/permref/permref.go\<close>: references
  \<open>module:resource:action\<close> and the legacy \<open>resource:action\<close>, their OpenFGA object identifiers,
  the module named by a SPIFFE identity, and the slugs of roles.  Every function of the file is
  modelled.  The lemmas characterise each parser exactly (a parser accepts precisely what the
  printer prints), so references, objects and role slugs of different tenants, modules and origins
  never collide.
\<close>

section \<open>Definitions\<close>

definition moduleRE :: "string \<Rightarrow> bool" where
  "moduleRE = match_name is_az (\<lambda>c. is_az c \<or> is_09 c \<or> c = CHR ''-'') 31"

definition resourceRE :: "string \<Rightarrow> bool" where
  "resourceRE = match_name is_az (\<lambda>c. is_az c \<or> is_09 c \<or> c = CHR ''_'' \<or> c = CHR ''-'') 63"

definition actionRE :: "string \<Rightarrow> bool" where
  "actionRE = match_name is_az (\<lambda>c. is_az c \<or> is_09 c \<or> c = CHR ''_'' \<or> c = CHR ''-'') 31"

definition defSlugRE :: "string \<Rightarrow> bool" where
  "defSlugRE =
     match_label (\<lambda>c. is_az c \<or> is_09 c) (\<lambda>c. is_az c \<or> is_09 c \<or> c = CHR ''-'') 30"

definition customRE :: "string \<Rightarrow> bool" where
  "customRE =
     match_label (\<lambda>c. is_az c \<or> is_09 c) (\<lambda>c. is_az c \<or> is_09 c \<or> c = CHR ''-'') 61"

definition tenantRE :: "string \<Rightarrow> bool" where
  "tenantRE = match_uuid"

definition ValidModule :: "string \<Rightarrow> bool" where
  "ValidModule s = moduleRE s"

definition ValidResource :: "string \<Rightarrow> bool" where
  "ValidResource s = resourceRE s"

definition ValidAction :: "string \<Rightarrow> bool" where
  "ValidAction s = actionRE s"

definition ValidRoleDefSlug :: "string \<Rightarrow> bool" where
  "ValidRoleDefSlug s = defSlugRE s"

text \<open>A permission; an empty module is a legacy permission.\<close>

record perm_ref =
  ref_module :: string
  ref_resource :: string
  ref_action :: string

definition IsLegacy :: "perm_ref \<Rightarrow> bool" where
  "IsLegacy r \<longleftrightarrow> ref_module r = ''''"

definition Short :: "perm_ref \<Rightarrow> string" where
  "Short r = ref_resource r @ '':'' @ ref_action r"

definition Ref_String :: "perm_ref \<Rightarrow> string" where
  "Ref_String r = (if IsLegacy r then Short r else ref_module r @ '':'' @ Short r)"

definition WithModule :: "perm_ref \<Rightarrow> string \<Rightarrow> perm_ref" where
  "WithModule r m =
     \<lparr>ref_module = m, ref_resource = ref_resource r, ref_action = ref_action r\<rparr>"

definition Object :: "perm_ref \<Rightarrow> string \<Rightarrow> string" where
  "Object r tid =
     (if IsLegacy r then ''permission:'' @ tid @ ''/'' @ ref_resource r @ ''~'' @ ref_action r
      else ''permission:'' @ tid @ ''/'' @ ref_module r @ ''~'' @ ref_resource r @ ''~'' @ ref_action r)"

definition build :: "string \<Rightarrow> string \<Rightarrow> string \<Rightarrow> perm_ref result" where
  "build module res act =
     (if (module \<noteq> '''' \<and> \<not> ValidModule module) \<or> \<not> ValidResource res \<or> \<not> ValidAction act
      then Inl ErrMalformed
      else Inr \<lparr>ref_module = module, ref_resource = res, ref_action = act\<rparr>)"

definition Parse :: "string \<Rightarrow> perm_ref result" where
  "Parse s =
     (case split_on (CHR '':'') s of
        [m, r, a] \<Rightarrow> if m = '''' then Inl ErrMalformed else build m r a
      | _ \<Rightarrow> Inl ErrMalformed)"

definition ParseLegacy :: "string \<Rightarrow> perm_ref result" where
  "ParseLegacy s =
     (case split_on (CHR '':'') s of [r, a] \<Rightarrow> build '''' r a | _ \<Rightarrow> Inl ErrMalformed)"

definition ParseAny :: "string \<Rightarrow> perm_ref result" where
  "ParseAny s = (if count_list s (CHR '':'') = 2 then Parse s else ParseLegacy s)"

definition Qualify :: "string \<Rightarrow> string \<Rightarrow> perm_ref result" where
  "Qualify module short =
     (case ParseLegacy short of
        Inl _ \<Rightarrow> Inl ErrMalformed
      | Inr r \<Rightarrow> if \<not> ValidModule module then Inl ErrMalformed else Inr (WithModule r module))"

definition ParseObject :: "string \<Rightarrow> (string \<times> perm_ref) result" where
  "ParseObject obj =
     (case cut_prefix ''permission:'' obj of
        None \<Rightarrow> Inl ErrMalformed
      | Some rest \<Rightarrow>
          (case cut_byte (CHR ''/'') rest of
             None \<Rightarrow> Inl ErrMalformed
           | Some (tid, name) \<Rightarrow>
               if \<not> tenantRE tid then Inl ErrMalformed
               else
                 (case (case split_on (CHR ''~'') name of
                          [r, a] \<Rightarrow> build '''' r a
                        | [m, r, a] \<Rightarrow> if m = '''' then Inl ErrMalformed else build m r a
                        | _ \<Rightarrow> Inl ErrMalformed) of
                    Inl e \<Rightarrow> Inl e
                  | Inr r \<Rightarrow> Inr (tid, r))))"

definition ModuleFromSPIFFE :: "string \<Rightarrow> string result" where
  "ModuleFromSPIFFE ident =
     (case cut_prefix ''spiffe://'' ident of
        None \<Rightarrow> Inl ErrMalformed
      | Some rest \<Rightarrow>
          (case cut_byte (CHR ''/'') rest of
             None \<Rightarrow> Inl ErrMalformed
           | Some (td, path) \<Rightarrow>
               if td = '''' then Inl ErrMalformed
               else
                 (case cut_prefix ''svc/'' path of
                    None \<Rightarrow> Inl ErrMalformed
                  | Some name \<Rightarrow> if \<not> ValidModule name then Inl ErrMalformed else Inr name)))"

definition ModuleRoleSlug :: "string \<Rightarrow> string \<Rightarrow> string result" where
  "ModuleRoleSlug module slug =
     (if \<not> ValidModule module \<or> \<not> ValidRoleDefSlug slug then Inl ErrMalformed
      else Inr (''m.'' @ module @ ''.'' @ slug))"

definition ParseModuleRoleSlug :: "string \<Rightarrow> (string \<times> string) option" where
  "ParseModuleRoleSlug s =
     (case split_on (CHR ''.'') s of
        [p, m, d] \<Rightarrow>
          if p \<noteq> ''m'' \<or> \<not> ValidModule m \<or> \<not> ValidRoleDefSlug d then None else Some (m, d)
      | _ \<Rightarrow> None)"

definition ReservedSlugs :: "string list" where
  "ReservedSlugs = [''owner'', ''admin'', ''member'', ''auditor'', ''operator'']"

definition IsReserved :: "string \<Rightarrow> bool" where
  "IsReserved slug \<longleftrightarrow> list_ex (\<lambda>s. s = slug) ReservedSlugs"

definition ParseCustomSlug :: "string \<Rightarrow> string result" where
  "ParseCustomSlug s = (if \<not> customRE s \<or> IsReserved s then Inl ErrMalformed else Inr s)"

section \<open>Well-formed references\<close>

text \<open>The references the grammar can produce.\<close>

definition valid_ref :: "perm_ref \<Rightarrow> bool" where
  "valid_ref r \<longleftrightarrow>
     (ref_module r = '''' \<or> ValidModule (ref_module r))
     \<and> ValidResource (ref_resource r) \<and> ValidAction (ref_action r)"

lemmas name_defs =
  ValidModule_def ValidResource_def ValidAction_def ValidRoleDefSlug_def
  moduleRE_def resourceRE_def actionRE_def defSlugRE_def customRE_def tenantRE_def

lemma ValidModule_notin:
  "ValidModule s \<Longrightarrow> \<not> is_az c \<Longrightarrow> \<not> is_09 c \<Longrightarrow> c \<noteq> CHR ''-'' \<Longrightarrow> c \<notin> set s"
  unfolding name_defs by (erule match_name_notin) auto

lemma ValidResource_notin:
  "ValidResource s \<Longrightarrow> \<not> is_az c \<Longrightarrow> \<not> is_09 c \<Longrightarrow> c \<noteq> CHR ''_'' \<Longrightarrow> c \<noteq> CHR ''-'' \<Longrightarrow> c \<notin> set s"
  unfolding name_defs by (erule match_name_notin) auto

lemma ValidAction_notin:
  "ValidAction s \<Longrightarrow> \<not> is_az c \<Longrightarrow> \<not> is_09 c \<Longrightarrow> c \<noteq> CHR ''_'' \<Longrightarrow> c \<noteq> CHR ''-'' \<Longrightarrow> c \<notin> set s"
  unfolding name_defs by (erule match_name_notin) auto

lemma ValidRoleDefSlug_notin:
  "ValidRoleDefSlug s \<Longrightarrow> \<not> is_az c \<Longrightarrow> \<not> is_09 c \<Longrightarrow> c \<noteq> CHR ''-'' \<Longrightarrow> c \<notin> set s"
  unfolding name_defs by (erule match_label_notin) auto

text \<open>None of the separators occurs in a name.\<close>

lemma separators_excluded [simp]:
  "ValidModule s \<Longrightarrow> CHR '':'' \<notin> set s" "ValidModule s \<Longrightarrow> CHR ''~'' \<notin> set s"
  "ValidModule s \<Longrightarrow> CHR ''.'' \<notin> set s" "ValidModule s \<Longrightarrow> CHR ''/'' \<notin> set s"
  "ValidResource s \<Longrightarrow> CHR '':'' \<notin> set s" "ValidResource s \<Longrightarrow> CHR ''~'' \<notin> set s"
  "ValidAction s \<Longrightarrow> CHR '':'' \<notin> set s" "ValidAction s \<Longrightarrow> CHR ''~'' \<notin> set s"
  "ValidRoleDefSlug s \<Longrightarrow> CHR ''.'' \<notin> set s"
  by (erule ValidModule_notin ValidResource_notin ValidAction_notin ValidRoleDefSlug_notin;
      simp add: char_classes)+

lemma valid_names_nonempty [simp]:
  "ValidModule s \<Longrightarrow> s \<noteq> ''''" "ValidResource s \<Longrightarrow> s \<noteq> ''''" "ValidAction s \<Longrightarrow> s \<noteq> ''''"
  by (auto simp: name_defs dest: match_name_neq_Nil)

lemma tenantRE_no_slash [simp]: "tenantRE t \<Longrightarrow> CHR ''/'' \<notin> set t"
  unfolding tenantRE_def by (erule match_uuid_notin) (simp_all add: char_classes)

lemma build_Inr_iff:
  "build m r a = Inr p \<longleftrightarrow>
     valid_ref p \<and> p = \<lparr>ref_module = m, ref_resource = r, ref_action = a\<rparr>"
  by (auto simp: build_def valid_ref_def)

lemma valid_ref_parts:
  assumes "valid_ref p"
  shows "CHR '':'' \<notin> set (ref_module p)" "CHR '':'' \<notin> set (ref_resource p)"
    "CHR '':'' \<notin> set (ref_action p)" "CHR ''~'' \<notin> set (ref_module p)"
    "CHR ''~'' \<notin> set (ref_resource p)" "CHR ''~'' \<notin> set (ref_action p)"
  using assms by (auto simp: valid_ref_def)

section \<open>Each parser accepts exactly what the printer prints\<close>

lemma split_on_two_iff:
  "split_on c s = [a, b] \<longleftrightarrow> s = a @ c # b \<and> c \<notin> set a \<and> c \<notin> set b"
proof
  assume l: "split_on c s = [a, b]"
  then have "c \<notin> set a" "c \<notin> set b"
    using split_on_pieces [of _ c s] by auto
  moreover from l have "s @ [c] = (a @ c # b) @ [c]"
    using concat_split_on [of c s] by simp
  ultimately show "s = a @ c # b \<and> c \<notin> set a \<and> c \<notin> set b" by blast
qed (simp add: go_simps)

lemma split_on_three_iff:
  "split_on c s = [a, b, d] \<longleftrightarrow>
     s = a @ c # b @ c # d \<and> c \<notin> set a \<and> c \<notin> set b \<and> c \<notin> set d"
proof
  assume l: "split_on c s = [a, b, d]"
  then have "c \<notin> set a" "c \<notin> set b" "c \<notin> set d"
    using split_on_pieces [of _ c s] by auto
  moreover from l have "s @ [c] = (a @ c # b @ c # d) @ [c]"
    using concat_split_on [of c s] by simp
  ultimately show "s = a @ c # b @ c # d \<and> c \<notin> set a \<and> c \<notin> set b \<and> c \<notin> set d"
    by blast
qed (simp add: go_simps)

lemma Parse_Inr_iff:
  "Parse s = Inr p \<longleftrightarrow> valid_ref p \<and> \<not> IsLegacy p \<and> s = Ref_String p"
proof
  assume "Parse s = Inr p"
  then obtain m r a where sp: "split_on (CHR '':'') s = [m, r, a]" and "m \<noteq> ''''"
    and b: "build m r a = Inr p"
    by (auto simp: Parse_def split: list.splits if_splits)
  with sp [unfolded split_on_three_iff] show "valid_ref p \<and> \<not> IsLegacy p \<and> s = Ref_String p"
    by (auto simp: build_Inr_iff IsLegacy_def Ref_String_def Short_def)
next
  assume p: "valid_ref p \<and> \<not> IsLegacy p \<and> s = Ref_String p"
  then have "split_on (CHR '':'') s = [ref_module p, ref_resource p, ref_action p]"
    by (simp add: split_on_three_iff Ref_String_def Short_def valid_ref_parts)
  with p show "Parse s = Inr p"
    by (auto simp: Parse_def build_Inr_iff IsLegacy_def)
qed

lemma ParseLegacy_Inr_iff:
  "ParseLegacy s = Inr p \<longleftrightarrow> valid_ref p \<and> IsLegacy p \<and> s = Ref_String p"
proof
  assume "ParseLegacy s = Inr p"
  then obtain r a where sp: "split_on (CHR '':'') s = [r, a]" and b: "build '''' r a = Inr p"
    by (auto simp: ParseLegacy_def split: list.splits)
  with sp [unfolded split_on_two_iff] show "valid_ref p \<and> IsLegacy p \<and> s = Ref_String p"
    by (auto simp: build_Inr_iff IsLegacy_def Ref_String_def Short_def)
next
  assume p: "valid_ref p \<and> IsLegacy p \<and> s = Ref_String p"
  then have "split_on (CHR '':'') s = [ref_resource p, ref_action p]"
    by (simp add: split_on_two_iff Ref_String_def Short_def valid_ref_parts)
  with p show "ParseLegacy s = Inr p"
    by (auto simp: ParseLegacy_def build_Inr_iff IsLegacy_def)
qed

lemma count_colons:
  "valid_ref p \<Longrightarrow> count_list (Ref_String p) (CHR '':'') = (if IsLegacy p then 1 else 2)"
  using count_split_on [of "CHR '':''" "Ref_String p"]
  by (auto simp: Ref_String_def Short_def go_simps valid_ref_parts)

lemma ParseAny_Inr_iff: "ParseAny s = Inr r \<longleftrightarrow> valid_ref r \<and> s = Ref_String r"
  by (auto simp: ParseAny_def Parse_Inr_iff ParseLegacy_Inr_iff count_colons split: if_splits)

lemma Qualify_Inr_iff:
  "Qualify m s = Inr p \<longleftrightarrow>
     ValidModule m \<and> ref_module p = m \<and> valid_ref p \<and> s = Short p"
proof
  assume "Qualify m s = Inr p"
  then obtain q where q: "ParseLegacy s = Inr q" "ValidModule m" "p = WithModule q m"
    by (auto simp: Qualify_def split: sum.splits if_splits)
  then show "ValidModule m \<and> ref_module p = m \<and> valid_ref p \<and> s = Short p"
    by (auto simp: ParseLegacy_Inr_iff IsLegacy_def Ref_String_def WithModule_def valid_ref_def
        Short_def)
next
  assume p: "ValidModule m \<and> ref_module p = m \<and> valid_ref p \<and> s = Short p"
  then have "ParseLegacy s = Inr (p\<lparr>ref_module := ''''\<rparr>)"
    by (auto simp: ParseLegacy_Inr_iff IsLegacy_def Ref_String_def valid_ref_def Short_def)
  with p show "Qualify m s = Inr p"
    by (auto simp: Qualify_def WithModule_def)
qed

lemma ParseObject_Inr_iff:
  "ParseObject obj = Inr (tid, r) \<longleftrightarrow> tenantRE tid \<and> valid_ref r \<and> obj = Object r tid"
proof
  assume l: "ParseObject obj = Inr (tid, r)"
  then obtain rest where rest: "cut_prefix ''permission:'' obj = Some rest"
    by (cases "cut_prefix ''permission:'' obj") (simp_all add: ParseObject_def)
  with l obtain t name where cut: "cut_byte (CHR ''/'') rest = Some (t, name)"
    by (cases "cut_byte (CHR ''/'') rest") (auto simp: ParseObject_def)
  with l rest have t: "tenantRE tid" and tid: "t = tid"
    and p: "(case split_on (CHR ''~'') name of
               [r, a] \<Rightarrow> build '''' r a
             | [m, r, a] \<Rightarrow> if m = '''' then Inl ErrMalformed else build m r a
             | _ \<Rightarrow> Inl ErrMalformed) = Inr r"
    by (simp_all add: ParseObject_def split: if_splits sum.splits)
  from rest cut have obj: "obj = ''permission:'' @ tid @ ''/'' @ name"
    by (simp add: cut_prefix_Some_iff cut_byte_Some_iff tid)
  from p consider
      (legacy) s a where "split_on (CHR ''~'') name = [s, a]" "build '''' s a = Inr r"
    | (scoped) m s a where "split_on (CHR ''~'') name = [m, s, a]" "m \<noteq> ''''" "build m s a = Inr r"
    by (auto split: list.splits if_splits)
  then show "tenantRE tid \<and> valid_ref r \<and> obj = Object r tid"
  proof cases
    case legacy
    then show ?thesis
      using obj t by (auto simp: split_on_two_iff build_Inr_iff Object_def IsLegacy_def)
  next
    case scoped
    then show ?thesis
      using obj t by (auto simp: split_on_three_iff build_Inr_iff Object_def IsLegacy_def)
  qed
next
  assume a: "tenantRE tid \<and> valid_ref r \<and> obj = Object r tid"
  let ?name = "(if IsLegacy r then '''' else ref_module r @ ''~'') @ ref_resource r @ ''~'' @ ref_action r"
  have b: "build (ref_module r) (ref_resource r) (ref_action r) = Inr r"
    using a by (simp add: build_Inr_iff)
  have "cut_prefix ''permission:'' obj = Some (tid @ CHR ''/'' # ?name)"
    using a by (simp add: cut_prefix_Some_iff Object_def)
  moreover have "cut_byte (CHR ''/'') (tid @ CHR ''/'' # ?name) = Some (tid, ?name)"
    using a by (intro cut_byte_append) simp
  moreover have "split_on (CHR ''~'') ?name =
      (if IsLegacy r then [] else [ref_module r]) @ [ref_resource r, ref_action r]"
    using a by (simp add: split_on_two_iff split_on_three_iff valid_ref_parts)
  ultimately show "ParseObject obj = Inr (tid, r)"
    using a b by (cases "ref_module r = ''''") (simp_all add: ParseObject_def IsLegacy_def)
qed

lemma Object_inj:
  assumes "tenantRE t" "tenantRE t'" "valid_ref r" "valid_ref r'" "Object r t = Object r' t'"
  shows "t = t' \<and> r = r'"
  using assms ParseObject_Inr_iff [of "Object r t" t r] ParseObject_Inr_iff [of "Object r' t'" t' r']
  by simp

lemma Ref_String_inj:
  assumes "valid_ref r" "valid_ref r'" "Ref_String r = Ref_String r'"
  shows "r = r'"
  using assms ParseAny_Inr_iff [of "Ref_String r" r] ParseAny_Inr_iff [of "Ref_String r'" r']
  by simp

lemma ParseModuleRoleSlug_iff: "ParseModuleRoleSlug s = Some (m, d) \<longleftrightarrow> ModuleRoleSlug m d = Inr s"
proof
  assume "ParseModuleRoleSlug s = Some (m, d)"
  then have "split_on (CHR ''.'') s = [''m'', m, d]" "ValidModule m" "ValidRoleDefSlug d"
    by (auto simp: ParseModuleRoleSlug_def split: list.splits if_splits)
  then show "ModuleRoleSlug m d = Inr s"
    by (auto simp: ModuleRoleSlug_def split_on_three_iff)
next
  assume "ModuleRoleSlug m d = Inr s"
  then have s: "s = ''m'' @ CHR ''.'' # m @ CHR ''.'' # d" and v: "ValidModule m" "ValidRoleDefSlug d"
    by (auto simp: ModuleRoleSlug_def split: if_splits)
  have "split_on (CHR ''.'') s = [''m'', m, d]"
    unfolding split_on_three_iff using s v by simp
  with v show "ParseModuleRoleSlug s = Some (m, d)"
    by (simp add: ParseModuleRoleSlug_def)
qed

lemma customRE_no_dot: "customRE s \<Longrightarrow> CHR ''.'' \<notin> set s"
  unfolding customRE_def by (erule match_label_notin) (simp_all add: char_classes)

lemma ModuleRoleSlug_dot: "ModuleRoleSlug m d = Inr s \<Longrightarrow> CHR ''.'' \<in> set s"
  by (auto simp: ModuleRoleSlug_def split: if_splits)

section \<open>Properties\<close>

text \<open>
  C38: parsing a permission reference and printing it are inverse.  \<open>ParseAny\<close> accepts a text iff
  it is the rendering of a well-formed reference, and returns exactly that reference; so two
  different references never have the same text, and no text outside the grammar is accepted.
\<close>

theorem ParseAny_roundtrip: "ParseAny s = Inr r \<longleftrightarrow> valid_ref r \<and> s = Ref_String r"
  by (rule ParseAny_Inr_iff)

text \<open>
  C39: object identifiers determine their tenant and permission.  \<open>ParseObject\<close> accepts an
  identifier iff it is the object of a well-formed reference in a tenant with a UUID, and recovers
  both; so no permission object of one tenant is ever read as an object of another tenant or of
  another module.
\<close>

theorem ParseObject_roundtrip:
  "ParseObject obj = Inr (tid, r) \<longleftrightarrow> tenantRE tid \<and> valid_ref r \<and> obj = Object r tid"
  by (rule ParseObject_Inr_iff)

text \<open>
  C40: the slug space of module roles is separate.  \<open>ParseModuleRoleSlug\<close> inverts
  \<open>ModuleRoleSlug\<close>, and no slug of a module role is accepted as the slug of a custom role, so an
  administrator can never create a custom role that a module's synchronisation would take for its
  own.
\<close>

theorem module_role_slugs_separate:
  "(ParseModuleRoleSlug s = Some (m, d) \<longleftrightarrow> ModuleRoleSlug m d = Inr s)
   \<and> (ParseModuleRoleSlug s = None \<or> ParseCustomSlug s = Inl ErrMalformed)"
proof -
  have "ParseCustomSlug s = Inl ErrMalformed" if "ParseModuleRoleSlug s = Some (m', d')" for m' d'
    using that customRE_no_dot [of s]
    by (auto simp: ParseModuleRoleSlug_iff ParseCustomSlug_def dest: ModuleRoleSlug_dot)
  then have "ParseModuleRoleSlug s = None \<or> ParseCustomSlug s = Inl ErrMalformed"
    by (cases "ParseModuleRoleSlug s") auto
  then show ?thesis
    using ParseModuleRoleSlug_iff by blast
qed

text \<open>
  A SPIFFE identity names a module iff its path is exactly \<open>/svc/<module>\<close> under a non-empty
  trust domain, with a well-formed module name; every other path shape is refused.
\<close>

theorem ModuleFromSPIFFE_exact:
  "ModuleFromSPIFFE ident = Inr m \<longleftrightarrow>
     ValidModule m
     \<and> (\<exists>td. td \<noteq> '''' \<and> CHR ''/'' \<notin> set td \<and> ident = ''spiffe://'' @ td @ ''/svc/'' @ m)"
proof
  assume l: "ModuleFromSPIFFE ident = Inr m"
  then obtain rest where rest: "cut_prefix ''spiffe://'' ident = Some rest"
    by (cases "cut_prefix ''spiffe://'' ident") (simp_all add: ModuleFromSPIFFE_def)
  with l obtain td path where cut: "cut_byte (CHR ''/'') rest = Some (td, path)" "td \<noteq> ''''"
    by (cases "cut_byte (CHR ''/'') rest") (auto simp: ModuleFromSPIFFE_def split: if_splits)
  with l rest have "cut_prefix ''svc/'' path = Some m" "ValidModule m"
    by (cases "cut_prefix ''svc/'' path"; simp add: ModuleFromSPIFFE_def split: if_splits)+
  with rest cut show "ValidModule m
     \<and> (\<exists>td. td \<noteq> '''' \<and> CHR ''/'' \<notin> set td \<and> ident = ''spiffe://'' @ td @ ''/svc/'' @ m)"
    by (auto simp: cut_prefix_Some_iff cut_byte_Some_iff)
next
  assume "ValidModule m
     \<and> (\<exists>td. td \<noteq> '''' \<and> CHR ''/'' \<notin> set td \<and> ident = ''spiffe://'' @ td @ ''/svc/'' @ m)"
  then obtain td where m: "ValidModule m" and td: "td \<noteq> ''''" "CHR ''/'' \<notin> set td"
    and i: "ident = ''spiffe://'' @ td @ CHR ''/'' # ''svc/'' @ m" by auto
  have "cut_prefix ''spiffe://'' ident = Some (td @ CHR ''/'' # ''svc/'' @ m)"
    unfolding i by (rule cut_prefix_append)
  moreover have "cut_byte (CHR ''/'') (td @ CHR ''/'' # ''svc/'' @ m) = Some (td, ''svc/'' @ m)"
    using td(2) by (rule cut_byte_append)
  moreover have "cut_prefix ''svc/'' (''svc/'' @ m) = Some m"
    by (rule cut_prefix_append)
  ultimately show "ModuleFromSPIFFE ident = Inr m"
    using m td(1) by (simp add: ModuleFromSPIFFE_def)
qed

end
