(* ===== verification/Store_Model.thy ===== *)
theory Store_Model
  imports Tenant_Policy Permref
begin

text \<open>
  The rows of \<open>models.go\<close>, \<open>webauthn.go\<close> and \<open>directory.go\<close> of \<open>internal/store\<close> as records.  Pointers are
  options, byte slices are strings, the tenant's policy column is its JSON content.  The two fields
  of \<open>User\<close> that only list queries fill (\<open>Directory\<close>, \<open>InvitationID\<close>) are left out.
\<close>

record tenant =
  tn_ID :: string
  tn_Slug :: string
  tn_DisplayName :: string
  tn_Status :: string
  tn_Kind :: string
  tn_Policy :: policy_json
  tn_CreatedAt :: time
  tn_UpdatedAt :: time

record user =
  us_ID :: string
  us_TenantID :: string
  us_Email :: string
  us_DisplayName :: string
  us_Status :: string
  us_PasswordHash :: "string option"
  us_PasswordChangedAt :: "time option"
  us_MFAEnabled :: bool
  us_MFASecretEnc :: string
  us_MFALastCounter :: int
  us_CreatedAt :: time
  us_UpdatedAt :: time
  us_LastSigninAt :: "time option"
  us_FirstName :: string
  us_LastName :: string
  us_Phone :: string
  us_AvatarID :: "string option"
  us_DisplayNameExplicit :: bool
  us_ProfileUpdatedAt :: "time option"

record profile_patch =
  pp_FirstName :: string
  pp_LastName :: string
  pp_Phone :: string
  pp_DisplayName :: string
  pp_DisplayNameExplicit :: bool

record group_row =
  gp_ID :: string
  gp_TenantID :: string
  gp_Name :: string
  gp_Description :: string
  gp_CreatedBy :: "string option"
  gp_CreatedAt :: time
  gp_UpdatedAt :: time

record group_member =
  gm_UserID :: string
  gm_Email :: string
  gm_DisplayName :: string
  gm_Status :: string
  gm_AvatarID :: "string option"
  gm_AddedAt :: time

record effective_role =
  ef_RoleID :: string
  ef_Slug :: string
  ef_Source :: string
  ef_GroupID :: string
  ef_GroupName :: string

definition OriginBuiltin :: string where "OriginBuiltin = ''builtin''"
definition OriginModule :: string where "OriginModule = ''module''"
definition OriginCustom :: string where "OriginCustom = ''custom''"

lemmas origins = OriginBuiltin_def OriginModule_def OriginCustom_def

record role =
  ro_ID :: string
  ro_TenantID :: string
  ro_Slug :: string
  ro_DisplayName :: string
  ro_Builtin :: bool
  ro_CreatedAt :: time
  ro_UpdatedAt :: time
  ro_Origin :: string
  ro_Module :: string
  ro_ModuleSlug :: string
  ro_Description :: string
  ro_RetiredAt :: "time option"

definition OriginOf :: "role \<Rightarrow> string" where
  "OriginOf r =
     (if ro_Origin r \<noteq> '''' then ro_Origin r else if ro_Builtin r then OriginBuiltin else OriginCustom)"

record permission =
  pm_Module :: string
  pm_Resource :: string
  pm_Action :: string
  pm_Description :: string

definition Permission_Ref :: "permission \<Rightarrow> perm_ref" where
  "Permission_Ref p = \<lparr>ref_module = pm_Module p, ref_resource = pm_Resource p, ref_action = pm_Action p\<rparr>"

record module_row =
  mo_Name :: string
  mo_DisplayName :: string
  mo_RegisteredAt :: time
  mo_UpdatedAt :: time
  mo_RetiredAt :: "time option"

record module_permission =
  mp_Module :: string
  mp_Resource :: string
  mp_Action :: string
  mp_Description :: string
  mp_RetiredAt :: "time option"

record module_role_def =
  md_Module :: string
  md_Slug :: string
  md_DisplayName :: string
  md_Description :: string
  md_Permissions :: "string list"
  md_UpdatedAt :: time
  md_RetiredAt :: "time option"

record tenant_module =
  tm_TenantID :: string
  tm_Module :: string
  tm_FirstRegisteredAt :: time
  tm_LegacyMigratedAt :: "time option"

record session =
  ss_ID :: string
  ss_TenantID :: string
  ss_UserID :: string
  ss_SecretHash :: string
  ss_AMR :: "string list"
  ss_CreatedAt :: time
  ss_LastSeen :: time
  ss_ExpiresAt :: time
  ss_IPHash :: string
  ss_UserAgent :: string
  ss_RevokedAt :: "time option"
  ss_RevokedReason :: "string option"

record signing_key =
  sk_KID :: string
  sk_PublicKey :: string
  sk_PrivateEnc :: string
  sk_State :: string
  sk_CreatedAt :: time
  sk_RetiringAt :: "time option"
  sk_RetiredAt :: "time option"

record invitation =
  iv_ID :: string
  iv_TenantID :: string
  iv_Email :: string
  iv_RoleIDs :: "string list"
  iv_GroupIDs :: "string list"
  iv_FirstName :: string
  iv_LastName :: string
  iv_TokenHash :: string
  iv_InvitedBy :: "string option"
  iv_ExpiresAt :: time
  iv_AcceptedAt :: "time option"
  iv_RevokedAt :: "time option"

record recovery_request =
  rr_ID :: string
  rr_TenantID :: string
  rr_UserID :: string
  rr_TokenHash :: string
  rr_ExpiresAt :: time
  rr_UsedAt :: "time option"

record client_application =
  ca_ClientID :: string
  ca_TenantID :: string
  ca_DisplayName :: string
  ca_RedirectURIs :: "string list"
  ca_Public :: bool
  ca_SecretHash :: "string option"

record operator_grant =
  og_ID :: string
  og_OperatorUserID :: string
  og_TenantID :: string
  og_Reason :: string
  og_GrantedAt :: time
  og_ExpiresAt :: time
  og_RevokedAt :: "time option"

record revocation =
  rv_TS :: time
  rv_Kind :: string
  rv_SubjectID :: string
  rv_TenantID :: string
  rv_Reason :: string

record outbox_item =
  ob_ID :: string
  ob_TenantID :: string
  ob_Kind :: string
  ob_ToEmail :: string
  ob_PayloadEnc :: string
  ob_Attempts :: int
  ob_NextAttemptAt :: time

record webauthn_credential =
  wc_ID :: string
  wc_TenantID :: string
  wc_UserID :: string
  wc_CredentialID :: string
  wc_PublicKey :: string
  wc_AAGUID :: string
  wc_SignCount :: int
  wc_Transports :: "string list"
  wc_BackupEligible :: bool
  wc_BackupState :: bool
  wc_Name :: string
  wc_CreatedAt :: time
  wc_LastUsedAt :: "time option"
  wc_CloneFlaggedAt :: "time option"

record avatar =
  av_ID :: string
  av_TenantID :: string
  av_UserID :: string
  av_ContentType :: string
  av_Bytes :: string
  av_CreatedAt :: time

record public_profile =
  pr_ID :: string
  pr_DisplayName :: string
  pr_AvatarID :: "string option"
  pr_Email :: string

record directory_connection =
  dc_ID :: string
  dc_TenantID :: string
  dc_Name :: string
  dc_Kind :: string
  dc_URL :: string
  dc_TLSMode :: string
  dc_AllowTLS12 :: bool
  dc_CAPEM :: string
  dc_BindDN :: string
  dc_BindPasswordEnc :: string
  dc_BaseDN :: string
  dc_BaseFilter :: string
  dc_AttrUID :: string
  dc_AttrEmail :: string
  dc_AttrDisplayName :: string
  dc_AttrFirstName :: string
  dc_AttrLastName :: string
  dc_SizeLimit :: int
  dc_TimeLimitSeconds :: int
  dc_LastTestAt :: "time option"
  dc_LastTestOutcome :: "string option"
  dc_CreatedBy :: "string option"
  dc_UpdatedBy :: "string option"
  dc_CreatedAt :: time
  dc_UpdatedAt :: time

record directory_link =
  dl_UserID :: string
  dl_TenantID :: string
  dl_ConnectionID :: "string option"
  dl_ConnectionName :: string
  dl_DirectoryUID :: string
  dl_DirectoryDN :: string
  dl_FirstImportedAt :: time
  dl_LastImportedAt :: time
  dl_ImportedBy :: "string option"

record imported_profile =
  ip_Email :: string
  ip_DisplayName :: string
  ip_FirstName :: string
  ip_LastName :: string
  ip_DisplayNameExplicit :: bool

text \<open>\<open>store.DisplayNameExplicit\<close>: whether a display name was chosen rather than derived.\<close>

definition DisplayNameExplicit :: "user \<Rightarrow> bool" where
  "DisplayNameExplicit u =
     (if us_DisplayNameExplicit u then True
      else if us_DisplayName u = '''' \<or> us_DisplayName u = us_Email u then False
      else if (case cut_byte (CHR ''@'') (us_Email u) of
                 Some (local, _) \<Rightarrow> us_DisplayName u = local | None \<Rightarrow> False) then False
      else us_FirstName u = '''' \<and> us_LastName u = '''')"

end
