(* ===== verification/Memstore.thy ===== *)
theory Memstore
  imports Store_Model Effects "HOL-Library.Char_ord" "HOL-Library.List_Lexorder"
begin

text \<open>
  The store: \<open>internal/memstore\<close>, the in-memory implementation of the store-facing interfaces of the
  services (its semantics mirror the SQL repositories, tenant scoping included).  Go maps are
  association lists.  Every method is an operation on the record of tables; the clock reading
  (\<open>m.Now ()\<close>) is an argument.  \<open>ul\<close> is the lower-casing of non-ASCII text, \<open>ef\<close> is
  \<open>strings.EqualFold\<close>.
\<close>

section \<open>Tables\<close>

record attempt =
  at_TenantID :: string
  at_UserID :: string
  at_EmailHash :: string
  at_IPHash :: string
  at_Outcome :: string
  at_Reason :: string

record recovery_code =
  rc_hash :: string
  rc_used :: bool

type_synonym 'v table = "(string \<times> 'v) list"

record memstore =
  Tenants :: "tenant table"
  Users :: "user table"
  Sessions :: "session table"
  Revs :: "revocation list"
  RoleMap :: "string list table"
  Attempts :: "attempt list"
  Clients :: "client_application table"
  Invitations :: "invitation table"
  RoleRows :: "role table"
  Bindings :: "string list table"
  RolePerms :: "perm_ref list table"
  Permissions :: "permission list table"
  Outbox :: "outbox_item list"
  Codes :: "recovery_code list table"
  Recoveries :: "recovery_request table"
  Grants :: "operator_grant table"
  gs_groups :: "group_row table"
  gs_members :: "string list table"
  gs_added :: "time table"
  gs_roles :: "string list table"
  wa_keys :: "webauthn_credential list table"
  wa_handles :: "string table"
  gs_avatars :: "avatar table"
  dir_conns :: "directory_connection table"
  dir_links :: "directory_link table"
  mod_modules :: "module_row table"
  mod_perms :: "module_permission table"
  mod_defs :: "module_role_def table"
  mod_tenants :: "tenant_module table"

definition New_Store :: memstore where
  "New_Store =
     \<lparr>Tenants = [], Users = [], Sessions = [], Revs = [], RoleMap = [], Attempts = [], Clients = [],
      Invitations = [], RoleRows = [], Bindings = [], RolePerms = [], Permissions = [], Outbox = [],
      Codes = [], Recoveries = [], Grants = [], gs_groups = [], gs_members = [], gs_added = [],
      gs_roles = [], wa_keys = [], wa_handles = [], gs_avatars = [], dir_conns = [], dir_links = [],
      mod_modules = [], mod_perms = [], mod_defs = [], mod_tenants = []\<rparr>"

text \<open>A Go map of slices: an absent key reads as the empty slice.\<close>

definition get_list :: "'v list table \<Rightarrow> string \<Rightarrow> 'v list" where
  "get_list t k = (case map_of t k of None \<Rightarrow> [] | Some xs \<Rightarrow> xs)"

definition pair_key :: "string \<Rightarrow> string \<Rightarrow> string" where
  "pair_key a b = a @ ''/'' @ b"

definition Store_key :: "(string \<Rightarrow> string) \<Rightarrow> string \<Rightarrow> string \<Rightarrow> string" where
  "Store_key ul tid email = tid @ ''/'' @ to_lower ul email"

text \<open>The first value of a table that satisfies a condition, with its key.\<close>

definition find_row :: "('v \<Rightarrow> bool) \<Rightarrow> 'v table \<Rightarrow> (string \<times> 'v) option" where
  "find_row P t = find (\<lambda>(k, v). P v) t"

definition found :: "'a option \<Rightarrow> 'a result" where
  "found x = (case x of None \<Rightarrow> Inl ErrNotFound | Some a \<Rightarrow> Inr a)"

section \<open>Tenants, clients and operator grants\<close>

definition Store_AddTenant :: "tenant \<Rightarrow> memstore \<Rightarrow> memstore" where
  "Store_AddTenant t m = m\<lparr>Tenants := AList.update (tn_ID t) t (Tenants m)\<rparr>"

definition Store_Client :: "string \<Rightarrow> (memstore, client_application) op" where
  "Store_Client ident m = (found (map_of (Clients m) ident), m)"

definition Store_InsertClient :: "client_application \<Rightarrow> (memstore, unit) op" where
  "Store_InsertClient c m =
     (if map_of (Clients m) (ca_ClientID c) \<noteq> None then (Inl ErrConflict, m)
      else (Inr (), m\<lparr>Clients := AList.update (ca_ClientID c) c (Clients m)\<rparr>))"

definition Store_ListClients :: "string \<Rightarrow> (memstore, client_application list) op" where
  "Store_ListClients tid m = (Inr (filter (\<lambda>c. ca_TenantID c = tid) (map snd (Clients m))), m)"

definition Store_InsertTenant :: "tenant \<Rightarrow> (memstore, unit) op" where
  "Store_InsertTenant t m =
     (if find_row (\<lambda>x. tn_Slug x = tn_Slug t) (Tenants m) \<noteq> None then (Inl ErrConflict, m)
      else (Inr (), m\<lparr>Tenants := AList.update (tn_ID t) t (Tenants m)\<rparr>))"

definition Store_ListTenants :: "(memstore, tenant list) op" where
  "Store_ListTenants m = (Inr (map snd (Tenants m)), m)"

definition Store_UpdateTenantStatus :: "string \<Rightarrow> string \<Rightarrow> (memstore, unit) op" where
  "Store_UpdateTenantStatus ident status m =
     (case map_of (Tenants m) ident of
        None \<Rightarrow> (Inl ErrNotFound, m)
      | Some t \<Rightarrow> (Inr (), m\<lparr>Tenants := AList.update ident (t\<lparr>tn_Status := status\<rparr>) (Tenants m)\<rparr>))"

definition Store_UpdateTenantPolicy :: "string \<Rightarrow> policy_json \<Rightarrow> (memstore, unit) op" where
  "Store_UpdateTenantPolicy ident pol m =
     (case map_of (Tenants m) ident of
        None \<Rightarrow> (Inl ErrNotFound, m)
      | Some t \<Rightarrow> (Inr (), m\<lparr>Tenants := AList.update ident (t\<lparr>tn_Policy := pol\<rparr>) (Tenants m)\<rparr>))"

definition Store_InsertOperatorGrant :: "operator_grant \<Rightarrow> (memstore, unit) op" where
  "Store_InsertOperatorGrant g m = (Inr (), m\<lparr>Grants := AList.update (og_ID g) g (Grants m)\<rparr>)"

definition Store_ActiveOperatorGrant :: "time \<Rightarrow> string \<Rightarrow> string \<Rightarrow> (memstore, operator_grant) op" where
  "Store_ActiveOperatorGrant now operatorID tid m =
     (found (map_option snd
        (find_row (\<lambda>g. og_OperatorUserID g = operatorID \<and> og_TenantID g = tid
                     \<and> og_RevokedAt g = None \<and> now < og_ExpiresAt g) (Grants m))), m)"

definition Store_TenantBySlug :: "string \<Rightarrow> (memstore, tenant) op" where
  "Store_TenantBySlug slug m =
     (found (map_option snd (find_row (\<lambda>t. tn_Slug t = slug) (Tenants m))), m)"

definition Store_SoleTenant :: "(memstore, tenant) op" where
  "Store_SoleTenant m = (case Tenants m of [(_, t)] \<Rightarrow> (Inr t, m) | _ \<Rightarrow> (Inl ErrNotFound, m))"

definition Store_Tenant :: "string \<Rightarrow> (memstore, tenant) op" where
  "Store_Tenant tid m = (found (map_of (Tenants m) tid), m)"

definition Store_TenantStatus :: "string \<Rightarrow> (memstore, string) op" where
  "Store_TenantStatus tid m = (found (map_option tn_Status (map_of (Tenants m) tid)), m)"

section \<open>Users\<close>

definition userByID :: "string \<Rightarrow> string \<Rightarrow> memstore \<Rightarrow> (string \<times> user) option" where
  "userByID tid uid m = find_row (\<lambda>u. us_TenantID u = tid \<and> us_ID u = uid) (Users m)"

definition put_user :: "string \<Rightarrow> user \<Rightarrow> memstore \<Rightarrow> memstore" where
  "put_user k u m = m\<lparr>Users := AList.update k u (Users m)\<rparr>"

text \<open>Methods that read a user by id, change the copy and store it back.\<close>

definition with_user :: "string \<Rightarrow> string \<Rightarrow> (user \<Rightarrow> user) \<Rightarrow> (memstore, unit) op" where
  "with_user tid uid f m =
     (case userByID tid uid m of None \<Rightarrow> (Inl ErrNotFound, m) | Some (k, u) \<Rightarrow> (Inr (), put_user k (f u) m))"

definition Store_AddUser :: "(string \<Rightarrow> string) \<Rightarrow> user \<Rightarrow> memstore \<Rightarrow> memstore" where
  "Store_AddUser ul u m =
     put_user (Store_key ul (us_TenantID u) (us_Email u)) (u\<lparr>us_DisplayNameExplicit := DisplayNameExplicit u\<rparr>) m"

definition Store_UserByEmail :: "(string \<Rightarrow> string) \<Rightarrow> string \<Rightarrow> string \<Rightarrow> (memstore, user) op" where
  "Store_UserByEmail ul tid email m = (found (map_of (Users m) (Store_key ul tid email)), m)"

definition Store_User :: "string \<Rightarrow> string \<Rightarrow> (memstore, user) op" where
  "Store_User tid uid m = (found (map_option snd (userByID tid uid m)), m)"

definition Store_UserAnyTenant :: "string \<Rightarrow> (memstore, user) op" where
  "Store_UserAnyTenant uid m =
     (found (map_option snd (find_row (\<lambda>u. us_ID u = uid) (Users m))), m)"

definition Store_UserStatus :: "string \<Rightarrow> string \<Rightarrow> (memstore, string) op" where
  "Store_UserStatus tid uid m = (found (map_option (us_Status \<circ> snd) (userByID tid uid m)), m)"

definition Store_InsertUser :: "(string \<Rightarrow> string) \<Rightarrow> user \<Rightarrow> (memstore, unit) op" where
  "Store_InsertUser ul u m =
     (let k = Store_key ul (us_TenantID u) (us_Email u) in
      if map_of (Users m) k \<noteq> None then (Inl ErrConflict, m) else (Inr (), put_user k u m))"

definition Store_UpdateUserStatus :: "string \<Rightarrow> string \<Rightarrow> string \<Rightarrow> (memstore, unit) op" where
  "Store_UpdateUserStatus tid uid status = with_user tid uid (\<lambda>u. u\<lparr>us_Status := status\<rparr>)"

definition map_users :: "string \<Rightarrow> string \<Rightarrow> (user \<Rightarrow> user) \<Rightarrow> memstore \<Rightarrow> memstore" where
  "map_users tid uid f m =
     m\<lparr>Users := map (\<lambda>(k, u). (k, if us_TenantID u = tid \<and> us_ID u = uid then f u else u)) (Users m)\<rparr>"

definition Store_TouchSignin :: "time \<Rightarrow> string \<Rightarrow> string \<Rightarrow> (memstore, unit) op" where
  "Store_TouchSignin now tid uid m = (Inr (), map_users tid uid (\<lambda>u. u\<lparr>us_LastSigninAt := Some now\<rparr>) m)"

definition Store_SetPasswordHash :: "string \<Rightarrow> string \<Rightarrow> string \<Rightarrow> (memstore, unit) op" where
  "Store_SetPasswordHash tid uid hash m =
     (Inr (), map_users tid uid (\<lambda>u. u\<lparr>us_PasswordHash := Some hash\<rparr>) m)"

definition Store_Attempt ::
    "string \<Rightarrow> string \<Rightarrow> string \<Rightarrow> string \<Rightarrow> string \<Rightarrow> string \<Rightarrow> (memstore, unit) op" where
  "Store_Attempt tid uid emailHash ipHash out reason m =
     (Inr (), m\<lparr>Attempts := Attempts m @
        [\<lparr>at_TenantID = tid, at_UserID = uid, at_EmailHash = emailHash, at_IPHash = ipHash,
          at_Outcome = out, at_Reason = reason\<rparr>]\<rparr>)"

definition Store_SetPassword :: "time \<Rightarrow> string \<Rightarrow> string \<Rightarrow> string \<Rightarrow> (memstore, unit) op" where
  "Store_SetPassword now tid uid hash =
     with_user tid uid (\<lambda>u. u\<lparr>us_PasswordHash := Some hash, us_PasswordChangedAt := Some now\<rparr>)"

definition Store_UpdateProfile :: "time \<Rightarrow> string \<Rightarrow> string \<Rightarrow> profile_patch \<Rightarrow> (memstore, unit) op" where
  "Store_UpdateProfile now tid uid p =
     with_user tid uid (\<lambda>u. u\<lparr>us_FirstName := pp_FirstName p, us_LastName := pp_LastName p,
       us_Phone := pp_Phone p, us_DisplayName := pp_DisplayName p,
       us_DisplayNameExplicit := pp_DisplayNameExplicit p, us_ProfileUpdatedAt := Some now,
       us_UpdatedAt := now\<rparr>)"

section \<open>Second factors, recovery codes and recovery requests\<close>

definition Store_SetMFA :: "string \<Rightarrow> string \<Rightarrow> bool \<Rightarrow> string \<Rightarrow> (memstore, unit) op" where
  "Store_SetMFA tid uid enabled secretEnc =
     with_user tid uid (\<lambda>u. u\<lparr>us_MFAEnabled := enabled, us_MFASecretEnc := secretEnc, us_MFALastCounter := 0\<rparr>)"

definition Store_SetMFACounter :: "string \<Rightarrow> string \<Rightarrow> int \<Rightarrow> (memstore, unit) op" where
  "Store_SetMFACounter tid uid counter = with_user tid uid (\<lambda>u. u\<lparr>us_MFALastCounter := counter\<rparr>)"

definition Store_ReplaceRecoveryCodes :: "string \<Rightarrow> string \<Rightarrow> string list \<Rightarrow> (memstore, unit) op" where
  "Store_ReplaceRecoveryCodes tid uid hashes m =
     (Inr (), m\<lparr>Codes := AList.update (pair_key tid uid)
        (map (\<lambda>h. \<lparr>rc_hash = h, rc_used = False\<rparr>) hashes) (Codes m)\<rparr>)"

definition Store_ListRecoveryCodeHashes :: "string \<Rightarrow> string \<Rightarrow> (memstore, string list) op" where
  "Store_ListRecoveryCodeHashes tid uid m =
     (Inr (map rc_hash (filter (\<lambda>c. \<not> rc_used c) (get_list (Codes m) (pair_key tid uid)))), m)"

fun use_first :: "string \<Rightarrow> recovery_code list \<Rightarrow> recovery_code list option" where
  "use_first h [] = None"
| "use_first h (c # cs) =
     (if rc_hash c = h \<and> \<not> rc_used c then Some (c\<lparr>rc_used := True\<rparr> # cs)
      else map_option ((#) c) (use_first h cs))"

definition Store_UseRecoveryCode :: "string \<Rightarrow> string \<Rightarrow> string \<Rightarrow> (memstore, unit) op" where
  "Store_UseRecoveryCode tid uid hash m =
     (case use_first hash (get_list (Codes m) (pair_key tid uid)) of
        None \<Rightarrow> (Inl ErrNotFound, m)
      | Some cs \<Rightarrow> (Inr (), m\<lparr>Codes := AList.update (pair_key tid uid) cs (Codes m)\<rparr>))"

definition Store_InsertRecoveryRequest :: "recovery_request \<Rightarrow> (memstore, unit) op" where
  "Store_InsertRecoveryRequest r m = (Inr (), m\<lparr>Recoveries := AList.update (rr_ID r) r (Recoveries m)\<rparr>)"

definition recovery_open :: "time \<Rightarrow> string \<Rightarrow> recovery_request \<Rightarrow> bool" where
  "recovery_open now hash r \<longleftrightarrow> rr_TokenHash r = hash \<and> rr_UsedAt r = None \<and> now < rr_ExpiresAt r"

definition Store_PeekRecovery :: "time \<Rightarrow> string \<Rightarrow> (memstore, recovery_request) op" where
  "Store_PeekRecovery now hash m =
     (found (map_option snd (find_row (recovery_open now hash) (Recoveries m))), m)"

definition Store_UseRecoveryRequest :: "time \<Rightarrow> string \<Rightarrow> (memstore, recovery_request) op" where
  "Store_UseRecoveryRequest now hash m =
     (case find_row (recovery_open now hash) (Recoveries m) of
        None \<Rightarrow> (Inl ErrNotFound, m)
      | Some (k, r) \<Rightarrow>
          let r' = r\<lparr>rr_UsedAt := Some now\<rparr>
          in (Inr r', m\<lparr>Recoveries := AList.update k r' (Recoveries m)\<rparr>))"


section \<open>Sessions and the revocation feed\<close>

definition Store_Insert :: "session \<Rightarrow> (memstore, unit) op" where
  "Store_Insert s m = (Inr (), m\<lparr>Sessions := AList.update (ss_ID s) s (Sessions m)\<rparr>)"

definition Store_GetByHash :: "string \<Rightarrow> (memstore, session) op" where
  "Store_GetByHash hash m =
     (found (map_option snd (find_row (\<lambda>s. ss_SecretHash s = hash) (Sessions m))), m)"

definition session_of :: "string \<Rightarrow> string \<Rightarrow> memstore \<Rightarrow> session option" where
  "session_of tid ident m =
     (case map_of (Sessions m) ident of
        Some s \<Rightarrow> if ss_TenantID s = tid then Some s else None | None \<Rightarrow> None)"

definition Store_Get :: "string \<Rightarrow> string \<Rightarrow> (memstore, session) op" where
  "Store_Get tid ident m = (found (session_of tid ident m), m)"

definition Store_ListUser :: "string \<Rightarrow> string \<Rightarrow> (memstore, session list) op" where
  "Store_ListUser tid uid m =
     (Inr (filter (\<lambda>s. ss_TenantID s = tid \<and> ss_UserID s = uid) (map snd (Sessions m))), m)"

definition put_session :: "string \<Rightarrow> session \<Rightarrow> memstore \<Rightarrow> memstore" where
  "put_session ident s m = m\<lparr>Sessions := AList.update ident s (Sessions m)\<rparr>"

definition Store_Touch :: "time \<Rightarrow> string \<Rightarrow> string \<Rightarrow> (memstore, unit) op" where
  "Store_Touch now tid ident m =
     (case session_of tid ident m of
        None \<Rightarrow> (Inr (), m) | Some s \<Rightarrow> (Inr (), put_session ident (s\<lparr>ss_LastSeen := now\<rparr>) m))"

definition Store_Renew :: "time \<Rightarrow> string \<Rightarrow> string \<Rightarrow> string \<Rightarrow> time \<Rightarrow> (memstore, unit) op" where
  "Store_Renew now tid ident hash expiresAt m =
     (case session_of tid ident m of
        None \<Rightarrow> (Inl ErrNotFound, m)
      | Some s \<Rightarrow>
          if ss_RevokedAt s \<noteq> None then (Inl ErrNotFound, m)
          else (Inr (), put_session ident
                  (s\<lparr>ss_SecretHash := hash, ss_ExpiresAt := expiresAt, ss_LastSeen := now\<rparr>) m))"

text \<open>The unexported \<open>revoke\<close>: the first revocation of a row is kept.\<close>

definition revoke_session :: "time \<Rightarrow> string \<Rightarrow> session \<Rightarrow> session" where
  "revoke_session now reason s =
     (if ss_RevokedAt s = None then s\<lparr>ss_RevokedAt := Some now, ss_RevokedReason := Some reason\<rparr> else s)"

definition revoke_where :: "time \<Rightarrow> string \<Rightarrow> (string \<Rightarrow> session \<Rightarrow> bool) \<Rightarrow> memstore \<Rightarrow> memstore" where
  "revoke_where now reason P m =
     m\<lparr>Sessions := map (\<lambda>(k, s). (k, if P k s then revoke_session now reason s else s)) (Sessions m)\<rparr>"

definition Store_Revoke :: "time \<Rightarrow> string \<Rightarrow> string \<Rightarrow> string \<Rightarrow> (memstore, unit) op" where
  "Store_Revoke now tid ident reason m =
     (case session_of tid ident m of
        None \<Rightarrow> (Inl ErrNotFound, m)
      | Some s \<Rightarrow> (Inr (), revoke_where now reason (\<lambda>k _. k = ident) m))"

definition Store_RevokeUser :: "time \<Rightarrow> string \<Rightarrow> string \<Rightarrow> string \<Rightarrow> string \<Rightarrow> (memstore, unit) op" where
  "Store_RevokeUser now tid uid reason keep m =
     (Inr (), revoke_where now reason (\<lambda>k s. ss_TenantID s = tid \<and> ss_UserID s = uid \<and> k \<noteq> keep) m)"

definition Store_RevokeTenant :: "time \<Rightarrow> string \<Rightarrow> string \<Rightarrow> (memstore, unit) op" where
  "Store_RevokeTenant now tid reason m = (Inr (), revoke_where now reason (\<lambda>k s. ss_TenantID s = tid) m)"

definition Store_InsertRevocation :: "revocation \<Rightarrow> (memstore, unit) op" where
  "Store_InsertRevocation r m = (Inr (), m\<lparr>Revs := Revs m @ [r]\<rparr>)"

definition Store_RevocationsSince :: "time \<Rightarrow> nat \<Rightarrow> (memstore, revocation list) op" where
  "Store_RevocationsSince since limit m = (Inr (take limit (filter (\<lambda>r. rv_TS r > since) (Revs m))), m)"

section \<open>Roles, bindings and permissions\<close>

definition role_in :: "string \<Rightarrow> string \<Rightarrow> memstore \<Rightarrow> role option" where
  "role_in tid ident m =
     (case map_of (RoleRows m) ident of
        Some r \<Rightarrow> if ro_TenantID r = tid then Some r else None | None \<Rightarrow> None)"

definition put_role :: "string \<Rightarrow> role \<Rightarrow> memstore \<Rightarrow> memstore" where
  "put_role ident r m = m\<lparr>RoleRows := AList.update ident r (RoleRows m)\<rparr>"

definition Store_InsertRole :: "role \<Rightarrow> (memstore, unit) op" where
  "Store_InsertRole r m =
     (if find_row (\<lambda>x. ro_TenantID x = ro_TenantID r \<and> ro_Slug x = ro_Slug r) (RoleRows m) \<noteq> None
      then (Inl ErrConflict, m) else (Inr (), put_role (ro_ID r) r m))"

definition Store_Role :: "string \<Rightarrow> string \<Rightarrow> (memstore, role) op" where
  "Store_Role tid ident m = (found (role_in tid ident m), m)"

definition Store_UpdateRoleName :: "string \<Rightarrow> string \<Rightarrow> string \<Rightarrow> (memstore, unit) op" where
  "Store_UpdateRoleName tid ident name m =
     (case role_in tid ident m of
        None \<Rightarrow> (Inl ErrNotFound, m)
      | Some r \<Rightarrow>
          if OriginOf r \<noteq> OriginCustom then (Inr (), m)
          else (Inr (), put_role ident (r\<lparr>ro_DisplayName := name\<rparr>) m))"

definition Store_RemoveRole :: "string \<Rightarrow> string \<Rightarrow> (memstore, unit) op" where
  "Store_RemoveRole tid ident m =
     (case role_in tid ident m of
        None \<Rightarrow> (Inl ErrNotFound, m)
      | Some r \<Rightarrow>
          if OriginOf r \<noteq> OriginCustom then (Inl ErrNotFound, m)
          else (Inr (), m\<lparr>RoleRows := AList.delete ident (RoleRows m),
                          RolePerms := AList.delete ident (RolePerms m),
                          Bindings := map (\<lambda>(k, ids). (k, filter (\<lambda>x. x \<noteq> ident) ids)) (Bindings m)\<rparr>))"

definition lessRef :: "perm_ref \<Rightarrow> perm_ref \<Rightarrow> bool" where
  "lessRef a b =
     (if ref_module a \<noteq> ref_module b then ref_module a < ref_module b
      else if ref_resource a \<noteq> ref_resource b then ref_resource a < ref_resource b
      else ref_action a < ref_action b)"

definition sortRefs :: "perm_ref list \<Rightarrow> perm_ref list" where
  "sortRefs rs =
     sort_key ref_module (sort_key ref_resource (sort_key ref_action rs))"

definition Store_ReplaceRolePermissions :: "string \<Rightarrow> string \<Rightarrow> perm_ref list \<Rightarrow> (memstore, unit) op" where
  "Store_ReplaceRolePermissions tid rid perms m =
     (case role_in tid rid m of
        None \<Rightarrow> (Inl ErrNotFound, m)
      | Some _ \<Rightarrow>
          (Inr (), m\<lparr>RolePerms := AList.update rid (sortRefs (rev (remdups (rev perms)))) (RolePerms m)\<rparr>))"

definition Store_RoleAssignees :: "string \<Rightarrow> string \<Rightarrow> (memstore, string list) op" where
  "Store_RoleAssignees tid rid m =
     (Inr (concat (map (\<lambda>(k, ids).
        case cut_prefix (tid @ ''/'') k of
          None \<Rightarrow> [] | Some uid \<Rightarrow> map (\<lambda>_. uid) (filter (\<lambda>x. x = rid) ids)) (Bindings m))), m)"

fun upsert_permission :: "permission \<Rightarrow> permission list \<Rightarrow> permission list" where
  "upsert_permission p [] = [p]"
| "upsert_permission p (x # xs) =
     (if Permission_Ref x = Permission_Ref p then x\<lparr>pm_Description := pm_Description p\<rparr> # xs
      else x # upsert_permission p xs)"

definition Store_UpsertPermission :: "string \<Rightarrow> permission \<Rightarrow> (memstore, unit) op" where
  "Store_UpsertPermission tid p m =
     (Inr (), m\<lparr>Permissions :=
        AList.update tid (upsert_permission p (get_list (Permissions m) tid)) (Permissions m)\<rparr>)"

definition Store_ListPermissions :: "string \<Rightarrow> (memstore, permission list) op" where
  "Store_ListPermissions tid m =
     (Inr (sort_key pm_Module (sort_key pm_Resource (sort_key pm_Action (get_list (Permissions m) tid)))), m)"

definition Store_DeleteLegacyPermissions :: "string \<Rightarrow> (memstore, nat) op" where
  "Store_DeleteLegacyPermissions tid m =
     (let ps = get_list (Permissions m) tid;
          drop_legacy = (\<lambda>id perms.
            case map_of (RoleRows m) id of
              Some r \<Rightarrow> if ro_TenantID r = tid then filter (\<lambda>g. \<not> IsLegacy g) perms else perms
            | None \<Rightarrow> perms)
      in (Inr (length (filter (\<lambda>p. pm_Module p = '''') ps)),
          m\<lparr>Permissions := AList.update tid (filter (\<lambda>p. pm_Module p \<noteq> '''') ps) (Permissions m),
            RolePerms := map (\<lambda>(ident, perms). (ident, drop_legacy ident perms)) (RolePerms m)\<rparr>))"

definition Store_RolesByID :: "string \<Rightarrow> string list \<Rightarrow> (memstore, role list) op" where
  "Store_RolesByID tid ids m = (found (those (map (\<lambda>ident. role_in tid ident m) ids)), m)"

definition Store_ListRoles :: "string \<Rightarrow> (memstore, role list) op" where
  "Store_ListRoles tid m =
     (Inr (sort_key (\<lambda>r. (if ro_Builtin r then 0 else 1) :: nat)
        (sort_key ro_Slug (filter (\<lambda>r. ro_TenantID r = tid) (map snd (RoleRows m))))), m)"

definition Store_UserRoles :: "string \<Rightarrow> string \<Rightarrow> (memstore, role list) op" where
  "Store_UserRoles tid uid m =
     (Inr (List.map_filter (\<lambda>ident. role_in tid ident m) (get_list (Bindings m) (pair_key tid uid))), m)"

definition Store_RolePermissions :: "string \<Rightarrow> string \<Rightarrow> (memstore, perm_ref list) op" where
  "Store_RolePermissions tid rid m =
     (case role_in tid rid m of
        None \<Rightarrow> (Inl ErrNotFound, m) | Some _ \<Rightarrow> (Inr (get_list (RolePerms m) rid), m))"

definition Store_ReplaceBindings :: "string \<Rightarrow> string \<Rightarrow> string list \<Rightarrow> (memstore, unit) op" where
  "Store_ReplaceBindings tid uid roleIDs m =
     (Inr (), m\<lparr>Bindings := AList.update (pair_key tid uid) roleIDs (Bindings m)\<rparr>)"

definition Store_CountWithRole :: "string \<Rightarrow> string \<Rightarrow> (memstore, nat) op" where
  "Store_CountWithRole tid slug m =
     (Inr (length (concat (map (\<lambda>(k, ids).
        if has_prefix k (tid @ ''/'')
        then filter (\<lambda>ident. case map_of (RoleRows m) ident of Some r \<Rightarrow> ro_Slug r = slug | None \<Rightarrow> False) ids
        else []) (Bindings m)))), m)"

definition Store_Enqueue :: "outbox_item \<Rightarrow> (memstore, unit) op" where
  "Store_Enqueue it m = (Inr (), m\<lparr>Outbox := Outbox m @ [it]\<rparr>)"


section \<open>Invitations\<close>

definition Store_InsertInvitation :: "invitation \<Rightarrow> (memstore, unit) op" where
  "Store_InsertInvitation i m = (Inr (), m\<lparr>Invitations := AList.update (iv_ID i) i (Invitations m)\<rparr>)"

definition Store_Invitation :: "string \<Rightarrow> string \<Rightarrow> (memstore, invitation) op" where
  "Store_Invitation tid ident m =
     (case map_of (Invitations m) ident of
        Some i \<Rightarrow> if iv_TenantID i = tid then (Inr i, m) else (Inl ErrNotFound, m)
      | None \<Rightarrow> (Inl ErrNotFound, m))"

definition Store_InvitationByHash :: "string \<Rightarrow> (memstore, invitation) op" where
  "Store_InvitationByHash hash m =
     (found (map_option snd (find_row (\<lambda>i. iv_TokenHash i = hash) (Invitations m))), m)"

definition Store_RotateInvitation :: "string \<Rightarrow> string \<Rightarrow> string \<Rightarrow> time \<Rightarrow> (memstore, unit) op" where
  "Store_RotateInvitation tid ident hash exp m =
     (case map_of (Invitations m) ident of
        None \<Rightarrow> (Inl ErrNotFound, m)
      | Some i \<Rightarrow>
          if iv_TenantID i \<noteq> tid then (Inl ErrNotFound, m)
          else (Inr (), m\<lparr>Invitations :=
                  AList.update ident (i\<lparr>iv_TokenHash := hash, iv_ExpiresAt := exp\<rparr>) (Invitations m)\<rparr>))"

definition Store_MarkInvitationAccepted :: "time \<Rightarrow> string \<Rightarrow> (memstore, unit) op" where
  "Store_MarkInvitationAccepted now ident m =
     (case map_of (Invitations m) ident of
        None \<Rightarrow> (Inl ErrNotFound, m)
      | Some i \<Rightarrow> (Inr (), m\<lparr>Invitations :=
                     AList.update ident (i\<lparr>iv_AcceptedAt := Some now\<rparr>) (Invitations m)\<rparr>))"

section \<open>Groups\<close>

definition group_in :: "string \<Rightarrow> string \<Rightarrow> memstore \<Rightarrow> group_row option" where
  "group_in tid gid m =
     (case map_of (gs_groups m) gid of
        Some g \<Rightarrow> if gp_TenantID g = tid then Some g else None | None \<Rightarrow> None)"

definition Store_CreateGroup ::
    "(string \<Rightarrow> string \<Rightarrow> bool) \<Rightarrow> time \<Rightarrow> group_row \<Rightarrow> (memstore, unit) op" where
  "Store_CreateGroup ef now g m =
     (if find_row (\<lambda>x. gp_TenantID x = gp_TenantID g \<and> ef (gp_Name x) (gp_Name g)) (gs_groups m) \<noteq> None
      then (Inl ErrConflict, m)
      else (Inr (), m\<lparr>gs_groups :=
              AList.update (gp_ID g) (g\<lparr>gp_CreatedAt := now, gp_UpdatedAt := now\<rparr>) (gs_groups m)\<rparr>))"

definition Store_UpdateGroup ::
    "(string \<Rightarrow> string \<Rightarrow> bool) \<Rightarrow> time \<Rightarrow> string \<Rightarrow> string \<Rightarrow> string \<Rightarrow> string \<Rightarrow> (memstore, unit) op" where
  "Store_UpdateGroup ef now tid ident name description m =
     (case group_in tid ident m of
        None \<Rightarrow> (Inl ErrNotFound, m)
      | Some g \<Rightarrow>
          if find_row (\<lambda>x. gp_ID x \<noteq> ident \<and> gp_TenantID x = tid \<and> ef (gp_Name x) name) (gs_groups m) \<noteq> None
          then (Inl ErrConflict, m)
          else (Inr (), m\<lparr>gs_groups := AList.update ident
                  (g\<lparr>gp_Name := name, gp_Description := description, gp_UpdatedAt := now\<rparr>) (gs_groups m)\<rparr>))"

definition Store_DeleteGroup :: "string \<Rightarrow> string \<Rightarrow> (memstore, unit) op" where
  "Store_DeleteGroup tid ident m =
     (case group_in tid ident m of
        None \<Rightarrow> (Inl ErrNotFound, m)
      | Some _ \<Rightarrow> (Inr (), m\<lparr>gs_groups := AList.delete ident (gs_groups m),
                             gs_members := AList.delete ident (gs_members m),
                             gs_roles := AList.delete ident (gs_roles m)\<rparr>))"

definition Store_GetGroup :: "string \<Rightarrow> string \<Rightarrow> (memstore, group_row) op" where
  "Store_GetGroup tid gid m = (found (group_in tid gid m), m)"

definition Store_CountGroupMembers :: "string \<Rightarrow> string \<Rightarrow> (memstore, nat) op" where
  "Store_CountGroupMembers tid gid m =
     (case group_in tid gid m of
        None \<Rightarrow> (Inl ErrNotFound, m) | Some _ \<Rightarrow> (Inr (length (get_list (gs_members m) gid)), m))"

definition added_at :: "memstore \<Rightarrow> string \<Rightarrow> string \<Rightarrow> time option" where
  "added_at m gid uid = map_of (gs_added m) (pair_key gid uid)"

text \<open>
  The listing after a time; \<open>None\<close> is Go's zero time, before every other.  A negative or zero
  limit is never reached, as in the code.
\<close>

definition zero_user :: user where
  "zero_user =
     \<lparr>us_ID = '''', us_TenantID = '''', us_Email = '''', us_DisplayName = '''', us_Status = '''',
      us_PasswordHash = None, us_PasswordChangedAt = None, us_MFAEnabled = False, us_MFASecretEnc = '''',
      us_MFALastCounter = 0, us_CreatedAt = 0, us_UpdatedAt = 0, us_LastSigninAt = None,
      us_FirstName = '''', us_LastName = '''', us_Phone = '''', us_AvatarID = None,
      us_DisplayNameExplicit = False, us_ProfileUpdatedAt = None\<rparr>"

definition Store_ListGroupMembers ::
    "string \<Rightarrow> string \<Rightarrow> time option \<Rightarrow> nat \<Rightarrow> (memstore, group_member list) op" where
  "Store_ListGroupMembers tid gid after limit m =
     (let later = (\<lambda>uid. case (added_at m gid uid, after) of
                     (None, _) \<Rightarrow> False | (Some _, None) \<Rightarrow> True | (Some at, Some x) \<Rightarrow> at > x);
          row = (\<lambda>uid. let u = (case userByID tid uid m of Some (_, u) \<Rightarrow> u | None \<Rightarrow> zero_user) in
                   \<lparr>gm_UserID = uid, gm_Email = us_Email u, gm_DisplayName = us_DisplayName u,
                    gm_Status = us_Status u, gm_AvatarID = us_AvatarID u,
                    gm_AddedAt = (case added_at m gid uid of Some at \<Rightarrow> at | None \<Rightarrow> 0)\<rparr>);
          rows = map row (filter later (get_list (gs_members m) gid))
      in (Inr (if limit = 0 then rows else take limit rows), m))"

text \<open>A failing user id stops the loop; the members added before it stay.\<close>

fun add_members :: "time \<Rightarrow> string \<Rightarrow> string \<Rightarrow> string list \<Rightarrow> nat \<Rightarrow> (memstore, nat) op" where
  "add_members now tid gid [] n m = (Inr n, m)"
| "add_members now tid gid (uid # uids) n m =
     (if userByID tid uid m = None then (Inl ErrNotFound, m)
      else if uid \<in> set (get_list (gs_members m) gid) then add_members now tid gid uids n m
      else add_members now tid gid uids (n + 1)
             (m\<lparr>gs_members := AList.update gid (get_list (gs_members m) gid @ [uid]) (gs_members m),
                gs_added := AList.update (pair_key gid uid)
                              (now + int (length (gs_added m)) * 1000) (gs_added m)\<rparr>))"

definition Store_AddGroupMembers :: "time \<Rightarrow> string \<Rightarrow> string \<Rightarrow> string list \<Rightarrow> (memstore, nat) op" where
  "Store_AddGroupMembers now tid gid userIDs m =
     (case group_in tid gid m of None \<Rightarrow> (Inl ErrNotFound, m) | Some _ \<Rightarrow> add_members now tid gid userIDs 0 m)"

definition Store_RemoveGroupMember :: "string \<Rightarrow> string \<Rightarrow> string \<Rightarrow> (memstore, unit) op" where
  "Store_RemoveGroupMember tid gid uid m =
     (case group_in tid gid m of
        None \<Rightarrow> (Inr (), m)
      | Some _ \<Rightarrow> (Inr (), m\<lparr>gs_members := AList.update gid
                     (filter (\<lambda>x. x \<noteq> uid) (get_list (gs_members m) gid)) (gs_members m),
                     gs_added := AList.delete (pair_key gid uid) (gs_added m)\<rparr>))"

definition Store_IsGroupMember :: "string \<Rightarrow> string \<Rightarrow> string \<Rightarrow> (memstore, bool) op" where
  "Store_IsGroupMember tid gid uid m =
     (Inr (group_in tid gid m \<noteq> None \<and> uid \<in> set (get_list (gs_members m) gid)), m)"

definition Store_UserGroups :: "(string \<Rightarrow> string) \<Rightarrow> string \<Rightarrow> string \<Rightarrow> (memstore, group_row list) op" where
  "Store_UserGroups ul tid uid m =
     (Inr (sort_key (\<lambda>g. to_lower ul (gp_Name g))
        (concat (map (\<lambda>(gid, members).
           case group_in tid gid m of
             None \<Rightarrow> [] | Some g \<Rightarrow> map (\<lambda>_. g) (filter (\<lambda>x. x = uid) members)) (gs_members m)))), m)"

definition Store_ReplaceGroupRoles :: "string \<Rightarrow> string \<Rightarrow> string list \<Rightarrow> (memstore, unit) op" where
  "Store_ReplaceGroupRoles tid gid roleIDs m =
     (case group_in tid gid m of
        None \<Rightarrow> (Inl ErrNotFound, m)
      | Some _ \<Rightarrow> (Inr (), m\<lparr>gs_roles := AList.update gid roleIDs (gs_roles m)\<rparr>))"

definition Store_GroupRoles :: "string \<Rightarrow> string \<Rightarrow> (memstore, role list) op" where
  "Store_GroupRoles tid gid m =
     (case group_in tid gid m of
        None \<Rightarrow> (Inl ErrNotFound, m)
      | Some _ \<Rightarrow>
          (Inr (List.map_filter (\<lambda>ident. role_in tid ident m) (get_list (gs_roles m) gid)), m))"

text \<open>Roles a user has through a group: one entry per membership and role row.\<close>

definition group_role_rows :: "string \<Rightarrow> string \<Rightarrow> memstore \<Rightarrow> (string \<times> group_row \<times> role) list" where
  "group_role_rows tid uid m =
     concat (map (\<lambda>(gid, members).
       case group_in tid gid m of
         None \<Rightarrow> []
       | Some g \<Rightarrow> concat (map (\<lambda>_. List.map_filter
             (\<lambda>ident. map_option (\<lambda>r. (gid, g, r)) (map_of (RoleRows m) ident)) (get_list (gs_roles m) gid))
           (filter (\<lambda>x. x = uid) members))) (gs_members m))"

definition Store_EffectiveRoles :: "string \<Rightarrow> string \<Rightarrow> (memstore, effective_role list) op" where
  "Store_EffectiveRoles tid uid m =
     (let direct = map (\<lambda>r. \<lparr>ef_RoleID = ro_ID r, ef_Slug = ro_Slug r, ef_Source = ''direct'',
                            ef_GroupID = '''', ef_GroupName = ''''\<rparr>)
                     (List.map_filter (\<lambda>ident. role_in tid ident m) (get_list (Bindings m) (pair_key tid uid)));
          viagroup = map (\<lambda>(gid, g, r). \<lparr>ef_RoleID = ro_ID r, ef_Slug = ro_Slug r, ef_Source = ''group'',
                            ef_GroupID = gid, ef_GroupName = gp_Name g\<rparr>) (group_role_rows tid uid m)
      in (Inr (sort_key ef_Slug (sort_key ef_Source (sort_key ef_GroupName (direct @ viagroup)))), m))"

definition effectiveSlugsLocked :: "string \<Rightarrow> string \<Rightarrow> memstore \<Rightarrow> string list" where
  "effectiveSlugsLocked tid uid m =
     (let direct = (case map_of (Bindings m) (pair_key tid uid) of
                      Some ids \<Rightarrow> map ro_Slug (List.map_filter (\<lambda>ident. role_in tid ident m) ids)
                    | None \<Rightarrow> get_list (RoleMap m) (pair_key tid uid));
          viagroup = map (\<lambda>(gid, g, r). ro_Slug r) (group_role_rows tid uid m)
      in sort (remdups (direct @ viagroup)))"

definition Store_Roles :: "string \<Rightarrow> string \<Rightarrow> (memstore, string list) op" where
  "Store_Roles tid uid m = (Inr (effectiveSlugsLocked tid uid m), m)"

section \<open>Security keys\<close>

definition keysOf :: "string \<Rightarrow> string \<Rightarrow> memstore \<Rightarrow> webauthn_credential list" where
  "keysOf tid uid m = get_list (wa_keys m) (pair_key tid uid)"

definition Store_WebAuthnHandle :: "string \<Rightarrow> string \<Rightarrow> (memstore, string option) op" where
  "Store_WebAuthnHandle tid uid m =
     (if userByID tid uid m = None then (Inl ErrNotFound, m)
      else (Inr (map_of (wa_handles m) (pair_key tid uid)), m))"

definition Store_EnsureWebAuthnHandle :: "string \<Rightarrow> string \<Rightarrow> string \<Rightarrow> (memstore, string) op" where
  "Store_EnsureWebAuthnHandle tid uid candidate m =
     (if userByID tid uid m = None then (Inl ErrNotFound, m)
      else (case map_of (wa_handles m) (pair_key tid uid) of
              Some h \<Rightarrow> (Inr h, m)
            | None \<Rightarrow> (Inr candidate,
                       m\<lparr>wa_handles := AList.update (pair_key tid uid) candidate (wa_handles m)\<rparr>)))"

definition Store_ListWebAuthnCredentials :: "string \<Rightarrow> string \<Rightarrow> (memstore, webauthn_credential list) op" where
  "Store_ListWebAuthnCredentials tid uid m = (Inr (keysOf tid uid m), m)"

definition Store_InsertWebAuthnCredential ::
    "(string \<Rightarrow> string \<Rightarrow> bool) \<Rightarrow> time \<Rightarrow> webauthn_credential \<Rightarrow> (memstore, unit) op" where
  "Store_InsertWebAuthnCredential ef now c m =
     (if list_ex (\<lambda>(_, l). list_ex (\<lambda>k. wc_CredentialID k = wc_CredentialID c) l) (wa_keys m)
      then (Inl ErrCredentialExists, m)
      else if list_ex (\<lambda>k. ef (wc_Name k) (wc_Name c)) (keysOf (wc_TenantID c) (wc_UserID c) m)
      then (Inl ErrConflict, m)
      else (Inr (), m\<lparr>wa_keys := AList.update (pair_key (wc_TenantID c) (wc_UserID c))
              (keysOf (wc_TenantID c) (wc_UserID c) m @ [c\<lparr>wc_CreatedAt := now\<rparr>]) (wa_keys m)\<rparr>))"

fun update_first :: "('a \<Rightarrow> bool) \<Rightarrow> ('a \<Rightarrow> 'a) \<Rightarrow> 'a list \<Rightarrow> 'a list option" where
  "update_first P f [] = None"
| "update_first P f (x # xs) = (if P x then Some (f x # xs) else map_option ((#) x) (update_first P f xs))"

fun updateKey_rows ::
    "(string \<Rightarrow> bool) \<Rightarrow> string \<Rightarrow> (webauthn_credential \<Rightarrow> webauthn_credential)
     \<Rightarrow> webauthn_credential list table \<Rightarrow> webauthn_credential list table option" where
  "updateKey_rows owns ident f [] = None"
| "updateKey_rows owns ident f ((own, l) # t) =
     (case (if owns own then update_first (\<lambda>k. wc_ID k = ident) f l else None) of
        Some l' \<Rightarrow> Some ((own, l') # t)
      | None \<Rightarrow> map_option ((#) (own, l)) (updateKey_rows owns ident f t))"

definition updateKey ::
    "string \<Rightarrow> string \<Rightarrow> string \<Rightarrow> (webauthn_credential \<Rightarrow> webauthn_credential) \<Rightarrow> (memstore, unit) op" where
  "updateKey tid uid ident f m =
     (case updateKey_rows
             (\<lambda>own. has_prefix own (tid @ ''/'') \<and> (uid \<noteq> '''' \<longrightarrow> own = pair_key tid uid)) ident f (wa_keys m) of
        None \<Rightarrow> (Inl ErrNotFound, m) | Some t \<Rightarrow> (Inr (), m\<lparr>wa_keys := t\<rparr>))"

definition Store_RenameWebAuthnCredential ::
    "(string \<Rightarrow> string \<Rightarrow> bool) \<Rightarrow> string \<Rightarrow> string \<Rightarrow> string \<Rightarrow> string \<Rightarrow> (memstore, unit) op" where
  "Store_RenameWebAuthnCredential ef tid uid ident name m =
     (if list_ex (\<lambda>k. wc_ID k \<noteq> ident \<and> ef (wc_Name k) name) (keysOf tid uid m) then (Inl ErrConflict, m)
      else updateKey tid uid ident (\<lambda>k. k\<lparr>wc_Name := name\<rparr>) m)"

fun remove_first :: "('a \<Rightarrow> bool) \<Rightarrow> 'a list \<Rightarrow> 'a list option" where
  "remove_first P [] = None"
| "remove_first P (x # xs) = (if P x then Some xs else map_option ((#) x) (remove_first P xs))"

definition Store_DeleteWebAuthnCredential :: "string \<Rightarrow> string \<Rightarrow> string \<Rightarrow> (memstore, unit) op" where
  "Store_DeleteWebAuthnCredential tid uid ident m =
     (case remove_first (\<lambda>k. wc_ID k = ident) (keysOf tid uid m) of
        None \<Rightarrow> (Inl ErrNotFound, m)
      | Some l \<Rightarrow> (Inr (), m\<lparr>wa_keys := AList.update (pair_key tid uid) l (wa_keys m)\<rparr>))"

definition Store_UpdateWebAuthnUse :: "time \<Rightarrow> string \<Rightarrow> string \<Rightarrow> int \<Rightarrow> bool \<Rightarrow> (memstore, unit) op" where
  "Store_UpdateWebAuthnUse now tid ident signCount backupState =
     updateKey tid '''' ident
       (\<lambda>k. k\<lparr>wc_SignCount := signCount, wc_BackupState := backupState, wc_LastUsedAt := Some now\<rparr>)"

definition Store_FlagWebAuthnClone :: "time \<Rightarrow> string \<Rightarrow> string \<Rightarrow> (memstore, unit) op" where
  "Store_FlagWebAuthnClone now tid ident =
     updateKey tid '''' ident
       (\<lambda>k. if wc_CloneFlaggedAt k = None then k\<lparr>wc_CloneFlaggedAt := Some now\<rparr> else k)"

definition Store_ResetMFA :: "string \<Rightarrow> string \<Rightarrow> (memstore, unit) op" where
  "Store_ResetMFA tid uid m =
     (case userByID tid uid m of
        None \<Rightarrow> (Inl ErrNotFound, m)
      | Some (k, u) \<Rightarrow>
          (Inr (), (put_user k (u\<lparr>us_MFAEnabled := False, us_MFASecretEnc := '''', us_MFALastCounter := 0\<rparr>) m)
             \<lparr>Codes := AList.delete (pair_key tid uid) (Codes m),
              wa_keys := AList.delete (pair_key tid uid) (wa_keys m)\<rparr>))"

end
