(* ===== verification/Tenantctx.thy ===== *)
theory Tenantctx
  imports Auth_Prelude
begin

text \<open>
  The verified caller of a request and the tenant guard, \<open>internal/tenantctx/tenantctx.go\<close>.  A
  request context carries at most one actor and at most one operator grant; \<open>Require\<close> is the check
  on every access path.  The refusal hook of the guard is the second component of the result.
\<close>

section \<open>Actors and contexts\<close>

definition KindUser :: string where "KindUser = ''user''"
definition KindOperator :: string where "KindOperator = ''operator''"
definition KindService :: string where "KindService = ''service''"
definition KindSystem :: string where "KindSystem = ''system''"

lemmas kind_defs = KindUser_def KindOperator_def KindService_def KindSystem_def

record actor =
  act_Kind :: string
  act_UserID :: string
  act_TenantID :: string
  act_SessionID :: string
  act_Roles :: "string list"
  act_AMR :: "string list"
  act_ServiceID :: string
  act_DisplayName :: string
  act_AvatarURL :: string

text \<open>Go's zero value of the struct.\<close>

definition no_actor :: actor where
  "no_actor = \<lparr>act_Kind = '''', act_UserID = '''', act_TenantID = '''', act_SessionID = '''',
     act_Roles = [], act_AMR = [], act_ServiceID = '''', act_DisplayName = '''', act_AvatarURL = ''''\<rparr>"

definition AvatarURL :: "string \<Rightarrow> string option \<Rightarrow> string" where
  "AvatarURL userID avatarID =
     (case avatarID of
        None \<Rightarrow> ''''
      | Some a \<Rightarrow> if a = '''' then '''' else ''/api/v1/users/'' @ userID @ ''/avatar/'' @ a)"

definition HasRole :: "actor \<Rightarrow> string \<Rightarrow> bool" where
  "HasRole a slug \<longleftrightarrow> list_ex (\<lambda>r. r = slug) (act_Roles a)"

definition IsOwner :: "actor \<Rightarrow> bool" where
  "IsOwner a \<longleftrightarrow> HasRole a ''owner''"

definition IsAdmin :: "actor \<Rightarrow> bool" where
  "IsAdmin a \<longleftrightarrow> IsOwner a \<or> HasRole a ''admin''"

record grant =
  gr_ID :: string
  gr_TenantID :: string

record req_context =
  ctx_actor :: "actor option"
  ctx_grant :: "grant option"

definition background :: req_context where
  "background = \<lparr>ctx_actor = None, ctx_grant = None\<rparr>"

definition WithActor :: "req_context \<Rightarrow> actor \<Rightarrow> req_context" where
  "WithActor ctx a = ctx\<lparr>ctx_actor := Some a\<rparr>"

definition FromContext :: "req_context \<Rightarrow> actor option" where
  "FromContext ctx = ctx_actor ctx"

definition WithOperatorGrant :: "req_context \<Rightarrow> string \<Rightarrow> string \<Rightarrow> req_context" where
  "WithOperatorGrant ctx ident tenantID =
     ctx\<lparr>ctx_grant := Some \<lparr>gr_ID = ident, gr_TenantID = tenantID\<rparr>\<rparr>"

definition OperatorGrant :: "req_context \<Rightarrow> grant option" where
  "OperatorGrant ctx = ctx_grant ctx"

text \<open>\<open>p.ID.String()\<close> of the verified peer is the argument.\<close>

definition ActorFromService :: "string \<Rightarrow> actor" where
  "ActorFromService peerID = no_actor\<lparr>act_Kind := KindService, act_ServiceID := peerID\<rparr>"

definition ValidTenantID :: "string \<Rightarrow> bool" where
  "ValidTenantID s = match_uuid s"

section \<open>The guard\<close>

record refusal =
  rf_Actor :: actor
  rf_ActorTenant :: string
  rf_TargetTenant :: string
  rf_Reason :: string

definition refuse :: "actor \<Rightarrow> string \<Rightarrow> string \<Rightarrow> refusal" where
  "refuse a target reason =
     \<lparr>rf_Actor = a, rf_ActorTenant = act_TenantID a, rf_TargetTenant = target, rf_Reason = reason\<rparr>"

text \<open>The outcome and what \<open>OnRefusal\<close> is called with, if it is called.\<close>

definition Require :: "req_context \<Rightarrow> string \<Rightarrow> unit result \<times> refusal option" where
  "Require ctx tenantID =
     (case FromContext ctx of
        None \<Rightarrow> (Inl ErrNoActor, None)
      | Some a \<Rightarrow>
          if tenantID = '''' then (Inl ErrCrossTenant, Some (refuse a tenantID ''empty_tenant''))
          else if act_Kind a = KindService \<or> act_Kind a = KindSystem then (Inr (), None)
          else if act_Kind a = KindOperator then
            (if act_TenantID a = tenantID then (Inr (), None)
             else if (case OperatorGrant ctx of None \<Rightarrow> False | Some gr \<Rightarrow> gr_TenantID gr = tenantID)
             then (Inr (), None)
             else (Inl ErrNoOperatorGrant, Some (refuse a tenantID ''no_operator_grant'')))
          else if act_TenantID a = tenantID then (Inr (), None)
          else (Inl ErrCrossTenant, Some (refuse a tenantID ''cross_tenant'')))"

section \<open>Lemmas\<close>

text \<open>Who may act inside a tenant.\<close>

definition may_act :: "req_context \<Rightarrow> string \<Rightarrow> bool" where
  "may_act ctx tid \<longleftrightarrow>
     tid \<noteq> ''''
     \<and> (\<exists>a. FromContext ctx = Some a
          \<and> (act_Kind a = KindService \<or> act_Kind a = KindSystem \<or> act_TenantID a = tid
             \<or> (act_Kind a = KindOperator
                 \<and> (\<exists>g. OperatorGrant ctx = Some g \<and> gr_TenantID g = tid))))"

lemma Require_ok_iff: "fst (Require ctx tid) = Inr () \<longleftrightarrow> may_act ctx tid"
  by (auto simp: Require_def may_act_def kind_defs split: option.splits if_splits)

lemma Require_cases:
  "fst (Require ctx tid) = Inr () \<or> (\<exists>e. fst (Require ctx tid) = Inl e)"
  by (cases "fst (Require ctx tid)") auto

text \<open>
  C37: tenant isolation of the guard.  \<open>Require\<close> admits a caller to a tenant iff the caller is a
  service or the system, or belongs to that tenant, or is an operator holding a grant for exactly
  that tenant; the empty tenant is never admitted; and every refusal of a known actor is reported
  to the audit hook with that actor and that target, while an admitted call is never reported.
\<close>

theorem Require_isolates_tenants:
  "(fst (Require ctx tid) = Inr () \<longleftrightarrow> may_act ctx tid)
   \<and> (case snd (Require ctx tid) of
        None \<Rightarrow> may_act ctx tid \<or> FromContext ctx = None
      | Some r \<Rightarrow> \<not> may_act ctx tid \<and> FromContext ctx = Some (rf_Actor r) \<and> rf_TargetTenant r = tid)"
  by (auto simp: Require_def may_act_def kind_defs refuse_def split: option.splits if_splits)

end
