(* ===== verification/World.thy ===== *)
theory World
  imports Memstore Cache_KV Tenantctx
begin

text \<open>
  What the services share: the store, the cache and the audit trail, and the functions they call
  that are not part of this repository.  A call to the store or to the cache may fail: the list
  \<open>faults\<close> says how the next calls go (each call takes one entry; when the list is empty calls
  succeed).  A call that fails may fail before or after its effect, as a lost reply does.  Nothing
  is assumed about the list, so a property proved for every state holds under every pattern of
  outages.
\<close>

section \<open>Documents kept in the cache\<close>

text \<open>\<open>session.view\<close>; the zero time of \<open>RenewedAt\<close> and \<open>GraceUntil\<close> is \<open>None\<close>.\<close>

record view =
  vw_ID :: string
  vw_TenantID :: string
  vw_UserID :: string
  vw_Roles :: "string list"
  vw_AMR :: "string list"
  vw_Operator :: bool
  vw_CreatedAt :: time
  vw_LastSeen :: time
  vw_ExpiresAt :: time
  vw_Idle :: duration
  vw_PolicyVersion :: int
  vw_DisplayName :: string
  vw_AvatarURL :: string
  vw_RenewedAt :: "time option"
  vw_GraceUntil :: "time option"

text \<open>\<open>user.challenge\<close>\<close>

record challenge =
  ch_TenantID :: string
  ch_UserID :: string
  ch_IPHash :: string
  ch_UserAgent :: string
  ch_Roles :: "string list"
  ch_Operator :: bool
  ch_Policy :: policy

text \<open>\<open>oauth.pending\<close>\<close>

record pending_code =
  pc_ClientID :: string
  pc_RedirectURI :: string
  pc_Challenge :: string
  pc_TenantID :: string
  pc_UserID :: string
  pc_SessionID :: string
  pc_Roles :: "string list"
  pc_AMR :: "string list"

text \<open>\<open>webauthn.ceremony\<close>; the library's session data is opaque.\<close>

record ceremony =
  ce_Purpose :: string
  ce_TenantID :: string
  ce_UserID :: string
  ce_Name :: string
  ce_Session :: string

datatype doc = DView view | DChallenge challenge | DCode pending_code | DCeremony ceremony

section \<open>Code outside the repository\<close>

text \<open>
  \<open>sha256\<close>: the digest of \<open>crypto/sha256\<close>; \<open>idkey\<close>: \<open>argon2.IDKey\<close> (password, salt, time, memory,
  threads, key length); \<open>gcm_seal\<close>, \<open>gcm_open\<close>: AES-GCM under a key (nonce, text, associated data);
  \<open>kek\<close>: the key-encryption key; \<open>ul\<close>: lower-casing of non-ASCII text; \<open>uu\<close>: upper-casing; \<open>ef\<close>:
  \<open>strings.EqualFold\<close>; \<open>etld1\<close>: the public-suffix list; \<open>totp\<close>: the one-time code of a secret at a
  time (\<open>totp.GenerateCodeCustom\<close> with the options of the service); \<open>totp_key\<close>:
  \<open>totp.Generate\<close> for an issuer, an account name and a seed (the base32 secret and its address).
\<close>

record externals =
  ex_sha256 :: "string \<Rightarrow> string"
  ex_idkey :: "string \<Rightarrow> string \<Rightarrow> int \<Rightarrow> int \<Rightarrow> int \<Rightarrow> nat \<Rightarrow> string"
  ex_gcm_seal :: "string \<Rightarrow> string \<Rightarrow> string \<Rightarrow> string \<Rightarrow> string"
  ex_gcm_open :: "string \<Rightarrow> string \<Rightarrow> string \<Rightarrow> string \<Rightarrow> string option"
  ex_kek :: string
  ex_ul :: "string \<Rightarrow> string"
  ex_uu :: "string \<Rightarrow> string"
  ex_ef :: "string \<Rightarrow> string \<Rightarrow> bool"
  ex_etld1 :: "string \<Rightarrow> string result"
  ex_totp :: "string \<Rightarrow> time \<Rightarrow> string result"
  ex_totp_key :: "string \<Rightarrow> string \<Rightarrow> string \<Rightarrow> (string \<times> string) result"

definition hex_digit :: "nat \<Rightarrow> char" where
  "hex_digit n = (if n < 10 then char_of (48 + n) else char_of (87 + n))"

definition hex_encode :: "string \<Rightarrow> string" where
  "hex_encode s = concat (map (\<lambda>c. [hex_digit (of_char c div 16), hex_digit (of_char c mod 16)]) s)"

text \<open>\<open>crypto.HashToken\<close>: the hex form of the digest.\<close>

definition HashToken :: "externals \<Rightarrow> string \<Rightarrow> string" where
  "HashToken X tok = hex_encode (ex_sha256 X tok)"

definition hex_int :: "int \<Rightarrow> char" where
  "hex_int n = int_byte ((if n < 10 then 48 else 87) + n)"

lemma hex_digit_int: "hex_digit n = hex_int (int n)"
  using char_of_nat [of "48 + n", where 'a = int] char_of_nat [of "87 + n", where 'a = int]
  by (simp add: hex_digit_def hex_int_def int_byte_def)

lemma hex_encode_code [code]:
  "hex_encode s = concat (map (\<lambda>c. let n = byte_int c in [hex_int (n div 16), hex_int (n mod 16)]) s)"
  by (simp only: hex_encode_def hex_digit_int of_nat_div of_nat_mod int_of_char of_nat_numeral Let_def)

section \<open>The state\<close>

record audit_event =
  ev_Type :: string
  ev_TenantID :: string
  ev_ActorKind :: string
  ev_ActorUserID :: string
  ev_SubjectKind :: string
  ev_SubjectID :: string
  ev_Outcome :: string
  ev_Reason :: string

text \<open>\<open>authz.Tuple\<close>: one relationship of the authorization service.\<close>

record fga_tuple =
  tu_User :: string
  tu_Relation :: string
  tu_Object :: string

datatype fault = Works | FailsBefore | FailsAfter

record world =
  db :: memstore
  kv :: "doc memory"
  fga :: "fga_tuple list"
  audit :: "audit_event list"
  faults :: "fault list"

definition New_World :: world where
  "New_World = \<lparr>db = New_Store, kv = NewMemory, fga = [], audit = [], faults = []\<rparr>"

text \<open>One call over the network: it takes the next entry of the fault list.\<close>

definition call :: "(world, 'a) op \<Rightarrow> (world, 'a) op" where
  "call m w =
     (case faults w of
        [] \<Rightarrow> m w
      | Works # fs \<Rightarrow> m (w\<lparr>faults := fs\<rparr>)
      | FailsBefore # fs \<Rightarrow> (Inl (ErrOther ''unavailable''), w\<lparr>faults := fs\<rparr>)
      | FailsAfter # fs \<Rightarrow> (Inl (ErrOther ''unavailable''), snd (m (w\<lparr>faults := fs\<rparr>))))"

definition on_db :: "(memstore, 'a) op \<Rightarrow> (world, 'a) op" where
  "on_db m = call (\<lambda>w. case m (db w) of (r, d) \<Rightarrow> (r, w\<lparr>db := d\<rparr>))"

definition on_kv :: "(doc memory, 'a) op \<Rightarrow> (world, 'a) op" where
  "on_kv m = call (\<lambda>w. case m (kv w) of (r, k) \<Rightarrow> (r, w\<lparr>kv := k\<rparr>))"

definition on_fga :: "(fga_tuple list, 'a) op \<Rightarrow> (world, 'a) op" where
  "on_fga m = call (\<lambda>w. case m (fga w) of (r, t) \<Rightarrow> (r, w\<lparr>fga := t\<rparr>))"

text \<open>The cache client of a service: each method is one call.\<close>

definition World_KV :: "(world, doc) KV" where
  "World_KV =
     \<lparr>kv_Get = (\<lambda>now k. on_kv (Mem_Get now k)),
      kv_GetDel = (\<lambda>now k. on_kv (Mem_GetDel now k)),
      kv_Set = (\<lambda>now k v ttl. on_kv (Mem_Set now k v ttl)),
      kv_Del = (\<lambda>now ks. on_kv (Mem_Del now ks)),
      kv_Incr = (\<lambda>now k ttl. on_kv (Mem_Incr now k ttl)),
      kv_Publish = (\<lambda>ch msg. on_kv (Mem_Publish ch msg))\<rparr>"

text \<open>\<open>audit.Writer.Emit\<close> puts the event in the writer's buffer; the services ignore its error.\<close>

definition emit :: "audit_event \<Rightarrow> (world, unit) op" where
  "emit e = modify_op (\<lambda>w. w\<lparr>audit := audit w @ [e]\<rparr>)"

definition event ::
    "string \<Rightarrow> string \<Rightarrow> string \<Rightarrow> string \<Rightarrow> string \<Rightarrow> string \<Rightarrow> string \<Rightarrow> string \<Rightarrow> audit_event" where
  "event typ tenantID kind uid subjectKind subjectID out reason =
     \<lparr>ev_Type = typ, ev_TenantID = tenantID, ev_ActorKind = kind, ev_ActorUserID = uid,
      ev_SubjectKind = subjectKind, ev_SubjectID = subjectID, ev_Outcome = out, ev_Reason = reason\<rparr>"

section \<open>Weakest preconditions of calls\<close>

lemma wp_call:
  assumes "\<And>w'. w' = w\<lparr>faults := faults w'\<rparr> \<Longrightarrow> wp m (\<lambda>r w''. Q r w'' \<and> Q (Inl (ErrOther ''unavailable'')) w'') w'"
    and "\<And>w'. w' = w\<lparr>faults := faults w'\<rparr> \<Longrightarrow> Q (Inl (ErrOther ''unavailable'')) w'"
  shows "wp (call m) Q w"
proof (cases "faults w")
  case Nil
  with assms(1) [of w] show ?thesis by (simp add: wp_iff call_def)
next
  case (Cons f fs)
  with assms(1) [of "w\<lparr>faults := fs\<rparr>"] assms(2) [of "w\<lparr>faults := fs\<rparr>"] show ?thesis
    by (cases f) (simp_all add: wp_iff call_def)
qed

lemma call_no_faults: "faults w = [] \<Longrightarrow> call m w = m w"
  by (simp add: call_def)


section \<open>Calls that succeed\<close>

text \<open>
  Without faults each call has its effect; the rules below say which, in terms of what the cache
  reads as from now on.  \<open>calm\<close> relates two states that differ in nothing a later call can see.
\<close>

definition sees :: "world \<Rightarrow> doc kv_view" where
  "sees w = mem_view (kv w)"

definition calm :: "time \<Rightarrow> world \<Rightarrow> world \<Rightarrow> bool" where
  "calm now w w' \<longleftrightarrow> faults w' = [] \<and> db w' = db w \<and> same_from now (sees w') (sees w)"

lemma calm_refl [simp]: "faults w = [] \<Longrightarrow> calm now w w"
  by (simp add: calm_def)

lemma calm_trans: "calm now w w1 \<Longrightarrow> calm now w1 w2 \<Longrightarrow> calm now w w2"
  by (simp add: calm_def same_from_def)

lemma calm_sees: "calm now w w' \<Longrightarrow> now \<le> t \<Longrightarrow> sees w' t = sees w t"
  by (simp add: calm_def same_from_def)

named_theorems ff_rules \<open>calls and operations in a state without faults\<close>

lemma wp_on_db [ff_rules]:
  assumes "faults w = []" "\<And>r d. m (db w) = (r, d) \<Longrightarrow> Q r (w\<lparr>db := d\<rparr>)"
  shows "wp (on_db m) Q w"
  using assms by (simp add: wp_def on_db_def call_def split: prod.split)

lemma wp_on_kv:
  assumes "faults w = []" "\<And>r k. m (kv w) = (r, k) \<Longrightarrow> Q r (w\<lparr>kv := k\<rparr>)"
  shows "wp (on_kv m) Q w"
  using assms by (simp add: wp_def on_kv_def call_def split: prod.split)

lemma wp_on_kv_of:
  assumes "faults w = []" "wp m R (kv w)" "\<And>r k. R r k \<Longrightarrow> Q r (w\<lparr>kv := k\<rparr>)"
  shows "wp (on_kv m) Q w"
  using assms by (simp add: wp_iff on_kv_def call_def split: prod.split) (metis fst_conv snd_conv)

lemma wp_Get [ff_rules]:
  assumes "faults w = []" "\<And>w'. calm now w w' \<Longrightarrow> Q (Inr (sees w now k)) w'"
  shows "wp (kv_Get World_KV now k) Q w"
  unfolding World_KV_def KV.simps
proof (rule wp_on_kv_of [OF assms(1)])
  show "wp (Mem_Get now k) (\<lambda>r m'. r = Inr (mem_view (kv w) now k)
          \<and> same_from now (mem_view m') (mem_view (kv w))) (kv w)"
    using live_value [of now k "kv w"] live_view [of now k "kv w"]
    by (auto simp: wp_def Mem_Get_def split: prod.split)
qed (use assms in \<open>simp add: sees_def calm_def\<close>)

lemma wp_GetDel [ff_rules]:
  assumes "faults w = []"
    and "\<And>w'. faults w' = [] \<Longrightarrow> db w' = db w \<Longrightarrow> same_from now (sees w') (view_del [k] (sees w))
           \<Longrightarrow> Q (Inr (sees w now k)) w'"
  shows "wp (kv_GetDel World_KV now k) Q w"
  unfolding World_KV_def KV.simps
proof (rule wp_on_kv_of [OF assms(1)])
  show "wp (Mem_GetDel now k) (\<lambda>r m'. r = Inr (mem_view (kv w) now k)
          \<and> same_from now (mem_view m') (view_del [k] (mem_view (kv w)))) (kv w)"
    using live_value [of now k "kv w"] same_from_del [OF live_view [of now k "kv w"], of "[k]"]
    by (auto simp: wp_def Mem_GetDel_def split: prod.split)
qed (use assms in \<open>simp add: sees_def\<close>)

lemma wp_Set [ff_rules]:
  assumes "faults w = []"
    and "\<And>w'. faults w' = [] \<Longrightarrow> db w' = db w \<Longrightarrow> sees w' = view_set now k v ttl (sees w) \<Longrightarrow> Q (Inr ()) w'"
  shows "wp (kv_Set World_KV now k v ttl) Q w"
  unfolding World_KV_def KV.simps
proof (rule wp_on_kv [OF assms(1)])
  fix r k' assume "Mem_Set now k v ttl (kv w) = (r, k')"
  then have "r = Inr ()" "mem_view k' = view_set now k v ttl (mem_view (kv w))"
    by (auto simp: Mem_Set_def mem_view_put)
  then show "Q r (w\<lparr>kv := k'\<rparr>)" using assms by (simp add: sees_def)
qed

lemma wp_Del [ff_rules]:
  assumes "faults w = []"
    and "\<And>w'. faults w' = [] \<Longrightarrow> db w' = db w \<Longrightarrow> sees w' = view_del ks (sees w) \<Longrightarrow> Q (Inr ()) w'"
  shows "wp (kv_Del World_KV now ks) Q w"
  unfolding World_KV_def KV.simps
  by (rule wp_on_kv [OF assms(1)]) (use assms in \<open>auto simp: Mem_Del_def sees_def mem_view_fold_delete\<close>)

lemma wp_MarkRevoked [ff_rules]:
  assumes "faults w = []"
    and "\<And>w'. faults w' = [] \<Longrightarrow> db w' = db w
           \<Longrightarrow> sees w' = view_set now key (Text (FormatInt (wrap64 at))) ttl (sees w) \<Longrightarrow> Q (Inr ()) w'"
  shows "wp (MarkRevoked World_KV now key at ttl) Q w"
  unfolding MarkRevoked_def wp_simps
proof (rule wp_Set [OF assms(1)])
  fix w' assume w': "faults w' = []" "db w' = db w"
    "sees w' = view_set now key (Text (FormatInt (wrap64 at))) ttl (sees w)"
  show "case Inr () of Inl e \<Rightarrow> Q (Inl e) w'
    | Inr _ \<Rightarrow> wp (kv_Publish World_KV RevokedChannel (key @ ''|'' @ FormatInt (wrap64 at))) Q w'"
    unfolding World_KV_def KV.simps sum.case
    by (rule wp_on_kv [OF w'(1)]) (use w' assms(2) in \<open>auto simp: Mem_Publish_def sees_def\<close>)
qed

text \<open>What a revocation mark says; unreadable marks and failed reads count as none.\<close>

definition mark_time :: "doc kv_value option \<Rightarrow> time option" where
  "mark_time x = (case decode_mark x of Inl _ \<Rightarrow> None | Inr y \<Rightarrow> y)"

lemma mark_time_None [simp]: "mark_time None = None"
  by (simp add: mark_time_def)

lemma mark_time_text [simp]: "int64 at \<Longrightarrow> mark_time (Some (Text (FormatInt at))) = Some at"
  by (simp add: mark_time_def)

lemma wp_RevokedAt:
  assumes "faults w = []" "\<And>w'. calm now w w' \<Longrightarrow> Q (decode_mark (sees w now key)) w'"
  shows "wp (RevokedAt World_KV now key) Q w"
  unfolding RevokedAt_alt wp_simps by (rule wp_Get [OF assms(1)]) (simp add: wp_simps assms)

text \<open>The cache client keeps the laws of the interface whatever calls fail.\<close>

lemma wp_on_kv_faulty:
  assumes "wp m R (kv w)"
    and "\<And>r k fs. R r k \<Longrightarrow>
           Q r (w\<lparr>faults := fs, kv := k\<rparr>) \<and> Q (Inl (ErrOther ''unavailable'')) (w\<lparr>faults := fs, kv := k\<rparr>)"
    and "\<And>fs. Q (Inl (ErrOther ''unavailable'')) (w\<lparr>faults := fs\<rparr>)"
  shows "wp (on_kv m) Q w"
proof -
  obtain r k where m: "m (kv w) = (r, k)" by force
  with assms(1) have R: "R r k" by (simp add: wp_def)
  show ?thesis
  proof (cases "faults w")
    case Nil
    then have "w\<lparr>faults := []\<rparr> = w" by (cases w) simp
    then have "Q r (w\<lparr>kv := k\<rparr>)" using assms(2) [OF R, of "[]"] by (metis (no_types))
    then show ?thesis using Nil m by (simp add: wp_def on_kv_def call_def)
  next
    case (Cons f fs)
    then show ?thesis using m assms(2) [OF R, of fs] assms(3) [of fs]
      by (cases f) (simp_all add: wp_def on_kv_def call_def)
  qed
qed

lemma kv_outcome:
  assumes "wp m (\<lambda>r k'. outcome now (mem_view (kv w)) upd (mem_view k') r \<and> (\<forall>a. r = Inr a \<longrightarrow> R a)) (kv w)"
  shows "wp (on_kv m) (\<lambda>r w'. outcome now (sees w) upd (sees w') r \<and> (\<forall>a. r = Inr a \<longrightarrow> R a)) w"
  by (rule wp_on_kv_faulty [OF assms]) (auto simp: sees_def outcome_def)

interpretation wkv: kv_store World_KV sees
proof
  fix now k ks v ttl ch msg w
  show "wp (kv_Get World_KV now k) (\<lambda>r w'. outcome now (sees w) (sees w) (sees w') r
          \<and> (\<forall>v. r = Inr v \<longrightarrow> v = sees w now k)) w"
    using kv_outcome [OF mem.Get [unfolded Memory_KV_def KV.simps]] by (simp add: World_KV_def sees_def)
  show "wp (kv_GetDel World_KV now k) (\<lambda>r w'. outcome now (sees w) (view_del [k] (sees w)) (sees w') r
          \<and> (\<forall>v. r = Inr v \<longrightarrow> v = sees w now k)) w"
    using kv_outcome [OF mem.GetDel [unfolded Memory_KV_def KV.simps]] by (simp add: World_KV_def sees_def)
  show "wp (kv_Set World_KV now k v ttl)
          (\<lambda>r w'. outcome now (sees w) (view_set now k v ttl (sees w)) (sees w') r) w"
    using kv_outcome [where R = "\<lambda>_. True", simplified, OF mem.Set [unfolded Memory_KV_def KV.simps]]
    by (simp add: World_KV_def sees_def)
  show "wp (kv_Del World_KV now ks) (\<lambda>r w'. outcome now (sees w) (view_del ks (sees w)) (sees w') r) w"
    using kv_outcome [where R = "\<lambda>_. True", simplified, OF mem.Del [unfolded Memory_KV_def KV.simps]]
    by (simp add: World_KV_def sees_def)
  show "wp (kv_Publish World_KV ch msg) (\<lambda>r w'. sees w' = sees w) w"
    unfolding World_KV_def KV.simps
    by (rule wp_on_kv_faulty [OF mem.Publish [unfolded Memory_KV_def KV.simps]]) (auto simp: sees_def)
next
  fix now k c ttl w
  assume "view_count now k (sees w) = Some c"
  then show "wp (kv_Incr World_KV now k ttl)
      (\<lambda>r w'. outcome now (sees w) (view_incr now k ttl (wrap64 (c + 1)) (sees w)) (sees w') r
         \<and> (\<forall>n. r = Inr n \<longrightarrow> n = wrap64 (c + 1))) w"
    using kv_outcome [OF mem.Incr [unfolded Memory_KV_def KV.simps]] by (simp add: World_KV_def sees_def)
qed

text \<open>A concrete instance of the functions outside the repository, for evaluation.\<close>

definition demo_X :: externals where
  "demo_X = \<lparr>ex_sha256 = (\<lambda>s. s),
     ex_idkey = (\<lambda>pw salt t m p n. take n (pw @ replicate n (CHR ''x''))),
     ex_gcm_seal = (\<lambda>k n pt ad. pt @ replicate 16 (CHR ''t'')),
     ex_gcm_open = (\<lambda>k n ct ad. Some (take (length ct - 16) ct)), ex_kek = ''kek'',
     ex_ul = (\<lambda>s. s), ex_uu = (\<lambda>s. s), ex_ef = (\<lambda>a b. a = b), ex_etld1 = (\<lambda>d. Inr d),
     ex_totp = (\<lambda>s t. Inr ''123456''), ex_totp_key = (\<lambda>i a s. Inr (s, ''otpauth://'' @ s))\<rparr>"

end
