(* ===== verification/Session_Manager.thy ===== *)
theory Session_Manager
  imports World
begin

text \<open>
  Browser sessions: \<open>internal/session/session.go\<close>.  The manager is wired with a cache and an audit
  writer.  One clock reading \<open>now\<close> per operation stands for the readings \<open>m.now ()\<close> and \<open>m.Now ()\<close> the
  operation makes; the fresh identifier and the fresh secret are arguments (\<open>None\<close> when the source
  of randomness fails).
\<close>

section \<open>Definitions\<close>

definition ReasonSignout :: string where "ReasonSignout = ''signout''"
definition ReasonIdle :: string where "ReasonIdle = ''idle_timeout''"
definition ReasonExpired :: string where "ReasonExpired = ''expired''"

definition RevocationRetention :: duration where "RevocationRetention = 60 * minute"
definition RenewGrace :: duration where "RenewGrace = minute"
definition RenewMinInterval :: duration where "RenewMinInterval = 30 * second"

record create_params =
  cp_TenantID :: string
  cp_UserID :: string
  cp_Roles :: "string list"
  cp_AMR :: "string list"
  cp_Operator :: bool
  cp_IPHash :: string
  cp_UserAgent :: string
  cp_Policy :: policy

definition clip :: "string \<Rightarrow> nat \<Rightarrow> string" where
  "clip s n = (if length s > n then take n s else s)"

definition kindOrSystem :: "actor \<Rightarrow> string" where
  "kindOrSystem a = (if act_Kind a = '''' then KindSystem else act_Kind a)"

text \<open>\<open>FromContext\<close> with the boolean dropped: no actor is the zero actor.\<close>

definition actor_or_zero :: "req_context \<Rightarrow> actor" where
  "actor_or_zero ctx = (case FromContext ctx of None \<Rightarrow> no_actor | Some a \<Rightarrow> a)"

definition view_actor :: "view \<Rightarrow> actor" where
  "view_actor v =
     no_actor\<lparr>act_Kind := (if vw_Operator v then KindOperator else KindUser), act_UserID := vw_UserID v,
       act_TenantID := vw_TenantID v, act_SessionID := vw_ID v, act_Roles := vw_Roles v,
       act_AMR := vw_AMR v, act_DisplayName := vw_DisplayName v, act_AvatarURL := vw_AvatarURL v\<rparr>"

definition tenantVersion :: "time \<Rightarrow> string \<Rightarrow> (world, int) op" where
  "tenantVersion now tid =
     try_op (TenantVersion World_KV now tid) (\<lambda>r. ret (case r of Inl _ \<Rightarrow> 0 | Inr n \<Rightarrow> n))"

definition loadProfile :: "view \<Rightarrow> (world, view) op" where
  "loadProfile v =
     try_op (on_db (Store_User (vw_TenantID v) (vw_UserID v))) (\<lambda>r.
       case r of
         Inl _ \<Rightarrow> ret v
       | Inr u \<Rightarrow> ret (v\<lparr>vw_DisplayName := us_DisplayName u,
                        vw_AvatarURL := AvatarURL (us_ID u) (us_AvatarID u)\<rparr>))"

definition refreshIfStale :: "time \<Rightarrow> view \<Rightarrow> (world, view) op" where
  "refreshIfStale now v =
     bind_op (tenantVersion now (vw_TenantID v)) (\<lambda>cur.
       if cur = vw_PolicyVersion v then ret v
       else try_op (on_db (Store_Roles (vw_TenantID v) (vw_UserID v))) (\<lambda>r.
         case r of
           Inl _ \<Rightarrow> ret v
         | Inr roles \<Rightarrow> loadProfile (v\<lparr>vw_Roles := roles, vw_PolicyVersion := cur\<rparr>)))"

definition evictView :: "time \<Rightarrow> string \<Rightarrow> (world, unit) op" where
  "evictView now hash = ignore_op (kv_Del World_KV now [SessionKey hash]) (ret ())"

definition RefreshUser :: "time \<Rightarrow> string \<Rightarrow> string \<Rightarrow> (world, unit) op" where
  "RefreshUser now tenantID userID =
     try_op (on_db (Store_ListUser tenantID userID)) (\<lambda>r.
       case r of
         Inl _ \<Rightarrow> ret ()
       | Inr sessions \<Rightarrow> for_op sessions (\<lambda>s. evictView now (ss_SecretHash s)))"

definition view_ttl :: "time \<Rightarrow> view \<Rightarrow> duration" where
  "view_ttl now v =
     (let ttl = vw_Idle v;
          ttl = (if vw_ExpiresAt v - now < ttl then vw_ExpiresAt v - now else ttl)
      in case vw_GraceUntil v of
           None \<Rightarrow> ttl
         | Some g \<Rightarrow> if g - now < ttl then g - now else ttl)"

definition putView :: "time \<Rightarrow> string \<Rightarrow> view \<Rightarrow> (world, unit) op" where
  "putView now hash v =
     when_op (view_ttl now v > 0)
       (ignore_op (kv_Set World_KV now (SessionKey hash) (Doc (DView v)) (view_ttl now v)) (ret ()))"

definition getView :: "time \<Rightarrow> string \<Rightarrow> (world, view option) op" where
  "getView now hash =
     try_op (kv_Get World_KV now (SessionKey hash)) (\<lambda>r.
       ret (case r of Inr (Some (Doc (DView v))) \<Rightarrow> Some v | _ \<Rightarrow> None))"

text \<open>\<open>_, ok, _ := RevokedAt\<close>: an error reads as no mark.\<close>

definition mark_at :: "time \<Rightarrow> string \<Rightarrow> (world, time option) op" where
  "mark_at now key =
     try_op (RevokedAt World_KV now key) (\<lambda>r. ret (case r of Inl _ \<Rightarrow> None | Inr x \<Rightarrow> x))"

text \<open>\<open>ok && !at.Before (v.CreatedAt)\<close>\<close>

definition covers :: "time option \<Rightarrow> view \<Rightarrow> bool" where
  "covers mark v = (case mark of None \<Rightarrow> False | Some at \<Rightarrow> \<not> at < vw_CreatedAt v)"

definition revoked :: "time \<Rightarrow> view \<Rightarrow> (world, bool) op" where
  "revoked now v =
     bind_op (mark_at now (RevokedSessionKey (vw_ID v))) (\<lambda>s.
       if s \<noteq> None then ret True
       else bind_op (mark_at now (RevokedUserKey (vw_UserID v))) (\<lambda>u.
         if covers u v then ret True
         else bind_op (mark_at now (RevokedTenantKey (vw_TenantID v))) (\<lambda>t. ret (covers t v))))"

definition revocation_key :: "revocation \<Rightarrow> string option" where
  "revocation_key r =
     (if rv_Kind r = ''session'' then Some (RevokedSessionKey (rv_SubjectID r))
      else if rv_Kind r = ''user'' then Some (RevokedUserKey (rv_SubjectID r))
      else if rv_Kind r = ''tenant'' then Some (RevokedTenantKey (rv_SubjectID r))
      else None)"

definition publish :: "time \<Rightarrow> revocation \<Rightarrow> (world, unit) op" where
  "publish now r =
     seq_op (on_db (Store_InsertRevocation r))
       (case revocation_key r of
          None \<Rightarrow> throw (ErrOther ''session: unknown revocation kind'')
        | Some key \<Rightarrow> MarkRevoked World_KV now key (rv_TS r) RevocationRetention)"

definition session_event ::
    "string \<Rightarrow> string \<Rightarrow> string \<Rightarrow> string \<Rightarrow> string \<Rightarrow> string \<Rightarrow> string \<Rightarrow> audit_event" where
  "session_event typ tenantID kind uid subjectKind subjectID reason =
     \<lparr>ev_Type = typ, ev_TenantID = tenantID, ev_ActorKind = kind, ev_ActorUserID = uid,
      ev_SubjectKind = subjectKind, ev_SubjectID = subjectID, ev_Outcome = ''ok'', ev_Reason = reason\<rparr>"

definition revokeOne :: "time \<Rightarrow> string \<Rightarrow> string \<Rightarrow> string \<Rightarrow> actor \<Rightarrow> (world, unit) op" where
  "revokeOne now tenantID ident reason a =
     seq_op (on_db (Store_Revoke now tenantID ident reason))
    (seq_op (publish now \<lparr>rv_TS = now, rv_Kind = ''session'', rv_SubjectID = ident,
                          rv_TenantID = tenantID, rv_Reason = reason\<rparr>)
       (emit (session_event (if reason = ReasonSignout then ''signout'' else ''session_revoked'')
                tenantID (kindOrSystem a) (act_UserID a) ''session'' ident reason)))"

definition expire :: "time \<Rightarrow> view \<Rightarrow> string \<Rightarrow> string \<Rightarrow> (world, unit) op" where
  "expire now v hash reason =
     seq_op (evictView now hash)
       (revokeOne now (vw_TenantID v) (vw_ID v) reason (no_actor\<lparr>act_Kind := KindSystem\<rparr>))"

definition Create ::
    "externals \<Rightarrow> time \<Rightarrow> string \<Rightarrow> string option \<Rightarrow> create_params \<Rightarrow> (world, session \<times> string) op" where
  "Create X now newID random p =
     (case random of
        None \<Rightarrow> throw (ErrOther ''randomness unavailable'')
      | Some secret \<Rightarrow>
          let s = \<lparr>ss_ID = newID, ss_TenantID = cp_TenantID p, ss_UserID = cp_UserID p,
                   ss_SecretHash = HashToken X secret, ss_AMR = cp_AMR p, ss_CreatedAt = now,
                   ss_LastSeen = now, ss_ExpiresAt = now + SessionLifetime (cp_Policy p),
                   ss_IPHash = cp_IPHash p, ss_UserAgent = clip (cp_UserAgent p) 256,
                   ss_RevokedAt = None, ss_RevokedReason = None\<rparr>;
              v = \<lparr>vw_ID = ss_ID s, vw_TenantID = ss_TenantID s, vw_UserID = ss_UserID s,
                   vw_Roles = cp_Roles p, vw_AMR = ss_AMR s, vw_Operator = cp_Operator p,
                   vw_CreatedAt = now, vw_LastSeen = now, vw_ExpiresAt = ss_ExpiresAt s,
                   vw_Idle = IdleTimeout (cp_Policy p), vw_PolicyVersion = 0, vw_DisplayName = '''',
                   vw_AvatarURL = '''', vw_RenewedAt = None, vw_GraceUntil = None\<rparr>
          in seq_op (on_db (Store_Insert s))
            (bind_op (tenantVersion now (ss_TenantID s)) (\<lambda>ver.
             bind_op (loadProfile (v\<lparr>vw_PolicyVersion := ver\<rparr>)) (\<lambda>v.
             seq_op (putView now (ss_SecretHash s) v)
               (ret (s, secret))))))"

text \<open>The view of a session row, as \<open>Resolve\<close>, \<open>ByID\<close> and \<open>Renew\<close> build it.\<close>

definition view_of_row :: "session \<Rightarrow> tenant \<Rightarrow> string list \<Rightarrow> duration \<Rightarrow> view" where
  "view_of_row s t roles idle =
     \<lparr>vw_ID = ss_ID s, vw_TenantID = ss_TenantID s, vw_UserID = ss_UserID s, vw_Roles = roles,
      vw_AMR = ss_AMR s, vw_Operator = (tn_Kind t = ''platform''), vw_CreatedAt = ss_CreatedAt s,
      vw_LastSeen = ss_LastSeen s, vw_ExpiresAt = ss_ExpiresAt s, vw_Idle = idle,
      vw_PolicyVersion = 0, vw_DisplayName = '''', vw_AvatarURL = '''', vw_RenewedAt = None,
      vw_GraceUntil = None\<rparr>"

text \<open>\<open>if err != nil || bad { return ErrNoSession }\<close>\<close>

definition or_no_session :: "(world, 'a) op \<Rightarrow> ('a \<Rightarrow> bool) \<Rightarrow> ('a \<Rightarrow> (world, 'b) op) \<Rightarrow> (world, 'b) op" where
  "or_no_session m good f =
     try_op m (\<lambda>r. case r of Inl _ \<Rightarrow> throw ErrNoSession | Inr a \<Rightarrow> if good a then f a else throw ErrNoSession)"

text \<open>The session, its active tenant and the tenant's policy.\<close>

definition load_row ::
    "(world, session) op \<Rightarrow> (session \<Rightarrow> tenant \<Rightarrow> policy \<Rightarrow> (world, 'b) op) \<Rightarrow> (world, 'b) op" where
  "load_row get f =
     or_no_session get (\<lambda>s. ss_RevokedAt s = None) (\<lambda>s.
     or_no_session (on_db (Store_Tenant (ss_TenantID s))) (\<lambda>t. tn_Status t = ''active'') (\<lambda>t.
       case ParsePolicy (tn_Policy t) (tn_Kind t = ''platform'') of
         (pol, Inl e) \<Rightarrow> throw e
       | (pol, Inr _) \<Rightarrow> f s t pol))"

text \<open>The view a secret's hash stands for: the cached one, brought up to date, or the row's.\<close>

definition lookup_view :: "time \<Rightarrow> string \<Rightarrow> (world, view) op" where
  "lookup_view now hash =
     bind_op (getView now hash) (\<lambda>cached.
       case cached of
         None \<Rightarrow>
           load_row (on_db (Store_GetByHash hash)) (\<lambda>s t pol.
             bind_op (on_db (Store_Roles (ss_TenantID s) (ss_UserID s))) (\<lambda>roles.
             bind_op (tenantVersion now (ss_TenantID s)) (\<lambda>ver.
               loadProfile ((view_of_row s t roles (IdleTimeout pol))\<lparr>vw_PolicyVersion := ver\<rparr>))))
       | Some v \<Rightarrow>
           (if (case vw_GraceUntil v of None \<Rightarrow> False | Some g \<Rightarrow> \<not> now < g)
            then seq_op (evictView now hash) (throw ErrNoSession)
            else refreshIfStale now v))"

definition touch_view :: "time \<Rightarrow> view \<Rightarrow> (world, view) op" where
  "touch_view now v =
     (if now - vw_LastSeen v \<ge> minute
      then try_op (on_db (Store_Touch now (vw_TenantID v) (vw_ID v))) (\<lambda>r.
             case r of Inl _ \<Rightarrow> ret v | Inr _ \<Rightarrow> ret (v\<lparr>vw_LastSeen := now\<rparr>))
      else ret v)"

definition admit_view :: "time \<Rightarrow> string \<Rightarrow> view \<Rightarrow> (world, actor) op" where
  "admit_view now hash v =
     (if \<not> now < vw_ExpiresAt v
      then ignore_op (expire now v hash ReasonExpired) (throw ErrNoSession)
      else if now - vw_LastSeen v > vw_Idle v
      then ignore_op (expire now v hash ReasonIdle) (throw ErrNoSession)
      else bind_op (revoked now v) (\<lambda>dead.
        if dead then seq_op (evictView now hash) (throw ErrNoSession)
        else bind_op (touch_view now v) (\<lambda>v.
          seq_op (putView now hash v) (ret (view_actor v)))))"

definition Resolve :: "externals \<Rightarrow> time \<Rightarrow> string \<Rightarrow> (world, actor) op" where
  "Resolve X now secret =
     (if secret = '''' then throw ErrNoSession
      else let hash = HashToken X secret in
        bind_op (lookup_view now hash) (\<lambda>v. admit_view now hash v))"

record renewal =
  rn_Secret :: string
  rn_SessionID :: string
  rn_ExpiresAt :: time
  rn_Idle :: duration

text \<open>The view a renewal starts from.\<close>

definition renewal_view :: "externals \<Rightarrow> time \<Rightarrow> string \<Rightarrow> actor \<Rightarrow> session \<Rightarrow> tenant \<Rightarrow> (world, view) op" where
  "renewal_view X now secret a s t =
     bind_op (getView now (HashToken X secret)) (\<lambda>cached.
       case cached of
         Some v \<Rightarrow> ret v
       | None \<Rightarrow>
           bind_op (tenantVersion now (ss_TenantID s)) (\<lambda>ver.
             ret ((view_of_row s t (act_Roles a) 0)
               \<lparr>vw_LastSeen := zero_time, vw_DisplayName := act_DisplayName a,
                vw_AvatarURL := act_AvatarURL a, vw_PolicyVersion := ver\<rparr>)))"

text \<open>The new secret and expiry; the views of the replaced secrets get a grace period.\<close>

definition rotate ::
    "externals \<Rightarrow> time \<Rightarrow> string option \<Rightarrow> string \<Rightarrow> actor \<Rightarrow> session \<Rightarrow> policy \<Rightarrow> view \<Rightarrow> (world, renewal) op" where
  "rotate X now random secret a s pol v =
     (if vw_GraceUntil v \<noteq> None
         \<or> (case vw_RenewedAt v of None \<Rightarrow> False | Some at \<Rightarrow> now - at < RenewMinInterval)
      then ret \<lparr>rn_Secret = '''', rn_SessionID = ss_ID s, rn_ExpiresAt = ss_ExpiresAt s, rn_Idle = vw_Idle v\<rparr>
      else
        (case random of
           None \<Rightarrow> throw (ErrOther ''randomness unavailable'')
         | Some next \<Rightarrow>
             let hash = HashToken X next; expires = now + SessionLifetime pol in
             or_no_session (on_db (Store_Renew now (ss_TenantID s) (ss_ID s) hash expires)) (\<lambda>_. True) (\<lambda>_.
               let grace = v\<lparr>vw_GraceUntil := Some (now + RenewGrace), vw_RenewedAt := Some now,
                             vw_ExpiresAt := expires\<rparr>;
                   v = v\<lparr>vw_GraceUntil := None, vw_LastSeen := now, vw_ExpiresAt := expires,
                         vw_RenewedAt := Some now\<rparr>
               in seq_op (for_op [HashToken X secret, ss_SecretHash s] (\<lambda>old. putView now old grace))
                 (seq_op (putView now hash v)
                 (seq_op (emit (session_event ''session_renewed'' (ss_TenantID s) (act_Kind a)
                                  (act_UserID a) ''session'' (ss_ID s) ''''))
                   (ret \<lparr>rn_Secret = next, rn_SessionID = ss_ID s, rn_ExpiresAt = expires,
                         rn_Idle = vw_Idle v\<rparr>))))))"

definition Renew :: "externals \<Rightarrow> time \<Rightarrow> string option \<Rightarrow> string \<Rightarrow> (world, renewal) op" where
  "Renew X now random secret =
     bind_op (Resolve X now secret) (\<lambda>a.
     load_row (on_db (Store_Get (act_TenantID a) (act_SessionID a))) (\<lambda>s t pol.
     bind_op (renewal_view X now secret a s t) (\<lambda>v.
       rotate X now random secret a s pol (v\<lparr>vw_Idle := IdleTimeout pol\<rparr>))))"

definition ByID :: "time \<Rightarrow> string \<Rightarrow> string \<Rightarrow> (world, actor) op" where
  "ByID now tenantID ident =
     (if tenantID = '''' \<or> ident = '''' then throw ErrNoSession
      else
        load_row (on_db (Store_Get tenantID ident)) (\<lambda>s t pol.
        bind_op (on_db (Store_Roles (ss_TenantID s) (ss_UserID s))) (\<lambda>roles.
        bind_op (loadProfile (view_of_row s t roles (IdleTimeout pol))) (\<lambda>v.
          if \<not> now < vw_ExpiresAt v \<or> now - vw_LastSeen v > vw_Idle v then throw ErrNoSession
          else bind_op (revoked now v) (\<lambda>dead.
            if dead then throw ErrNoSession else ret (view_actor v))))))"

definition Revoke :: "req_context \<Rightarrow> time \<Rightarrow> string \<Rightarrow> string \<Rightarrow> string \<Rightarrow> (world, unit) op" where
  "Revoke ctx now tenantID ident reason =
     bind_op (on_db (Store_Get tenantID ident)) (\<lambda>s.
     seq_op (revokeOne now tenantID ident reason (actor_or_zero ctx))
       (evictView now (ss_SecretHash s)))"

definition RevokeUser ::
    "req_context \<Rightarrow> time \<Rightarrow> string \<Rightarrow> string \<Rightarrow> string \<Rightarrow> string \<Rightarrow> (world, unit) op" where
  "RevokeUser ctx now tenantID userID reason keepID =
     bind_op (if keepID \<noteq> '''' then on_db (Store_ListUser tenantID userID) else ret []) (\<lambda>sessions.
     seq_op (on_db (Store_RevokeUser now tenantID userID reason keepID))
    (seq_op
       (if keepID = ''''
        then publish now \<lparr>rv_TS = now, rv_Kind = ''user'', rv_SubjectID = userID,
                          rv_TenantID = tenantID, rv_Reason = reason\<rparr>
        else for_op (filter (\<lambda>s. ss_ID s \<noteq> keepID) sessions) (\<lambda>s.
               seq_op (publish now \<lparr>rv_TS = now, rv_Kind = ''session'', rv_SubjectID = ss_ID s,
                                    rv_TenantID = tenantID, rv_Reason = reason\<rparr>)
                 (evictView now (ss_SecretHash s))))
       (emit (session_event ''session_revoked'' tenantID (kindOrSystem (actor_or_zero ctx))
                (act_UserID (actor_or_zero ctx)) ''user'' userID reason))))"

definition RevokeTenant :: "req_context \<Rightarrow> time \<Rightarrow> string \<Rightarrow> string \<Rightarrow> (world, unit) op" where
  "RevokeTenant ctx now tenantID reason =
     seq_op (on_db (Store_RevokeTenant now tenantID reason))
    (seq_op (publish now \<lparr>rv_TS = now, rv_Kind = ''tenant'', rv_SubjectID = tenantID,
                          rv_TenantID = tenantID, rv_Reason = reason\<rparr>)
       (emit (session_event ''session_revoked'' tenantID (kindOrSystem (actor_or_zero ctx))
                (act_UserID (actor_or_zero ctx)) ''tenant'' tenantID reason)))"

definition Since :: "time \<Rightarrow> int \<Rightarrow> (world, revocation list) op" where
  "Since since limit =
     on_db (Store_RevocationsSince since (nat (if limit \<le> 0 \<or> limit > 1000 then 1000 else limit)))"

record session_view =
  sv_ID :: string
  sv_CreatedAt :: time
  sv_LastSeenAt :: time
  sv_ExpiresAt :: time
  sv_Current :: bool
  sv_UserAgent :: string

definition ListMine :: "time \<Rightarrow> string \<Rightarrow> string \<Rightarrow> string \<Rightarrow> (world, session_view list) op" where
  "ListMine now tenantID userID currentID =
     bind_op (on_db (Store_ListUser tenantID userID)) (\<lambda>sessions.
       ret (map (\<lambda>s. \<lparr>sv_ID = ss_ID s, sv_CreatedAt = ss_CreatedAt s, sv_LastSeenAt = ss_LastSeen s,
                      sv_ExpiresAt = ss_ExpiresAt s, sv_Current = (ss_ID s = currentID),
                      sv_UserAgent = ss_UserAgent s\<rparr>)
              (filter (\<lambda>s. ss_RevokedAt s = None \<and> now < ss_ExpiresAt s) sessions)))"

end
