(* ===== verification/Session_Safety.thy ===== *)
theory Session_Safety
  imports Session_Manager
begin

text \<open>
  Properties of the session manager: an invariant relating cached views to session rows, its
  preservation by every operation, and what it gives: a resolved actor is the owner of a stored
  session, and a revoked session is never resolved again.
\<close>

section \<open>The operations without faults\<close>

text \<open>What \<open>revoked\<close> computes from the marks visible at one time.\<close>

definition is_revoked :: "(string \<Rightarrow> doc kv_value option) \<Rightarrow> view \<Rightarrow> bool" where
  "is_revoked f v \<longleftrightarrow>
     mark_time (f (RevokedSessionKey (vw_ID v))) \<noteq> None
     \<or> covers (mark_time (f (RevokedUserKey (vw_UserID v)))) v
     \<or> covers (mark_time (f (RevokedTenantKey (vw_TenantID v)))) v"

definition cached_view :: "doc kv_value option \<Rightarrow> view option" where
  "cached_view x = (case x of Some (Doc (DView v)) \<Rightarrow> Some v | _ \<Rightarrow> None)"

lemma cached_view_simps [simp]:
  "cached_view None = None" "cached_view (Some (Doc (DView v))) = Some v"
  "cached_view (Some (Text s)) = None"
  by (simp_all add: cached_view_def)

lemma cached_view_Some_iff [simp]: "cached_view x = Some v \<longleftrightarrow> x = Some (Doc (DView v))"
  by (auto simp: cached_view_def split: option.splits kv_value.splits doc.splits)

text \<open>The fields of a view that bringing it up to date leaves alone.\<close>

definition same_core :: "view \<Rightarrow> view \<Rightarrow> bool" where
  "same_core v v' \<longleftrightarrow>
     vw_ID v' = vw_ID v \<and> vw_TenantID v' = vw_TenantID v \<and> vw_UserID v' = vw_UserID v
     \<and> vw_AMR v' = vw_AMR v \<and> vw_Operator v' = vw_Operator v \<and> vw_CreatedAt v' = vw_CreatedAt v
     \<and> vw_LastSeen v' = vw_LastSeen v \<and> vw_ExpiresAt v' = vw_ExpiresAt v \<and> vw_Idle v' = vw_Idle v
     \<and> vw_RenewedAt v' = vw_RenewedAt v \<and> vw_GraceUntil v' = vw_GraceUntil v"

lemma same_core_refl [simp]: "same_core v v"
  by (simp add: same_core_def)

lemma wp_tenantVersion [ff_rules]:
  assumes "faults w = []" "\<And>n w'. calm now w w' \<Longrightarrow> Q (Inr n) w'"
  shows "wp (tenantVersion now tid) Q w"
  unfolding tenantVersion_def TenantVersion_def wp_simps
  by (rule wp_Get [OF assms(1)]) (auto simp: wp_simps assms split: option.split kv_value.split)

lemma wp_loadProfile [ff_rules]:
  assumes "faults w = []" "\<And>dn av. Q (Inr (v\<lparr>vw_DisplayName := dn, vw_AvatarURL := av\<rparr>)) w"
  shows "wp (loadProfile v) Q w"
  unfolding loadProfile_def wp_simps
proof (rule wp_on_db [OF assms(1)], goal_cases)
  case (1 r d)
  then have "d = db w" by (simp add: Store_User_def)
  moreover have "Q (Inr v) w" using assms(2) [of "vw_AvatarURL v" "vw_DisplayName v"] by simp
  ultimately show ?case using assms(2) by (simp split: sum.split)
qed

lemma wp_refreshIfStale [ff_rules]:
  assumes "faults w = []" "\<And>v' w'. calm now w w' \<Longrightarrow> same_core v v' \<Longrightarrow> Q (Inr v') w'"
  shows "wp (refreshIfStale now v) Q w"
  unfolding refreshIfStale_def wp_simps
proof (rule wp_tenantVersion [OF assms(1)], simp add: wp_simps, intro conjI impI)
  fix n w' assume w': "calm now w w'"
  then show "Q (Inr v) w'" by (intro assms(2)) simp_all
  have "faults w' = []" using w' by (simp add: calm_def)
  then show "wp (on_db (Store_Roles (vw_TenantID v) (vw_UserID v)))
      (\<lambda>r s'. case r of Inl e \<Rightarrow> Q (Inr v) s'
         | Inr roles \<Rightarrow> wp (loadProfile (v\<lparr>vw_Roles := roles, vw_PolicyVersion := n\<rparr>)) Q s') w'"
    by (rule wp_on_db)
      (auto simp: Store_Roles_def intro!: wp_loadProfile assms(2) w' \<open>faults w' = []\<close> simp: same_core_def)
qed

lemma wp_evictView [ff_rules]:
  assumes "faults w = []"
    and "\<And>w'. faults w' = [] \<Longrightarrow> db w' = db w \<Longrightarrow> sees w' = view_del [SessionKey hash] (sees w) \<Longrightarrow> Q (Inr ()) w'"
  shows "wp (evictView now hash) Q w"
  unfolding evictView_def wp_simps by (rule wp_Del [OF assms(1)]) (simp add: assms)

text \<open>Storing a view now.\<close>

definition put_view :: "time \<Rightarrow> string \<Rightarrow> view \<Rightarrow> doc kv_view \<Rightarrow> doc kv_view" where
  "put_view now h v f =
     (if view_ttl now v > 0 then view_set now (SessionKey h) (Doc (DView v)) (view_ttl now v) f else f)"

lemma wp_putView [ff_rules]:
  assumes "faults w = []"
    and "\<And>w'. faults w' = [] \<Longrightarrow> db w' = db w \<Longrightarrow>
           sees w' = put_view now hash v (sees w) \<Longrightarrow> Q (Inr ()) w'"
  shows "wp (putView now hash v) Q w"
  unfolding putView_def wp_simps
  using assms by (cases "view_ttl now v > 0") (auto simp: put_view_def intro!: wp_Set)

lemma wp_getView [ff_rules]:
  assumes "faults w = []" "\<And>w'. calm now w w' \<Longrightarrow> Q (Inr (cached_view (sees w now (SessionKey hash)))) w'"
  shows "wp (getView now hash) Q w"
  unfolding getView_def wp_simps
  by (rule wp_Get [OF assms(1)]) (use assms(2) in \<open>auto simp: cached_view_def\<close>)

lemma wp_mark_at [ff_rules]:
  assumes "faults w = []" "\<And>w'. calm now w w' \<Longrightarrow> Q (Inr (mark_time (sees w now key))) w'"
  shows "wp (mark_at now key) Q w"
  unfolding mark_at_def wp_simps
  by (rule wp_RevokedAt [OF assms(1)]) (use assms(2) in \<open>auto simp: mark_time_def\<close>)

lemma wp_revoked [ff_rules]:
  assumes "faults w = []" "\<And>w'. calm now w w' \<Longrightarrow> Q (Inr (is_revoked (sees w now) v)) w'"
  shows "wp (revoked now v) Q w"
  unfolding revoked_def wp_simps
proof (rule wp_mark_at [OF assms(1)], simp add: wp_simps, intro conjI impI)
  fix w1 assume w1: "calm now w w1"
  then have f1: "faults w1 = []" and s1: "sees w1 now = sees w now"
    using calm_sees by (auto simp: calm_def)
  show "Q (Inr True) w1" if "\<exists>y. mark_time (sees w now (RevokedSessionKey (vw_ID v))) = Some y"
    using assms(2) [OF w1] that by (simp add: is_revoked_def)
  assume none: "mark_time (sees w now (RevokedSessionKey (vw_ID v))) = None"
  show "wp (mark_at now (RevokedUserKey (vw_UserID v))) (\<lambda>r s'.
      case r of Inl e \<Rightarrow> Q (Inl e) s'
      | Inr u \<Rightarrow> (covers u v \<longrightarrow> Q (Inr True) s') \<and> (\<not> covers u v \<longrightarrow>
          wp (mark_at now (RevokedTenantKey (vw_TenantID v))) (\<lambda>r s'.
            case r of Inl e \<Rightarrow> Q (Inl e) s' | Inr t \<Rightarrow> Q (Inr (covers t v)) s') s')) w1"
  proof (rule wp_mark_at [OF f1], simp only: sum.case, intro conjI impI)
    fix w2 assume "calm now w1 w2"
    then have w2: "calm now w w2" using w1 calm_trans by blast
    then have f2: "faults w2 = []" and s2: "sees w2 now = sees w now"
      using calm_sees by (auto simp: calm_def)
    show "Q (Inr True) w2" if "covers (mark_time (sees w1 now (RevokedUserKey (vw_UserID v)))) v"
      using assms(2) [OF w2] that s1 by (simp add: is_revoked_def)
    assume no: "\<not> covers (mark_time (sees w1 now (RevokedUserKey (vw_UserID v)))) v"
    show "wp (mark_at now (RevokedTenantKey (vw_TenantID v))) (\<lambda>r s'.
            case r of Inl e \<Rightarrow> Q (Inl e) s' | Inr t \<Rightarrow> Q (Inr (covers t v)) s') w2"
    proof (rule wp_mark_at [OF f2], simp)
      fix w3 assume "calm now w2 w3"
      then have "calm now w w3" using w2 calm_trans by blast
      from assms(2) [OF this]
      show "Q (Inr (covers (mark_time (sees w2 now (RevokedTenantKey (vw_TenantID v)))) v)) w3"
        using none no s1 s2 by (simp add: is_revoked_def)
    qed
  qed
qed


lemma sees_updates [simp]:
  "sees (w\<lparr>db := d\<rparr>) = sees w" "sees (w\<lparr>audit := a\<rparr>) = sees w" "sees (w\<lparr>faults := fs\<rparr>) = sees w"
  by (simp_all add: sees_def)

lemma wp_emit [wp_simps]: "wp (emit e) Q w = Q (Inr ()) (w\<lparr>audit := audit w @ [e]\<rparr>)"
  by (simp add: emit_def wp_simps)

text \<open>Writing a mark now.\<close>

definition put_mark :: "time \<Rightarrow> string \<Rightarrow> doc kv_view \<Rightarrow> doc kv_view" where
  "put_mark now key f = view_set now key (Text (FormatInt (wrap64 now))) RevocationRetention f"

lemma same_from_trans: "same_from now f g \<Longrightarrow> same_from now g h \<Longrightarrow> same_from now f h"
  by (simp add: same_from_def)

lemma same_from_put_view: "same_from now f g \<Longrightarrow> same_from now (put_view now h v f) (put_view now h v g)"
  by (simp add: put_view_def same_from_set)

lemma same_from_put_mark: "same_from now f g \<Longrightarrow> same_from now (put_mark now k f) (put_mark now k g)"
  by (simp add: put_mark_def same_from_set)

lemma wp_publish [ff_rules]:
  assumes "faults w = []" "revocation_key r = Some key" "rv_TS r = now"
    and "\<And>w'. faults w' = [] \<Longrightarrow> db w' = (db w)\<lparr>Revs := Revs (db w) @ [r]\<rparr>
           \<Longrightarrow> sees w' = put_mark now key (sees w) \<Longrightarrow> Q (Inr ()) w'"
  shows "wp (publish now r) Q w"
  unfolding publish_def wp_simps
  by (rule wp_on_db [OF assms(1)])
    (use assms in \<open>auto simp: Store_InsertRevocation_def put_mark_def intro!: wp_MarkRevoked\<close>)

lemma wp_revokeOne [ff_rules]:
  assumes "faults w = []"
    and "session_of tid ident (db w) = None \<Longrightarrow> Q (Inl ErrNotFound) w"
    and "\<And>w'. session_of tid ident (db w) \<noteq> None \<Longrightarrow> faults w' = []
           \<Longrightarrow> Sessions (db w') = Sessions (revoke_where now reason (\<lambda>k _. k = ident) (db w))
           \<Longrightarrow> sees w' = put_mark now (RevokedSessionKey ident) (sees w) \<Longrightarrow> Q (Inr ()) w'"
  shows "wp (revokeOne now tid ident reason a) Q w"
  unfolding revokeOne_def wp_simps
proof (rule wp_on_db [OF assms(1)], goal_cases)
  case (1 r d)
  show ?case
  proof (cases "session_of tid ident (db w)")
    case None
    with 1 assms(2) show ?thesis by (auto simp: Store_Revoke_def)
  next
    case (Some s)
    with 1 have d: "r = Inr ()" "d = revoke_where now reason (\<lambda>k _. k = ident) (db w)"
      by (auto simp: Store_Revoke_def)
    show ?thesis unfolding d(1) sum.case
      by (rule wp_publish [where now = now and key = "RevokedSessionKey ident"])
        (use assms Some d in \<open>auto simp: revocation_key_def intro!: assms(3)\<close>)
  qed
qed

lemma wp_expire [ff_rules]:
  assumes "faults w = []"
    and "\<And>w'. faults w' = [] \<Longrightarrow> Sessions (db w') = Sessions (db w)
           \<Longrightarrow> sees w' = view_del [SessionKey hash] (sees w) \<Longrightarrow> Q (Inl ErrNotFound) w'"
    and "\<And>w'. faults w' = []
           \<Longrightarrow> Sessions (db w') = Sessions (revoke_where now reason (\<lambda>k _. k = vw_ID v) (db w))
           \<Longrightarrow> sees w' = put_mark now (RevokedSessionKey (vw_ID v)) (view_del [SessionKey hash] (sees w))
           \<Longrightarrow> Q (Inr ()) w'"
  shows "wp (expire now v hash reason) Q w"
  unfolding expire_def wp_simps
  by (rule wp_evictView [OF assms(1)]) (auto intro!: wp_revokeOne assms(2,3))

text \<open>\<open>or_no_session\<close> and \<open>load_row\<close>.\<close>

lemma wp_or_no_session [wp_simps]:
  "wp (or_no_session m good f) Q w =
     wp m (\<lambda>r w'. case r of Inl _ \<Rightarrow> Q (Inl ErrNoSession) w'
        | Inr a \<Rightarrow> if good a then wp (f a) Q w' else Q (Inl ErrNoSession) w') w"
  unfolding or_no_session_def wp_simps ..

lemma wp_load_row:
  assumes "faults w = []" "\<And>e. Q (Inl e) w"
    and get: "get = on_db m" "\<And>r d. m (db w) = (r, d) \<Longrightarrow> d = db w"
    and ok: "\<And>s t pol. m (db w) = (Inr s, db w) \<Longrightarrow> ss_RevokedAt s = None
           \<Longrightarrow> map_of (Tenants (db w)) (ss_TenantID s) = Some t \<Longrightarrow> tn_Status t = ''active''
           \<Longrightarrow> ParsePolicy (tn_Policy t) (tn_Kind t = ''platform'') = (pol, Inr ())
           \<Longrightarrow> wp (f s t pol) Q w"
  shows "wp (load_row get f) Q w"
  unfolding load_row_def wp_simps get(1)
proof (rule wp_on_db [OF assms(1)], goal_cases)
  case (1 r d)
  then have d: "d = db w" by (rule get(2))
  show ?case
  proof (cases r)
    case (Inr s)
    show ?thesis
    proof (cases "ss_RevokedAt s = None")
      case True
      have "wp (on_db (Store_Tenant (ss_TenantID s)))
        (\<lambda>r w'. case r of Inl _ \<Rightarrow> Q (Inl ErrNoSession) w'
          | Inr t \<Rightarrow> if tn_Status t = ''active'' then
              (case ParsePolicy (tn_Policy t) (tn_Kind t = ''platform'') of
                 (pol, Inl e) \<Rightarrow> Q (Inl e) w' | (pol, Inr _) \<Rightarrow> wp (f s t pol) Q w')
            else Q (Inl ErrNoSession) w') w"
        by (rule wp_on_db [OF assms(1)])
          (use assms(2) 1 d Inr True ok in \<open>auto simp: Store_Tenant_def found_def split: option.splits sum.splits prod.splits\<close>)
      then show ?thesis using True Inr d by (simp add: wp_simps)
    qed (use assms(2) d Inr in auto)
  qed (use assms(2) d in simp)
qed


section \<open>Resolving a secret\<close>

text \<open>Where the view of a hash comes from.\<close>

definition from_cache :: "world \<Rightarrow> time \<Rightarrow> string \<Rightarrow> view \<Rightarrow> bool" where
  "from_cache w now hash v \<longleftrightarrow>
     (\<exists>v0. sees w now (SessionKey hash) = Some (Doc (DView v0)) \<and> same_core v0 v
        \<and> (\<forall>g. vw_GraceUntil v0 = Some g \<longrightarrow> now < g))"

definition from_row :: "world \<Rightarrow> time \<Rightarrow> string \<Rightarrow> view \<Rightarrow> bool" where
  "from_row w now hash v \<longleftrightarrow>
     cached_view (sees w now (SessionKey hash)) = None
     \<and> (\<exists>k s t roles pol.
          find_row (\<lambda>s. ss_SecretHash s = hash) (Sessions (db w)) = Some (k, s) \<and> ss_RevokedAt s = None
          \<and> map_of (Tenants (db w)) (ss_TenantID s) = Some t \<and> tn_Status t = ''active''
          \<and> ParsePolicy (tn_Policy t) (tn_Kind t = ''platform'') = (pol, Inr ())
          \<and> same_core (view_of_row s t roles (IdleTimeout pol)) v)"

lemma wp_lookup_view:
  assumes "faults w = []"
    and err: "\<And>e w'. faults w' = [] \<Longrightarrow> Sessions (db w') = Sessions (db w)
           \<Longrightarrow> same_from now (sees w') (sees w) \<or> same_from now (sees w') (view_del [SessionKey hash] (sees w))
           \<Longrightarrow> Q (Inl e) w'"
    and ok: "\<And>v w'. calm now w w' \<Longrightarrow> from_cache w now hash v \<or> from_row w now hash v \<Longrightarrow> Q (Inr v) w'"
  shows "wp (lookup_view now hash) Q w"
  unfolding lookup_view_def wp_simps
proof (rule wp_getView [OF assms(1)], simp only: sum.case)
  fix w1 assume w1: "calm now w w1"
  then have f1: "faults w1 = []" and d1: "db w1 = db w" and s1: "same_from now (sees w1) (sees w)"
    by (auto simp: calm_def)
  show "case cached_view (sees w now (SessionKey hash)) of
      None \<Rightarrow> wp (load_row (on_db (Store_GetByHash hash)) (\<lambda>s t pol.
             bind_op (on_db (Store_Roles (ss_TenantID s) (ss_UserID s))) (\<lambda>roles.
             bind_op (tenantVersion now (ss_TenantID s)) (\<lambda>ver.
               loadProfile ((view_of_row s t roles (IdleTimeout pol))\<lparr>vw_PolicyVersion := ver\<rparr>))))) Q w1
    | Some v \<Rightarrow>
        if case vw_GraceUntil v of None \<Rightarrow> False | Some g \<Rightarrow> \<not> now < g
        then wp (evictView now hash) (\<lambda>r s'. case r of Inl e \<Rightarrow> Q (Inl e) s' | Inr _ \<Rightarrow> Q (Inl ErrNoSession) s') w1
        else wp (refreshIfStale now v) Q w1"
  proof (cases "cached_view (sees w now (SessionKey hash))")
    case None
    show ?thesis unfolding None option.case
    proof (rule wp_load_row [OF f1])
      show "Q (Inl e) w1" for e using err f1 d1 s1 by simp
      show "on_db (Store_GetByHash hash) = on_db (Store_GetByHash hash)" ..
      show "d = db w1" if "Store_GetByHash hash (db w1) = (r, d)" for r d
        using that by (simp add: Store_GetByHash_def)
      fix s t pol
      assume a: "Store_GetByHash hash (db w1) = (Inr s, db w1)" "ss_RevokedAt s = None"
        "map_of (Tenants (db w1)) (ss_TenantID s) = Some t" "tn_Status t = ''active''"
        "ParsePolicy (tn_Policy t) (tn_Kind t = ''platform'') = (pol, Inr ())"
      show "wp (bind_op (on_db (Store_Roles (ss_TenantID s) (ss_UserID s))) (\<lambda>roles.
             bind_op (tenantVersion now (ss_TenantID s)) (\<lambda>ver.
               loadProfile ((view_of_row s t roles (IdleTimeout pol))\<lparr>vw_PolicyVersion := ver\<rparr>)))) Q w1"
        unfolding wp_simps
      proof (rule wp_on_db [OF f1], goal_cases)
        case (1 r d)
        then obtain roles where r: "r = Inr roles" "d = db w1" by (auto simp: Store_Roles_def)
        show ?case unfolding r sum.case
        proof (rule wp_tenantVersion, use f1 in simp, simp only: sum.case)
          fix n w2 assume "calm now (w1\<lparr>db := db w1\<rparr>) w2"
          then have w2: "calm now w w2" using calm_trans [OF w1] by simp
          show "wp (loadProfile ((view_of_row s t roles (IdleTimeout pol))\<lparr>vw_PolicyVersion := n\<rparr>)) Q w2"
          proof (rule wp_loadProfile)
            show "faults w2 = []" using w2 by (simp add: calm_def)
            fix dn av
            have "same_core (view_of_row s t roles (IdleTimeout pol))
                ((view_of_row s t roles (IdleTimeout pol))\<lparr>vw_PolicyVersion := n, vw_DisplayName := dn, vw_AvatarURL := av\<rparr>)"
              by (simp add: same_core_def)
            then have "from_row w now hash
                ((view_of_row s t roles (IdleTimeout pol))\<lparr>vw_PolicyVersion := n, vw_DisplayName := dn, vw_AvatarURL := av\<rparr>)"
              using a d1 None unfolding from_row_def
              by (auto simp: Store_GetByHash_def found_def split: option.splits)
            then show "Q (Inr ((view_of_row s t roles (IdleTimeout pol))
                \<lparr>vw_PolicyVersion := n, vw_DisplayName := dn, vw_AvatarURL := av\<rparr>)) w2"
              using ok w2 by blast
          qed
        qed
      qed
    qed
  next
    case (Some v)
    show ?thesis
    proof (cases "case vw_GraceUntil v of None \<Rightarrow> False | Some g \<Rightarrow> \<not> now < g")
      case True
      have "wp (evictView now hash) (\<lambda>r s'. case r of Inl e \<Rightarrow> Q (Inl e) s' | Inr _ \<Rightarrow> Q (Inl ErrNoSession) s') w1"
        by (rule wp_evictView [OF f1]) (auto intro!: err simp: d1 same_from_del [OF s1])
      with Some True show ?thesis by simp
    next
      case False
      then have g: "\<forall>g. vw_GraceUntil v = Some g \<longrightarrow> now < g" by auto
      have "wp (refreshIfStale now v) Q w1"
      proof (rule wp_refreshIfStale [OF f1])
        fix v' w2 assume "calm now w1 w2" "same_core v v'"
        moreover from this(2) g Some have "from_cache w now hash v'" by (auto simp: from_cache_def)
        ultimately show "Q (Inr v') w2" using ok calm_trans [OF w1] by blast
      qed
      with Some False show ?thesis by simp
    qed
  qed
qed

text \<open>The view that is stored and answered for an admitted one.\<close>

definition admitted :: "time \<Rightarrow> view \<Rightarrow> view \<Rightarrow> bool" where
  "admitted now v v' \<longleftrightarrow> now < vw_ExpiresAt v \<and> now - vw_LastSeen v \<le> vw_Idle v
     \<and> (v' = v \<or> v' = v\<lparr>vw_LastSeen := now\<rparr>)"

definition touched :: "time \<Rightarrow> view \<Rightarrow> memstore \<Rightarrow> session table \<Rightarrow> bool" where
  "touched now v d ss \<longleftrightarrow>
     ss = Sessions d \<or> ss = Sessions (snd (Store_Touch now (vw_TenantID v) (vw_ID v) d))"

lemma wp_touch_view:
  assumes "faults w = []"
    and "\<And>v' w'. faults w' = [] \<Longrightarrow> touched now v (db w) (Sessions (db w')) \<Longrightarrow> sees w' = sees w
           \<Longrightarrow> v' = v \<or> v' = v\<lparr>vw_LastSeen := now\<rparr> \<Longrightarrow> Q (Inr v') w'"
  shows "wp (touch_view now v) Q w"
proof (cases "now - vw_LastSeen v \<ge> minute")
  case True
  have "wp (on_db (Store_Touch now (vw_TenantID v) (vw_ID v)))
      (\<lambda>r w'. case r of Inl _ \<Rightarrow> Q (Inr v) w' | Inr _ \<Rightarrow> Q (Inr (v\<lparr>vw_LastSeen := now\<rparr>)) w') w"
    by (rule wp_on_db [OF assms(1)]) (use assms in \<open>auto simp: touched_def split: sum.split\<close>)
  with True show ?thesis unfolding touch_view_def wp_simps by simp
qed (use assms in \<open>simp add: touch_view_def wp_simps touched_def\<close>)

lemma wp_admit_view:
  assumes "faults w = []"
    and err: "\<And>e w'. faults w' = []
           \<Longrightarrow> Sessions (db w') = Sessions (db w)
               \<or> (\<exists>reason. Sessions (db w') = Sessions (revoke_where now reason (\<lambda>k _. k = vw_ID v) (db w)))
           \<Longrightarrow> same_from now (sees w') (view_del [SessionKey hash] (sees w))
               \<or> sees w' = put_mark now (RevokedSessionKey (vw_ID v)) (view_del [SessionKey hash] (sees w))
           \<Longrightarrow> Q (Inl e) w'"
    and ok: "\<And>v' w'. admitted now v v' \<Longrightarrow> \<not> is_revoked (sees w now) v \<Longrightarrow> faults w' = []
           \<Longrightarrow> touched now v (db w) (Sessions (db w'))
           \<Longrightarrow> same_from now (sees w') (put_view now hash v' (sees w)) \<Longrightarrow> Q (Inr (view_actor v')) w'"
  shows "wp (admit_view now hash v) Q w"
proof -
  have expired: "wp (ignore_op (expire now v hash reason) (throw ErrNoSession)) Q w" for reason
    unfolding wp_simps by (rule wp_expire [OF assms(1)]) (auto intro!: err)
  show ?thesis
  proof (cases "\<not> now < vw_ExpiresAt v \<or> now - vw_LastSeen v > vw_Idle v")
    case True
    then show ?thesis using expired by (auto simp: admit_view_def)
  next
    case False
    have "wp (revoked now v) (\<lambda>r s'. case r of Inl e \<Rightarrow> Q (Inl e) s' | Inr dead \<Rightarrow>
        if dead then wp (evictView now hash) (\<lambda>r s'. case r of Inl e \<Rightarrow> Q (Inl e) s' | Inr _ \<Rightarrow> Q (Inl ErrNoSession) s') s'
        else wp (touch_view now v) (\<lambda>r s'. case r of Inl e \<Rightarrow> Q (Inl e) s' | Inr v \<Rightarrow>
          wp (putView now hash v) (\<lambda>r s'. case r of Inl e \<Rightarrow> Q (Inl e) s' | Inr _ \<Rightarrow> Q (Inr (view_actor v)) s') s') s') w"
    proof (rule wp_revoked [OF assms(1)], simp only: sum.case split: if_split, intro conjI impI)
      fix w1 assume "calm now w w1"
      then have f1: "faults w1 = []" and d1: "db w1 = db w" and s1: "same_from now (sees w1) (sees w)"
        by (auto simp: calm_def)
      show "wp (evictView now hash) (\<lambda>r s'. case r of Inl e \<Rightarrow> Q (Inl e) s' | Inr _ \<Rightarrow> Q (Inl ErrNoSession) s') w1"
        by (rule wp_evictView [OF f1]) (auto intro!: err simp: d1 same_from_del [OF s1])
      assume live: "\<not> is_revoked (sees w now) v"
      show "wp (touch_view now v) (\<lambda>r s'. case r of Inl e \<Rightarrow> Q (Inl e) s' | Inr v \<Rightarrow>
          wp (putView now hash v) (\<lambda>r s'. case r of Inl e \<Rightarrow> Q (Inl e) s' | Inr _ \<Rightarrow> Q (Inr (view_actor v)) s') s') w1"
      proof (rule wp_touch_view [OF f1], simp only: sum.case)
        fix v' w2
        assume w2: "faults w2 = []" "touched now v (db w1) (Sessions (db w2))" "sees w2 = sees w1"
          "v' = v \<or> v' = v\<lparr>vw_LastSeen := now\<rparr>"
        have "admitted now v v'" using False w2(4) by (auto simp: admitted_def)
        moreover have "same_from now (put_view now hash v' (sees w2)) (put_view now hash v' (sees w))"
          using s1 w2(3) by (simp add: same_from_put_view)
        ultimately show "wp (putView now hash v') (\<lambda>r s'. case r of Inl e \<Rightarrow> Q (Inl e) s'
            | Inr _ \<Rightarrow> Q (Inr (view_actor v')) s') w2"
          using w2 d1 live by (intro wp_putView) (auto intro!: ok)
      qed
    qed
    with False show ?thesis unfolding admit_view_def wp_simps by simp
  qed
qed


section \<open>The invariant\<close>

definition mark_key :: "string \<Rightarrow> bool" where
  "mark_key k \<longleftrightarrow> (\<exists>x. k = RevokedSessionKey x \<or> k = RevokedUserKey x \<or> k = RevokedTenantKey x)"

lemma mark_key_simps [simp]:
  "mark_key (RevokedSessionKey x)" "mark_key (RevokedUserKey x)" "mark_key (RevokedTenantKey x)"
  "\<not> mark_key (SessionKey h)"
  by (auto simp: mark_key_def)

definition keyed :: "session table \<Rightarrow> bool" where
  "keyed ss \<longleftrightarrow> distinct (map fst ss) \<and> (\<forall>k s. map_of ss k = Some s \<longrightarrow> ss_ID s = k)"

text \<open>No mark outlives \<open>x\<close>.\<close>

definition marks_end :: "time \<Rightarrow> doc kv_view \<Rightarrow> bool" where
  "marks_end x f \<longleftrightarrow> (\<forall>t \<ge> x. \<forall>k. mark_key k \<longrightarrow> f t k = None)"

definition owner_match :: "session \<Rightarrow> view \<Rightarrow> bool" where
  "owner_match s v \<longleftrightarrow> ss_UserID s = vw_UserID v \<and> ss_TenantID s = vw_TenantID v
     \<and> ss_CreatedAt s = vw_CreatedAt v \<and> ss_AMR s = vw_AMR v"

text \<open>
  A view may be stored under a hash when it describes a stored session and the hash is the one of
  the session's row, unless it is the view of a replaced secret in its grace period.
\<close>

definition view_fits :: "session table \<Rightarrow> time \<Rightarrow> string \<Rightarrow> view \<Rightarrow> bool" where
  "view_fits ss now h v \<longleftrightarrow>
     (\<exists>s. map_of ss (vw_ID v) = Some s \<and> owner_match s v \<and> vw_CreatedAt v \<le> now
        \<and> (ss_SecretHash s = h \<or> (\<exists>g. vw_GraceUntil v = Some g \<and> g \<le> now + RenewGrace)))"

definition views_ok :: "session table \<Rightarrow> doc kv_view \<Rightarrow> time \<Rightarrow> bool" where
  "views_ok ss f now \<longleftrightarrow>
     keyed ss \<and> (\<forall>k s. map_of ss k = Some s \<longrightarrow> ss_CreatedAt s \<le> now)
     \<and> marks_end (now + RevocationRetention) f
     \<and> (\<forall>t \<ge> now. \<forall>h v. f t (SessionKey h) = Some (Doc (DView v)) \<longrightarrow>
          view_fits ss now h v \<and> t < now + vw_Idle v \<and> (\<forall>g. vw_GraceUntil v = Some g \<longrightarrow> t < g))"

text \<open>A session that is over: its row is revoked and every cached view of it is under a mark.\<close>

definition over :: "string \<Rightarrow> session table \<Rightarrow> doc kv_view \<Rightarrow> time \<Rightarrow> bool" where
  "over sid ss f now \<longleftrightarrow>
     keyed ss \<and> (\<exists>s. map_of ss sid = Some s \<and> ss_RevokedAt s \<noteq> None)
     \<and> marks_end (now + RevocationRetention) f
     \<and> (\<forall>t \<ge> now. \<forall>h v. f t (SessionKey h) = Some (Doc (DView v)) \<and> vw_ID v = sid \<longrightarrow>
          is_revoked (f t) v \<and> vw_CreatedAt v \<le> now)"

lemma retention_pos [simp]: "0 < RevocationRetention" "RenewGrace < RevocationRetention" "0 < RenewGrace"
  by (simp_all add: RevocationRetention_def RenewGrace_def time_units)

lemma marks_end_same:
  "same_from now f g \<Longrightarrow> marks_end (now + RevocationRetention) f \<Longrightarrow> marks_end (now + RevocationRetention) g"
  using retention_pos(1) by (auto simp: marks_end_def same_from_def)

lemma marks_end_later: "marks_end x f \<Longrightarrow> x \<le> y \<Longrightarrow> marks_end y f"
  by (auto simp: marks_end_def)

lemma marks_end_del: "marks_end x f \<Longrightarrow> marks_end x (view_del ks f)"
  by (simp add: marks_end_def view_del_def)

lemma marks_end_mark:
  "marks_end (now + RevocationRetention) f \<Longrightarrow> marks_end (now + RevocationRetention) (put_mark now key f)"
  by (auto simp: marks_end_def put_mark_def view_set_def)

lemma put_view_other: "(\<And>x. k \<noteq> SessionKey x) \<Longrightarrow> put_view now h v f t k = f t k"
  by (simp add: put_view_def view_set_def)

lemma mark_key_not_session: "mark_key k \<Longrightarrow> k \<noteq> SessionKey x"
  by auto

lemma marks_end_view: "marks_end x f \<Longrightarrow> marks_end x (put_view now h v f)"
  by (simp add: marks_end_def put_view_other mark_key_not_session)

text \<open>What the cache holds for a hash after a write.\<close>

lemma put_view_cases:
  assumes "put_view now h v f t (SessionKey h') = Some (Doc (DView v'))"
  shows "h' = h \<and> v' = v \<and> t < now + view_ttl now v \<or> f t (SessionKey h') = Some (Doc (DView v'))"
proof (cases "view_ttl now v > 0 \<and> h' = h")
  case True
  with assms show ?thesis by (simp add: put_view_def view_set_def split: if_splits)
next
  case False
  with assms show ?thesis by (simp add: put_view_def view_set_def split: if_splits)
qed

lemma view_ttl_bounds:
  "view_ttl now v \<le> vw_Idle v" "vw_GraceUntil v = Some g \<Longrightarrow> now + view_ttl now v \<le> g"
  by (auto simp: view_ttl_def Let_def split: option.split)

lemma put_mark_session [simp]: "mark_key k \<Longrightarrow> put_mark now k f t (SessionKey h) = f t (SessionKey h)"
  by (auto simp: put_mark_def view_set_def)

lemma view_del_session:
  "view_del [SessionKey h'] f t (SessionKey h) = Some x \<Longrightarrow> f t (SessionKey h) = Some x"
  by (simp add: view_del_def split: if_splits)

lemma is_revoked_cong:
  assumes "\<And>k. mark_key k \<Longrightarrow> f k = g k" shows "is_revoked f v = is_revoked g v"
  using assms by (simp add: is_revoked_def)

subsection \<open>Rows\<close>

definition row_like :: "session \<Rightarrow> session \<Rightarrow> bool" where
  "row_like s s' \<longleftrightarrow> ss_UserID s' = ss_UserID s \<and> ss_TenantID s' = ss_TenantID s
     \<and> ss_CreatedAt s' = ss_CreatedAt s \<and> ss_AMR s' = ss_AMR s \<and> ss_SecretHash s' = ss_SecretHash s
     \<and> (ss_RevokedAt s \<noteq> None \<longrightarrow> ss_RevokedAt s' \<noteq> None)"

definition rows_like :: "session table \<Rightarrow> session table \<Rightarrow> bool" where
  "rows_like ss ss' \<longleftrightarrow>
     keyed ss' \<and> (\<forall>k. map_of ss k = None \<longrightarrow> map_of ss' k = None)
     \<and> (\<forall>k s. map_of ss k = Some s \<longrightarrow> (\<exists>s'. map_of ss' k = Some s' \<and> row_like s s'))"

lemma rows_like_keyed: "rows_like ss ss' \<Longrightarrow> keyed ss'"
  by (simp add: rows_like_def)

lemma rows_like_refl: "keyed ss \<Longrightarrow> rows_like ss ss"
  by (auto simp: rows_like_def row_like_def)

lemma map_of_revoke_where:
  "map_of (Sessions (revoke_where now reason P m)) k =
     map_option (\<lambda>s. if P k s then revoke_session now reason s else s) (map_of (Sessions m) k)"
  by (simp add: revoke_where_def map_of_map_keyed)

lemma revoke_session_simps [simp]:
  "ss_ID (revoke_session now reason s) = ss_ID s"
  "ss_UserID (revoke_session now reason s) = ss_UserID s"
  "ss_TenantID (revoke_session now reason s) = ss_TenantID s"
  "ss_CreatedAt (revoke_session now reason s) = ss_CreatedAt s"
  "ss_AMR (revoke_session now reason s) = ss_AMR s"
  "ss_SecretHash (revoke_session now reason s) = ss_SecretHash s"
  "\<exists>at. ss_RevokedAt (revoke_session now reason s) = Some at"
  by (auto simp: revoke_session_def)

lemma keyed_map:
  assumes "keyed ss" "\<And>k s. ss_ID (f k s) = ss_ID s"
  shows "keyed (map (\<lambda>(k, s). (k, f k s)) ss)"
  using assms by (auto simp: keyed_def map_of_map_keyed comp_def case_prod_unfold)

lemma rows_like_revoke:
  assumes "keyed (Sessions m)" shows "rows_like (Sessions m) (Sessions (revoke_where now reason P m))"
  unfolding rows_like_def
proof (intro conjI allI impI)
  have "keyed (map (\<lambda>(k, s). (k, if P k s then revoke_session now reason s else s)) (Sessions m))"
    using assms by (rule keyed_map) simp
  then show "keyed (Sessions (revoke_where now reason P m))" by (simp add: revoke_where_def)
  show "map_of (Sessions (revoke_where now reason P m)) k = None" if "map_of (Sessions m) k = None" for k
    using that by (simp add: map_of_revoke_where)
  fix k s assume "map_of (Sessions m) k = Some s"
  then show "\<exists>s'. map_of (Sessions (revoke_where now reason P m)) k = Some s' \<and> row_like s s'"
    by (auto simp: map_of_revoke_where row_like_def)
qed

lemma keyed_update:
  assumes "keyed ss" "ss_ID s = k" shows "keyed (AList.update k s ss)"
  using assms by (auto simp: keyed_def distinct_keys_update)

lemma session_of_Some_iff:
  "session_of tid ident m = Some s \<longleftrightarrow> map_of (Sessions m) ident = Some s \<and> ss_TenantID s = tid"
  by (auto simp: session_of_def split: option.split)

lemma keyed_id: "keyed ss \<Longrightarrow> map_of ss k = Some s \<Longrightarrow> ss_ID s = k"
  by (simp add: keyed_def)

lemma rows_like_put:
  assumes "keyed (Sessions m)" "map_of (Sessions m) k = Some s" "row_like s s'" "ss_ID s' = k"
  shows "rows_like (Sessions m) (Sessions (put_session k s' m))"
  using assms keyed_update [of "Sessions m" s' k]
  by (simp add: rows_like_def put_session_def) (simp add: row_like_def)

lemma rows_like_touched:
  assumes "keyed (Sessions d)" "touched now v d ss" shows "rows_like (Sessions d) ss"
proof (cases "session_of (vw_TenantID v) (vw_ID v) d")
  case (Some s)
  then have "map_of (Sessions d) (vw_ID v) = Some s" by (simp add: session_of_Some_iff)
  moreover from assms(1) this have "ss_ID s = vw_ID v" by (rule keyed_id)
  ultimately have "rows_like (Sessions d) (Sessions (put_session (vw_ID v) (s\<lparr>ss_LastSeen := now\<rparr>) d))"
    using assms(1) by (intro rows_like_put) (auto simp: row_like_def)
  with assms Some show ?thesis by (auto simp: touched_def rows_like_refl Store_Touch_def)
qed (use assms in \<open>auto simp: touched_def rows_like_refl Store_Touch_def\<close>)


subsection \<open>Every write keeps the invariant\<close>

lemma views_okD:
  assumes "views_ok ss f now" "now \<le> t" "f t (SessionKey h) = Some (Doc (DView v))"
  shows "view_fits ss now h v" "t < now + vw_Idle v" "vw_GraceUntil v = Some g \<Longrightarrow> t < g"
  using assms by (auto simp: views_ok_def)

lemma views_okI:
  assumes "keyed ss" "\<And>k s. map_of ss k = Some s \<Longrightarrow> ss_CreatedAt s \<le> now"
    and "marks_end (now + RevocationRetention) f"
    and "\<And>t h v. now \<le> t \<Longrightarrow> f t (SessionKey h) = Some (Doc (DView v)) \<Longrightarrow>
           view_fits ss now h v \<and> t < now + vw_Idle v \<and> (\<forall>g. vw_GraceUntil v = Some g \<longrightarrow> t < g)"
  shows "views_ok ss f now"
  using assms by (simp add: views_ok_def)

lemma views_ok_keyed: "views_ok ss f now \<Longrightarrow> keyed ss"
  and views_ok_created: "views_ok ss f now \<Longrightarrow> map_of ss k = Some s \<Longrightarrow> ss_CreatedAt s \<le> now"
  and views_ok_marks: "views_ok ss f now \<Longrightarrow> marks_end (now + RevocationRetention) f"
  by (auto simp: views_ok_def)

lemma views_ok_same: "views_ok ss f now \<Longrightarrow> same_from now g f \<Longrightarrow> views_ok ss g now"
proof (rule views_okI)
  assume f: "views_ok ss f now" and s: "same_from now g f"
  from f show "keyed ss" by (rule views_ok_keyed)
  from f show "ss_CreatedAt s \<le> now" if "map_of ss k = Some s" for k s using that by (rule views_ok_created)
  from s have "same_from now f g" by (simp add: same_from_def)
  from this views_ok_marks [OF f] show "marks_end (now + RevocationRetention) g" by (rule marks_end_same)
  fix t h v assume "now \<le> t" "g t (SessionKey h) = Some (Doc (DView v))"
  with s have "f t (SessionKey h) = Some (Doc (DView v))" by (simp add: same_from_def)
  with views_okD [OF f \<open>now \<le> t\<close>]
  show "view_fits ss now h v \<and> t < now + vw_Idle v \<and> (\<forall>g. vw_GraceUntil v = Some g \<longrightarrow> t < g)" by blast
qed

lemma views_ok_del: "views_ok ss f now \<Longrightarrow> views_ok ss (view_del [SessionKey h] f) now"
  by (rule views_okI)
    (auto dest: views_ok_keyed views_ok_created views_ok_marks marks_end_del view_del_session views_okD)

lemma views_ok_mark: "views_ok ss f now \<Longrightarrow> mark_key k \<Longrightarrow> views_ok ss (put_mark now k f) now"
  by (rule views_okI) (auto dest: views_ok_keyed views_ok_created views_ok_marks intro: marks_end_mark dest: views_okD)

lemma views_ok_put:
  assumes f: "views_ok ss f now" and v: "view_fits ss now h v"
  shows "views_ok ss (put_view now h v f) now"
proof (rule views_okI)
  show "keyed ss" using f by (rule views_ok_keyed)
  show "ss_CreatedAt s \<le> now" if "map_of ss k = Some s" for k s using f that by (rule views_ok_created)
  show "marks_end (now + RevocationRetention) (put_view now h v f)"
    using f by (intro marks_end_view views_ok_marks)
  fix t h' v' assume t: "now \<le> t" and p: "put_view now h v f t (SessionKey h') = Some (Doc (DView v'))"
  from put_view_cases [OF p]
  show "view_fits ss now h' v' \<and> t < now + vw_Idle v' \<and> (\<forall>g. vw_GraceUntil v' = Some g \<longrightarrow> t < g)"
  proof
    assume a: "h' = h \<and> v' = v \<and> t < now + view_ttl now v"
    have "t < g" if "vw_GraceUntil v = Some g" for g using a view_ttl_bounds(2) [OF that, of now] by linarith
    with a v view_ttl_bounds(1) [of now v] show ?thesis by auto
  next
    assume "f t (SessionKey h') = Some (Doc (DView v'))"
    with views_okD [OF f t] show ?thesis by blast
  qed
qed

lemma view_fits_rows: "view_fits ss now h v \<Longrightarrow> rows_like ss ss' \<Longrightarrow> view_fits ss' now h v"
  by (fastforce simp: view_fits_def rows_like_def row_like_def owner_match_def)

lemma views_ok_rows:
  assumes f: "views_ok ss f now" and r: "rows_like ss ss'" shows "views_ok ss' f now"
proof (rule views_okI)
  show "keyed ss'" using r by (rule rows_like_keyed)
  show "ss_CreatedAt s' \<le> now" if s': "map_of ss' k = Some s'" for k s'
  proof -
    from s' r obtain s where "map_of ss k = Some s" "row_like s s'"
      unfolding rows_like_def by (metis not_None_eq option.inject)
    with views_ok_created [OF f] show ?thesis by (auto simp: row_like_def)
  qed
qed (use f r in \<open>auto intro: views_ok_marks view_fits_rows dest: views_okD\<close>)

lemma view_fits_later: "view_fits ss now h v \<Longrightarrow> now \<le> now' \<Longrightarrow> view_fits ss now' h v"
  by (fastforce simp: view_fits_def)

lemma views_ok_later: "views_ok ss f now \<Longrightarrow> now \<le> now' \<Longrightarrow> views_ok ss f now'"
proof (rule views_okI)
  assume f: "views_ok ss f now" and le: "now \<le> now'"
  from f show "keyed ss" by (rule views_ok_keyed)
  show "ss_CreatedAt s \<le> now'" if "map_of ss k = Some s" for k s
    using views_ok_created [OF f that] le by linarith
  show "marks_end (now' + RevocationRetention) f"
    using views_ok_marks [OF f] le by (auto elim: marks_end_later)
  fix t h v assume t: "now' \<le> t" and v: "f t (SessionKey h) = Some (Doc (DView v))"
  have "now \<le> t" using le t by linarith
  note * = views_okD [OF f this v]
  from *(1) le have "view_fits ss now' h v" by (rule view_fits_later)
  with *(2,3) le show "view_fits ss now' h v \<and> t < now' + vw_Idle v \<and> (\<forall>g. vw_GraceUntil v = Some g \<longrightarrow> t < g)"
    by auto
qed

lemma views_ok_insert:
  assumes "views_ok ss f now" "map_of ss (ss_ID s) = None" "ss_CreatedAt s \<le> now"
  shows "views_ok (AList.update (ss_ID s) s ss) f now"
proof (rule views_okI)
  show "ss_CreatedAt s' \<le> now" if "map_of (AList.update (ss_ID s) s ss) k = Some s'" for k s'
    using that views_ok_created [OF assms(1)] assms(3) by (auto split: if_splits)
  show "keyed (AList.update (ss_ID s) s ss)"
    using views_ok_keyed [OF assms(1)] by (rule keyed_update) simp
  show "marks_end (now + RevocationRetention) f" using assms(1) by (rule views_ok_marks)
  fix t h v assume *: "now \<le> t" "f t (SessionKey h) = Some (Doc (DView v))"
  have "view_fits (AList.update (ss_ID s) s ss) now h v"
    using views_okD(1) [OF assms(1) *] assms(2) by (auto simp: view_fits_def)
  with views_okD(2,3) [OF assms(1) *]
  show "view_fits (AList.update (ss_ID s) s ss) now h v \<and> t < now + vw_Idle v
      \<and> (\<forall>g. vw_GraceUntil v = Some g \<longrightarrow> t < g)" by blast
qed

text \<open>A renewal: the row gets a new hash and the views of the old ones are in their grace.\<close>

lemma views_ok_renew:
  assumes f: "views_ok ss f now" and s: "map_of ss sid = Some s" "row_like (s\<lparr>ss_SecretHash := hash\<rparr>) s'" "ss_ID s' = sid"
    and old: "vw_ID v = sid" "owner_match s v" "vw_CreatedAt v \<le> now"
    and grace: "vw_ID gv = sid" "owner_match s gv" "vw_CreatedAt gv \<le> now"
      "vw_GraceUntil gv = Some (now + RenewGrace)" "view_ttl now gv > 0"
  shows "views_ok (AList.update sid s' ss)
           (put_view now hash v (put_view now (ss_SecretHash s) gv (put_view now h1 gv f))) now"
    (is "views_ok ?ss _ _")
proof -
  have fits: "view_fits ?ss now h gv" for h
    using s grace by (auto simp: view_fits_def owner_match_def row_like_def)
  have fits': "view_fits ?ss now hash v"
    using s old by (auto simp: view_fits_def owner_match_def row_like_def)
  define f2 where "f2 = put_view now (ss_SecretHash s) gv (put_view now h1 gv f)"
  have "views_ok ?ss f2 now"
  proof (rule views_okI)
    show "keyed ?ss" using views_ok_keyed [OF f] s(3) by (rule keyed_update)
    show "ss_CreatedAt x \<le> now" if "map_of ?ss k = Some x" for k x
      using that views_ok_created [OF f] s by (auto simp: row_like_def split: if_splits)
    show "marks_end (now + RevocationRetention) f2"
      using views_ok_marks [OF f] by (simp add: f2_def marks_end_view)
    fix t h x assume t: "now \<le> t" and x: "f2 t (SessionKey h) = Some (Doc (DView x))"
    consider "x = gv" "t < now + view_ttl now gv"
      | "h \<noteq> ss_SecretHash s" "f t (SessionKey h) = Some (Doc (DView x))"
    proof (cases "h = ss_SecretHash s")
      case True
      with x grace(5) have "x = gv \<and> t < now + view_ttl now gv"
        by (simp add: f2_def put_view_def view_set_def split: if_splits)
      then show ?thesis using that by blast
    next
      case False
      with put_view_cases [OF x [unfolded f2_def]]
      have "put_view now h1 gv f t (SessionKey h) = Some (Doc (DView x))" by blast
      from put_view_cases [OF this] False show ?thesis using that by blast
    qed
    then show "view_fits ?ss now h x \<and> t < now + vw_Idle x \<and> (\<forall>g. vw_GraceUntil x = Some g \<longrightarrow> t < g)"
    proof cases
      case 1
      have "t < now + vw_Idle gv" using 1(2) view_ttl_bounds(1) [of now gv] by linarith
      moreover have "t < now + RenewGrace" using 1(2) view_ttl_bounds(2) [OF grace(4), of now] by linarith
      ultimately show ?thesis using 1(1) fits grace(4) by simp
    next
      case 2
      have "view_fits ?ss now h x"
        using views_okD(1) [OF f t 2(2)] 2(1) s
        by (cases "vw_ID x = sid") (auto simp: view_fits_def owner_match_def row_like_def)
      with views_okD(2,3) [OF f t 2(2)] show ?thesis by blast
    qed
  qed
  from views_ok_put [OF this fits'] show ?thesis by (simp add: f2_def)
qed


subsection \<open>A session that is over stays over\<close>

lemma overD:
  assumes "over sid ss f now" "now \<le> t" "f t (SessionKey h) = Some (Doc (DView v))" "vw_ID v = sid"
  shows "is_revoked (f t) v" "vw_CreatedAt v \<le> now"
  using assms by (auto simp: over_def)

lemma over_row: "over sid ss f now \<Longrightarrow> \<exists>s. map_of ss sid = Some s \<and> ss_RevokedAt s \<noteq> None"
  and over_keyed: "over sid ss f now \<Longrightarrow> keyed ss"
  and over_marks: "over sid ss f now \<Longrightarrow> marks_end (now + RevocationRetention) f"
  by (simp_all add: over_def)

lemma overI:
  assumes "keyed ss" "\<exists>s. map_of ss sid = Some s \<and> ss_RevokedAt s \<noteq> None"
    and "marks_end (now + RevocationRetention) f"
    and "\<And>t h v. now \<le> t \<Longrightarrow> f t (SessionKey h) = Some (Doc (DView v)) \<Longrightarrow> vw_ID v = sid \<Longrightarrow>
           is_revoked (f t) v \<and> vw_CreatedAt v \<le> now"
  shows "over sid ss f now"
  using assms unfolding over_def by blast

lemma over_same: "over sid ss f now \<Longrightarrow> same_from now g f \<Longrightarrow> over sid ss g now"
proof (rule overI)
  assume f: "over sid ss f now" and s: "same_from now g f"
  from f show "keyed ss" "\<exists>s. map_of ss sid = Some s \<and> ss_RevokedAt s \<noteq> None"
    by (rule over_keyed, rule over_row)
  from s have "same_from now f g" by (simp add: same_from_def)
  from this over_marks [OF f] show "marks_end (now + RevocationRetention) g" by (rule marks_end_same)
  fix t h v assume t: "now \<le> t" "g t (SessionKey h) = Some (Doc (DView v))" "vw_ID v = sid"
  with s have "g t = f t" by (simp add: same_from_def)
  with overD [OF f t(1) _ t(3)] t(2) show "is_revoked (g t) v \<and> vw_CreatedAt v \<le> now" by simp
qed

lemma over_rows:
  assumes f: "over sid ss f now" and r: "rows_like ss ss'" shows "over sid ss' f now"
proof (rule overI)
  show "keyed ss'" using r by (rule rows_like_keyed)
  show "\<exists>s. map_of ss' sid = Some s \<and> ss_RevokedAt s \<noteq> None"
    using over_row [OF f] r by (fastforce simp: rows_like_def row_like_def)
qed (use f in \<open>auto intro: over_marks dest: overD\<close>)

lemma over_update:
  assumes f: "over sid ss f now" and k: "k \<noteq> sid" "ss_ID s = k" shows "over sid (AList.update k s ss) f now"
proof (rule overI)
  show "keyed (AList.update k s ss)" using over_keyed [OF f] k(2) by (rule keyed_update)
  show "\<exists>s'. map_of (AList.update k s ss) sid = Some s' \<and> ss_RevokedAt s' \<noteq> None"
    using over_row [OF f] k by simp
qed (use f in \<open>auto intro: over_marks dest: overD\<close>)

lemma is_revoked_del [simp]: "is_revoked (view_del [SessionKey h] f t) v = is_revoked (f t) v"
  by (rule is_revoked_cong) (auto simp: view_del_def)

lemma is_revoked_put [simp]: "is_revoked (put_view now h v0 f t) v = is_revoked (f t) v"
  by (rule is_revoked_cong) (auto intro!: put_view_other)

lemma over_del: "over sid ss f now \<Longrightarrow> over sid ss (view_del [SessionKey h] f) now"
  by (rule overI)
    (auto dest: over_keyed over_row over_marks view_del_session overD intro: marks_end_del over_marks)

lemma over_put: "over sid ss f now \<Longrightarrow> vw_ID v \<noteq> sid \<Longrightarrow> over sid ss (put_view now h v f) now"
  by (rule overI)
    (auto dest: over_keyed over_row put_view_cases overD intro!: marks_end_view intro: over_marks)

lemma put_mark_read:
  "put_mark now k f t k' =
     (if k' = k then (if now + RevocationRetention \<le> t then None else Some (Text (FormatInt (wrap64 now)))) else f t k')"
  by (simp add: put_mark_def view_set_def)

lemma is_revoked_mark:
  assumes "int64 now" "t < now + RevocationRetention" "is_revoked (f t) v" "vw_CreatedAt v \<le> now"
  shows "is_revoked (put_mark now k f t) v"
  using assms by (auto simp: is_revoked_def put_mark_read covers_def)

lemma is_revoked_marks_end: "marks_end x f \<Longrightarrow> x \<le> t \<Longrightarrow> \<not> is_revoked (f t) v"
  by (simp add: marks_end_def is_revoked_def covers_def)

lemma over_mark:
  assumes f: "over sid ss f now" and k: "mark_key k" and now: "int64 now"
  shows "over sid ss (put_mark now k f) now"
proof (rule overI)
  fix t h v
  assume t: "now \<le> t" and v: "put_mark now k f t (SessionKey h) = Some (Doc (DView v))" and sid: "vw_ID v = sid"
  from v k have "f t (SessionKey h) = Some (Doc (DView v))" by simp
  note * = overD [OF f t this sid]
  with is_revoked_marks_end [OF over_marks [OF f]] have "t < now + RevocationRetention"
    by (meson not_le)
  with * now show "is_revoked (put_mark now k f t) v \<and> vw_CreatedAt v \<le> now"
    by (simp add: is_revoked_mark)
qed (use f in \<open>auto intro: over_keyed over_row marks_end_mark over_marks dest: over_row\<close>)

lemma over_later: "over sid ss f now \<Longrightarrow> now \<le> now' \<Longrightarrow> over sid ss f now'"
proof (rule overI)
  assume f: "over sid ss f now" and le: "now \<le> now'"
  from f show "keyed ss" "\<exists>s. map_of ss sid = Some s \<and> ss_RevokedAt s \<noteq> None"
    by (rule over_keyed, rule over_row)
  show "marks_end (now' + RevocationRetention) f"
    using over_marks [OF f] le by (auto elim: marks_end_later)
  fix t h v assume *: "now' \<le> t" "f t (SessionKey h) = Some (Doc (DView v))" "vw_ID v = sid"
  then have "now \<le> t" using le by linarith
  with overD [OF f _ *(2,3)] le show "is_revoked (f t) v \<and> vw_CreatedAt v \<le> now'" by force
qed


section \<open>Every operation keeps the invariants\<close>

text \<open>
  The two invariants (the views are sound; and a given session is over) are kept for the same
  reasons, so what the operations need of an invariant \<open>P\<close> is stated once.  \<open>good\<close> says which
  sessions may still be admitted.
\<close>

definition sat :: "(session table \<Rightarrow> doc kv_view \<Rightarrow> bool) \<Rightarrow> world \<Rightarrow> bool" where
  "sat P w \<longleftrightarrow> faults w = [] \<and> P (Sessions (db w)) (sees w)"

definition resolved_by :: "time \<Rightarrow> string \<Rightarrow> world \<Rightarrow> actor \<Rightarrow> bool" where
  "resolved_by now hash w a \<longleftrightarrow>
     (\<exists>v. a = view_actor v \<and> view_fits (Sessions (db w)) now hash v
        \<and> now < vw_ExpiresAt v
        \<and> (\<forall>v0. sees w now (SessionKey hash) = Some (Doc (DView v0)) \<longrightarrow> vw_ID v0 = vw_ID v))"

lemma same_core_revoked: "same_core v0 v \<Longrightarrow> is_revoked f v = is_revoked f v0"
  by (simp add: same_core_def is_revoked_def covers_def split: option.split)

lemma row_found:
  "find_row Q t = Some (k, x) \<Longrightarrow> distinct (map fst t) \<Longrightarrow> Q x \<and> map_of t k = Some x"
  unfolding find_row_def by (auto simp: find_Some_iff in_set_conv_nth intro!: map_of_is_SomeI)

locale session_keep =
  fixes now :: time
    and P :: "session table \<Rightarrow> doc kv_view \<Rightarrow> bool"
    and good :: "string \<Rightarrow> bool"
  assumes ok: "P ss f \<Longrightarrow> views_ok ss f now"
    and same: "P ss f \<Longrightarrow> same_from now g f \<Longrightarrow> P ss g"
    and del: "P ss f \<Longrightarrow> P ss (view_del [SessionKey h] f)"
    and mark: "P ss f \<Longrightarrow> mark_key k \<Longrightarrow> P ss (put_mark now k f)"
    and rows: "P ss f \<Longrightarrow> rows_like ss ss' \<Longrightarrow> P ss' f"
    and put: "P ss f \<Longrightarrow> view_fits ss now h v \<Longrightarrow> good (vw_ID v) \<Longrightarrow> P ss (put_view now h v f)"
    and insert: "P ss f \<Longrightarrow> map_of ss (ss_ID s) = None \<Longrightarrow> ss_CreatedAt s \<le> now
      \<Longrightarrow> P (AList.update (ss_ID s) s ss) f"
    and renew: "P ss f \<Longrightarrow> map_of ss sid = Some s \<Longrightarrow> ss_RevokedAt s = None
      \<Longrightarrow> row_like (s\<lparr>ss_SecretHash := hash\<rparr>) s' \<Longrightarrow> ss_ID s' = sid
      \<Longrightarrow> vw_ID v = sid \<Longrightarrow> owner_match s v \<Longrightarrow> vw_CreatedAt v \<le> now
      \<Longrightarrow> vw_ID gv = sid \<Longrightarrow> owner_match s gv \<Longrightarrow> vw_CreatedAt gv \<le> now
      \<Longrightarrow> vw_GraceUntil gv = Some (now + RenewGrace) \<Longrightarrow> view_ttl now gv > 0
      \<Longrightarrow> P (AList.update sid s' ss)
           (put_view now hash v (put_view now (ss_SecretHash s) gv (put_view now h1 gv f)))"
    and good_cached: "P ss f \<Longrightarrow> f now (SessionKey h) = Some (Doc (DView v))
      \<Longrightarrow> \<not> is_revoked (f now) v \<Longrightarrow> good (vw_ID v)"
    and good_row: "P ss f \<Longrightarrow> map_of ss sid = Some s \<Longrightarrow> ss_RevokedAt s = None \<Longrightarrow> good sid"
begin

lemma keyed_P: "P ss f \<Longrightarrow> keyed ss"
  by (auto dest: ok views_ok_keyed)

lemma Resolve_cached:
  assumes "sat P w" "from_cache w now hash v"
  shows "view_fits (Sessions (db w)) now hash v" "\<not> is_revoked (sees w now) v \<Longrightarrow> good (vw_ID v)"
proof -
  from assms(2) obtain v0 where v0: "sees w now (SessionKey hash) = Some (Doc (DView v0))" "same_core v0 v"
    by (auto simp: from_cache_def)
  have P: "P (Sessions (db w)) (sees w)" using assms(1) by (simp add: sat_def)
  from views_okD(1) [OF ok [OF P] _ v0(1)] v0(2) show "view_fits (Sessions (db w)) now hash v"
    by (auto simp: view_fits_def same_core_def owner_match_def)
  from good_cached [OF P v0(1)] v0(2) show "\<not> is_revoked (sees w now) v \<Longrightarrow> good (vw_ID v)"
    by (simp add: same_core_revoked) (simp add: same_core_def)
qed

lemma Resolve_row:
  assumes "sat P w" "from_row w now hash v"
  shows "view_fits (Sessions (db w)) now hash v" "good (vw_ID v)"
proof -
  have P: "P (Sessions (db w)) (sees w)" using assms(1) by (simp add: sat_def)
  from assms(2) obtain k s t roles and pol :: policy where
    row: "find_row (\<lambda>s. ss_SecretHash s = hash) (Sessions (db w)) = Some (k, s)" "ss_RevokedAt s = None"
      "same_core (view_of_row s t roles (IdleTimeout pol)) v"
    unfolding from_row_def by blast
  from row(1) keyed_P [OF P] have s: "ss_SecretHash s = hash" "map_of (Sessions (db w)) k = Some s"
    by (auto simp: keyed_def dest: row_found)
  have id: "ss_ID s = k" using keyed_P [OF P] s(2) by (rule keyed_id)
  from row(3) have v: "vw_ID v = k" "owner_match s v" "vw_CreatedAt v = ss_CreatedAt s"
    by (simp_all add: same_core_def view_of_row_def owner_match_def id)
  with s views_ok_created [OF ok [OF P] s(2)] show "view_fits (Sessions (db w)) now hash v"
    by (simp add: view_fits_def)
  from good_row [OF P s(2) row(2)] v(1) show "good (vw_ID v)" by simp
qed

end


context session_keep
begin

lemma sat_calm: "sat P w \<Longrightarrow> calm now w w' \<Longrightarrow> sat P w'"
  by (auto simp: sat_def calm_def intro: same)

lemma sat_rows_same:
  assumes "sat P w" "faults w' = []" "rows_like (Sessions (db w)) (Sessions (db w'))" "same_from now (sees w') f"
    "P (Sessions (db w)) f"
  shows "sat P w'"
  using assms rows [OF assms(5,3)] by (auto simp: sat_def intro: same)

lemma sat_keyed: "sat P w \<Longrightarrow> keyed (Sessions (db w))"
  by (auto simp: sat_def intro: keyed_P)

lemma Resolve_keeps:
  assumes w: "sat P w"
  shows "wp (Resolve X now secret) (\<lambda>r w'. sat P w' \<and> (\<forall>a. r = Inr a \<longrightarrow>
           resolved_by now (HashToken X secret) w' a \<and> good (act_SessionID a))) w"
proof (cases "secret = ''''")
  case True
  then show ?thesis using w by (simp add: Resolve_def wp_simps)
next
  case False
  let ?h = "HashToken X secret"
  have f: "faults w = []" and P: "P (Sessions (db w)) (sees w)" using w by (simp_all add: sat_def)
  have "wp (lookup_view now ?h) (\<lambda>r w1. case r of Inl e \<Rightarrow> sat P w1 | Inr v \<Rightarrow>
      wp (admit_view now ?h v) (\<lambda>r w'. sat P w' \<and> (\<forall>a. r = Inr a \<longrightarrow> resolved_by now ?h w' a \<and> good (act_SessionID a))) w1) w"
  proof (rule wp_lookup_view [OF f], simp_all only: sum.case)
    fix w' assume *: "faults w' = []" "Sessions (db w') = Sessions (db w)"
      "same_from now (sees w') (sees w) \<or> same_from now (sees w') (view_del [SessionKey ?h] (sees w))"
    show "sat P w'" using * P by (auto simp: sat_def intro: same del)
  next
    fix v w1 assume w1: "calm now w w1" and src: "from_cache w now ?h v \<or> from_row w now ?h v"
    have s1: "sat P w1" using w w1 by (rule sat_calm)
    then have f1: "faults w1 = []" and P1: "P (Sessions (db w1)) (sees w1)" by (simp_all add: sat_def)
    have d1: "db w1 = db w" and n1: "sees w1 now = sees w now" using w1 calm_sees by (auto simp: calm_def)
    have fits: "view_fits (Sessions (db w1)) now ?h v"
      using src Resolve_cached(1) [OF w] Resolve_row(1) [OF w] d1 by auto
    show "wp (admit_view now ?h v) (\<lambda>r w'. sat P w' \<and> (\<forall>a. r = Inr a \<longrightarrow> resolved_by now ?h w' a \<and> good (act_SessionID a))) w1"
    proof (rule wp_admit_view [OF f1])
      fix e w' assume *: "faults w' = []"
        "Sessions (db w') = Sessions (db w1)
         \<or> (\<exists>reason. Sessions (db w') = Sessions (revoke_where now reason (\<lambda>k _. k = vw_ID v) (db w1)))"
        "same_from now (sees w') (view_del [SessionKey ?h] (sees w1))
         \<or> sees w' = put_mark now (RevokedSessionKey (vw_ID v)) (view_del [SessionKey ?h] (sees w1))"
      have "rows_like (Sessions (db w1)) (Sessions (db w'))"
        using *(2) rows_like_refl [OF sat_keyed [OF s1]] rows_like_revoke [OF sat_keyed [OF s1]] by auto
      moreover have "P (Sessions (db w1)) (sees w')"
        using *(3) mark [OF del [OF P1] mark_key_simps(1)] del [OF P1] by (auto intro: same)
      ultimately have "sat P w'" using *(1) by (auto simp: sat_def intro: rows)
      then show "sat P w' \<and> (\<forall>a. Inl e = Inr a \<longrightarrow> resolved_by now ?h w' a \<and> good (act_SessionID a))" by simp
    next
      fix v' w2
      assume adm: "admitted now v v'" and live: "\<not> is_revoked (sees w1 now) v" and f2: "faults w2 = []"
        and t2: "touched now v (db w1) (Sessions (db w2))" and s2: "same_from now (sees w2) (put_view now ?h v' (sees w1))"
      have id': "vw_ID v' = vw_ID v" using adm by (auto simp: admitted_def)
      have good: "good (vw_ID v')" unfolding id'
        using src
      proof
        assume "from_cache w now ?h v"
        with w show "good (vw_ID v)" by (rule Resolve_cached(2)) (use live n1 in simp)
      next
        assume "from_row w now ?h v"
        with w show "good (vw_ID v)" by (rule Resolve_row(2))
      qed
      have fits': "view_fits (Sessions (db w1)) now ?h v'"
        using fits adm by (auto simp: admitted_def view_fits_def owner_match_def)
      have rl: "rows_like (Sessions (db w1)) (Sessions (db w2))"
        using sat_keyed [OF s1] t2 by (rule rows_like_touched)
      have "P (Sessions (db w1)) (put_view now ?h v' (sees w1))"
        using P1 fits' good by (rule put)
      with s1 f2 rl s2 have sat2: "sat P w2" by (rule sat_rows_same)
      have "vw_ID v0 = vw_ID v'" if "sees w2 now (SessionKey ?h) = Some (Doc (DView v0))" for v0
      proof -
        have "put_view now ?h v' (sees w1) now (SessionKey ?h) = Some (Doc (DView v0))"
          using that s2 by (simp add: same_from_def)
        from put_view_cases [OF this] show ?thesis
        proof
          assume "sees w1 now (SessionKey ?h) = Some (Doc (DView v0))"
          with n1 src have "from_cache w now ?h v" "sees w now (SessionKey ?h) = Some (Doc (DView v0))"
            unfolding from_row_def by auto
          then show ?thesis unfolding id' by (auto simp: from_cache_def same_core_def)
        qed simp
      qed
      moreover have "now < vw_ExpiresAt v'" using adm by (auto simp: admitted_def)
      ultimately have "resolved_by now ?h w2 (view_actor v')"
        using view_fits_rows [OF fits' rl] unfolding resolved_by_def by blast
      with sat2 good show "sat P w2 \<and> (\<forall>a. Inr (view_actor v') = Inr a \<longrightarrow> resolved_by now ?h w2 a \<and> good (act_SessionID a))"
        by (simp add: view_actor_def)
    qed
  qed
  with False show ?thesis unfolding Resolve_def wp_simps Let_def by (simp cong: sum.case_cong)
qed

end


lemma view_ttl_grace:
  assumes "vw_GraceUntil v = Some g" "now < g" "now < vw_ExpiresAt v" "0 < vw_Idle v"
  shows "view_ttl now v > 0"
  using assms by (simp add: view_ttl_def Let_def)

context session_keep
begin

lemma rotate_keeps:
  assumes w: "sat P w" and s: "map_of (Sessions (db w)) (ss_ID s) = Some s" "ss_RevokedAt s = None"
    and pol: "policy_ok pol"
    and v: "vw_ID v = ss_ID s" "owner_match s v" "vw_CreatedAt v \<le> now" "vw_Idle v = IdleTimeout pol"
  shows "wp (rotate X now random secret a s pol v)
           (\<lambda>r w'. sat P w' \<and> (\<forall>n. r = Inr n \<longrightarrow> rn_SessionID n = ss_ID s)) w"
proof (cases "vw_GraceUntil v \<noteq> None \<or> (case vw_RenewedAt v of None \<Rightarrow> False | Some at \<Rightarrow> now - at < RenewMinInterval)")
  case True
  then show ?thesis using w by (simp add: rotate_def wp_simps)
next
  case False
  show ?thesis
  proof (cases random)
    case None
    with False w show ?thesis by (simp add: rotate_def wp_simps)
  next
    case (Some nxt)
    define hash where "hash = HashToken X nxt"
    define expires where "expires = now + SessionLifetime pol"
    define gv where "gv = v\<lparr>vw_GraceUntil := Some (now + RenewGrace), vw_RenewedAt := Some now, vw_ExpiresAt := expires\<rparr>"
    define nv where "nv = v\<lparr>vw_GraceUntil := None, vw_LastSeen := now, vw_ExpiresAt := expires, vw_RenewedAt := Some now\<rparr>"
    define s' where "s' = s\<lparr>ss_SecretHash := hash, ss_ExpiresAt := expires, ss_LastSeen := now\<rparr>"
    have f: "faults w = []" and P: "P (Sessions (db w)) (sees w)" using w by (simp_all add: sat_def)
    have st: "Store_Renew now (ss_TenantID s) (ss_ID s) hash expires (db w) = (Inr (), put_session (ss_ID s) s' (db w))"
      using s by (simp add: Store_Renew_def session_of_def s'_def)
    have ttl: "view_ttl now gv > 0"
    proof (rule view_ttl_grace)
      show "vw_GraceUntil gv = Some (now + RenewGrace)" by (simp add: gv_def)
      show "now < now + RenewGrace" using retention_pos(3) by linarith
      show "now < vw_ExpiresAt gv" "0 < vw_Idle gv"
        using pol v(4) by (simp_all add: gv_def expires_def policy_ok_def)
    qed
    have "P (AList.update (ss_ID s) s' (Sessions (db w)))
        (put_view now hash nv (put_view now (ss_SecretHash s) gv (put_view now (HashToken X secret) gv (sees w))))"
      by (rule renew [OF P s])
        (use v ttl in \<open>simp_all add: row_like_def s'_def nv_def gv_def owner_match_def s(2)\<close>)
    then have fin: "sat P w'" if "faults w' = []" "db w' = put_session (ss_ID s) s' (db w)"
        "sees w' = put_view now hash nv (put_view now (ss_SecretHash s) gv (put_view now (HashToken X secret) gv (sees w)))" for w'
      using that by (simp add: sat_def put_session_def)
    have "wp (on_db (Store_Renew now (ss_TenantID s) (ss_ID s) hash expires)) (\<lambda>r w1. case r of
        Inl _ \<Rightarrow> sat P w1
      | Inr _ \<Rightarrow> wp (putView now (HashToken X secret) gv) (\<lambda>r w2. case r of Inl e \<Rightarrow> sat P w2 | Inr _ \<Rightarrow>
          wp (putView now (ss_SecretHash s) gv) (\<lambda>r w3. case r of Inl e \<Rightarrow> sat P w3 | Inr _ \<Rightarrow>
            wp (putView now hash nv) (\<lambda>r w4. case r of Inl e \<Rightarrow> sat P w4
              | Inr _ \<Rightarrow> sat P (w4\<lparr>audit := audit w4 @ [session_event ''session_renewed'' (ss_TenantID s) (act_Kind a)
                    (act_UserID a) ''session'' (ss_ID s) '''']\<rparr>)) w3) w2) w1) w"
      by (rule wp_on_db [OF f]) (use f in \<open>auto simp: st intro!: wp_putView fin\<close>)
    with False Some show ?thesis
      unfolding rotate_def wp_simps Let_def
      by (simp add: wp_simps hash_def expires_def gv_def nv_def cong: sum.case_cong)
  qed
qed

end


lemma resolved_by_row:
  assumes "resolved_by now h w a" "keyed (Sessions (db w))"
  obtains s where "map_of (Sessions (db w)) (act_SessionID a) = Some s" "ss_ID s = act_SessionID a"
    "ss_TenantID s = act_TenantID a" "ss_UserID s = act_UserID a" "ss_AMR s = act_AMR a" "ss_CreatedAt s \<le> now"
  using assms unfolding resolved_by_def view_fits_def
  by (auto simp: view_actor_def owner_match_def dest: keyed_id)

context session_keep
begin

lemma wp_keep_calm:
  assumes "sat P w" "faults w = [] \<Longrightarrow> wp m Q w" shows "wp m Q w"
  using assms by (simp add: sat_def)

lemma renewal_view_keeps:
  assumes w: "sat P w" and s: "map_of (Sessions (db w)) (ss_ID s) = Some s"
    and a: "resolved_by now (HashToken X secret) w a" "act_SessionID a = ss_ID s"
  shows "wp (renewal_view X now secret a s t)
           (\<lambda>r w'. sat P w' \<and> db w' = db w \<and> (\<forall>v. r = Inr v \<longrightarrow>
              vw_ID v = ss_ID s \<and> owner_match s v \<and> vw_CreatedAt v \<le> now)) w"
proof -
  have f: "faults w = []" and P: "P (Sessions (db w)) (sees w)" using w by (simp_all add: sat_def)
  have cr: "ss_CreatedAt s \<le> now" by (rule views_ok_created [OF ok [OF P] s])
  show ?thesis unfolding renewal_view_def wp_simps
  proof (rule wp_getView [OF f], simp only: sum.case)
    fix w1 assume w1: "calm now w w1"
    then have sat1: "sat P w1" and d1: "db w1 = db w" using w by (auto intro: sat_calm simp: calm_def)
    show "case cached_view (sees w now (SessionKey (HashToken X secret))) of
        None \<Rightarrow> wp (tenantVersion now (ss_TenantID s)) (\<lambda>r s'. case r of
            Inl e \<Rightarrow> sat P s' \<and> db s' = db w \<and> (\<forall>v. Inl e = Inr v \<longrightarrow> vw_ID v = ss_ID s \<and> owner_match s v \<and> vw_CreatedAt v \<le> now)
          | Inr ver \<Rightarrow> sat P s' \<and> db s' = db w \<and> (\<forall>v. Inr ((view_of_row s t (act_Roles a) 0)
                \<lparr>vw_LastSeen := zero_time, vw_DisplayName := act_DisplayName a,
                 vw_AvatarURL := act_AvatarURL a, vw_PolicyVersion := ver\<rparr>) = Inr v \<longrightarrow>
                vw_ID v = ss_ID s \<and> owner_match s v \<and> vw_CreatedAt v \<le> now)) w1
      | Some v \<Rightarrow> sat P w1 \<and> db w1 = db w \<and> (\<forall>va. Inr v = Inr va \<longrightarrow> vw_ID va = ss_ID s \<and> owner_match s va \<and> vw_CreatedAt va \<le> now)"
    proof (cases "cached_view (sees w now (SessionKey (HashToken X secret)))")
      case None
      have "wp (tenantVersion now (ss_TenantID s)) (\<lambda>r s'. sat P s' \<and> db s' = db w \<and> (\<exists>ver. r = Inr ver)) w1"
        using sat1 d1 by (intro wp_tenantVersion) (auto simp: sat_def calm_def intro: same)
      then show ?thesis unfolding None option.case
        by (rule wp_mono) (auto simp: view_of_row_def owner_match_def cr)
    next
      case (Some v)
      then have v: "sees w now (SessionKey (HashToken X secret)) = Some (Doc (DView v))" by simp
      with a have id: "vw_ID v = ss_ID s" by (auto simp: resolved_by_def view_actor_def)
      from views_okD(1) [OF ok [OF P] order_refl v] id s have "owner_match s v" "vw_CreatedAt v \<le> now"
        by (auto simp: view_fits_def)
      with Some id sat1 d1 show ?thesis by simp
    qed
  qed
qed

lemma Renew_keeps:
  assumes w: "sat P w"
  shows "wp (Renew X now random secret)
           (\<lambda>r w'. sat P w' \<and> (\<forall>n. r = Inr n \<longrightarrow> good (rn_SessionID n))) w"
  unfolding Renew_def wp_simps
proof (rule wp_mono [OF Resolve_keeps [OF w, of X secret]], goal_cases)
  case (1 r w1)
  show ?case
  proof (cases r)
    case (Inr a)
    with 1 have sat1: "sat P w1" and a: "resolved_by now (HashToken X secret) w1 a" "good (act_SessionID a)" by auto
    have f1: "faults w1 = []" using sat1 by (simp add: sat_def)
    obtain s where s: "map_of (Sessions (db w1)) (act_SessionID a) = Some s" "ss_ID s = act_SessionID a"
      "ss_TenantID s = act_TenantID a"
      using resolved_by_row [OF a(1) sat_keyed [OF sat1]] by blast
    show ?thesis unfolding Inr sum.case
    proof (rule wp_load_row [OF f1])
      show "sat P w1 \<and> (\<forall>n. Inl e = Inr n \<longrightarrow> good (rn_SessionID n))" for e using sat1 by simp
      show "on_db (Store_Get (act_TenantID a) (act_SessionID a)) = on_db (Store_Get (act_TenantID a) (act_SessionID a))" ..
      show "d = db w1" if "Store_Get (act_TenantID a) (act_SessionID a) (db w1) = (r, d)" for r d
        using that by (simp add: Store_Get_def)
      fix s' and t :: tenant and pol
      assume g: "Store_Get (act_TenantID a) (act_SessionID a) (db w1) = (Inr s', db w1)" "ss_RevokedAt s' = None"
        "ParsePolicy (tn_Policy t) (tn_Kind t = ''platform'') = (pol, Inr ())"
      from g(1) s have [simp]: "s' = s" by (simp add: Store_Get_def session_of_def found_def)
      have s1: "map_of (Sessions (db w1)) (ss_ID s) = Some s" using s by simp
      show "wp (bind_op (renewal_view X now secret a s' t) (\<lambda>v. rotate X now random secret a s' pol (v\<lparr>vw_Idle := IdleTimeout pol\<rparr>)))
          (\<lambda>r w'. sat P w' \<and> (\<forall>n. r = Inr n \<longrightarrow> good (rn_SessionID n))) w1"
        unfolding wp_simps \<open>s' = s\<close>
      proof (rule wp_mono [OF renewal_view_keeps [OF sat1 s1 a(1), of t]], use s(2) in simp, goal_cases)
        case (1 r w2)
        show ?case
        proof (cases r)
          case (Inr v)
          with 1 have sat2: "sat P w2" and v: "vw_ID v = ss_ID s" "owner_match s v" "vw_CreatedAt v \<le> now"
            and d2: "map_of (Sessions (db w2)) (ss_ID s) = Some s" using s1 by auto
          have "wp (rotate X now random secret a s pol (v\<lparr>vw_Idle := IdleTimeout pol\<rparr>))
             (\<lambda>r w'. sat P w' \<and> (\<forall>n. r = Inr n \<longrightarrow> rn_SessionID n = ss_ID s)) w2"
            using g(2,3) v by (intro rotate_keeps [OF sat2 d2]) (auto dest: ParsePolicy_ok simp: owner_match_def)
          then show ?thesis unfolding Inr sum.case by (rule wp_mono) (use a(2) s(2) in auto)
        qed (use 1 in simp)
      qed
    qed
  qed (use 1 in simp)
qed

lemma Create_keeps:
  assumes w: "sat P w" and fresh: "map_of (Sessions (db w)) newID = None"
  shows "wp (Create X now newID random p) (\<lambda>r w'. sat P w') w"
proof (cases random)
  case (Some secret)
  define s where "s = \<lparr>ss_ID = newID, ss_TenantID = cp_TenantID p, ss_UserID = cp_UserID p,
     ss_SecretHash = HashToken X secret, ss_AMR = cp_AMR p, ss_CreatedAt = now,
     ss_LastSeen = now, ss_ExpiresAt = now + SessionLifetime (cp_Policy p),
     ss_IPHash = cp_IPHash p, ss_UserAgent = clip (cp_UserAgent p) 256,
     ss_RevokedAt = None, ss_RevokedReason = None\<rparr>"
  define v where "v = \<lparr>vw_ID = ss_ID s, vw_TenantID = ss_TenantID s, vw_UserID = ss_UserID s,
     vw_Roles = cp_Roles p, vw_AMR = ss_AMR s, vw_Operator = cp_Operator p,
     vw_CreatedAt = now, vw_LastSeen = now, vw_ExpiresAt = ss_ExpiresAt s,
     vw_Idle = IdleTimeout (cp_Policy p), vw_PolicyVersion = 0, vw_DisplayName = '''',
     vw_AvatarURL = '''', vw_RenewedAt = None, vw_GraceUntil = None\<rparr>"
  have f: "faults w = []" and P: "P (Sessions (db w)) (sees w)" using w by (simp_all add: sat_def)
  have P1: "P (AList.update (ss_ID s) s (Sessions (db w))) (sees w)"
    using fresh by (intro insert [OF P]) (simp_all add: s_def)
  have good: "good (ss_ID s)"
  proof (rule good_row [OF P1])
    show "map_of (AList.update (ss_ID s) s (Sessions (db w))) (ss_ID s) = Some s" by simp
    show "ss_RevokedAt s = None" by (simp add: s_def)
  qed
  have fits: "view_fits (AList.update (ss_ID s) s (Sessions (db w))) now (ss_SecretHash s)
      (v\<lparr>vw_PolicyVersion := n, vw_DisplayName := dn, vw_AvatarURL := av\<rparr>)" for n dn av
    by (simp add: view_fits_def v_def owner_match_def s_def)
  have "wp (on_db (Store_Insert s)) (\<lambda>r w1. case r of Inl e \<Rightarrow> sat P w1 | Inr _ \<Rightarrow>
      wp (tenantVersion now (ss_TenantID s)) (\<lambda>r w2. case r of Inl e \<Rightarrow> sat P w2 | Inr ver \<Rightarrow>
      wp (loadProfile (v\<lparr>vw_PolicyVersion := ver\<rparr>)) (\<lambda>r w3. case r of Inl e \<Rightarrow> sat P w3 | Inr v \<Rightarrow>
      wp (putView now (ss_SecretHash s) v) (\<lambda>r w4. case r of Inl e \<Rightarrow> sat P w4 | Inr _ \<Rightarrow> sat P w4) w3) w2) w1) w"
  proof (rule wp_on_db [OF f], goal_cases)
    case (1 r d)
    then have r: "r = Inr ()" and d: "Sessions d = AList.update (ss_ID s) s (Sessions (db w))"
      by (auto simp: Store_Insert_def)
    have sat1: "sat P (w\<lparr>db := d\<rparr>)" using f P1 d by (simp add: sat_def)
    show ?case unfolding r sum.case
    proof (rule wp_tenantVersion, use f in simp, simp only: sum.case)
      fix n w2 assume c: "calm now (w\<lparr>db := d\<rparr>) w2"
      have sat2: "sat P w2" using sat1 c by (rule sat_calm)
      have d2: "Sessions (db w2) = AList.update (ss_ID s) s (Sessions (db w))" using c d by (simp add: calm_def)
      show "wp (loadProfile (v\<lparr>vw_PolicyVersion := n\<rparr>)) (\<lambda>r w3. case r of Inl e \<Rightarrow> sat P w3 | Inr v \<Rightarrow>
          wp (putView now (ss_SecretHash s) v) (\<lambda>r w4. case r of Inl e \<Rightarrow> sat P w4 | Inr _ \<Rightarrow> sat P w4) w3) w2"
      proof (rule wp_loadProfile, use sat2 in \<open>simp add: sat_def\<close>, simp only: sum.case)
        fix dn av
        let ?v = "v\<lparr>vw_PolicyVersion := n, vw_DisplayName := dn, vw_AvatarURL := av\<rparr>"
        have "P (Sessions (db w2)) (put_view now (ss_SecretHash s) ?v (sees w2))"
          using sat2 good fits d2 by (intro put) (simp_all add: sat_def v_def)
        then show "wp (putView now (ss_SecretHash s) ?v) (\<lambda>r w4. case r of Inl e \<Rightarrow> sat P w4 | Inr _ \<Rightarrow> sat P w4) w2"
          using sat2 by (intro wp_putView) (simp_all add: sat_def)
      qed
    qed
  qed
  then show ?thesis
    unfolding Create_def Some option.case Let_def s_def [symmetric] v_def [symmetric] wp_simps
    by (simp add: v_def cong: sum.case_cong)
qed (use w in \<open>simp add: Create_def wp_simps\<close>)

end


subsection \<open>Revocations\<close>

lemma wp_Revoke:
  assumes "faults w = []"
    and "session_of tid ident (db w) = None \<Longrightarrow> Q (Inl ErrNotFound) w"
    and "\<And>s w'. session_of tid ident (db w) = Some s \<Longrightarrow> faults w' = []
           \<Longrightarrow> Sessions (db w') = Sessions (revoke_where now reason (\<lambda>k _. k = ident) (db w))
           \<Longrightarrow> sees w' = view_del [SessionKey (ss_SecretHash s)] (put_mark now (RevokedSessionKey ident) (sees w))
           \<Longrightarrow> Q (Inr ()) w'"
  shows "wp (Revoke ctx now tid ident reason) Q w"
  unfolding Revoke_def wp_simps
proof (rule wp_on_db [OF assms(1)], goal_cases)
  case (1 r d)
  show ?case
  proof (cases "session_of tid ident (db w)")
    case None
    with 1 assms(2) show ?thesis by (auto simp: Store_Get_def found_def)
  next
    case (Some s)
    with 1 have r: "r = Inr s" "d = db w" by (auto simp: Store_Get_def found_def)
    show ?thesis unfolding r sum.case
      by (rule wp_revokeOne) (use assms Some in \<open>auto intro!: wp_evictView assms(3)\<close>)
  qed
qed

lemma wp_RevokeTenant:
  assumes "faults w = []"
    and "\<And>w'. faults w' = []
           \<Longrightarrow> Sessions (db w') = Sessions (revoke_where now reason (\<lambda>k s. ss_TenantID s = tid) (db w))
           \<Longrightarrow> sees w' = put_mark now (RevokedTenantKey tid) (sees w) \<Longrightarrow> Q (Inr ()) w'"
  shows "wp (RevokeTenant ctx now tid reason) Q w"
  unfolding RevokeTenant_def wp_simps
  by (rule wp_on_db [OF assms(1)])
    (use assms in \<open>auto simp: Store_RevokeTenant_def revocation_key_def
       intro!: wp_publish [where now = now and key = "RevokedTenantKey tid"] assms(2)\<close>)

lemma wp_RevokeUser_all:
  assumes "faults w = []"
    and "\<And>w'. faults w' = []
           \<Longrightarrow> Sessions (db w') = Sessions (revoke_where now reason
                 (\<lambda>k s. ss_TenantID s = tid \<and> ss_UserID s = uid \<and> k \<noteq> '''') (db w))
           \<Longrightarrow> sees w' = put_mark now (RevokedUserKey uid) (sees w) \<Longrightarrow> Q (Inr ()) w'"
  shows "wp (RevokeUser ctx now tid uid reason '''') Q w"
  unfolding RevokeUser_def wp_simps
  using assms
  by (auto simp: wp_simps Store_RevokeUser_def revocation_key_def
       intro!: wp_on_db wp_publish [where now = now and key = "RevokedUserKey uid"] assms(2))

context session_keep
begin

lemma Revoke_keeps:
  assumes w: "sat P w" shows "wp (Revoke ctx now tid ident reason) (\<lambda>_. sat P) w"
proof (rule wp_Revoke)
  show "faults w = []" "sat P w" using w by (simp_all add: sat_def)
  fix s w' assume a: "faults w' = []" "Sessions (db w') = Sessions (revoke_where now reason (\<lambda>k _. k = ident) (db w))"
    "sees w' = view_del [SessionKey (ss_SecretHash s)] (put_mark now (RevokedSessionKey ident) (sees w))"
  have "P (Sessions (db w)) (sees w')" unfolding a(3) using w by (auto simp: sat_def intro!: del mark)
  from rows [OF this rows_like_revoke [OF sat_keyed [OF w]]] a show "sat P w'" by (simp add: sat_def)
qed

lemma RevokeTenant_keeps:
  assumes w: "sat P w" shows "wp (RevokeTenant ctx now tid reason) (\<lambda>_. sat P) w"
proof (rule wp_RevokeTenant)
  show "faults w = []" using w by (simp add: sat_def)
  fix w' assume a: "faults w' = []" "Sessions (db w') = Sessions (revoke_where now reason (\<lambda>k s. ss_TenantID s = tid) (db w))"
    "sees w' = put_mark now (RevokedTenantKey tid) (sees w)"
  have "P (Sessions (db w)) (sees w')" unfolding a(3) using w by (auto simp: sat_def intro!: mark)
  from rows [OF this rows_like_revoke [OF sat_keyed [OF w]]] a show "sat P w'" by (simp add: sat_def)
qed

lemma publish_session_keeps:
  assumes w: "sat P w" and r: "rv_Kind r = ''session''" "rv_TS r = now"
  shows "wp (publish now r) (\<lambda>q w'. sat P w' \<and> q = Inr ()) w"
proof (rule wp_publish [where key = "RevokedSessionKey (rv_SubjectID r)"])
  show "faults w = []" using w by (simp add: sat_def)
  fix w' assume "faults w' = []" "db w' = (db w)\<lparr>Revs := Revs (db w) @ [r]\<rparr>"
    "sees w' = put_mark now (RevokedSessionKey (rv_SubjectID r)) (sees w)"
  then show "sat P w' \<and> Inr () = Inr ()" using w by (auto simp: sat_def intro!: mark)
qed (use r in \<open>simp_all add: revocation_key_def\<close>)

lemma evictView_keeps:
  assumes w: "sat P w" shows "wp (evictView now h) (\<lambda>q w'. sat P w' \<and> q = Inr ()) w"
  by (rule wp_evictView) (use w in \<open>auto simp: sat_def intro!: del\<close>)

lemma RevokeUser_keeps:
  assumes w: "sat P w" shows "wp (RevokeUser ctx now tid uid reason keep) (\<lambda>_. sat P) w"
proof -
  have f: "faults w = []" and P: "P (Sessions (db w)) (sees w)" using w by (simp_all add: sat_def)
  show ?thesis
  proof (cases "keep = ''''")
    case True
    show ?thesis unfolding True
    proof (rule wp_RevokeUser_all [OF f])
      fix w' assume a: "faults w' = []" "Sessions (db w') = Sessions (revoke_where now reason
          (\<lambda>k s. ss_TenantID s = tid \<and> ss_UserID s = uid \<and> k \<noteq> '''') (db w))"
        "sees w' = put_mark now (RevokedUserKey uid) (sees w)"
      have "P (Sessions (db w)) (sees w')" unfolding a(3) using P by (auto intro!: mark)
      from rows [OF this rows_like_revoke [OF sat_keyed [OF w]]] a show "sat P w'" by (simp add: sat_def)
    qed
  next
    case False
    have loop: "wp (for_op xs (\<lambda>s. seq_op (publish now \<lparr>rv_TS = now, rv_Kind = ''session'', rv_SubjectID = ss_ID s,
        rv_TenantID = tid, rv_Reason = reason\<rparr>) (evictView now (ss_SecretHash s)))) (\<lambda>_. sat P) w'"
      if "sat P w'" for xs :: "session list" and w'
      using that
    proof (rule wp_for [rotated])
      fix s :: session and w' assume w': "sat P w'"
      show "wp (seq_op (publish now \<lparr>rv_TS = now, rv_Kind = ''session'', rv_SubjectID = ss_ID s,
          rv_TenantID = tid, rv_Reason = reason\<rparr>) (evictView now (ss_SecretHash s)))
          (\<lambda>r s'. case r of Inl e \<Rightarrow> sat P s' | Inr _ \<Rightarrow> sat P s') w'"
        unfolding wp_simps
        by (rule wp_mono [OF publish_session_keeps [OF w']]) (auto intro: wp_mono [OF evictView_keeps])
    qed simp
    have sat1: "sat P (w\<lparr>db := revoke_where now reason Q (db w)\<rparr>)" for Q
      using rows [OF P rows_like_revoke [OF sat_keyed [OF w]]] f by (simp add: sat_def)
    have audit: "sat P (w'\<lparr>audit := x\<rparr>) = sat P w'" for w' x by (simp add: sat_def)
    have "wp (on_db (Store_ListUser tid uid)) (\<lambda>r w1. case r of Inl e \<Rightarrow> sat P w1 | Inr sessions \<Rightarrow>
        wp (on_db (Store_RevokeUser now tid uid reason keep)) (\<lambda>r w2. case r of Inl e \<Rightarrow> sat P w2 | Inr _ \<Rightarrow>
          wp (for_op (filter (\<lambda>s. ss_ID s \<noteq> keep) sessions) (\<lambda>s. seq_op (publish now \<lparr>rv_TS = now, rv_Kind = ''session'',
             rv_SubjectID = ss_ID s, rv_TenantID = tid, rv_Reason = reason\<rparr>) (evictView now (ss_SecretHash s))))
            (\<lambda>r w3. sat P w3) w2) w1) w"
      by (rule wp_on_db [OF f])
        (use f in \<open>auto simp: Store_ListUser_def Store_RevokeUser_def intro!: wp_on_db loop sat1\<close>)
    with False show ?thesis
      unfolding RevokeUser_def wp_simps by (simp add: audit sum.case_eq_if cong: sum.case_cong)
  qed
qed

lemma RefreshUser_keeps:
  assumes w: "sat P w" shows "wp (RefreshUser now tid uid) (\<lambda>_. sat P) w"
  unfolding RefreshUser_def wp_simps
proof (rule wp_on_db)
  show "faults w = []" using w by (simp add: sat_def)
  fix r d assume r: "Store_ListUser tid uid (db w) = (r, d)"
  have "wp (for_op xs (\<lambda>s. evictView now (ss_SecretHash s))) (\<lambda>_. sat P) w" for xs :: "session list"
    by (rule wp_for [where I = "sat P"]) (use w in \<open>auto intro: wp_mono [OF evictView_keeps]\<close>)
  with r w show "case r of Inl x \<Rightarrow> sat P (w\<lparr>db := d\<rparr>)
      | Inr sessions \<Rightarrow> wp (for_op sessions (\<lambda>s. evictView now (ss_SecretHash s))) (\<lambda>_. sat P) (w\<lparr>db := d\<rparr>)"
    by (auto simp: Store_ListUser_def)
qed

lemma ByID_keeps:
  assumes w: "sat P w"
  shows "wp (ByID now tid ident) (\<lambda>r w'. sat P w' \<and> (\<forall>a. r = Inr a \<longrightarrow> good (act_SessionID a))) w"
proof (cases "tid = '''' \<or> ident = ''''")
  case False
  have f: "faults w = []" and P: "P (Sessions (db w)) (sees w)" using w by (simp_all add: sat_def)
  have "wp (load_row (on_db (Store_Get tid ident)) (\<lambda>s t pol.
        bind_op (on_db (Store_Roles (ss_TenantID s) (ss_UserID s))) (\<lambda>roles.
        bind_op (loadProfile (view_of_row s t roles (IdleTimeout pol))) (\<lambda>v.
          if \<not> now < vw_ExpiresAt v \<or> now - vw_LastSeen v > vw_Idle v then throw ErrNoSession
          else bind_op (revoked now v) (\<lambda>dead. if dead then throw ErrNoSession else ret (view_actor v))))))
      (\<lambda>r w'. sat P w' \<and> (\<forall>a. r = Inr a \<longrightarrow> good (act_SessionID a))) w"
  proof (rule wp_load_row [OF f _ refl])
    show "sat P w \<and> (\<forall>a. Inl e = Inr a \<longrightarrow> good (act_SessionID a))" for e using w by simp
    show "d = db w" if "Store_Get tid ident (db w) = (r, d)" for r d using that by (simp add: Store_Get_def)
    fix s and t :: tenant and pol :: policy
    assume s: "Store_Get tid ident (db w) = (Inr s, db w)" "ss_RevokedAt s = None"
    then have row: "map_of (Sessions (db w)) ident = Some s"
      by (auto simp: Store_Get_def found_def session_of_Some_iff split: option.splits)
    have id: "ss_ID s = ident" using sat_keyed [OF w] row by (rule keyed_id)
    have good: "good (ss_ID s)" unfolding id by (rule good_row [OF P row s(2)])
    have "wp (on_db (Store_Roles (ss_TenantID s) (ss_UserID s))) (\<lambda>r w1. case r of
          Inl e \<Rightarrow> sat P w1
        | Inr roles \<Rightarrow> wp (loadProfile (view_of_row s t roles (IdleTimeout pol))) (\<lambda>r w2. case r of
            Inl e \<Rightarrow> sat P w2
          | Inr v \<Rightarrow> if \<not> now < vw_ExpiresAt v \<or> now - vw_LastSeen v > vw_Idle v then sat P w2
              else wp (revoked now v) (\<lambda>r w3. case r of Inl e \<Rightarrow> sat P w3
                | Inr dead \<Rightarrow> if dead then sat P w3 else sat P w3 \<and> good (vw_ID v)) w2) w1) w"
      by (rule wp_on_db [OF f])
        (use w f good in \<open>auto simp: Store_Roles_def view_of_row_def intro!: wp_loadProfile wp_revoked sat_calm [OF w]\<close>)
    then show "wp (bind_op (on_db (Store_Roles (ss_TenantID s) (ss_UserID s))) (\<lambda>roles.
        bind_op (loadProfile (view_of_row s t roles (IdleTimeout pol))) (\<lambda>v.
          if \<not> now < vw_ExpiresAt v \<or> now - vw_LastSeen v > vw_Idle v then throw ErrNoSession
          else bind_op (revoked now v) (\<lambda>dead. if dead then throw ErrNoSession else ret (view_actor v)))))
        (\<lambda>r w'. sat P w' \<and> (\<forall>a. r = Inr a \<longrightarrow> good (act_SessionID a))) w"
      unfolding wp_simps by (simp add: view_actor_def cong: sum.case_cong if_cong)
  qed
  with False show ?thesis by (simp add: ByID_def)
qed (use w in \<open>simp add: ByID_def wp_simps\<close>)

end


section \<open>The two invariants\<close>

interpretation sound: session_keep now "\<lambda>ss f. views_ok ss f now" "\<lambda>_. True" for now
  by unfold_locales
    (auto intro: views_ok_same views_ok_del views_ok_mark views_ok_rows views_ok_put views_ok_insert views_ok_renew)

definition ended :: "string \<Rightarrow> time \<Rightarrow> session table \<Rightarrow> doc kv_view \<Rightarrow> bool" where
  "ended sid now ss f \<longleftrightarrow> int64 now \<and> views_ok ss f now \<and> over sid ss f now"

lemma over_renew:
  assumes "over sid ss f now" "k \<noteq> sid" "ss_ID s' = k" "vw_ID v = k" "vw_ID gv = k"
  shows "over sid (AList.update k s' ss) (put_view now h v (put_view now h1 gv (put_view now h2 gv f))) now"
  using assms by (intro over_put over_update) auto

interpretation dead: session_keep now "ended sid now" "\<lambda>x. x \<noteq> sid" for now sid
proof
  fix ss f assume e: "ended sid now ss f"
  then have i: "int64 now" and v: "views_ok ss f now" and o: "over sid ss f now" by (simp_all add: ended_def)
  from v show "views_ok ss f now" .
  show "ended sid now ss g" if "same_from now g f" for g
    using that i v o by (simp add: ended_def views_ok_same over_same)
  show "ended sid now ss (view_del [SessionKey h] f)" for h
    using i v o by (simp add: ended_def views_ok_del over_del)
  show "ended sid now ss (put_mark now k f)" if "mark_key k" for k
    using that i v o by (simp add: ended_def views_ok_mark over_mark)
  show "ended sid now ss' f" if "rows_like ss ss'" for ss'
    using that i v o by (auto simp: ended_def intro: views_ok_rows over_rows)
  show "ended sid now ss (put_view now h x f)" if "view_fits ss now h x" "vw_ID x \<noteq> sid" for h x
    using that i v o by (simp add: ended_def views_ok_put over_put)
  have row: "\<exists>s. map_of ss sid = Some s \<and> ss_RevokedAt s \<noteq> None" using o by (rule over_row)
  show "ended sid now (AList.update (ss_ID s) s ss) f" if "map_of ss (ss_ID s) = None" "ss_CreatedAt s \<le> now" for s
    using that i v o row by (auto simp: ended_def intro!: views_ok_insert over_update)
  show "vw_ID x \<noteq> sid" if "f now (SessionKey h) = Some (Doc (DView x))" "\<not> is_revoked (f now) x" for h x
    using that overD(1) [OF o order_refl that(1)] by auto
  show good: "k \<noteq> sid" if "map_of ss k = Some s" "ss_RevokedAt s = None" for k s
    using that row by auto
  show "ended sid now (AList.update k s' ss)
      (put_view now hash x (put_view now (ss_SecretHash s) gv (put_view now h1 gv f)))"
    if "map_of ss k = Some s" "ss_RevokedAt s = None" "row_like (s\<lparr>ss_SecretHash := hash\<rparr>) s'" "ss_ID s' = k"
      "vw_ID x = k" "owner_match s x" "vw_CreatedAt x \<le> now" "vw_ID gv = k" "owner_match s gv" "vw_CreatedAt gv \<le> now"
      "vw_GraceUntil gv = Some (now + RenewGrace)" "view_ttl now gv > 0" for k s hash s' x gv h1
    using i views_ok_renew [OF v that(1,3,4,5,6,7,8,9,10,11,12)]
      over_renew [OF o good [OF that(1,2)] that(4,5,8)]
    by (simp add: ended_def)
qed

section \<open>Runs\<close>

definition session_cache_key :: "string \<Rightarrow> bool" where
  "session_cache_key k \<longleftrightarrow> mark_key k \<or> (\<exists>h. k = SessionKey h)"

text \<open>
  One step of the system, as the sessions see it: an operation of the manager at a time not before
  the last one, or anything that leaves the session rows, the cached views and the marks alone.
\<close>

inductive session_step :: "externals \<Rightarrow> world \<times> time \<Rightarrow> world \<times> time \<Rightarrow> bool" for X where
  create: "now \<le> now' \<Longrightarrow> int64 now' \<Longrightarrow> map_of (Sessions (db w)) newID = None
    \<Longrightarrow> Create X now' newID random p w = (r1, w') \<Longrightarrow> session_step X (w, now) (w', now')"
| resolve: "now \<le> now' \<Longrightarrow> int64 now' \<Longrightarrow> Resolve X now' secret w = (r2, w')
    \<Longrightarrow> session_step X (w, now) (w', now')"
| renew: "now \<le> now' \<Longrightarrow> int64 now' \<Longrightarrow> Renew X now' random secret w = (r3, w')
    \<Longrightarrow> session_step X (w, now) (w', now')"
| by_id: "now \<le> now' \<Longrightarrow> int64 now' \<Longrightarrow> ByID now' tid ident w = (r4, w')
    \<Longrightarrow> session_step X (w, now) (w', now')"
| revoke: "now \<le> now' \<Longrightarrow> int64 now' \<Longrightarrow> Revoke ctx now' tid ident reason w = (r5, w')
    \<Longrightarrow> session_step X (w, now) (w', now')"
| revoke_user: "now \<le> now' \<Longrightarrow> int64 now' \<Longrightarrow> RevokeUser ctx now' tid uid reason keep w = (r6, w')
    \<Longrightarrow> session_step X (w, now) (w', now')"
| revoke_tenant: "now \<le> now' \<Longrightarrow> int64 now' \<Longrightarrow> RevokeTenant ctx now' tid reason w = (r7, w')
    \<Longrightarrow> session_step X (w, now) (w', now')"
| refresh_user: "now \<le> now' \<Longrightarrow> int64 now' \<Longrightarrow> RefreshUser now' tid uid w = (r8, w')
    \<Longrightarrow> session_step X (w, now) (w', now')"
| other: "now \<le> now' \<Longrightarrow> int64 now' \<Longrightarrow> faults w' = [] \<Longrightarrow> Sessions (db w') = Sessions (db w)
    \<Longrightarrow> (\<And>t k. now' \<le> t \<Longrightarrow> session_cache_key k \<Longrightarrow> sees w' t k = sees w t k)
    \<Longrightarrow> session_step X (w, now) (w', now')"

definition fresh_start :: "world \<Rightarrow> bool" where
  "fresh_start w \<longleftrightarrow> faults w = [] \<and> Sessions (db w) = [] \<and> (\<forall>t k. session_cache_key k \<longrightarrow> sees w t k = None)"

lemma marks_end_other:
  assumes "marks_end (now + RevocationRetention) f"
    and eq: "\<And>t k. now \<le> t \<Longrightarrow> session_cache_key k \<Longrightarrow> g t k = f t k"
  shows "marks_end (now + RevocationRetention) g"
  unfolding marks_end_def
proof (intro allI impI)
  fix t k assume t: "now + RevocationRetention \<le> t" and k: "mark_key k"
  then have "now \<le> t" using retention_pos(1) by linarith
  then have "g t k = f t k" using k by (intro eq) (simp_all add: session_cache_key_def)
  with assms(1) t k show "g t k = None" by (simp add: marks_end_def)
qed

lemma views_ok_other:
  assumes v: "views_ok ss f now" and eq: "\<And>t k. now \<le> t \<Longrightarrow> session_cache_key k \<Longrightarrow> g t k = f t k"
  shows "views_ok ss g now"
proof (rule views_okI)
  show "marks_end (now + RevocationRetention) g"
    using views_ok_marks [OF v] eq by (rule marks_end_other)
  fix t h x assume "now \<le> t" "g t (SessionKey h) = Some (Doc (DView x))"
  with eq have "f t (SessionKey h) = Some (Doc (DView x))" by (auto simp: session_cache_key_def)
  with views_okD [OF v \<open>now \<le> t\<close>] show "view_fits ss now h x \<and> t < now + vw_Idle x \<and> (\<forall>g. vw_GraceUntil x = Some g \<longrightarrow> t < g)"
    by blast
qed (use v in \<open>auto intro: views_ok_keyed views_ok_created\<close>)

lemma over_other:
  assumes v: "over sid ss f now" and eq: "\<And>t k. now \<le> t \<Longrightarrow> session_cache_key k \<Longrightarrow> g t k = f t k"
  shows "over sid ss g now"
proof (rule overI)
  show "marks_end (now + RevocationRetention) g"
    using over_marks [OF v] eq by (rule marks_end_other)
  fix t h x assume t: "now \<le> t" "g t (SessionKey h) = Some (Doc (DView x))" "vw_ID x = sid"
  with eq have "f t (SessionKey h) = Some (Doc (DView x))" by (auto simp: session_cache_key_def)
  note * = overD [OF v t(1) this t(3)]
  have "is_revoked (g t) x = is_revoked (f t) x"
    by (rule is_revoked_cong) (auto simp: eq [OF t(1)] session_cache_key_def)
  with * show "is_revoked (g t) x \<and> vw_CreatedAt x \<le> now" by simp
qed (use v in \<open>auto intro: over_keyed dest: over_row\<close>)

definition session_inv :: "world \<times> time \<Rightarrow> bool" where
  "session_inv c \<longleftrightarrow> sat (\<lambda>ss f. views_ok ss f (snd c)) (fst c)"

definition session_ended :: "string \<Rightarrow> world \<times> time \<Rightarrow> bool" where
  "session_ended sid c \<longleftrightarrow> sat (ended sid (snd c)) (fst c)"

lemma session_inv_later: "session_inv (w, now) \<Longrightarrow> now \<le> now' \<Longrightarrow> sat (\<lambda>ss f. views_ok ss f now') w"
  by (auto simp: session_inv_def sat_def intro: views_ok_later)

lemma session_ended_later:
  "session_ended sid (w, now) \<Longrightarrow> now \<le> now' \<Longrightarrow> int64 now' \<Longrightarrow> sat (ended sid now') w"
  by (auto simp: session_ended_def sat_def ended_def intro: views_ok_later over_later)

lemma session_step_inv: "session_step X c c' \<Longrightarrow> session_inv c \<Longrightarrow> session_inv c'"
proof (induction rule: session_step.induct)
  case (create now now' w newID random p r w')
  from wp_elim [OF sound.Create_keeps [OF session_inv_later [OF create.prems create(1)] create(3)] create(4)]
  show ?case by (simp add: session_inv_def)
next
  case (resolve now now' secret w r w')
  from wp_elim [OF sound.Resolve_keeps [OF session_inv_later [OF resolve.prems resolve(1)]] resolve(3)]
  show ?case by (simp add: session_inv_def)
next
  case (renew now now' random secret w r w')
  from wp_elim [OF sound.Renew_keeps [OF session_inv_later [OF renew.prems renew(1)]] renew(3)]
  show ?case by (simp add: session_inv_def)
next
  case (by_id now now' tid ident w r w')
  from wp_elim [OF sound.ByID_keeps [OF session_inv_later [OF by_id.prems by_id(1)]] by_id(3)]
  show ?case by (simp add: session_inv_def)
next
  case (revoke now now' ctx tid ident reason w r w')
  from wp_elim [OF sound.Revoke_keeps [OF session_inv_later [OF revoke.prems revoke(1)]] revoke(3)]
  show ?case by (simp add: session_inv_def)
next
  case (revoke_user now now' ctx tid uid reason keep w r w')
  from wp_elim [OF sound.RevokeUser_keeps [OF session_inv_later [OF revoke_user.prems revoke_user(1)]] revoke_user(3)]
  show ?case by (simp add: session_inv_def)
next
  case (revoke_tenant now now' ctx tid reason w r w')
  from wp_elim [OF sound.RevokeTenant_keeps [OF session_inv_later [OF revoke_tenant.prems revoke_tenant(1)]] revoke_tenant(3)]
  show ?case by (simp add: session_inv_def)
next
  case (refresh_user now now' tid uid w r w')
  from wp_elim [OF sound.RefreshUser_keeps [OF session_inv_later [OF refresh_user.prems refresh_user(1)]] refresh_user(3)]
  show ?case by (simp add: session_inv_def)
next
  case (other now now' w' w)
  then show ?case
    using session_inv_later [OF other.prems other(1)]
    by (auto simp: session_inv_def sat_def intro: views_ok_other)
qed

lemma session_step_ended: "session_step X c c' \<Longrightarrow> session_ended sid c \<Longrightarrow> session_ended sid c'"
proof (induction rule: session_step.induct)
  case (create now now' w newID random p r w')
  from wp_elim [OF dead.Create_keeps [OF session_ended_later [OF create.prems create(1,2)] create(3)] create(4)]
  show ?case by (simp add: session_ended_def)
next
  case (resolve now now' secret w r w')
  from wp_elim [OF dead.Resolve_keeps [OF session_ended_later [OF resolve.prems resolve(1,2)]] resolve(3)]
  show ?case by (simp add: session_ended_def)
next
  case (renew now now' random secret w r w')
  from wp_elim [OF dead.Renew_keeps [OF session_ended_later [OF renew.prems renew(1,2)]] renew(3)]
  show ?case by (simp add: session_ended_def)
next
  case (by_id now now' tid ident w r w')
  from wp_elim [OF dead.ByID_keeps [OF session_ended_later [OF by_id.prems by_id(1,2)]] by_id(3)]
  show ?case by (simp add: session_ended_def)
next
  case (revoke now now' ctx tid ident reason w r w')
  from wp_elim [OF dead.Revoke_keeps [OF session_ended_later [OF revoke.prems revoke(1,2)]] revoke(3)]
  show ?case by (simp add: session_ended_def)
next
  case (revoke_user now now' ctx tid uid reason keep w r w')
  from wp_elim [OF dead.RevokeUser_keeps [OF session_ended_later [OF revoke_user.prems revoke_user(1,2)]] revoke_user(3)]
  show ?case by (simp add: session_ended_def)
next
  case (revoke_tenant now now' ctx tid reason w r w')
  from wp_elim [OF dead.RevokeTenant_keeps [OF session_ended_later [OF revoke_tenant.prems revoke_tenant(1,2)]] revoke_tenant(3)]
  show ?case by (simp add: session_ended_def)
next
  case (refresh_user now now' tid uid w r w')
  from wp_elim [OF dead.RefreshUser_keeps [OF session_ended_later [OF refresh_user.prems refresh_user(1,2)]] refresh_user(3)]
  show ?case by (simp add: session_ended_def)
next
  case (other now now' w' w)
  then show ?case
    using session_ended_later [OF other.prems other(1,2)]
    by (auto simp: session_ended_def sat_def ended_def intro: views_ok_other over_other)
qed


lemma run_inv: "rtranclp (session_step X) c c' \<Longrightarrow> session_inv c \<Longrightarrow> session_inv c'"
  by (induction rule: rtranclp_induct) (auto intro: session_step_inv)

lemma run_ended: "rtranclp (session_step X) c c' \<Longrightarrow> session_ended sid c \<Longrightarrow> session_ended sid c'"
  by (induction rule: rtranclp_induct) (auto intro: session_step_ended)

lemma fresh_start_inv: "fresh_start w \<Longrightarrow> session_inv (w, now)"
  by (simp add: fresh_start_def session_inv_def sat_def views_ok_def keyed_def marks_end_def session_cache_key_def)

lemma ended_not_resolved:
  assumes "session_ended sid (w, now)" "now \<le> t" "int64 t"
  shows "Resolve X t secret w = (Inr a, w') \<Longrightarrow> act_SessionID a \<noteq> sid"
    and "ByID t tid ident w = (Inr a, w') \<Longrightarrow> act_SessionID a \<noteq> sid"
    and "Renew X t random secret w = (Inr n, w') \<Longrightarrow> rn_SessionID n \<noteq> sid"
proof -
  have s: "sat (ended sid t) w" using assms by (rule session_ended_later)
  show "Resolve X t secret w = (Inr a, w') \<Longrightarrow> act_SessionID a \<noteq> sid"
    using wp_elim [OF dead.Resolve_keeps [OF s]] by blast
  show "ByID t tid ident w = (Inr a, w') \<Longrightarrow> act_SessionID a \<noteq> sid"
    using wp_elim [OF dead.ByID_keeps [OF s]] by blast
  show "Renew X t random secret w = (Inr n, w') \<Longrightarrow> rn_SessionID n \<noteq> sid"
    using wp_elim [OF dead.Renew_keeps [OF s]] by blast
qed

text \<open>What ends a session.\<close>

lemma Revoke_ends:
  assumes inv: "session_inv (w, now)" and t: "int64 now"
    and ok: "Revoke ctx now tid sid reason w = (Inr (), w')"
  shows "session_ended sid (w', now)"
proof -
  have sat: "sat (\<lambda>ss f. views_ok ss f now) w" using inv by (simp add: session_inv_def)
  then have f: "faults w = []" and v: "views_ok (Sessions (db w)) (sees w) now" by (simp_all add: sat_def)
  have "wp (Revoke ctx now tid sid reason) (\<lambda>r w'. r = Inr () \<longrightarrow>
      over sid (Sessions (db w')) (sees w') now) w"
  proof (rule wp_Revoke [OF f], simp, intro impI)
    fix s w'
    assume s: "session_of tid sid (db w) = Some s" and ss: "Sessions (db w') = Sessions (revoke_where now reason (\<lambda>k _. k = sid) (db w))"
      and sees: "sees w' = view_del [SessionKey (ss_SecretHash s)] (put_mark now (RevokedSessionKey sid) (sees w))"
    have row: "map_of (Sessions (db w)) sid = Some s" using s by (simp add: session_of_Some_iff)
    show "over sid (Sessions (db w')) (sees w') now"
    proof (rule overI)
      show "keyed (Sessions (db w'))" unfolding ss
        by (rule rows_like_keyed [OF rows_like_revoke [OF views_ok_keyed [OF v]]])
      show "\<exists>s. map_of (Sessions (db w')) sid = Some s \<and> ss_RevokedAt s \<noteq> None"
        unfolding ss using row by (simp add: map_of_revoke_where)
      show "marks_end (now + RevocationRetention) (sees w')"
        unfolding sees by (intro marks_end_del marks_end_mark views_ok_marks [OF v])
      fix u h x assume u: "now \<le> u" and x: "sees w' u (SessionKey h) = Some (Doc (DView x))" and id: "vw_ID x = sid"
      from x have h: "h \<noteq> ss_SecretHash s" and x': "sees w u (SessionKey h) = Some (Doc (DView x))"
        by (simp_all add: sees view_del_def split: if_splits)
      from views_okD(1) [OF v u x'] row id h obtain g where
        g: "vw_GraceUntil x = Some g" "g \<le> now + RenewGrace" and c: "vw_CreatedAt x \<le> now"
        by (auto simp: view_fits_def)
      have "u < now + RevocationRetention"
        using views_okD(3) [OF v u x' g(1)] g(2) retention_pos(2) by linarith
      then have "is_revoked (sees w' u) x"
        unfolding sees is_revoked_del using t by (simp add: is_revoked_def put_mark_read id)
      with c show "is_revoked (sees w' u) x \<and> vw_CreatedAt x \<le> now" by simp
    qed
  qed
  from wp_elim [OF this ok] have "over sid (Sessions (db w')) (sees w') now" by simp
  moreover have "sat (\<lambda>ss f. views_ok ss f now) w'"
    using wp_elim [OF sound.Revoke_keeps [OF sat] ok] .
  ultimately show ?thesis using t by (simp add: session_ended_def sat_def ended_def)
qed

lemma marked_ends:
  assumes v: "views_ok ss f now" and t: "int64 now" and row: "map_of ss sid = Some s"
    and key: "k = RevokedUserKey (ss_UserID s) \<or> k = RevokedTenantKey (ss_TenantID s)"
    and idle: "\<And>u h x. now \<le> u \<Longrightarrow> f u (SessionKey h) = Some (Doc (DView x)) \<Longrightarrow> vw_ID x = sid \<Longrightarrow> vw_Idle x \<le> RevocationRetention"
    and ss': "rows_like ss ss'" "\<exists>s. map_of ss' sid = Some s \<and> ss_RevokedAt s \<noteq> None"
  shows "over sid ss' (put_mark now k f) now"
proof (rule overI)
  have mk: "mark_key k" using key by auto
  show "keyed ss'" using ss'(1) by (rule rows_like_keyed)
  show "marks_end (now + RevocationRetention) (put_mark now k f)"
    by (intro marks_end_mark views_ok_marks [OF v])
  fix u h x assume u: "now \<le> u" and x: "put_mark now k f u (SessionKey h) = Some (Doc (DView x))" and id: "vw_ID x = sid"
  from x mk have x': "f u (SessionKey h) = Some (Doc (DView x))" by simp
  from views_okD(1) [OF v u x'] row id have o: "owner_match s x" and c: "vw_CreatedAt x \<le> now"
    by (auto simp: view_fits_def)
  have "u < now + RevocationRetention"
    using views_okD(2) [OF v u x'] idle [OF u x' id] by linarith
  then have "is_revoked (put_mark now k f u) x"
    using key t o c by (auto simp: is_revoked_def put_mark_read owner_match_def covers_def)
  with c show "is_revoked (put_mark now k f u) x \<and> vw_CreatedAt x \<le> now" by simp
qed (use ss' in blast)

lemma RevokeUser_ends:
  assumes inv: "session_inv (w, now)" and t: "int64 now"
    and row: "map_of (Sessions (db w)) sid = Some s" "ss_TenantID s = tid" "ss_UserID s = uid" "sid \<noteq> ''''"
    and idle: "\<And>u h x. now \<le> u \<Longrightarrow> sees w u (SessionKey h) = Some (Doc (DView x)) \<Longrightarrow> vw_ID x = sid \<Longrightarrow> vw_Idle x \<le> RevocationRetention"
    and ok: "RevokeUser ctx now tid uid reason '''' w = (Inr (), w')"
  shows "session_ended sid (w', now)"
proof -
  have sat: "sat (\<lambda>ss f. views_ok ss f now) w" using inv by (simp add: session_inv_def)
  then have f: "faults w = []" and v: "views_ok (Sessions (db w)) (sees w) now" by (simp_all add: sat_def)
  have "wp (RevokeUser ctx now tid uid reason '''') (\<lambda>r w'. r = Inr () \<longrightarrow>
      over sid (Sessions (db w')) (sees w') now) w"
  proof (rule wp_RevokeUser_all [OF f], intro impI)
    fix w' assume ss: "Sessions (db w') = Sessions (revoke_where now reason
        (\<lambda>k s. ss_TenantID s = tid \<and> ss_UserID s = uid \<and> k \<noteq> '''') (db w))"
      and sees: "sees w' = put_mark now (RevokedUserKey uid) (sees w)"
    show "over sid (Sessions (db w')) (sees w') now" unfolding sees
    proof (rule marked_ends [OF v t row(1)])
      show "rows_like (Sessions (db w)) (Sessions (db w'))"
        unfolding ss by (rule rows_like_revoke [OF views_ok_keyed [OF v]])
      show "\<exists>s. map_of (Sessions (db w')) sid = Some s \<and> ss_RevokedAt s \<noteq> None"
        unfolding ss using row by (simp add: map_of_revoke_where)
    qed (use row idle in auto)
  qed
  from wp_elim [OF this ok] have "over sid (Sessions (db w')) (sees w') now" by simp
  moreover have "sat (\<lambda>ss f. views_ok ss f now) w'"
    using wp_elim [OF sound.RevokeUser_keeps [OF sat] ok] .
  ultimately show ?thesis using t by (simp add: session_ended_def sat_def ended_def)
qed


section \<open>Properties\<close>

text \<open>
  A small deployment for the concrete runs: one active tenant and functions standing for the
  libraries.
\<close>

definition demo_tenant :: tenant where
  "demo_tenant = \<lparr>tn_ID = ''t1'', tn_Slug = ''acme'', tn_DisplayName = ''Acme'', tn_Status = ''active'',
     tn_Kind = ''customer'', tn_Policy = NoBytes, tn_CreatedAt = 0, tn_UpdatedAt = 0\<rparr>"

definition demo_world :: world where
  "demo_world = New_World\<lparr>db := Store_AddTenant demo_tenant New_Store\<rparr>"

definition demo_params :: "policy \<Rightarrow> create_params" where
  "demo_params pol = \<lparr>cp_TenantID = ''t1'', cp_UserID = ''u1'', cp_Roles = [], cp_AMR = [''pwd''],
     cp_Operator = False, cp_IPHash = '''', cp_UserAgent = '''', cp_Policy = pol\<rparr>"

definition demo_session :: world where
  "demo_session = snd (Create demo_X 0 ''s1'' (Some ''k'') (demo_params DefaultPolicy) demo_world)"

lemma demo_fresh: "fresh_start demo_world"
  by (simp add: fresh_start_def demo_world_def New_World_def New_Store_def Store_AddTenant_def sees_def
      NewMemory_def mem_view_def)

lemma demo_run: "rtranclp (session_step demo_X) (demo_world, 0) (demo_session, 0)"
proof (rule r_into_rtranclp, rule session_step.create)
  show "Create demo_X 0 ''s1'' (Some ''k'') (demo_params DefaultPolicy) demo_world
      = (fst (Create demo_X 0 ''s1'' (Some ''k'') (demo_params DefaultPolicy) demo_world), demo_session)"
    by (simp add: demo_session_def)
qed (simp_all add: int64_def demo_world_def New_World_def New_Store_def Store_AddTenant_def)

lemma demo_revoke:
  "fst (Revoke background minute ''t1'' ''s1'' ReasonSignout demo_session) = Inr ()"
  by code_simp

lemma demo_resolve: "fst (Resolve demo_X minute ''k'' demo_session) = Inr (view_actor
    (view_of_row \<lparr>ss_ID = ''s1'', ss_TenantID = ''t1'', ss_UserID = ''u1'', ss_SecretHash = '''', ss_AMR = [''pwd''],
       ss_CreatedAt = 0, ss_LastSeen = 0, ss_ExpiresAt = 0, ss_IPHash = '''', ss_UserAgent = '''',
       ss_RevokedAt = None, ss_RevokedReason = None\<rparr> demo_tenant [] 0))"
  by code_simp







lemmas run_simps =
  seq_op_def bind_op_def try_op_def ignore_op_def when_op_def check_op_def ret_def throw_def of_result_def
  modify_op_def emit_def on_db_def on_kv_def call_def World_KV_def Mem_Get_def Mem_Set_def Mem_Del_def live_def
  mem_put_def mem_delete_def

lemma demo_data:
  "mem_data (kv demo_session) k = Some e \<Longrightarrow> \<exists>v. ent_v e = Doc (DView v) \<and> vw_Idle v = hour"
  by (simp add: demo_session_def Create_def demo_params_def Let_def run_simps Store_Insert_def tenantVersion_def
      TenantVersion_def demo_world_def New_World_def NewMemory_def New_Store_def Store_AddTenant_def loadProfile_def
      Store_User_def userByID_def find_row_def found_def putView_def view_ttl_def DefaultPolicy_def time_units
      split: if_splits) force

lemma demo_idle:
  "sees demo_session u (SessionKey h) = Some (Doc (DView v)) \<Longrightarrow> vw_Idle v \<le> RevocationRetention"
  by (auto simp: sees_def mem_view_def RevocationRetention_def hour_def dest!: demo_data split: option.splits if_splits)

lemma demo_row: "\<exists>s. map_of (Sessions (db demo_session)) ''s1'' = Some s \<and> ss_TenantID s = ''t1'' \<and> ss_UserID s = ''u1''"
  by (simp add: demo_session_def Create_def demo_params_def Let_def run_simps Store_Insert_def tenantVersion_def
      TenantVersion_def demo_world_def New_World_def NewMemory_def New_Store_def Store_AddTenant_def loadProfile_def
      Store_User_def userByID_def find_row_def found_def putView_def view_ttl_def DefaultPolicy_def time_units)

lemma demo_revoke_user: "fst (RevokeUser background minute ''t1'' ''u1'' ''user_deactivated'' '''' demo_session) = Inr ()"
  by code_simp


definition long_idle :: policy where
  "long_idle = DefaultPolicy\<lparr>IdleTimeout := 2 * hour\<rparr>"

definition resurrected :: "time \<Rightarrow> actor result" where
  "resurrected t =
     fst (Resolve demo_X t ''k''
       (snd (RevokeUser background minute ''t1'' ''u1'' ''user_deactivated'' ''''
         (snd (Create demo_X 0 ''s1'' (Some ''k'') (demo_params long_idle) demo_world)))))"


end
