(* ===== verification/Memstore_More.thy ===== *)
theory Memstore_More
  imports Memstore
begin

text \<open>
  The rest of the store the services use: directory connections and links
  (\<open>internal/memstore/directory.go\<close>), the module catalogue (\<open>modules.go\<close>) and profiles and avatars
  (\<open>groups.go\<close>).
\<close>

section \<open>Directory connections\<close>

definition nameTaken :: "(string \<Rightarrow> string \<Rightarrow> bool) \<Rightarrow> string \<Rightarrow> string \<Rightarrow> string \<Rightarrow> memstore \<Rightarrow> bool" where
  "nameTaken ef tid ident name m =
     list_ex (\<lambda>(_, x). dc_ID x \<noteq> ident \<and> dc_TenantID x = tid \<and> ef (dc_Name x) name) (dir_conns m)"

definition put_conn :: "directory_connection \<Rightarrow> memstore \<Rightarrow> memstore" where
  "put_conn c m = m\<lparr>dir_conns := AList.update (dc_ID c) c (dir_conns m)\<rparr>"

definition conn_in :: "string \<Rightarrow> string \<Rightarrow> memstore \<Rightarrow> directory_connection option" where
  "conn_in tid ident m =
     (case map_of (dir_conns m) ident of
        None \<Rightarrow> None | Some c \<Rightarrow> if dc_TenantID c = tid then Some c else None)"

definition Store_InsertDirectoryConnection ::
    "(string \<Rightarrow> string \<Rightarrow> bool) \<Rightarrow> time \<Rightarrow> directory_connection \<Rightarrow> (memstore, unit) op" where
  "Store_InsertDirectoryConnection ef now c m =
     (if map_of (dir_conns m) (dc_ID c) \<noteq> None \<or> nameTaken ef (dc_TenantID c) (dc_ID c) (dc_Name c) m
      then (Inl ErrConflict, m)
      else (Inr (), put_conn (c\<lparr>dc_UpdatedBy := dc_CreatedBy c, dc_LastTestAt := None,
                                dc_LastTestOutcome := None, dc_CreatedAt := now, dc_UpdatedAt := now\<rparr>) m))"

definition Store_GetDirectoryConnection :: "string \<Rightarrow> string \<Rightarrow> (memstore, directory_connection) op" where
  "Store_GetDirectoryConnection tid ident m = (found (conn_in tid ident m), m)"

definition Store_GetDirectoryConnectionAnyTenant :: "string \<Rightarrow> (memstore, directory_connection) op" where
  "Store_GetDirectoryConnectionAnyTenant ident m = (found (map_of (dir_conns m) ident), m)"

definition Store_ListDirectoryConnections ::
    "(string \<Rightarrow> string) \<Rightarrow> string \<Rightarrow> (memstore, directory_connection list) op" where
  "Store_ListDirectoryConnections ul tid m =
     (Inr (sort_key (\<lambda>c. to_lower ul (dc_Name c)) (sort_key dc_ID
        (filter (\<lambda>c. dc_TenantID c = tid) (map snd (dir_conns m))))), m)"

definition Store_CountDirectoryConnections :: "string \<Rightarrow> (memstore, int) op" where
  "Store_CountDirectoryConnections tid m =
     (Inr (int (length (filter (\<lambda>(_, c). dc_TenantID c = tid) (dir_conns m)))), m)"

definition Store_UpdateDirectoryConnection ::
    "(string \<Rightarrow> string \<Rightarrow> bool) \<Rightarrow> time \<Rightarrow> directory_connection \<Rightarrow> (memstore, unit) op" where
  "Store_UpdateDirectoryConnection ef now c m =
     (case conn_in (dc_TenantID c) (dc_ID c) m of
        None \<Rightarrow> (Inl ErrNotFound, m)
      | Some old \<Rightarrow>
          if nameTaken ef (dc_TenantID c) (dc_ID c) (dc_Name c) m then (Inl ErrConflict, m)
          else (Inr (), put_conn (c\<lparr>dc_BindPasswordEnc :=
                   (if dc_BindPasswordEnc c = '''' then dc_BindPasswordEnc old else dc_BindPasswordEnc c),
                 dc_LastTestAt := dc_LastTestAt old, dc_LastTestOutcome := dc_LastTestOutcome old,
                 dc_CreatedBy := dc_CreatedBy old, dc_CreatedAt := dc_CreatedAt old, dc_UpdatedAt := now\<rparr>) m))"

definition Store_SetDirectoryConnectionTest ::
    "string \<Rightarrow> string \<Rightarrow> string \<Rightarrow> time \<Rightarrow> (memstore, unit) op" where
  "Store_SetDirectoryConnectionTest tid ident out at m =
     (case conn_in tid ident m of
        None \<Rightarrow> (Inl ErrNotFound, m)
      | Some c \<Rightarrow>
          (Inr (), m\<lparr>dir_conns := AList.update ident (c\<lparr>dc_LastTestOutcome := Some out, dc_LastTestAt := Some at\<rparr>) (dir_conns m)\<rparr>))"

definition Store_DeleteDirectoryConnection :: "string \<Rightarrow> string \<Rightarrow> (memstore, unit) op" where
  "Store_DeleteDirectoryConnection tid ident m =
     (case conn_in tid ident m of
        None \<Rightarrow> (Inl ErrNotFound, m)
      | Some _ \<Rightarrow>
          (Inr (), m\<lparr>dir_conns := AList.delete ident (dir_conns m),
             dir_links := map (\<lambda>(k, l). (k, if dl_ConnectionID l = Some ident then l\<lparr>dl_ConnectionID := None\<rparr> else l))
               (dir_links m)\<rparr>))"

section \<open>Directory links and imported users\<close>

text \<open>The results keyed by e-mail and by directory uid: a later entry replaces an earlier one.\<close>

definition Store_UsersByEmails ::
    "(string \<Rightarrow> string) \<Rightarrow> string \<Rightarrow> string list \<Rightarrow> (memstore, user table) op" where
  "Store_UsersByEmails ul tid emails m =
     (Inr (fold (\<lambda>e acc. case map_of (Users m) (Store_key ul tid e) of
                           None \<Rightarrow> acc | Some u \<Rightarrow> AList.update (us_Email u) u acc) emails []), m)"

definition Store_LinksByUIDs ::
    "string \<Rightarrow> string \<Rightarrow> string list \<Rightarrow> (memstore, directory_link table) op" where
  "Store_LinksByUIDs tid connID uids m =
     (Inr (fold (\<lambda>(_, l) acc.
        if dl_TenantID l = tid \<and> dl_ConnectionID l = Some connID \<and> List.member uids (dl_DirectoryUID l)
        then AList.update (dl_DirectoryUID l) l acc else acc) (dir_links m) []), m)"

definition link_taken :: "directory_link \<Rightarrow> string \<Rightarrow> memstore \<Rightarrow> bool" where
  "link_taken l conn m =
     list_ex (\<lambda>(uid, x). uid \<noteq> dl_UserID l \<and> dl_TenantID x = dl_TenantID l
        \<and> dl_ConnectionID x = Some conn \<and> dl_DirectoryUID x = dl_DirectoryUID l) (dir_links m)"

definition put_link :: "directory_link \<Rightarrow> memstore \<Rightarrow> memstore" where
  "put_link l m =
     m\<lparr>dir_links := AList.update (dl_UserID l)
        (case map_of (dir_links m) (dl_UserID l) of
           None \<Rightarrow> l | Some old \<Rightarrow> l\<lparr>dl_FirstImportedAt := dl_FirstImportedAt old\<rparr>) (dir_links m)\<rparr>"

definition Store_UpsertLink :: "directory_link \<Rightarrow> (memstore, unit) op" where
  "Store_UpsertLink l m =
     (if userByID (dl_TenantID l) (dl_UserID l) m = None then (Inl ErrNotFound, m)
      else case dl_ConnectionID l of
        None \<Rightarrow> (Inr (), put_link l m)
      | Some conn \<Rightarrow>
          if map_of (dir_conns m) conn = None then (Inl ErrNotFound, m)
          else if link_taken l conn m then (Inl ErrConflict, m)
          else (Inr (), put_link l m))"

definition Store_UpdateImportedUser ::
    "(string \<Rightarrow> string) \<Rightarrow> time \<Rightarrow> string \<Rightarrow> string \<Rightarrow> imported_profile \<Rightarrow> (memstore, unit) op" where
  "Store_UpdateImportedUser ul now tid uid p m =
     (case userByID tid uid m of
        None \<Rightarrow> (Inl ErrNotFound, m)
      | Some (k, u) \<Rightarrow>
          if us_Status u \<noteq> ''imported'' then (Inl ErrNotFound, m)
          else
            let nk = Store_key ul tid (ip_Email p) in
            if (case map_of (Users m) nk of None \<Rightarrow> False | Some other \<Rightarrow> us_ID other \<noteq> uid) then (Inl ErrConflict, m)
            else (Inr (), put_user nk
                   (u\<lparr>us_Email := ip_Email p, us_DisplayName := ip_DisplayName p, us_FirstName := ip_FirstName p,
                      us_LastName := ip_LastName p, us_DisplayNameExplicit := ip_DisplayNameExplicit p,
                      us_UpdatedAt := now\<rparr>) (m\<lparr>Users := AList.delete k (Users m)\<rparr>)))"

definition Store_DeleteImportedUser :: "string \<Rightarrow> string \<Rightarrow> (memstore, unit) op" where
  "Store_DeleteImportedUser tid uid m =
     (case userByID tid uid m of
        None \<Rightarrow> (Inl ErrNotFound, m)
      | Some (k, u) \<Rightarrow>
          if us_Status u \<noteq> ''imported'' then (Inl ErrNotFound, m)
          else (Inr (), m\<lparr>Users := AList.delete k (Users m),
                 dir_links := AList.delete uid (dir_links m),
                 RoleMap := AList.delete (pair_key tid uid) (RoleMap m),
                 Bindings := AList.delete (pair_key tid uid) (Bindings m),
                 Codes := AList.delete (pair_key tid uid) (Codes m),
                 Sessions := filter (\<lambda>(_, s). \<not> (ss_TenantID s = tid \<and> ss_UserID s = uid)) (Sessions m),
                 gs_members := map (\<lambda>(gid, ids). (gid, filter (\<lambda>x. x \<noteq> uid) ids)) (gs_members m),
                 gs_added := fold (\<lambda>(gid, _). AList.delete (pair_key gid uid)) (gs_members m) (gs_added m),
                 gs_avatars := AList.delete uid (gs_avatars m)\<rparr>))"

section \<open>The module catalogue\<close>

definition Store_UpsertModule :: "time \<Rightarrow> string \<Rightarrow> string \<Rightarrow> (memstore, unit) op" where
  "Store_UpsertModule now name displayName m =
     (let cur = (case map_of (mod_modules m) name of
             None \<Rightarrow> \<lparr>mo_Name = name, mo_DisplayName = (if displayName = '''' then name else displayName),
                      mo_RegisteredAt = now, mo_UpdatedAt = now, mo_RetiredAt = None\<rparr>
           | Some cur \<Rightarrow> if displayName \<noteq> '''' then cur\<lparr>mo_DisplayName := displayName\<rparr> else cur)
      in (Inr (), m\<lparr>mod_modules := AList.update name (cur\<lparr>mo_UpdatedAt := now, mo_RetiredAt := None\<rparr>) (mod_modules m)\<rparr>))"

definition Store_Modules :: "(memstore, module_row list) op" where
  "Store_Modules m = (Inr (sort_key mo_Name (map snd (mod_modules m))), m)"

text \<open>A retirement date, kept when there is one already.\<close>

definition retired :: "time \<Rightarrow> time option \<Rightarrow> time option" where
  "retired now d = (case d of None \<Rightarrow> Some now | Some t \<Rightarrow> Some t)"

definition Store_RetireModule :: "time \<Rightarrow> string \<Rightarrow> (memstore, unit) op" where
  "Store_RetireModule now name m =
     (case map_of (mod_modules m) name of
        None \<Rightarrow> (Inl ErrNotFound, m)
      | Some x \<Rightarrow>
          (Inr (), m\<lparr>mod_modules := AList.update name (x\<lparr>mo_RetiredAt := retired now (mo_RetiredAt x)\<rparr>) (mod_modules m),
             mod_perms := map (\<lambda>(k, p). (k, if mp_Module p = name then p\<lparr>mp_RetiredAt := retired now (mp_RetiredAt p)\<rparr> else p)) (mod_perms m),
             mod_defs := map (\<lambda>(k, d). (k, if md_Module d = name then d\<lparr>md_RetiredAt := retired now (md_RetiredAt d)\<rparr> else d)) (mod_defs m)\<rparr>))"

definition perm_key :: "module_permission \<Rightarrow> string" where
  "perm_key p = mp_Module p @ ''/'' @ mp_Resource p @ ''/'' @ mp_Action p"

definition Store_UpsertModulePermission :: "module_permission \<Rightarrow> (memstore, unit) op" where
  "Store_UpsertModulePermission p m =
     (Inr (), m\<lparr>mod_perms := AList.update (perm_key p) (p\<lparr>mp_RetiredAt := None\<rparr>) (mod_perms m)\<rparr>)"

definition Store_ModulePermissions :: "string \<Rightarrow> (memstore, module_permission list) op" where
  "Store_ModulePermissions module m =
     (Inr (sort_key perm_key (filter (\<lambda>p. module = '''' \<or> mp_Module p = module) (map snd (mod_perms m)))), m)"

definition def_key :: "module_role_def \<Rightarrow> string" where
  "def_key d = pair_key (md_Module d) (md_Slug d)"

definition Store_UpsertModuleRoleDef :: "time \<Rightarrow> module_role_def \<Rightarrow> (memstore, bool) op" where
  "Store_UpsertModuleRoleDef now d m =
     (if (case map_of (mod_defs m) (def_key d) of
            None \<Rightarrow> False
          | Some cur \<Rightarrow> md_DisplayName cur = md_DisplayName d \<and> md_Description cur = md_Description d
              \<and> md_Permissions cur = md_Permissions d \<and> md_RetiredAt cur = None)
      then (Inr False, m)
      else (Inr True, m\<lparr>mod_defs := AList.update (def_key d) (d\<lparr>md_UpdatedAt := now, md_RetiredAt := None\<rparr>) (mod_defs m)\<rparr>))"

definition Store_ModuleRoleDefs :: "string \<Rightarrow> (memstore, module_role_def list) op" where
  "Store_ModuleRoleDefs module m =
     (Inr (sort_key def_key (filter (\<lambda>d. module = '''' \<or> md_Module d = module) (map snd (mod_defs m)))), m)"

definition Store_RetireModuleRoleDef :: "time \<Rightarrow> string \<Rightarrow> string \<Rightarrow> (memstore, unit) op" where
  "Store_RetireModuleRoleDef now module slug m =
     (case map_of (mod_defs m) (pair_key module slug) of
        None \<Rightarrow> (Inl ErrNotFound, m)
      | Some d \<Rightarrow> (Inr (), m\<lparr>mod_defs := AList.update (pair_key module slug)
                     (d\<lparr>md_RetiredAt := retired now (md_RetiredAt d)\<rparr>) (mod_defs m)\<rparr>))"

definition Store_TenantModule :: "string \<Rightarrow> string \<Rightarrow> (memstore, tenant_module) op" where
  "Store_TenantModule tid module m = (found (map_of (mod_tenants m) (pair_key tid module)), m)"

definition Store_EnsureTenantModule :: "time \<Rightarrow> string \<Rightarrow> string \<Rightarrow> (memstore, unit) op" where
  "Store_EnsureTenantModule now tid module m =
     (if map_of (mod_tenants m) (pair_key tid module) \<noteq> None then (Inr (), m)
      else (Inr (), m\<lparr>mod_tenants := AList.update (pair_key tid module)
              \<lparr>tm_TenantID = tid, tm_Module = module, tm_FirstRegisteredAt = now, tm_LegacyMigratedAt = None\<rparr> (mod_tenants m)\<rparr>))"

definition Store_MarkLegacyMigrated :: "time \<Rightarrow> string \<Rightarrow> string \<Rightarrow> (memstore, unit) op" where
  "Store_MarkLegacyMigrated now tid module m =
     (case map_of (mod_tenants m) (pair_key tid module) of
        None \<Rightarrow> (Inl ErrNotFound, m)
      | Some t \<Rightarrow> (Inr (), m\<lparr>mod_tenants := AList.update (pair_key tid module)
                     (t\<lparr>tm_LegacyMigratedAt := retired now (tm_LegacyMigratedAt t)\<rparr>) (mod_tenants m)\<rparr>))"

definition Store_AdoptBuiltinRole :: "string \<Rightarrow> string \<Rightarrow> (memstore, unit) op" where
  "Store_AdoptBuiltinRole tid ident m =
     (case map_of (RoleRows m) ident of
        None \<Rightarrow> (Inl ErrNotFound, m)
      | Some r \<Rightarrow>
          if ro_TenantID r \<noteq> tid \<or> OriginOf r \<noteq> OriginCustom then (Inl ErrNotFound, m)
          else (Inr (), m\<lparr>RoleRows := AList.update ident (r\<lparr>ro_Builtin := True, ro_Origin := OriginBuiltin\<rparr>) (RoleRows m)\<rparr>))"

definition Store_UpdateModuleRole ::
    "string \<Rightarrow> string \<Rightarrow> string \<Rightarrow> string \<Rightarrow> time option \<Rightarrow> (memstore, unit) op" where
  "Store_UpdateModuleRole tid ident name description retiredAt m =
     (case map_of (RoleRows m) ident of
        None \<Rightarrow> (Inl ErrNotFound, m)
      | Some r \<Rightarrow>
          if ro_TenantID r \<noteq> tid \<or> OriginOf r \<noteq> OriginModule then (Inl ErrNotFound, m)
          else (Inr (), m\<lparr>RoleRows := AList.update ident
                 (r\<lparr>ro_DisplayName := name, ro_Description := description, ro_RetiredAt := retiredAt\<rparr>) (RoleRows m)\<rparr>))"

section \<open>Profiles and avatars\<close>

definition Store_LookupProfiles :: "string \<Rightarrow> string list \<Rightarrow> (memstore, public_profile list) op" where
  "Store_LookupProfiles tid ids m =
     (Inr (List.map_filter (\<lambda>ident. map_option (\<lambda>(_, u).
        \<lparr>pr_ID = us_ID u, pr_DisplayName = us_DisplayName u, pr_AvatarID = us_AvatarID u, pr_Email = ''''\<rparr>)
        (userByID tid ident m)) ids), m)"

definition Store_UpsertAvatar :: "time \<Rightarrow> avatar \<Rightarrow> (memstore, unit) op" where
  "Store_UpsertAvatar now a m =
     (case userByID (av_TenantID a) (av_UserID a) m of
        None \<Rightarrow> (Inl ErrNotFound, m)
      | Some (k, u) \<Rightarrow>
          (Inr (), put_user k (u\<lparr>us_AvatarID := Some (av_ID a), us_ProfileUpdatedAt := Some now\<rparr>)
             (m\<lparr>gs_avatars := AList.update (av_UserID a) (a\<lparr>av_CreatedAt := now\<rparr>) (gs_avatars m)\<rparr>)))"

definition Store_DeleteAvatar :: "string \<Rightarrow> string \<Rightarrow> (memstore, unit) op" where
  "Store_DeleteAvatar tid uid m =
     (let m' = m\<lparr>gs_avatars := AList.delete uid (gs_avatars m)\<rparr> in
      case userByID tid uid m of
        None \<Rightarrow> (Inr (), m') | Some (k, u) \<Rightarrow> (Inr (), put_user k (u\<lparr>us_AvatarID := None\<rparr>) m'))"

definition Store_GetAvatar :: "string \<Rightarrow> string \<Rightarrow> string \<Rightarrow> (memstore, avatar) op" where
  "Store_GetAvatar tid uid ident m =
     (case map_of (gs_avatars m) uid of
        None \<Rightarrow> (Inl ErrNotFound, m)
      | Some a \<Rightarrow> if av_TenantID a = tid \<and> av_ID a = ident then (Inr a, m) else (Inl ErrNotFound, m))"

end
