(* ===== verification/User_Admin.thy ===== *)
theory User_Admin
  imports Session_Manager Memstore_More
begin

text \<open>
  Tenant administration of users: \<open>internal/user/admin.go\<close>.  \<open>count\<close> is the store's
  \<open>CountWithRole\<close>: the in-memory store and the SQL repository have one each, and they differ.  The
  paged listing and the projections for the console are not modelled.
\<close>

abbreviation ErrAdminForbidden :: err where "ErrAdminForbidden \<equiv> Sentinel ''user.ErrForbidden''"
abbreviation ErrAdminLastOwner :: err where "ErrAdminLastOwner \<equiv> Sentinel ''user.ErrLastOwner''"
abbreviation ErrInvalidState :: err where "ErrInvalidState \<equiv> Sentinel ''user.ErrInvalidState''"

definition ReasonAdmin :: string where "ReasonAdmin = ''admin_revoked''"
definition ReasonDeactivated :: string where "ReasonDeactivated = ''user_deactivated''"

type_synonym role_count = "string \<Rightarrow> string \<Rightarrow> (memstore, nat) op"

text \<open>
  \<open>store.CountUsersWithRole\<close>: the join of bindings, roles and users, active users only, over the
  tables of the store (a binding's key is tenant and user id).
\<close>

definition CountUsersWithRole :: role_count where
  "CountUsersWithRole tid slug m =
     (Inr (length (concat (map (\<lambda>(k, ids).
        case cut_prefix (tid @ ''/'') k of
          None \<Rightarrow> []
        | Some uid \<Rightarrow>
            if list_ex (\<lambda>(_, u). us_ID u = uid \<and> us_Status u = ''active'') (Users m)
            then filter (\<lambda>ident. case map_of (RoleRows m) ident of Some r \<Rightarrow> ro_Slug r = slug | None \<Rightarrow> False) ids
            else []) (Bindings m)))), m)"

definition admin_event :: "actor \<Rightarrow> string \<Rightarrow> string \<Rightarrow> string \<Rightarrow> string \<Rightarrow> (world, unit) op" where
  "admin_event actor typ uid out reason =
     emit (event typ (act_TenantID actor) (act_Kind actor) (act_UserID actor) ''user'' uid out reason)"

text \<open>A user of another tenant is audited and reported as not found.\<close>

definition lookup :: "actor \<Rightarrow> string \<Rightarrow> (world, user) op" where
  "lookup actor uid =
     try_op (on_db (Store_User (act_TenantID actor) uid)) (\<lambda>r.
     case r of
       Inr u \<Rightarrow> ret u
     | Inl e \<Rightarrow>
         if e = ErrNotFound \<and> ValidTenantID uid then
           try_op (on_db (Store_UserAnyTenant uid)) (\<lambda>other.
           seq_op (case other of
                     Inl _ \<Rightarrow> ret ()
                   | Inr u \<Rightarrow> when_op (us_TenantID u \<noteq> act_TenantID actor)
                       (admin_event actor ''cross_tenant_refused'' uid ''refused'' ''foreign_user''))
             (throw ErrNotFound))
         else throw ErrNotFound)"

definition isLastOwner :: "role_count \<Rightarrow> string \<Rightarrow> string \<Rightarrow> (world, bool) op" where
  "isLastOwner count tid uid =
     bind_op (on_db (Store_Roles tid uid)) (\<lambda>roles.
     if \<not> List.member roles ''owner'' then ret False
     else bind_op (on_db (count tid ''owner'')) (\<lambda>n. ret (n \<le> 1)))"

definition Deactivate :: "role_count \<Rightarrow> req_context \<Rightarrow> time \<Rightarrow> actor \<Rightarrow> string \<Rightarrow> (world, unit) op" where
  "Deactivate count ctx now actor uid =
     bind_op (lookup actor uid) (\<lambda>u.
     if us_Status u = ''imported'' then throw ErrInvalidState
     else bind_op (isLastOwner count (act_TenantID actor) uid) (\<lambda>last.
     if last then
       seq_op (admin_event actor ''user_deactivated'' uid ''refused'' ''last_owner'') (throw ErrAdminLastOwner)
     else
       seq_op (when_op (us_Status u \<noteq> ''deactivated'')
                 (on_db (Store_UpdateUserStatus (act_TenantID actor) uid ''deactivated'')))
      (seq_op (RevokeUser ctx now (act_TenantID actor) uid ReasonDeactivated '''')
         (admin_event actor ''user_deactivated'' uid ''ok'' ''''))))"

definition Reactivate :: "actor \<Rightarrow> string \<Rightarrow> (world, unit) op" where
  "Reactivate actor uid =
     bind_op (lookup actor uid) (\<lambda>u.
     if us_Status u = ''imported'' then throw ErrInvalidState
     else if us_Status u \<noteq> ''deactivated'' then ret ()
     else
       seq_op (on_db (Store_UpdateUserStatus (act_TenantID actor) uid ''active''))
         (admin_event actor ''user_reactivated'' uid ''ok'' ''''))"

definition RemoveImported :: "actor \<Rightarrow> string \<Rightarrow> (world, unit) op" where
  "RemoveImported actor uid =
     bind_op (lookup actor uid) (\<lambda>u.
     if us_Status u \<noteq> ''imported'' then throw ErrInvalidState
     else
       try_op (on_db (Store_DeleteImportedUser (act_TenantID actor) uid)) (\<lambda>r.
       case r of
         Inl e \<Rightarrow> throw (if e = ErrNotFound then ErrInvalidState else e)
       | Inr _ \<Rightarrow> admin_event actor ''imported_user_deleted'' uid ''ok'' ''''))"

definition rank :: "string list \<Rightarrow> int" where
  "rank roles =
     fold (\<lambda>r best. if r = ''operator'' \<and> best < 3 then 3
                    else if r = ''owner'' \<and> best < 2 then 2
                    else if r = ''admin'' \<and> best < 1 then 1 else best) roles 0"

definition Admin_ResetMFA :: "req_context \<Rightarrow> time \<Rightarrow> actor \<Rightarrow> string \<Rightarrow> (world, unit) op" where
  "Admin_ResetMFA ctx now actor uid =
     (let tid = act_TenantID actor in
      bind_op (lookup actor uid) (\<lambda>u.
      if us_Status u = ''imported'' then throw ErrInvalidState
      else bind_op (on_db (Store_Roles tid uid)) (\<lambda>roles.
      if uid = act_UserID actor \<or> rank roles > rank (act_Roles actor) then
        seq_op (admin_event actor ''mfa_reset'' uid ''refused''
                  (if uid = act_UserID actor then ''self'' else ''more_privileged''))
          (throw ErrAdminForbidden)
      else
        bind_op (on_db (Store_ListWebAuthnCredentials tid uid)) (\<lambda>keys.
        bind_op (on_db (Store_ListRecoveryCodeHashes tid uid)) (\<lambda>codes.
        seq_op (on_db (Store_ResetMFA tid uid))
       (seq_op (RevokeUser ctx now tid uid ReasonAdmin '''')
          (admin_event actor ''mfa_reset'' uid ''ok'' '''')))))))"

definition ForceSignout :: "req_context \<Rightarrow> time \<Rightarrow> actor \<Rightarrow> string \<Rightarrow> (world, unit) op" where
  "ForceSignout ctx now actor uid =
     seq_op (lookup actor uid) (RevokeUser ctx now (act_TenantID actor) uid ReasonAdmin '''')"

end
