(* ===== verification/Store_Facts.thy ===== *)
theory Store_Facts
  imports World
begin

text \<open>
  Lemmas about the store that the services share: what a row update does to lookups, and the
  weakest precondition of a store call under an arbitrary fault list.  A call either has its effect
  and returns its answer, or fails (with or without its effect) with an error of its own.
\<close>

abbreviation unavailable :: err where "unavailable \<equiv> ErrOther ''unavailable''"

section \<open>Rows after an update\<close>

lemma set_update_subset: "set (AList.update k v t) \<subseteq> insert (k, v) (set t)"
  by (induction t) auto

section \<open>Store calls under faults\<close>

lemma wp_db:
  assumes "\<And>r d fs. m (db w) = (r, d) \<Longrightarrow> Q r (w\<lparr>faults := fs, db := d\<rparr>)"
    and "\<And>r d fs. m (db w) = (r, d) \<Longrightarrow> Q (Inl unavailable) (w\<lparr>faults := fs, db := d\<rparr>)"
    and "\<And>fs. Q (Inl unavailable) (w\<lparr>faults := fs\<rparr>)"
  shows "wp (on_db m) Q w"
proof -
  obtain r d where m: "m (db w) = (r, d)" by force
  show ?thesis
  proof (cases "faults w")
    case Nil
    with assms(1) [OF m, of "[]"] m show ?thesis by (cases w) (simp add: wp_def on_db_def call_def)
  next
    case (Cons f fs)
    with m assms(1,2) [OF m, of fs] assms(3) [of fs] show ?thesis
      by (cases f) (simp_all add: wp_def on_db_def call_def)
  qed
qed

lemma wp_db_fs:
  assumes "\<And>fs. Q (fst (m (db w))) (w\<lparr>faults := fs, db := snd (m (db w))\<rparr>)"
    and "\<And>fs. Q (Inl unavailable) (w\<lparr>faults := fs, db := snd (m (db w))\<rparr>)"
    and "\<And>fs. Q (Inl unavailable) (w\<lparr>faults := fs\<rparr>)"
  shows "wp (on_db m) Q w"
  by (rule wp_db) (use assms in \<open>metis fst_conv snd_conv\<close>)+

lemma wp_db_read:
  assumes "m (db w) = (r, db w)" "\<And>fs. Q r (w\<lparr>faults := fs\<rparr>)" "\<And>fs. Q (Inl unavailable) (w\<lparr>faults := fs\<rparr>)"
  shows "wp (on_db m) Q w"
  by (rule wp_db) (use assms in \<open>auto\<close>)

lemma wp_kv:
  assumes "\<And>r k fs. m (kv w) = (r, k) \<Longrightarrow> Q r (w\<lparr>faults := fs, kv := k\<rparr>)"
    and "\<And>r k fs. m (kv w) = (r, k) \<Longrightarrow> Q (Inl unavailable) (w\<lparr>faults := fs, kv := k\<rparr>)"
    and "\<And>fs. Q (Inl unavailable) (w\<lparr>faults := fs\<rparr>)"
  shows "wp (on_kv m) Q w"
proof -
  obtain r d where m: "m (kv w) = (r, d)" by force
  show ?thesis
  proof (cases "faults w")
    case Nil
    with assms(1) [OF m, of "[]"] m show ?thesis by (cases w) (simp add: wp_def on_kv_def call_def)
  next
    case (Cons f fs)
    with m assms(1,2) [OF m, of fs] assms(3) [of fs] show ?thesis
      by (cases f) (simp_all add: wp_def on_kv_def call_def)
  qed
qed

text \<open>A property of the tables is kept by every call whose operation keeps it; cache calls keep all.\<close>

lemma keeps_on_db: "keeps P m \<Longrightarrow> keeps (\<lambda>w. P (db w)) (on_db m)"
  by (rule keepsI, rule wp_db) (simp_all, (metis keepsD snd_conv)+)

lemma keeps_on_kv: "keeps (\<lambda>w. P (db w)) (on_kv m)"
  by (rule keepsI, rule wp_kv) auto

lemma keeps_emit: "keeps (\<lambda>w. P (db w)) (emit e)"
  by (rule keepsI) (simp add: emit_def wp_simps)

lemma keeps_World_KV:
  "keeps (\<lambda>w. P (db w)) (kv_Get World_KV now k)" "keeps (\<lambda>w. P (db w)) (kv_GetDel World_KV now k)"
  "keeps (\<lambda>w. P (db w)) (kv_Set World_KV now k v ttl)" "keeps (\<lambda>w. P (db w)) (kv_Del World_KV now ks)"
  "keeps (\<lambda>w. P (db w)) (kv_Incr World_KV now k ttl)" "keeps (\<lambda>w. P (db w)) (kv_Publish World_KV ch msg)"
  unfolding World_KV_def KV.simps by (rule keeps_on_kv)+

section \<open>Rows\<close>

lemma find_row_Some: "find_row P t = Some (k, u) \<Longrightarrow> P u \<and> (k, u) \<in> set t"
  by (auto simp: find_row_def find_Some_iff in_set_conv_nth)

lemma find_row_update:
  assumes "find_row P t = Some (k, u)" "distinct (map fst t)" "P u'"
  shows "find_row P (AList.update k u' t) = Some (k, u')"
  using assms
proof (induction t)
  case (Cons x t)
  obtain k1 v1 where x: "x = (k1, v1)" by force
  show ?case
  proof (cases "P v1")
    case True
    with Cons.prems x show ?thesis by (simp add: find_row_def)
  next
    case False
    with Cons.prems x have f: "find_row P t = Some (k, u)" by (simp add: find_row_def)
    then have "k \<in> set (map fst t)" using find_row_Some [OF f] by (metis fst_conv image_eqI set_map)
    with Cons.prems(2) x have "k1 \<noteq> k" by auto
    then show ?thesis using Cons.IH [OF f] Cons.prems(2,3) False x by (simp add: find_row_def)
  qed
qed (simp add: find_row_def)

lemma find_row_update_other:
  assumes "distinct (map fst t)" "map_of t k = Some u" "\<not> Q u" "\<not> Q u'"
  shows "find_row Q (AList.update k u' t) = find_row Q t"
  using assms
proof (induction t)
  case (Cons x t)
  then show ?case by (cases x) (auto simp: find_row_def split: if_splits)
qed simp

lemma find_row_map_of: "find_row P t = Some (k, u) \<Longrightarrow> distinct (map fst t) \<Longrightarrow> map_of t k = Some u"
  using find_row_Some [of P t k u] by simp

section \<open>User rows\<close>

definition users_ok :: "memstore \<Rightarrow> bool" where
  "users_ok m \<longleftrightarrow> distinct (map fst (Users m))"

lemma userByID_Some: "userByID tid uid m = Some (k, u) \<Longrightarrow> us_TenantID u = tid \<and> us_ID u = uid"
  unfolding userByID_def by (drule find_row_Some) simp

lemma userByID_put:
  assumes "users_ok m" "userByID tid uid m = Some (k, u)" "us_TenantID u' = tid" "us_ID u' = uid"
  shows "userByID tid' uid' (put_user k u' m) =
    (if tid' = tid \<and> uid' = uid then Some (k, u') else userByID tid' uid' m)"
proof -
  let ?P = "\<lambda>tid uid u. us_TenantID u = tid \<and> us_ID u = uid"
  have d: "distinct (map fst (Users m))" using assms(1) by (simp add: users_ok_def)
  have f: "find_row (?P tid uid) (Users m) = Some (k, u)" using assms(2) by (simp only: userByID_def)
  have u: "?P tid uid u" using find_row_Some [OF f] by blast
  have same: "find_row (?P tid uid) (AList.update k u' (Users m)) = Some (k, u')"
    by (rule find_row_update [OF f d]) (use assms(3,4) in simp)
  have other: "find_row (?P tid' uid') (AList.update k u' (Users m)) = find_row (?P tid' uid') (Users m)"
    if "\<not> (tid' = tid \<and> uid' = uid)"
    by (rule find_row_update_other [OF d find_row_map_of [OF f d]]) (use that u assms(3,4) in auto)
  have U: "Users (put_user k u' m) = AList.update k u' (Users m)" by (simp add: put_user_def)
  show ?thesis
  proof (cases "tid' = tid \<and> uid' = uid")
    case True
    with same show ?thesis by (simp add: userByID_def U)
  next
    case False
    with other [OF False] show ?thesis unfolding userByID_def U by (simp only: if_not_P) auto
  qed
qed

lemma users_ok_put [simp]: "users_ok m \<Longrightarrow> users_ok (put_user k u m)"
  by (simp add: users_ok_def put_user_def distinct_keys_update)


section \<open>Cache calls leave the tables alone\<close>

lemma wp_and_db:
  assumes "wp m R w" "\<And>P. keeps (\<lambda>w. P (db w)) m"
  shows "wp m (\<lambda>r w'. R r w' \<and> db w' = db w) w"
proof -
  have "wp m (\<lambda>_ w'. db w' = db w) w" by (rule keeps_wp [OF assms(2) [of "\<lambda>d. d = db w"]]) simp
  with assms(1) show ?thesis by (simp add: wp_iff)
qed

lemmas kv_Get_db = wp_and_db [OF wkv.Get keeps_World_KV(1)]
lemmas kv_GetDel_db = wp_and_db [OF wkv.GetDel keeps_World_KV(2)]
lemmas kv_Set_db = wp_and_db [OF wkv.Set keeps_World_KV(3)]
lemmas kv_Del_db = wp_and_db [OF wkv.Del keeps_World_KV(4)]

text \<open>Store calls leave the cache alone.\<close>

lemma on_db_sees: "wp (on_db m) (\<lambda>r w'. sees w' = sees w) w"
  by (rule wp_db) (auto simp: sees_def)

lemma emit_sees [simp]: "wp (emit e) Q w = Q (Inr ()) (w\<lparr>audit := audit w @ [e]\<rparr>)"
  by (simp add: emit_def wp_simps)

lemma sees_simps [simp]: "sees (w\<lparr>audit := a\<rparr>) = sees w" "sees (w\<lparr>faults := f\<rparr>) = sees w" "sees (w\<lparr>db := d\<rparr>) = sees w"
  by (simp_all add: sees_def)


section \<open>Reading the store\<close>

text \<open>
  An operation that reads; the continuation of a read runs with the answer, in a state that differs
  in the fault list only, and a failed read is the error of the whole operation.
\<close>

definition reads :: "(memstore, 'a) op \<Rightarrow> (memstore \<Rightarrow> 'a result) \<Rightarrow> bool" where
  "reads m f \<longleftrightarrow> (\<forall>d. m d = (f d, d))"

named_theorems store_reads \<open>store operations that only read\<close>

lemma wp_bind_read:
  assumes "reads m f" "\<And>a fs. f (db w) = Inr a \<Longrightarrow> wp (g a) Q (w\<lparr>faults := fs\<rparr>)"
    and "\<And>e fs. Q (Inl e) (w\<lparr>faults := fs\<rparr>)"
  shows "wp (bind_op (on_db m) g) Q w"
  unfolding wp_simps
  by (rule wp_db_read [where r = "f (db w)"]) (use assms in \<open>auto simp: reads_def split: sum.split\<close>)

lemma wp_try_read:
  assumes "reads m f" "\<And>fs. wp (g (f (db w))) Q (w\<lparr>faults := fs\<rparr>)"
    and "\<And>fs. wp (g (Inl unavailable)) Q (w\<lparr>faults := fs\<rparr>)"
  shows "wp (try_op (on_db m) g) Q w"
  unfolding wp_simps
  by (rule wp_db_read [where r = "f (db w)"]) (use assms in \<open>auto simp: reads_def\<close>)

lemma wp_bind_of:
  "(\<And>a. r = Inr a \<Longrightarrow> wp (g a) Q w) \<Longrightarrow> (\<And>e. Q (Inl e) w) \<Longrightarrow> wp (bind_op (of_result r) g) Q w"
  by (cases r) (simp_all add: wp_simps)

lemma keeps_read: "reads m f \<Longrightarrow> keeps P m"
  by (simp add: reads_def keeps_def)

lemma reads_User [store_reads]: "reads (Store_User tid uid) (\<lambda>m. found (map_option snd (userByID tid uid m)))"
  by (simp add: reads_def Store_User_def)

lemma reads_Tenant [store_reads]: "reads (Store_Tenant tid) (\<lambda>m. found (map_of (Tenants m) tid))"
  by (simp add: reads_def Store_Tenant_def)

lemma reads_UserByEmail [store_reads]:
  "reads (Store_UserByEmail ul tid email) (\<lambda>m. found (map_of (Users m) (Store_key ul tid email)))"
  by (simp add: reads_def Store_UserByEmail_def)

lemma reads_Keys [store_reads]: "reads (Store_ListWebAuthnCredentials tid uid) (\<lambda>m. Inr (keysOf tid uid m))"
  by (simp add: reads_def Store_ListWebAuthnCredentials_def)

lemma reads_Handle [store_reads]: "reads (Store_WebAuthnHandle tid uid) (\<lambda>m. fst (Store_WebAuthnHandle tid uid m))"
  by (simp add: reads_def Store_WebAuthnHandle_def)

lemma reads_Codes [store_reads]:
  "reads (Store_ListRecoveryCodeHashes tid uid)
     (\<lambda>m. Inr (map rc_hash (filter (\<lambda>c. \<not> rc_used c) (get_list (Codes m) (pair_key tid uid)))))"
  by (simp add: reads_def Store_ListRecoveryCodeHashes_def)

lemma reads_Roles [store_reads]: "reads (Store_Roles tid uid) (\<lambda>m. Inr (effectiveSlugsLocked tid uid m))"
  by (simp add: reads_def Store_Roles_def)

lemma reads_TenantBySlug [store_reads]:
  "reads (Store_TenantBySlug slug) (\<lambda>m. found (map_option snd (find_row (\<lambda>t. tn_Slug t = slug) (Tenants m))))"
  by (simp add: reads_def Store_TenantBySlug_def)

lemma reads_SoleTenant [store_reads]: "reads Store_SoleTenant (\<lambda>m. fst (Store_SoleTenant m))"
  by (simp add: reads_def Store_SoleTenant_def split: list.split)

lemmas read_intros = wp_bind_of wp_bind_read [OF reads_User] wp_bind_read [OF reads_Tenant] wp_bind_read [OF reads_Keys]
  wp_bind_read [OF reads_Handle] wp_bind_read [OF reads_Codes] wp_bind_read [OF reads_Roles]

lemma found_Inr [simp]: "found x = Inr a \<longleftrightarrow> x = Some a"
  by (simp add: found_def split: option.split)

end
