(* ===== verification/Admin_Safety.thy ===== *)
theory Admin_Safety
  imports User_Admin Store_Facts
begin

text \<open>
  What administration of users never does: touch a user or session of another tenant, or take the
  last active owner of a tenant away.
\<close>

section \<open>Other tenants\<close>

text \<open>The user and session rows of every other tenant.\<close>

definition others :: "string \<Rightarrow> memstore \<Rightarrow> user table \<times> session table" where
  "others tid m = (filter (\<lambda>(_, u). us_TenantID u \<noteq> tid) (Users m), filter (\<lambda>(_, s). ss_TenantID s \<noteq> tid) (Sessions m))"

definition undisturbed :: "string \<Rightarrow> user table \<times> session table \<Rightarrow> memstore \<Rightarrow> bool" where
  "undisturbed tid x m \<longleftrightarrow> users_ok m \<and> others tid m = x"

named_theorems undisturbed_intros \<open>operations that leave other tenants alone\<close>

lemma filter_update:
  assumes "distinct (map fst t)" "map_of t k = Some u" "\<not> Q u" "\<not> Q u'"
  shows "filter (\<lambda>(_, u). Q u) (AList.update k u' t) = filter (\<lambda>(_, u). Q u) t"
  using assms
proof (induction t)
  case (Cons x t)
  then show ?case by (cases x) (auto split: if_splits)
qed simp

lemma filter_delete_key:
  assumes "distinct (map fst t)" "map_of t k = Some u" "\<not> Q u"
  shows "filter (\<lambda>(_, u). Q u) (AList.delete k t) = filter (\<lambda>(_, u). Q u) t"
  using assms
proof (induction t)
  case (Cons x t)
  then show ?case
    by (cases x) (auto simp: delete_idem dest: map_of_SomeD split: if_splits)
qed simp

lemma userByID_map_of: "users_ok m \<Longrightarrow> userByID tid uid m = Some (k, u) \<Longrightarrow> map_of (Users m) k = Some u"
  unfolding users_ok_def userByID_def by (rule find_row_map_of)

lemma undisturbed_put:
  assumes "undisturbed tid x m" "userByID tid uid m = Some (k, u)" "us_TenantID u' = tid"
  shows "undisturbed tid x (put_user k u' m)"
proof -
  have ok: "users_ok m" using assms(1) by (simp add: undisturbed_def)
  have "filter (\<lambda>(_, u). us_TenantID u \<noteq> tid) (AList.update k u' (Users m)) = filter (\<lambda>(_, u). us_TenantID u \<noteq> tid) (Users m)"
    by (rule filter_update [OF ok [unfolded users_ok_def] userByID_map_of [OF ok assms(2)]])
      (use assms(3) userByID_Some [OF assms(2)] in simp_all)
  then show ?thesis using assms(1) by (simp add: undisturbed_def others_def put_user_def users_ok_def distinct_keys_update)
qed

lemma undisturbed_with_user:
  assumes f: "\<And>u. us_TenantID (f u) = us_TenantID u"
  shows "keeps (undisturbed tid x) (with_user tid uid f)"
  unfolding keeps_def with_user_def
proof (intro allI impI)
  fix m assume m: "undisturbed tid x m"
  show "undisturbed tid x (snd (case userByID tid uid m of None \<Rightarrow> (Inl ErrNotFound, m) | Some (k, u) \<Rightarrow> (Inr (), put_user k (f u) m)))"
  proof (cases "userByID tid uid m")
    case (Some p)
    then obtain k u where "userByID tid uid m = Some (k, u)" by (cases p) auto
    with undisturbed_put [OF m this, of "f u"] userByID_Some [OF this] show ?thesis by (simp add: f)
  qed (simp add: m)
qed

lemma tenant_revoke_session [simp]: "ss_TenantID (revoke_session now reason s) = ss_TenantID s"
  by (simp add: revoke_session_def)

lemma others_revoke:
  assumes "\<And>k s. ss_TenantID s \<noteq> tid \<Longrightarrow> \<not> P k s"
  shows "others tid (revoke_where now reason P m) = others tid m"
proof -
  have "filter (\<lambda>(_, s). ss_TenantID s \<noteq> tid) (map (\<lambda>(k, s). (k, if P k s then revoke_session now reason s else s)) t)
      = filter (\<lambda>(_, s). ss_TenantID s \<noteq> tid) t" for t
  proof (induction t)
    case (Cons x t)
    obtain k s where x: "x = (k, s)" by force
    show ?case
    proof (cases "ss_TenantID s = tid")
      case True
      then show ?thesis using Cons.IH by (simp add: x)
    next
      case False
      then show ?thesis using Cons.IH assms [OF False, of k] by (simp add: x)
    qed
  qed simp
  then show ?thesis by (simp add: others_def revoke_where_def)
qed

lemma undisturbed_writes [undisturbed_intros]:
  "keeps (undisturbed tid x) (Store_UpdateUserStatus tid uid st)"
  "keeps (undisturbed tid x) (Store_RevokeUser now tid uid reason keepID)"
  "keeps (undisturbed tid x) (Store_InsertRevocation rv)"
proof -
  show "keeps (undisturbed tid x) (Store_UpdateUserStatus tid uid st)"
    unfolding Store_UpdateUserStatus_def by (rule undisturbed_with_user) simp
  have "users_ok (revoke_where now reason P m) = users_ok m" for P m
    by (simp add: users_ok_def revoke_where_def)
  then show "keeps (undisturbed tid x) (Store_RevokeUser now tid uid reason keepID)"
    unfolding keeps_def undisturbed_def Store_RevokeUser_def snd_conv by (subst others_revoke) auto
qed (simp add: keeps_def undisturbed_def others_def users_ok_def Store_InsertRevocation_def)

lemma undisturbed_reset [undisturbed_intros]: "keeps (undisturbed tid x) (Store_ResetMFA tid uid)"
  unfolding keeps_def
proof (intro allI impI)
  fix m assume m: "undisturbed tid x m"
  have d: "undisturbed tid x (n\<lparr>Codes := c, wa_keys := w\<rparr>)" if "undisturbed tid x n" for n c w
    using that by (simp add: undisturbed_def others_def users_ok_def)
  show "undisturbed tid x (snd (Store_ResetMFA tid uid m))"
  proof (cases "userByID tid uid m")
    case (Some p)
    then obtain k u where u: "userByID tid uid m = Some (k, u)" by (cases p) auto
    have "us_TenantID (u\<lparr>us_MFAEnabled := False, us_MFASecretEnc := '''', us_MFALastCounter := 0\<rparr>) = tid"
      using userByID_Some [OF u] by simp
    from d [OF undisturbed_put [OF m u this]] show ?thesis by (simp add: Store_ResetMFA_def u)
  qed (simp add: Store_ResetMFA_def m)
qed

lemma undisturbed_delete [undisturbed_intros]: "keeps (undisturbed tid x) (Store_DeleteImportedUser tid uid)"
  unfolding keeps_def
proof (intro allI impI)
  fix m assume m: "undisturbed tid x m"
  then have ok: "users_ok m" by (simp add: undisturbed_def)
  have s: "filter (\<lambda>(_, s). ss_TenantID s \<noteq> tid) (filter (\<lambda>(_, s). \<not> (ss_TenantID s = tid \<and> ss_UserID s = uid)) t)
      = filter (\<lambda>(_, s). ss_TenantID s \<noteq> tid) t" for t
    by (induction t) auto
  show "undisturbed tid x (snd (Store_DeleteImportedUser tid uid m))"
  proof (cases "userByID tid uid m")
    case (Some p)
    then obtain k u where u: "userByID tid uid m = Some (k, u)" by (cases p) auto
    have "filter (\<lambda>(_, u). us_TenantID u \<noteq> tid) (AList.delete k (Users m)) = filter (\<lambda>(_, u). us_TenantID u \<noteq> tid) (Users m)"
      by (rule filter_delete_key [OF ok [unfolded users_ok_def] userByID_map_of [OF ok u]]) (use userByID_Some [OF u] in simp)
    with m s [of "Sessions m"] show ?thesis
      by (cases "us_Status u = ''imported''") (simp_all add: Store_DeleteImportedUser_def u undisturbed_def others_def users_ok_def distinct_delete)
  qed (simp add: Store_DeleteImportedUser_def m)
qed

text \<open>The world: any store call that leaves other tenants alone, any read, any cache call.\<close>

abbreviation calm_for :: "string \<Rightarrow> user table \<times> session table \<Rightarrow> world \<Rightarrow> bool" where
  "calm_for tid x w \<equiv> undisturbed tid x (db w)"

lemmas calm_intros = keeps_intros keeps_emit keeps_World_KV undisturbed_intros [THEN keeps_on_db]
  store_reads [THEN keeps_read, THEN keeps_on_db]

lemma calm_count: "reads (Store_UserAnyTenant uid) (\<lambda>m. fst (Store_UserAnyTenant uid m))"
  "reads (CountUsersWithRole tid slug) (\<lambda>m. fst (CountUsersWithRole tid slug m))"
  "reads (Store_CountWithRole tid slug) (\<lambda>m. fst (Store_CountWithRole tid slug m))"
  by (simp_all add: reads_def Store_UserAnyTenant_def CountUsersWithRole_def Store_CountWithRole_def)

lemma calm_lookup: "keeps (\<lambda>w. P (db w)) (lookup actor uid)"
  unfolding lookup_def admin_event_def
  by (intro keeps_intros keeps_emit keeps_read [OF calm_count(1), THEN keeps_on_db] keeps_read [OF reads_User, THEN keeps_on_db])

lemma calm_RevokeUser: "keeps (calm_for tid x) (RevokeUser ctx now tid uid reason '''')"
  unfolding RevokeUser_def publish_def MarkRevoked_def by (simp, intro calm_intros)

datatype admin_request =
    RDeactivate string | RReactivate string | RRemoveImported string | RResetMFA string | RForceSignout string

fun run_admin :: "req_context \<Rightarrow> time \<Rightarrow> actor \<Rightarrow> admin_request \<Rightarrow> (world, unit) op" where
  "run_admin ctx now actor (RDeactivate uid) = Deactivate CountUsersWithRole ctx now actor uid"
| "run_admin ctx now actor (RReactivate uid) = Reactivate actor uid"
| "run_admin ctx now actor (RRemoveImported uid) = RemoveImported actor uid"
| "run_admin ctx now actor (RResetMFA uid) = Admin_ResetMFA ctx now actor uid"
| "run_admin ctx now actor (RForceSignout uid) = ForceSignout ctx now actor uid"

lemma calm_small:
  "keeps (calm_for tid x) (admin_event actor typ uid out reason)"
  "keeps (calm_for tid x) (isLastOwner CountUsersWithRole tid' uid)"
  unfolding admin_event_def isLastOwner_def
  by (rule keeps_emit) (intro calm_intros keeps_read [OF calm_count(2), THEN keeps_on_db])

lemmas calm_parts = calm_lookup calm_RevokeUser calm_small

lemma calm_admin: "keeps (calm_for (act_TenantID actor) x) (run_admin ctx now actor req)"
proof (cases req)
  case (RDeactivate uid)
  then show ?thesis unfolding RDeactivate run_admin.simps Deactivate_def by (intro calm_intros calm_parts)
next
  case (RReactivate uid)
  then show ?thesis unfolding RReactivate run_admin.simps Reactivate_def by (intro calm_intros calm_parts)
next
  case (RRemoveImported uid)
  then show ?thesis unfolding RRemoveImported run_admin.simps RemoveImported_def by (intro calm_intros calm_parts)
next
  case (RResetMFA uid)
  then show ?thesis unfolding RResetMFA run_admin.simps Admin_ResetMFA_def Let_def by (intro calm_intros calm_parts)
next
  case (RForceSignout uid)
  then show ?thesis unfolding RForceSignout run_admin.simps ForceSignout_def by (intro calm_intros calm_parts)
qed


text \<open>
  C8: administration stays inside its tenant.  Whatever an administrator asks for (deactivate,
  reactivate, remove an imported user, reset the second factors, force a sign-out) and whichever
  store or cache calls fail, every user row and every session row of every other tenant is the same
  afterwards, also when the request names a user of another tenant.
\<close>

theorem admin_stays_in_tenant:
  assumes "users_ok (db w)"
  shows "others (act_TenantID actor) (db (snd (run_admin ctx now actor req w))) = others (act_TenantID actor) (db w)"
proof -
  have "calm_for (act_TenantID actor) (others (act_TenantID actor) (db w)) w" using assms by (simp add: undisturbed_def)
  from keepsD [OF calm_admin this] show ?thesis by (simp add: undisturbed_def)
qed

definition demo_admin :: actor where
  "demo_admin = no_actor\<lparr>act_Kind := KindUser, act_UserID := ''boss'', act_TenantID := ''t1'', act_Roles := [''owner'']\<rparr>"

definition demo_row :: "string \<Rightarrow> string \<Rightarrow> string \<Rightarrow> user" where
  "demo_row tid uid email = \<lparr>us_ID = uid, us_TenantID = tid, us_Email = email, us_DisplayName = email, us_Status = ''active'',
     us_PasswordHash = None, us_PasswordChangedAt = None, us_MFAEnabled = False, us_MFASecretEnc = '''', us_MFALastCounter = 0,
     us_CreatedAt = 0, us_UpdatedAt = 0, us_LastSigninAt = None, us_FirstName = '''', us_LastName = '''', us_Phone = '''',
     us_AvatarID = None, us_DisplayNameExplicit = False, us_ProfileUpdatedAt = None\<rparr>"

definition demo_two_tenants :: world where
  "demo_two_tenants = New_World\<lparr>db := New_Store\<lparr>Users := [(''t1/a'', demo_row ''t1'' ''u1'' ''a''), (''t2/b'', demo_row ''t2'' ''u2'' ''b'')]\<rparr>\<rparr>"

theorem admin_stays_in_tenant_witness:
  "users_ok (db demo_two_tenants)
   \<and> fst (run_admin background 0 demo_admin (RDeactivate ''u1'') demo_two_tenants) = Inr ()
   \<and> others ''t1'' (db demo_two_tenants) = ([(''t2/b'', demo_row ''t2'' ''u2'' ''b'')], [])
   \<and> others ''t1'' (db (snd (run_admin background 0 demo_admin (RDeactivate ''u1'') demo_two_tenants)))
       = ([(''t2/b'', demo_row ''t2'' ''u2'' ''b'')], [])"
proof -
  have ok: "users_ok (db demo_two_tenants)" by code_simp
  moreover have "fst (run_admin background 0 demo_admin (RDeactivate ''u1'') demo_two_tenants) = Inr ()" by code_simp
  moreover have o: "others ''t1'' (db demo_two_tenants) = ([(''t2/b'', demo_row ''t2'' ''u2'' ''b'')], [])"
    by (simp add: demo_two_tenants_def others_def New_Store_def demo_row_def)
  ultimately show ?thesis
    using admin_stays_in_tenant [OF ok, of demo_admin background 0 "RDeactivate ''u1''"] by (simp add: demo_admin_def)
qed

section \<open>Owners\<close>

definition owner_ids :: "memstore \<Rightarrow> string list \<Rightarrow> string list" where
  "owner_ids m ids = filter (\<lambda>ident. case map_of (RoleRows m) ident of Some r \<Rightarrow> ro_Slug r = ''owner'' | None \<Rightarrow> False) ids"

definition is_active :: "memstore \<Rightarrow> string \<Rightarrow> bool" where
  "is_active m uid = list_ex (\<lambda>(_, u). us_ID u = uid \<and> us_Status u = ''active'') (Users m)"

text \<open>An active user with the owner role bound directly.\<close>

definition active_owner :: "string \<Rightarrow> string \<Rightarrow> memstore \<Rightarrow> bool" where
  "active_owner tid uid m \<longleftrightarrow>
     (\<exists>ids. map_of (Bindings m) (pair_key tid uid) = Some ids \<and> owner_ids m ids \<noteq> []) \<and> is_active m uid"

text \<open>
  The keys of the tables: one row per user and one binding list per user, roles bound inside their
  tenant, and one role per slug.
\<close>

definition bindings_ok :: "string \<Rightarrow> memstore \<Rightarrow> bool" where
  "bindings_ok tid m \<longleftrightarrow>
     users_ok m \<and> distinct (map fst (Bindings m))
     \<and> (\<forall>uid ids. map_of (Bindings m) (pair_key tid uid) = Some ids \<longrightarrow>
          length (owner_ids m ids) \<le> 1
          \<and> (\<forall>ident r. ident \<in> set ids \<longrightarrow> map_of (RoleRows m) ident = Some r \<longrightarrow> ro_TenantID r = tid))"

lemma cut_pair_key: "cut_prefix (tid @ ''/'') k = Some uid \<longleftrightarrow> k = pair_key tid uid"
  by (simp add: cut_prefix_Some_iff pair_key_def)

lemma count_two:
  assumes "distinct (map fst bs)"
    and "\<And>k. k \<in> set (map fst bs) \<Longrightarrow> length (f k (the (map_of bs k))) \<le> 1"
    and "2 \<le> length (concat (map (\<lambda>(k, ids). f k ids) bs))"
  obtains k k' where "k \<noteq> k'" "k \<in> set (map fst bs)" "k' \<in> set (map fst bs)"
    "f k (the (map_of bs k)) \<noteq> []" "f k' (the (map_of bs k')) \<noteq> []"
proof -
  let ?g = "\<lambda>k. f k (the (map_of bs k))"
  have "map (\<lambda>(k, ids). f k ids) bs = map ?g (map fst bs)"
    using assms(1) by (auto simp: map_of_is_SomeI)
  with assms(3) have "2 \<le> sum_list (map (\<lambda>k. length (?g k)) (map fst bs))"
    by (simp add: length_concat o_def)
  also have "\<dots> = (\<Sum>k \<in> set (map fst bs). length (?g k))"
    by (rule sum_list_distinct_conv_sum_set [OF assms(1)])
  also have "\<dots> \<le> card {k \<in> set (map fst bs). ?g k \<noteq> []}"
  proof -
    have "(\<Sum>k \<in> set (map fst bs). length (?g k)) = (\<Sum>k \<in> {k \<in> set (map fst bs). ?g k \<noteq> []}. length (?g k))"
      by (rule sum.mono_neutral_right) auto
    also have "\<dots> \<le> (\<Sum>k \<in> {k \<in> set (map fst bs). ?g k \<noteq> []}. 1)"
      by (rule sum_mono) (use assms(2) in auto)
    finally show ?thesis by simp
  qed
  finally have "\<not> card {k \<in> set (map fst bs). ?g k \<noteq> []} \<le> Suc 0" by simp
  then obtain k k' where "k \<in> {k \<in> set (map fst bs). ?g k \<noteq> []}" "k' \<in> {k \<in> set (map fst bs). ?g k \<noteq> []}" "k \<noteq> k'"
    by (subst (asm) card_le_Suc0_iff_eq) auto
  then show ?thesis using that by blast
qed


lemma owner_ids_Nil_iff: "owner_ids m ids \<noteq> [] \<longleftrightarrow> (\<exists>i \<in> set ids. \<exists>r. map_of (RoleRows m) i = Some r \<and> ro_Slug r = ''owner'')"
  by (auto simp: owner_ids_def filter_empty_conv split: option.splits)

lemma active_owner_has_role:
  assumes "bindings_ok tid m" "active_owner tid uid m"
  shows "''owner'' \<in> set (effectiveSlugsLocked tid uid m)"
proof -
  obtain ids i r where b: "map_of (Bindings m) (pair_key tid uid) = Some ids" and i: "i \<in> set ids"
    "map_of (RoleRows m) i = Some r" "ro_Slug r = ''owner''"
    using assms(2) unfolding active_owner_def owner_ids_Nil_iff by blast
  have "ro_TenantID r = tid" using assms(1) b i unfolding bindings_ok_def by blast
  then have "role_in tid i m = Some r" using i by (simp add: role_in_def)
  with i have "r \<in> set (List.map_filter (\<lambda>ident. role_in tid ident m) ids)"
    by (auto simp: map_filter_def image_iff intro!: bexI [of _ i])
  then have "''owner'' \<in> set (map ro_Slug (List.map_filter (\<lambda>ident. role_in tid ident m) ids))"
    using i(3) by (metis image_eqI set_map)
  with b show ?thesis by (simp add: effectiveSlugsLocked_def Let_def)
qed

lemma CountUsersWithRole_owner:
  "fst (CountUsersWithRole tid ''owner'' m) = Inr (length (concat (map (\<lambda>(k, ids).
     case cut_prefix (tid @ ''/'') k of None \<Rightarrow> [] | Some uid \<Rightarrow> if is_active m uid then owner_ids m ids else []) (Bindings m))))"
  by (simp add: CountUsersWithRole_def is_active_def owner_ids_def cong: option.case_cong if_cong)

lemma another_owner:
  assumes ok: "bindings_ok tid m" and n: "fst (CountUsersWithRole tid ''owner'' m) = Inr n" "2 \<le> n"
  shows "\<exists>y. y \<noteq> uid \<and> active_owner tid y m"
proof -
  let ?f = "\<lambda>k ids. case cut_prefix (tid @ ''/'') k of None \<Rightarrow> [] | Some uid \<Rightarrow> if is_active m uid then owner_ids m ids else []"
  have d: "distinct (map fst (Bindings m))" using ok by (simp add: bindings_ok_def)
  have one: "length (?f k (the (map_of (Bindings m) k))) \<le> 1" if k: "k \<in> set (map fst (Bindings m))" for k
  proof (cases "cut_prefix (tid @ ''/'') k")
    case (Some uid)
    from k obtain ids where ids: "map_of (Bindings m) k = Some ids" by (metis map_of_eq_None_iff not_None_eq set_map)
    with Some ok have "length (owner_ids m ids) \<le> 1" unfolding bindings_ok_def cut_pair_key by blast
    with Some ids show ?thesis by simp
  qed simp
  have own: "\<exists>y. k = pair_key tid y \<and> active_owner tid y m"
    if k: "k \<in> set (map fst (Bindings m))" and f: "?f k (the (map_of (Bindings m) k)) \<noteq> []" for k
  proof -
    from k obtain ids where ids: "map_of (Bindings m) k = Some ids" by (metis map_of_eq_None_iff not_None_eq set_map)
    from f ids show ?thesis by (auto simp: active_owner_def cut_pair_key split: option.splits if_splits)
  qed
  from n have c: "2 \<le> length (concat (map (\<lambda>(k, ids). ?f k ids) (Bindings m)))" by (simp add: CountUsersWithRole_owner)
  obtain k k' where "k \<noteq> k'" "k \<in> set (map fst (Bindings m))" "k' \<in> set (map fst (Bindings m))"
      "?f k (the (map_of (Bindings m) k)) \<noteq> []" "?f k' (the (map_of (Bindings m) k')) \<noteq> []"
    by (rule count_two [where f = ?f and bs = "Bindings m", OF d]) (erule one, rule c)
  with own [of k] own [of k'] show ?thesis by metis
qed

lemma active_owner_put:
  assumes "users_ok m" "userByID tid' uid m = Some (k, u)" "us_ID u' = uid" "y \<noteq> uid"
  shows "active_owner tid y (put_user k u' m) = active_owner tid y m"
proof -
  have "list_ex (\<lambda>(_, u). us_ID u = y \<and> us_Status u = ''active'') (AList.update k u' (Users m))
      = list_ex (\<lambda>(_, u). us_ID u = y \<and> us_Status u = ''active'') (Users m)"
    using arg_cong [OF filter_update [OF assms(1) [unfolded users_ok_def] userByID_map_of [OF assms(1,2)],
        of "\<lambda>u. us_ID u = y \<and> us_Status u = ''active''" u'], of "\<lambda>x. x = []"] assms(3,4) userByID_Some [OF assms(2)]
    by (auto simp: list_ex_iff filter_empty_conv)
  then show ?thesis by (simp add: active_owner_def is_active_def owner_ids_def put_user_def)
qed


text \<open>What \<open>isLastOwner\<close> knows when it lets the change pass: the user is no owner, or another one is active.\<close>

lemma wp_isLastOwner:
  "wp (isLastOwner CountUsersWithRole tid uid) (\<lambda>r w'. db w' = db w \<and>
     (bindings_ok tid (db w) \<longrightarrow> r = Inr False \<longrightarrow> active_owner tid x (db w) \<longrightarrow>
        (\<exists>y. y \<noteq> uid \<and> active_owner tid y (db w)))) w"
  unfolding isLastOwner_def
proof (rule wp_bind_read [OF reads_Roles])
  fix roles fs
  assume "Inr (effectiveSlugsLocked tid uid (db w)) = (Inr roles :: string list result)"
  then have roles: "roles = effectiveSlugsLocked tid uid (db w)" by simp
  have other: "\<exists>y. y \<noteq> uid \<and> active_owner tid y (db w)"
    if "bindings_ok tid (db w)" "active_owner tid x (db w)" "''owner'' \<notin> set roles"
    using that active_owner_has_role [of tid "db w" x] roles by metis
  show "wp (if \<not> List.member roles ''owner'' then ret False
      else bind_op (on_db (CountUsersWithRole tid ''owner'')) (\<lambda>n. ret (n \<le> 1))) (\<lambda>r w'. db w' = db w \<and>
     (bindings_ok tid (db w) \<longrightarrow> r = Inr False \<longrightarrow> active_owner tid x (db w) \<longrightarrow>
        (\<exists>y. y \<noteq> uid \<and> active_owner tid y (db w)))) (w\<lparr>faults := fs\<rparr>)"
  proof (cases "''owner'' \<in> set roles")
    case False
    with other show ?thesis by (simp add: wp_simps)
  next
    case True
    have two: "\<exists>y. y \<noteq> uid \<and> active_owner tid y (db w)"
      if "bindings_ok tid (db w)" "fst (CountUsersWithRole tid ''owner'' (db w)) = Inr n" "\<not> n \<le> 1" for n
      using another_owner [OF that(1,2)] that(3) by simp
    have "wp (bind_op (on_db (CountUsersWithRole tid ''owner'')) (\<lambda>n. ret (n \<le> 1))) (\<lambda>r w'. db w' = db w \<and>
     (bindings_ok tid (db w) \<longrightarrow> r = Inr False \<longrightarrow> active_owner tid x (db w) \<longrightarrow>
        (\<exists>y. y \<noteq> uid \<and> active_owner tid y (db w)))) (w\<lparr>faults := fs\<rparr>)"
      by (rule wp_bind_read [OF calm_count(2)]) (use two in \<open>auto simp: wp_ret\<close>)
    with True show ?thesis by simp
  qed
qed simp

lemma owner_kept:
  "keeps (\<lambda>w. active_owner tid y (db w)) (RevokeUser ctx now tid' uid reason '''')"
  "keeps (\<lambda>w. active_owner tid y (db w)) (admin_event actor typ uid out reason')"
proof -
  have "keeps (active_owner tid y) (Store_RevokeUser now tid' uid reason '''')" "keeps (active_owner tid y) (Store_InsertRevocation rv)" for rv
    by (simp_all add: keeps_def active_owner_def is_active_def owner_ids_def Store_RevokeUser_def revoke_where_def Store_InsertRevocation_def)
  then show "keeps (\<lambda>w. active_owner tid y (db w)) (RevokeUser ctx now tid' uid reason '''')"
    unfolding RevokeUser_def publish_def MarkRevoked_def
    by (simp, intro keeps_intros keeps_emit keeps_World_KV keeps_on_db)
qed (unfold admin_event_def, rule keeps_emit)

lemma owner_status:
  assumes "active_owner tid y (db w)" "y \<noteq> uid" "users_ok (db w)"
  shows "wp (on_db (Store_UpdateUserStatus tid' uid st)) (\<lambda>_ w'. active_owner tid y (db w')) w"
proof -
  have "active_owner tid y (snd (Store_UpdateUserStatus tid' uid st (db w)))"
  proof (cases "userByID tid' uid (db w)")
    case (Some p)
    then obtain k u where u: "userByID tid' uid (db w) = Some (k, u)" by (cases p) auto
    have "us_ID (u\<lparr>us_Status := st\<rparr>) = uid" using userByID_Some [OF u] by simp
    from active_owner_put [OF assms(3) u this assms(2)] assms(1) u show ?thesis
      by (simp add: Store_UpdateUserStatus_def with_user_def)
  qed (use assms(1) in \<open>simp add: Store_UpdateUserStatus_def with_user_def\<close>)
  with assms(1) show ?thesis by (intro wp_db_fs) simp_all
qed


lemma wp_Deactivate_owner:
  assumes ok: "bindings_ok (act_TenantID actor) (db w)" and x: "active_owner (act_TenantID actor) x (db w)"
  shows "wp (Deactivate CountUsersWithRole ctx now actor uid) (\<lambda>_ w'. \<exists>y. active_owner (act_TenantID actor) y (db w')) w"
proof -
  let ?tid = "act_TenantID actor" and ?Q = "\<lambda>_ w'. \<exists>y. active_owner (act_TenantID actor) y (db w')"
  have users: "users_ok (db w)" using ok by (simp add: bindings_ok_def)
  have tail: "wp (seq_op (when_op b (on_db (Store_UpdateUserStatus ?tid uid ''deactivated'')))
      (seq_op (RevokeUser ctx now ?tid uid ReasonDeactivated '''') (admin_event actor t u o' r))) ?Q w1"
    if w1: "db w1 = db w" and y: "y \<noteq> uid" "active_owner ?tid y (db w)" for b t u o' r w1 y
  proof -
    have "wp (when_op b (on_db (Store_UpdateUserStatus ?tid uid ''deactivated''))) (\<lambda>_ w'. active_owner ?tid y (db w')) w1"
      using y w1 users by (simp add: wp_simps owner_status)
    from wp_seq_inv [OF this keeps_seq [OF owner_kept]]
    show ?thesis by (rule wp_mono) blast
  qed
  have last: "wp (bind_op (isLastOwner CountUsersWithRole ?tid uid) (\<lambda>l.
      if l then seq_op (admin_event actor t u o1 r) (throw e)
      else seq_op (when_op b (on_db (Store_UpdateUserStatus ?tid uid ''deactivated'')))
        (seq_op (RevokeUser ctx now ?tid uid ReasonDeactivated '''') (admin_event actor t u o2 r2)))) ?Q w1"
    if w1: "db w1 = db w" for b t u o1 o2 r r2 e w1
    unfolding wp_bind
  proof (rule wp_mono [OF wp_isLastOwner [where x = x]])
    fix r1 :: "bool result" and w2 :: world
    assume h: "db w2 = db w1 \<and> (bindings_ok ?tid (db w1) \<longrightarrow> r1 = Inr False \<longrightarrow> active_owner ?tid x (db w1)
        \<longrightarrow> (\<exists>y. y \<noteq> uid \<and> active_owner ?tid y (db w1)))"
    show "case r1 of Inl e \<Rightarrow> ?Q (Inl e) w2
      | Inr l \<Rightarrow> wp (if l then seq_op (admin_event actor t u o1 r) (throw e)
          else seq_op (when_op b (on_db (Store_UpdateUserStatus ?tid uid ''deactivated'')))
            (seq_op (RevokeUser ctx now ?tid uid ReasonDeactivated '''') (admin_event actor t u o2 r2))) ?Q w2"
    proof (cases r1)
      case (Inl e1)
      with h w1 x show ?thesis by auto
    next
      case (Inr l)
      show ?thesis
      proof (cases l)
        case True
        with Inr h w1 x show ?thesis by (auto simp: admin_event_def wp_simps)
      next
        case False
        with Inr h w1 ok x obtain y where "y \<noteq> uid" "active_owner ?tid y (db w)" by auto
        from tail [of w2, OF _ this] h w1 Inr False show ?thesis by simp
      qed
    qed
  qed
  show ?thesis
    unfolding Deactivate_def
    by (rule wp_bind_keeps [OF calm_lookup [where P = "\<lambda>d. d = db w"]])
      (auto simp: wp_if wp_throw intro!: last x)
qed


text \<open>
  C7: a tenant keeps an owner.  With the SQL repository's count of active owners, deactivating a user
  of a tenant that has an active, directly bound owner leaves it with one, whoever is deactivated and
  whichever calls fail on the way.
\<close>

theorem tenant_keeps_an_owner:
  assumes "bindings_ok (act_TenantID actor) (db w)" "active_owner (act_TenantID actor) x (db w)"
  shows "\<exists>y. active_owner (act_TenantID actor) y (db (snd (Deactivate CountUsersWithRole ctx now actor uid w)))"
  using wp_Deactivate_owner [OF assms] by (rule wpD)

definition demo_owner_role :: role where
  "demo_owner_role = \<lparr>ro_ID = ''r1'', ro_TenantID = ''t1'', ro_Slug = ''owner'', ro_DisplayName = ''Owner'', ro_Builtin = True,
     ro_CreatedAt = 0, ro_UpdatedAt = 0, ro_Origin = ''builtin'', ro_Module = '''', ro_ModuleSlug = '''', ro_Description = '''',
     ro_RetiredAt = None\<rparr>"

text \<open>Two owners, the second in the given state.\<close>

definition demo_owners :: "string \<Rightarrow> world" where
  "demo_owners st = New_World\<lparr>db := New_Store\<lparr>
     Users := [(''t1/a'', demo_row ''t1'' ''u1'' ''a''), (''t1/b'', (demo_row ''t1'' ''u2'' ''b'')\<lparr>us_Status := st\<rparr>)],
     RoleRows := [(''r1'', demo_owner_role)], Bindings := [(''t1/u1'', [''r1'']), (''t1/u2'', [''r1''])]\<rparr>\<rparr>"

lemma demo_owners_ok: "bindings_ok ''t1'' (db (demo_owners st))"
  by (auto simp: bindings_ok_def demo_owners_def New_Store_def users_ok_def owner_ids_def demo_owner_role_def pair_key_def split: if_splits)

lemma demo_owners_active: "active_owner ''t1'' ''u1'' (db (demo_owners st))"
  by (simp add: active_owner_def demo_owners_def New_Store_def owner_ids_def demo_owner_role_def pair_key_def is_active_def demo_row_def)

theorem tenant_keeps_an_owner_witness:
  "bindings_ok ''t1'' (db (demo_owners ''active'')) \<and> active_owner ''t1'' ''u1'' (db (demo_owners ''active''))
   \<and> fst (Deactivate CountUsersWithRole background 0 demo_admin ''u1'' (demo_owners ''active'')) = Inr ()
   \<and> (\<exists>y. active_owner ''t1'' y (db (snd (Deactivate CountUsersWithRole background 0 demo_admin ''u1'' (demo_owners ''active'')))))"
proof -
  have "fst (Deactivate CountUsersWithRole background 0 demo_admin ''u1'' (demo_owners ''active'')) = Inr ()" by code_simp
  then show ?thesis
    using tenant_keeps_an_owner [of demo_admin "demo_owners ''active''" "''u1''" background 0 "''u1''"]
      demo_owners_ok demo_owners_active by (simp add: demo_admin_def)
qed

text \<open>
  The in-memory store does not mirror the SQL repository here.  It counts the bindings of
  deactivated owners too, so on the same tables, where one of two owners is deactivated already, it
  lets the last active owner be deactivated, and the SQL count refuses.
\<close>

theorem memstore_counts_deactivated_owners:
  "fst (Deactivate Store_CountWithRole background 0 demo_admin ''u1'' (demo_owners ''deactivated'')) = Inr ()
   \<and> list_all (\<lambda>(_, u). us_Status u = ''deactivated'')
       (Users (db (snd (Deactivate Store_CountWithRole background 0 demo_admin ''u1'' (demo_owners ''deactivated'')))))
   \<and> fst (Deactivate CountUsersWithRole background 0 demo_admin ''u1'' (demo_owners ''deactivated'')) = Inl ErrAdminLastOwner"
  by code_simp

end
