(* ===== verification/Crypto.thy ===== *)
theory Crypto
  imports World
begin

text \<open>
  \<open>internal/crypto\<close>: password hashes in the PHC string format (\<open>password.go\<close>), the envelope that
  seals small secrets (\<open>envelope.go\<close>) and tokens (\<open>timing.go\<close>).  The primitives (argon2id, AES-GCM,
  SHA-256) are parameters; the encodings around them (base64, the scanned parameters, the layout of
  an envelope) are modelled byte by byte.  Randomness is an argument: \<open>None\<close> is a failing source.
\<close>

section \<open>Base64\<close>

definition std_alphabet :: string where
  "std_alphabet = ''ABCDEFGHIJKLMNOPQRSTUVWXYZabcdefghijklmnopqrstuvwxyz0123456789+/''"

definition url_alphabet :: string where
  "url_alphabet = ''ABCDEFGHIJKLMNOPQRSTUVWXYZabcdefghijklmnopqrstuvwxyz0123456789-_''"

fun sextets :: "int list \<Rightarrow> int list" where
  "sextets [] = []"
| "sextets [a] = [a div 4, a mod 4 * 16]"
| "sextets [a, b] = [a div 4, a mod 4 * 16 + b div 16, b mod 16 * 4]"
| "sextets (a # b # c # r) =
     a div 4 # (a mod 4 * 16 + b div 16) # (b mod 16 * 4 + c div 64) # c mod 64 # sextets r"

text \<open>A single left-over digit is an error; the unused bits of a last short group are ignored.\<close>

fun octets :: "int list \<Rightarrow> int list option" where
  "octets [] = Some []"
| "octets [p] = None"
| "octets [p, q] = Some [p * 4 + q div 16]"
| "octets [p, q, r] = Some [p * 4 + q div 16, q mod 16 * 16 + r div 4]"
| "octets (p # q # r # s # t) =
     map_option (\<lambda>x. (p * 4 + q div 16) # (q mod 16 * 16 + r div 4) # (r mod 4 * 64 + s) # x) (octets t)"

definition b64_encode :: "string \<Rightarrow> string \<Rightarrow> string" where
  "b64_encode alphabet s = map (\<lambda>n. alphabet ! nat n) (sextets (map of_char s))"

text \<open>The decoder of \<open>encoding/base64\<close> skips line breaks.\<close>

definition b64_digit :: "string \<Rightarrow> char \<Rightarrow> int option" where
  "b64_digit alphabet c = map_option int (index_byte c alphabet)"

definition b64_decode :: "string \<Rightarrow> string \<Rightarrow> string option" where
  "b64_decode alphabet s =
     (case those (map (b64_digit alphabet) (filter (\<lambda>c. c \<noteq> CHR 0x0A \<and> c \<noteq> CHR 0x0D) s)) of
        None \<Rightarrow> None | Some ds \<Rightarrow> map_option (map char_of) (octets ds))"

section \<open>Tokens\<close>

definition ConstantTimeEqual :: "string \<Rightarrow> string \<Rightarrow> bool" where
  "ConstantTimeEqual a b \<longleftrightarrow> a = b"

definition RandomToken :: "string option \<Rightarrow> string result" where
  "RandomToken b =
     (case b of None \<Rightarrow> Inl (ErrOther ''randomness unavailable'') | Some bs \<Rightarrow> Inr (b64_encode url_alphabet bs))"

section \<open>Password hashes\<close>

record params =
  pa_Memory :: int
  pa_Time :: int
  pa_Threads :: int
  pa_SaltLen :: nat
  pa_KeyLen :: nat

definition DefaultParams :: params where
  "DefaultParams = \<lparr>pa_Memory = 19 * 1024, pa_Time = 2, pa_Threads = 1, pa_SaltLen = 16, pa_KeyLen = 32\<rparr>"

definition HashPassword :: "externals \<Rightarrow> string option \<Rightarrow> string \<Rightarrow> params \<Rightarrow> string result" where
  "HashPassword X rand pw p =
     (if pw = '''' then Inl (ErrOther ''crypto: empty password'')
      else case rand of
        None \<Rightarrow> Inl (ErrOther ''randomness unavailable'')
      | Some salt \<Rightarrow>
          let key = ex_idkey X pw salt (pa_Time p) (pa_Memory p) (pa_Threads p) (pa_KeyLen p)
          in Inr (''$argon2id$v=19$m='' @ itoa (pa_Memory p) @ '',t='' @ itoa (pa_Time p) @ '',p=''
                  @ itoa (pa_Threads p) @ ''$'' @ b64_encode std_alphabet salt
                  @ ''$'' @ b64_encode std_alphabet key))"

text \<open>
  \<open>fmt.Sscanf\<close> with the verb \<open>%d\<close> into an unsigned integer of the given width: spaces are skipped, at
  least one digit is needed, a value that does not fit is an error; text after the last verb is not
  looked at.
\<close>

definition scan_uint :: "nat \<Rightarrow> string \<Rightarrow> (int \<times> string) option" where
  "scan_uint w s =
     (let t = trim_left (filter (\<lambda>x. x \<noteq> [CHR 0x0A]) white_space) s;
          ds = takeWhile is_09 t
      in if ds = '''' \<or> digits_of ds \<ge> 2 ^ w then None else Some (digits_of ds, dropWhile is_09 t))"

definition scan_params :: "string \<Rightarrow> (int \<times> int \<times> int) option" where
  "scan_params s =
     (case cut_prefix ''m='' s of None \<Rightarrow> None | Some s1 \<Rightarrow>
      (case scan_uint 32 s1 of None \<Rightarrow> None | Some (m, s2) \<Rightarrow>
       (case cut_prefix '',t='' s2 of None \<Rightarrow> None | Some s3 \<Rightarrow>
        (case scan_uint 32 s3 of None \<Rightarrow> None | Some (t, s4) \<Rightarrow>
         (case cut_prefix '',p='' s4 of None \<Rightarrow> None | Some s5 \<Rightarrow>
          (case scan_uint 8 s5 of None \<Rightarrow> None | Some (p, _) \<Rightarrow> Some (m, t, p)))))))"

definition VerifyPassword :: "externals \<Rightarrow> string \<Rightarrow> string \<Rightarrow> (bool \<times> bool) result" where
  "VerifyPassword X pw encoded =
     (case split_on (CHR ''$'') encoded of
        [_, alg, ver, ps, sa, ha] \<Rightarrow>
          if alg \<noteq> ''argon2id'' \<or> ver \<noteq> ''v=19'' then Inl (ErrOther ''crypto: unsupported hash format'')
          else (case scan_params ps of
             None \<Rightarrow> Inl (ErrOther ''crypto: malformed parameters'')
           | Some (m, t, p) \<Rightarrow>
               (case b64_decode std_alphabet sa of
                  None \<Rightarrow> Inl (ErrOther ''crypto: malformed salt'')
                | Some salt \<Rightarrow>
                    (case b64_decode std_alphabet ha of
                       None \<Rightarrow> Inl (ErrOther ''crypto: malformed hash'')
                     | Some want \<Rightarrow>
                         if want = '''' then Inl (ErrOther ''crypto: malformed hash'')
                         else Inr (ex_idkey X pw salt t m p (length want) = want,
                                   m < pa_Memory DefaultParams \<or> t < pa_Time DefaultParams))))
      | _ \<Rightarrow> Inl (ErrOther ''crypto: unsupported hash format''))"

section \<open>Envelopes\<close>

text \<open>
  The layout is nonce (12 bytes), wrapped data key (32 + 16), nonce (12), ciphertext.  The sources
  of randomness are the data key and the two nonces.
\<close>

definition NonceSize :: nat where "NonceSize = 12"
definition wrapLen :: nat where "wrapLen = 32 + 16"

definition Encrypt :: "externals \<Rightarrow> (string \<times> string \<times> string) option \<Rightarrow> string \<Rightarrow> string \<Rightarrow> string result" where
  "Encrypt X rand plaintext ad =
     (case rand of
        None \<Rightarrow> Inl (ErrOther ''randomness unavailable'')
      | Some (dek, n1, n2) \<Rightarrow>
          Inr (n1 @ ex_gcm_seal X (ex_kek X) n1 dek ad @ n2 @ ex_gcm_seal X dek n2 plaintext ad))"

definition Decrypt :: "externals \<Rightarrow> string \<Rightarrow> string \<Rightarrow> string result" where
  "Decrypt X blob ad =
     (if length blob < NonceSize + wrapLen + NonceSize + 16 then Inl (ErrOther ''crypto: ciphertext too short'')
      else case ex_gcm_open X (ex_kek X) (take NonceSize blob) (take wrapLen (drop NonceSize blob)) ad of
        None \<Rightarrow> Inl (ErrOther ''crypto: unwrap failed'')
      | Some dek \<Rightarrow>
          if length dek \<notin> {16, 24, 32} then Inl (ErrOther ''crypto/aes: invalid key size'')
          else let rest = drop (NonceSize + wrapLen) blob in
          (case ex_gcm_open X dek (take NonceSize rest) (drop NonceSize rest) ad of
             None \<Rightarrow> Inl (ErrOther ''crypto: open failed'')
           | Some pt \<Rightarrow> Inr pt))"

section \<open>Round trips\<close>

lemma of_char_bounds: "0 \<le> (of_char c :: int)" "(of_char c :: int) < 256"
proof -
  have "(of_char c :: int) = int (of_char c)" by (rule of_nat_of_char [symmetric])
  moreover have "(of_char c :: nat) < 256" by simp
  ultimately show "0 \<le> (of_char c :: int)" "(of_char c :: int) < 256" by linarith+
qed

definition is_byte :: "int \<Rightarrow> bool" where
  "is_byte n \<longleftrightarrow> 0 \<le> n \<and> n < 256"

lemma sextets_range:
  "list_all is_byte xs \<Longrightarrow> n \<in> set (sextets xs) \<Longrightarrow> 0 \<le> n \<and> n < 64"
  by (induction xs rule: sextets.induct) (auto simp: is_byte_def)

lemma octets_sextets: "list_all is_byte xs \<Longrightarrow> octets (sextets xs) = Some xs"
  by (induction xs rule: sextets.induct) (auto simp: is_byte_def)


lemma alphabet_digits:
  assumes "alphabet \<in> {std_alphabet, url_alphabet}" "0 \<le> n" "n < 64"
  shows "b64_digit alphabet (alphabet ! nat n) = Some n"
    and "alphabet ! nat n \<noteq> CHR 0x0A" "alphabet ! nat n \<noteq> CHR 0x0D" "alphabet ! nat n \<noteq> CHR ''$''"
proof -
  let ?ok = "\<lambda>al n. index_byte (al ! n) al = Some n \<and> al ! n \<notin> {CHR 0x0A, CHR 0x0D, CHR ''$''}"
  have "list_all (?ok std_alphabet) [0..<64]" "list_all (?ok url_alphabet) [0..<64]"
    by code_simp+
  moreover have "nat n \<in> set [0..<64]" using assms(2,3) by simp
  ultimately have "?ok alphabet (nat n)" using assms(1) by (auto simp: list_all_iff)
  then show "b64_digit alphabet (alphabet ! nat n) = Some n"
    and "alphabet ! nat n \<noteq> CHR 0x0A" "alphabet ! nat n \<noteq> CHR 0x0D" "alphabet ! nat n \<noteq> CHR ''$''"
    using assms(2) by (simp_all add: b64_digit_def)
qed

lemma those_map_Some: "(\<And>x. x \<in> set xs \<Longrightarrow> f x = Some (g x)) \<Longrightarrow> those (map f xs) = Some (map g xs)"
  by (induction xs) auto

lemma bytes_of_string: "list_all is_byte (map of_char (s :: string))"
  by (simp add: list_all_iff is_byte_def of_char_bounds)

lemma b64_decode_encode:
  assumes "alphabet \<in> {std_alphabet, url_alphabet}"
  shows "b64_decode alphabet (b64_encode alphabet s) = Some s"
proof -
  let ?ns = "sextets (map of_char s)"
  have r: "0 \<le> n \<and> n < 64" if "n \<in> set ?ns" for n
    using sextets_range [OF bytes_of_string that] .
  have f: "filter (\<lambda>c. c \<noteq> CHR 0x0A \<and> c \<noteq> CHR 0x0D) (b64_encode alphabet s) = b64_encode alphabet s"
    using alphabet_digits [OF assms] r by (auto simp: b64_encode_def filter_id_conv)
  have "those (map (b64_digit alphabet) (b64_encode alphabet s)) = Some ?ns"
    using those_map_Some [where f = "b64_digit alphabet \<circ> (\<lambda>n. alphabet ! nat n)" and g = "\<lambda>n. n" and xs = ?ns]
      alphabet_digits(1) [OF assms] r by (simp add: b64_encode_def comp_def)
  then show ?thesis
    using octets_sextets [OF bytes_of_string, of s] f by (simp add: b64_decode_def comp_def)
qed

lemma b64_encode_no_dollar: "CHR ''$'' \<notin> set (b64_encode std_alphabet s)"
proof
  assume "CHR ''$'' \<in> set (b64_encode std_alphabet s)"
  then obtain n where n: "n \<in> set (sextets (map of_char s))" "CHR ''$'' = std_alphabet ! nat n"
    unfolding b64_encode_def by auto
  with sextets_range [OF bytes_of_string n(1)] alphabet_digits(4) [of std_alphabet n]
  show False by simp
qed

lemma white_space_no_digit: "w \<in> set white_space \<Longrightarrow> w \<noteq> [] \<and> \<not> is_09 (hd w)"
proof -
  have "list_all (\<lambda>w. w \<noteq> [] \<and> \<not> is_09 (hd w)) white_space"
    by (simp add: white_space_def bytes_def char_classes upt_rec)
  then show "w \<in> set white_space \<Longrightarrow> w \<noteq> [] \<and> \<not> is_09 (hd w)" by (simp add: list_all_iff)
qed

lemma trim_left_stop:
  assumes "\<And>w. w \<in> set ws \<Longrightarrow> w \<noteq> [] \<Longrightarrow> hd w \<noteq> c"
  shows "trim_left ws (c # s) = c # s"
proof -
  have "filter (\<lambda>w. w \<noteq> [] \<and> has_prefix (c # s) w) ws = []"
    using assms by (auto simp: filter_empty_conv has_prefix_iff) (metis append_is_Nil_conv hd_append2 list.sel(1))
  then show ?thesis by (simp add: strip_one_def)
qed

lemma scan_uint_itoa:
  assumes "0 \<le> n" "n < 2 ^ w" "rest = '''' \<or> \<not> is_09 (hd rest)"
  shows "scan_uint w (itoa n @ rest) = Some (n, rest)"
proof -
  from itoa_is_digits [OF assms(1)] obtain c s where c: "itoa n = c # s" "list_all is_09 (itoa n)"
    by (cases "itoa n") auto
  then have "trim_left (filter (\<lambda>x. x \<noteq> [CHR 0x0A]) white_space) (itoa n @ rest) = itoa n @ rest"
    using trim_left_stop [of "filter (\<lambda>x. x \<noteq> [CHR 0x0A]) white_space" c "s @ rest"]
    by (auto simp del: trim_left.simps dest: white_space_no_digit)
  moreover have "takeWhile is_09 (itoa n @ rest) = itoa n" "dropWhile is_09 (itoa n @ rest) = rest"
    using c(2) assms(3) by (auto simp: list_all_iff takeWhile_append dropWhile_append)
     (cases rest; simp)+
  ultimately show ?thesis
    using assms itoa_is_digits [OF assms(1)] by (simp add: scan_uint_def Let_def del: trim_left.simps)
qed

definition params_fit :: "params \<Rightarrow> bool" where
  "params_fit p \<longleftrightarrow> 0 \<le> pa_Memory p \<and> pa_Memory p < 2 ^ 32 \<and> 0 \<le> pa_Time p \<and> pa_Time p < 2 ^ 32
     \<and> 0 \<le> pa_Threads p \<and> pa_Threads p < 2 ^ 8"

lemma scan_params_print:
  assumes "params_fit p"
  shows "scan_params (''m='' @ itoa (pa_Memory p) @ '',t='' @ itoa (pa_Time p) @ '',p='' @ itoa (pa_Threads p))
    = Some (pa_Memory p, pa_Time p, pa_Threads p)"
  using assms scan_uint_itoa [of "pa_Memory p" 32 "'',t='' @ itoa (pa_Time p) @ '',p='' @ itoa (pa_Threads p)"]
    scan_uint_itoa [of "pa_Time p" 32 "'',p='' @ itoa (pa_Threads p)"]
    scan_uint_itoa [of "pa_Threads p" 8 "''''"]
  by (simp add: scan_params_def params_fit_def char_classes)

lemma itoa_no_dollar: "0 \<le> n \<Longrightarrow> CHR ''$'' \<notin> set (itoa n)"
  using itoa_is_digits [of n] by (auto simp: list_all_iff char_classes)

lemma phc_split:
  assumes "params_fit p"
  shows "split_on (CHR ''$'') (''$argon2id$v=19$m='' @ itoa (pa_Memory p) @ '',t='' @ itoa (pa_Time p)
      @ '',p='' @ itoa (pa_Threads p) @ ''$'' @ b64_encode std_alphabet a @ ''$'' @ b64_encode std_alphabet b)
    = [[], ''argon2id'', ''v=19'', ''m='' @ itoa (pa_Memory p) @ '',t='' @ itoa (pa_Time p) @ '',p='' @ itoa (pa_Threads p),
       b64_encode std_alphabet a, b64_encode std_alphabet b]"
proof -
  let ?ps = "''m='' @ itoa (pa_Memory p) @ '',t='' @ itoa (pa_Time p) @ '',p='' @ itoa (pa_Threads p)"
  have ps: "CHR ''$'' \<notin> set ?ps"
    using assms itoa_no_dollar by (simp add: params_fit_def)
  have "split_on (CHR ''$'') (?ps @ CHR ''$'' # b64_encode std_alphabet a @ CHR ''$'' # b64_encode std_alphabet b)
      = [?ps, b64_encode std_alphabet a, b64_encode std_alphabet b]"
    using split_on_append [OF ps] b64_encode_no_dollar by (simp add: go_simps)
  then show ?thesis by simp
qed

definition idkey_length :: "externals \<Rightarrow> bool" where
  "idkey_length X \<longleftrightarrow> (\<forall>pw salt t m p n. length (ex_idkey X pw salt t m p n) = n)"




text \<open>What AES-GCM documents: opening what was sealed gives the text back, and the tag is 16 bytes.\<close>

definition gcm_laws :: "externals \<Rightarrow> bool" where
  "gcm_laws X \<longleftrightarrow>
     (\<forall>k n pt ad. ex_gcm_open X k n (ex_gcm_seal X k n pt ad) ad = Some pt)
     \<and> (\<forall>k n pt ad. length (ex_gcm_seal X k n pt ad) = length pt + 16)"

text \<open>
  C34: what the envelope sealed it opens: with fresh key material of the sizes the code draws,
  decrypting an encrypted secret under the same associated data gives the secret back, whatever its
  length; a blob too short to hold both layers is refused without being opened.
\<close>

theorem envelope_roundtrip:
  assumes "gcm_laws X" "length dek = 32" "length n1 = NonceSize" "length n2 = NonceSize"
  shows "(case Encrypt X (Some (dek, n1, n2)) pt ad of Inl _ \<Rightarrow> False | Inr blob \<Rightarrow> Decrypt X blob ad = Inr pt)
    \<and> (length junk < 88 \<longrightarrow> Decrypt X junk ad = Inl (ErrOther ''crypto: ciphertext too short''))"
proof -
  have op: "ex_gcm_open X k n (ex_gcm_seal X k n p ad) ad = Some p"
    and len: "length (ex_gcm_seal X k n p ad) = length p + 16" for k n p
    using assms(1) by (simp_all add: gcm_laws_def)
  have w: "length (ex_gcm_seal X (ex_kek X) n1 dek ad) = wrapLen"
    using len assms(2) by (simp add: wrapLen_def)
  show ?thesis
    unfolding Encrypt_def Decrypt_def
    using assms(2-) w op len by (simp add: NonceSize_def wrapLen_def Let_def)
qed

theorem envelope_roundtrip_witness:
  "\<exists>blob. Encrypt demo_X (Some (replicate 32 (CHR ''d''), replicate 12 (CHR ''m''), replicate 12 (CHR ''n'')))
            ''SEED'' ''mfa:u1'' = Inr blob
     \<and> Decrypt demo_X blob ''mfa:u1'' = Inr ''SEED''
     \<and> Decrypt demo_X ''short'' ''mfa:u1'' = Inl (ErrOther ''crypto: ciphertext too short'')"
proof -
  have "gcm_laws demo_X" by (simp add: gcm_laws_def demo_X_def)
  from envelope_roundtrip [where dek = "replicate 32 (CHR ''d'')" and ?n1.0 = "replicate 12 (CHR ''m'')"
      and ?n2.0 = "replicate 12 (CHR ''n'')" and pt = "''SEED''" and ad = "''mfa:u1''" and junk = "''short''", OF this]
  show ?thesis by (simp add: Encrypt_def NonceSize_def)
qed

end
