(* ===== verification/Password.thy ===== *)
theory Password
  imports Crypto
begin

text \<open>
  Password rules and verification: \<open>internal/password/password.go\<close>, with the code points of
  \<open>unicode/utf8\<close>.
\<close>

section \<open>Code points\<close>

text \<open>
  \<open>utf8.DecodeRuneInString\<close>: the code point at the start of a string and its length in bytes; an
  invalid encoding is the replacement character of length one.
\<close>

definition cont :: "int \<Rightarrow> int \<Rightarrow> int \<Rightarrow> bool" where
  "cont lo hi b \<longleftrightarrow> lo \<le> b \<and> b \<le> hi"

fun decode_rune :: "int list \<Rightarrow> int \<times> nat" where
  "decode_rune [] = (65533, 0)"
| "decode_rune (a # bs) =
     (let bad = (65533, 1);
          tail = (\<lambda>n x. 64 * n + (x - 128))
      in
      if a < 128 then (a, 1)
      else if 194 \<le> a \<and> a \<le> 223 then
        (case bs of b # _ \<Rightarrow> if cont 128 191 b then (tail (a - 192) b, 2) else bad | _ \<Rightarrow> bad)
      else if 224 \<le> a \<and> a \<le> 239 then
        (case bs of
           b # c # _ \<Rightarrow>
             if cont (if a = 224 then 160 else 128) (if a = 237 then 159 else 191) b \<and> cont 128 191 c
             then (tail (tail (a - 224) b) c, 3) else bad
         | _ \<Rightarrow> bad)
      else if 240 \<le> a \<and> a \<le> 244 then
        (case bs of
           b # c # d # _ \<Rightarrow>
             if cont (if a = 240 then 144 else 128) (if a = 244 then 143 else 191) b
                \<and> cont 128 191 c \<and> cont 128 191 d
             then (tail (tail (tail (a - 240) b) c) d, 4) else bad
         | _ \<Rightarrow> bad)
      else bad)"

lemma decode_rune_pos: "0 < snd (decode_rune (a # bs))"
  by (auto simp: decode_rune.simps Let_def split: list.splits)

declare decode_rune.simps(2) [simp del]

function rune_list :: "int list \<Rightarrow> int list" where
  "rune_list [] = []"
| "rune_list (a # bs) =
     fst (decode_rune (a # bs)) # rune_list (drop (snd (decode_rune (a # bs))) (a # bs))"
  by pat_completeness auto
termination
proof (relation "measure length")
  fix a bs show "(drop (snd (decode_rune (a # bs))) (a # bs), a # bs) \<in> measure length"
    using decode_rune_pos [of a bs] by simp
qed simp

definition runes :: "string \<Rightarrow> int list" where
  "runes s = rune_list (map of_char s)"

definition RuneCount :: "string \<Rightarrow> nat" where
  "RuneCount s = length (runes s)"

section \<open>The rules\<close>

definition MaxLength :: int where "MaxLength = 1024"

record requirements =
  rq_MinLength :: int
  rq_MaxLength :: int
  rq_RejectTrivial :: bool

definition RequirementsFor :: "policy \<Rightarrow> requirements" where
  "RequirementsFor p = \<lparr>rq_MinLength = PasswordMinLength p, rq_MaxLength = MaxLength, rq_RejectTrivial = True\<rparr>"

definition Rule :: "err \<Rightarrow> string" where
  "Rule e =
     (if e = ErrTooShort then ''min_length''
      else if e = ErrTooLong then ''max_length''
      else if e = ErrWeak then ''reject_trivial''
      else '''')"

definition singleRune :: "string \<Rightarrow> bool" where
  "singleRune pw = list_all (\<lambda>r. r = fst (decode_rune (map of_char pw))) (runes pw)"

definition Check :: "policy \<Rightarrow> string \<Rightarrow> unit result" where
  "Check p pw =
     (let n = int (RuneCount pw) in
      if n > MaxLength then Inl ErrTooLong
      else if n < PasswordMinLength p then Inl ErrTooShort
      else if trim_space pw = '''' \<or> singleRune pw then Inl ErrWeak
      else Inr ())"

definition Hash :: "externals \<Rightarrow> string option \<Rightarrow> string \<Rightarrow> string result" where
  "Hash X salt pw = HashPassword X salt pw DefaultParams"

text \<open>An account without a hash still costs a full verification (of a dummy hash), and never matches.\<close>

definition Password_Verify :: "externals \<Rightarrow> string \<Rightarrow> string \<Rightarrow> bool \<times> bool" where
  "Password_Verify X pw0 encoded =
     (let pw = (if int (RuneCount pw0) > MaxLength then take (nat MaxLength) pw0 else pw0) in
      if encoded = '''' then (False, False)
      else case VerifyPassword X pw encoded of Inl _ \<Rightarrow> (False, False) | Inr (ok, rehash) \<Rightarrow> (ok, rehash))"

section \<open>Lemmas\<close>

text \<open>Whether a password meets published requirements.\<close>

definition meets :: "requirements \<Rightarrow> string \<Rightarrow> bool" where
  "meets q pw \<longleftrightarrow> rq_MinLength q \<le> int (RuneCount pw) \<and> int (RuneCount pw) \<le> rq_MaxLength q
     \<and> (rq_RejectTrivial q \<longrightarrow> trim_space pw \<noteq> '''' \<and> (\<exists>r \<in> set (runes pw). \<exists>r' \<in> set (runes pw). r \<noteq> r'))"

lemma runes_hd: "s \<noteq> '''' \<Longrightarrow> fst (decode_rune (map of_char s)) \<in> set (runes s)"
  by (cases s) (simp_all add: runes_def)

lemma singleRune_iff: "singleRune s \<longleftrightarrow> (\<forall>r \<in> set (runes s). \<forall>r' \<in> set (runes s). r = r')"
proof (cases "s = ''''")
  case False
  with runes_hd [OF this] show ?thesis unfolding singleRune_def list_all_iff by metis
qed (simp add: singleRune_def runes_def)

lemma Password_Verify_empty [simp]: "Password_Verify X pw '''' = (False, False)"
  by (simp add: Password_Verify_def Let_def)

lemma not_single_iff: "\<not> singleRune s \<longleftrightarrow> (\<exists>r \<in> set (runes s). \<exists>r' \<in> set (runes s). r \<noteq> r')"
  by (simp add: singleRune_iff)

lemma Check_ok_iff: "Check p pw = Inr () \<longleftrightarrow> meets (RequirementsFor p) pw"
  by (simp add: Check_def meets_def RequirementsFor_def Let_def not_single_iff [symmetric])

lemma Check_rule: "Check p pw = Inl e \<Longrightarrow> Rule e \<in> {''min_length'', ''max_length'', ''reject_trivial''}"
  by (simp add: Check_def Let_def split: if_splits) (auto simp: Rule_def)

text \<open>
  C35: the published password requirements are the rules \<open>Check\<close> enforces: a password is accepted
  exactly when it meets them (length in code points, not blank, at least two different code points),
  and a refusal names the requirement that failed.
\<close>

theorem requirements_exact:
  "(Check p pw = Inr () \<longleftrightarrow> meets (RequirementsFor p) pw)
   \<and> (Check p pw = Inl e \<longrightarrow> Rule e \<in> {''min_length'', ''max_length'', ''reject_trivial''})"
  using Check_ok_iff Check_rule by blast

theorem requirements_exact_witness:
  "Check DefaultPolicy ''secret'' = Inl ErrTooShort
   \<and> Rule ErrTooShort \<in> {''min_length'', ''max_length'', ''reject_trivial''}"
proof -
  have h: "Check DefaultPolicy ''secret'' = Inl ErrTooShort" by code_simp
  with requirements_exact [of DefaultPolicy "''secret''" ErrTooShort] show ?thesis by simp
qed

end
