(* ===== verification/Mfa.thy ===== *)
theory Mfa
  imports Password
begin

text \<open>
  The second factor: \<open>internal/mfa/mfa.go\<close> and \<open>internal/mfa/factors.go\<close>.  One-time codes, recovery
  codes and the flag that makes an account ask for a second step.  One clock reading per operation;
  seeds, key material and recovery codes are drawn by the caller (\<open>None\<close>: no randomness).
\<close>

section \<open>Codes\<close>

definition Period :: int where "Period = 30"
definition Skew :: int where "Skew = 1"
definition EnrolTTL :: duration where "EnrolTTL = 10 * minute"
definition RecoveryCount :: nat where "RecoveryCount = 10"
definition recoveryAlpha :: string where "recoveryAlpha = ''ABCDEFGHJKLMNPQRSTUVWXYZ23456789''"

text \<open>Go's integer division truncates towards zero; \<open>Time.Unix\<close> rounds down.\<close>

definition quot :: "int \<Rightarrow> int \<Rightarrow> int" where
  "quot a b = (if a < 0 then - ((- a) div b) else a div b)"

definition Unix :: "time \<Rightarrow> int" where
  "Unix t = t div second"

definition seedAD :: "string \<Rightarrow> string" where
  "seedAD uid = ''mfa:'' @ uid"

text \<open>The steps in the order the loop tries them; the first whose code matches wins.\<close>

definition step_times :: "time \<Rightarrow> time list" where
  "step_times now = map (\<lambda>delta. now + delta * Period * second) [- Skew .. Skew]"

definition match :: "externals \<Rightarrow> time \<Rightarrow> string \<Rightarrow> string \<Rightarrow> int option" where
  "match X now secret code0 =
     (let code = trim_space code0 in
      if length code \<noteq> 6 then None
      else map_option (\<lambda>t. quot (Unix t) Period)
        (find (\<lambda>t. case ex_totp X secret t of Inl _ \<Rightarrow> False | Inr want \<Rightarrow> ConstantTimeEqual want code)
           (step_times now)))"

definition upper_ascii :: "char \<Rightarrow> char" where
  "upper_ascii c = (if is_az c then char_of ((of_char c :: int) - 32) else c)"

definition to_upper :: "(string \<Rightarrow> string) \<Rightarrow> string \<Rightarrow> string" where
  "to_upper uu s = (if list_all is_ascii s then map upper_ascii s else uu s)"

definition isDigits :: "string \<Rightarrow> bool" where
  "isDigits s \<longleftrightarrow> s \<noteq> '''' \<and> list_all is_09 s"

definition NormalizeRecovery :: "externals \<Rightarrow> string \<Rightarrow> string" where
  "NormalizeRecovery X code0 =
     (let code = to_upper (ex_uu X) (filter (\<lambda>c. c \<noteq> CHR ''-'' \<and> c \<noteq> CHR '' '') (trim_space code0)) in
      if length code \<noteq> 10 then ''''
      else if list_all (\<lambda>c. c \<in> set recoveryAlpha) code then code
      else '''')"

definition code_char :: "char \<Rightarrow> char" where
  "code_char x = recoveryAlpha ! nat ((of_char x :: int) mod 32)"

definition newRecoveryCode :: "string option \<Rightarrow> string result" where
  "newRecoveryCode rand =
     (case rand of
        None \<Rightarrow> Inl (ErrOther ''randomness unavailable'')
      | Some b \<Rightarrow> Inr (map code_char (take 5 b) @ (if length b > 5 then ''-'' else '''') @ map code_char (drop 5 b)))"

section \<open>Enrolment and verification\<close>

record enrolment =
  en_Secret :: string
  en_URI :: string

text \<open>The draws of an operation that issues recovery codes: a code and a salt per position.\<close>

type_synonym code_draws = "nat \<Rightarrow> string option \<times> string option"

definition mfa_event :: "string \<Rightarrow> actor \<Rightarrow> audit_event" where
  "mfa_event typ a = event typ (act_TenantID a) (act_Kind a) (act_UserID a) '''' '''' ''ok'' ''''"

definition Enrol ::
    "externals \<Rightarrow> string \<Rightarrow> time \<Rightarrow> string option \<Rightarrow> (string \<times> string \<times> string) option \<Rightarrow> actor
     \<Rightarrow> (world, enrolment) op" where
  "Enrol X issuer now seed rand actor =
     bind_op (on_db (Store_User (act_TenantID actor) (act_UserID actor))) (\<lambda>u.
     case seed of
       None \<Rightarrow> throw (ErrOther ''randomness unavailable'')
     | Some sd \<Rightarrow>
         bind_op (of_result (ex_totp_key X issuer (us_Email u) sd)) (\<lambda>(secret, uri).
         bind_op (of_result (Encrypt X rand secret (seedAD (act_UserID actor)))) (\<lambda>enc.
         seq_op (kv_Set World_KV now (ChallengeKey (''enrol:'' @ act_UserID actor)) (Text enc) EnrolTTL)
           (ret \<lparr>en_Secret = secret, en_URI = uri\<rparr>))))"

fun draw_codes :: "externals \<Rightarrow> code_draws \<Rightarrow> nat list \<Rightarrow> (string list \<times> string list) result" where
  "draw_codes X draws [] = Inr ([], [])"
| "draw_codes X draws (i # is) =
     (case newRecoveryCode (fst (draws i)) of
        Inl e \<Rightarrow> Inl e
      | Inr c \<Rightarrow>
          (case HashPassword X (snd (draws i)) (NormalizeRecovery X c) DefaultParams of
             Inl e \<Rightarrow> Inl e
           | Inr h \<Rightarrow> (case draw_codes X draws is of Inl e \<Rightarrow> Inl e | Inr (cs, hs) \<Rightarrow> Inr (c # cs, h # hs))))"

definition regenerate :: "externals \<Rightarrow> code_draws \<Rightarrow> actor \<Rightarrow> (world, string list) op" where
  "regenerate X draws actor =
     bind_op (of_result (draw_codes X draws [0..<RecoveryCount])) (\<lambda>(codes, hashes).
     seq_op (on_db (Store_ReplaceRecoveryCodes (act_TenantID actor) (act_UserID actor) hashes)) (ret codes))"

definition Confirm :: "externals \<Rightarrow> time \<Rightarrow> code_draws \<Rightarrow> actor \<Rightarrow> string \<Rightarrow> (world, string list) op" where
  "Confirm X now draws actor code =
     (let key = ChallengeKey (''enrol:'' @ act_UserID actor); tid = act_TenantID actor; uid = act_UserID actor in
      try_op (kv_Get World_KV now key) (\<lambda>r.
      case r of
        Inr (Some (Text raw)) \<Rightarrow>
          (case Decrypt X raw (seedAD uid) of
             Inl _ \<Rightarrow> throw ErrNoPending
           | Inr secret \<Rightarrow>
               (case match X now secret code of
                  None \<Rightarrow> throw ErrInvalidCode
                | Some counter \<Rightarrow>
                    bind_op (on_db (Store_ListWebAuthnCredentials tid uid)) (\<lambda>keys.
                    seq_op (on_db (Store_SetMFA tid uid True raw))
                   (seq_op (on_db (Store_SetMFACounter tid uid counter))
                   (ignore_op (kv_Del World_KV now [key])
                   (bind_op (if keys = [] then regenerate X draws actor else ret []) (\<lambda>codes.
                    seq_op (emit (mfa_event ''mfa_enrolled'' actor)) (ret codes))))))))
      | _ \<Rightarrow> throw ErrNoPending))"

text \<open>The first stored hash the recovery code verifies against; unreadable hashes are skipped.\<close>

definition matching_hash :: "externals \<Rightarrow> string \<Rightarrow> string list \<Rightarrow> string option" where
  "matching_hash X norm = find (\<lambda>h. case VerifyPassword X norm h of Inl _ \<Rightarrow> False | Inr (ok, _) \<Rightarrow> ok)"

text \<open>The two ways a code is checked: digits are a one-time code, anything else a recovery code.\<close>

definition verify_otp :: "externals \<Rightarrow> time \<Rightarrow> string \<Rightarrow> string \<Rightarrow> user \<Rightarrow> string \<Rightarrow> (world, string) op" where
  "verify_otp X now tid uid u code =
     (if us_MFASecretEnc u = '''' then throw ErrInvalidCode
      else case Decrypt X (us_MFASecretEnc u) (seedAD uid) of
        Inl e \<Rightarrow> throw e
      | Inr secret \<Rightarrow>
          (case match X now secret code of
             None \<Rightarrow> throw ErrInvalidCode
           | Some counter \<Rightarrow>
               if counter \<le> us_MFALastCounter u then throw ErrInvalidCode
               else seq_op (on_db (Store_SetMFACounter tid uid counter)) (ret ''otp'')))"

definition verify_recovery :: "externals \<Rightarrow> string \<Rightarrow> string \<Rightarrow> string \<Rightarrow> (world, string) op" where
  "verify_recovery X tid uid code =
     (let norm = NormalizeRecovery X code in
      if norm = '''' then throw ErrInvalidCode
      else bind_op (on_db (Store_ListRecoveryCodeHashes tid uid)) (\<lambda>hashes.
        case matching_hash X norm hashes of
          None \<Rightarrow> throw ErrInvalidCode
        | Some h \<Rightarrow>
            try_op (on_db (Store_UseRecoveryCode tid uid h)) (\<lambda>r.
              case r of Inl _ \<Rightarrow> throw ErrInvalidCode | Inr _ \<Rightarrow> ret ''recovery'')))"

definition Verify :: "externals \<Rightarrow> time \<Rightarrow> string \<Rightarrow> string \<Rightarrow> string \<Rightarrow> (world, string) op" where
  "Verify X now tid uid code0 =
     try_op (on_db (Store_User tid uid)) (\<lambda>r.
     case r of
       Inl _ \<Rightarrow> throw ErrInvalidCode
     | Inr u \<Rightarrow>
         if \<not> us_MFAEnabled u then throw ErrNotEnrolled
         else let code = trim_space code0 in
           if isDigits code then verify_otp X now tid uid u code else verify_recovery X tid uid code)"

section \<open>Removing and adding factors\<close>

definition tenant_policy :: "tenant \<Rightarrow> policy result" where
  "tenant_policy t =
     (case ParsePolicy (tn_Policy t) (tn_Kind t = ''platform'') of
        (pol, Inl e) \<Rightarrow> Inl e | (pol, Inr _) \<Rightarrow> Inr pol)"

definition usableKeys :: "webauthn_credential list \<Rightarrow> nat" where
  "usableKeys keys = length (filter (\<lambda>k. wc_CloneFlaggedAt k = None) keys)"

definition clear :: "string \<Rightarrow> string \<Rightarrow> (world, unit) op" where
  "clear tid uid =
     seq_op (on_db (Store_SetMFA tid uid False '''')) (on_db (Store_ReplaceRecoveryCodes tid uid []))"

definition Disable :: "externals \<Rightarrow> time \<Rightarrow> actor \<Rightarrow> string \<Rightarrow> (world, unit) op" where
  "Disable X now actor code =
     (let tid = act_TenantID actor; uid = act_UserID actor in
      bind_op (on_db (Store_Tenant tid)) (\<lambda>t.
      bind_op (of_result (tenant_policy t)) (\<lambda>pol.
      bind_op (on_db (Store_ListWebAuthnCredentials tid uid)) (\<lambda>keys.
      seq_op (check_op (\<not> (MFARequired pol \<and> usableKeys keys = 0)) ErrRequired)
     (seq_op (Verify X now tid uid code)
     (seq_op (if keys \<noteq> [] then on_db (Store_SetMFA tid uid True '''') else clear tid uid)
        (emit (mfa_event ''mfa_removed'' actor))))))))"

definition Regenerate :: "externals \<Rightarrow> time \<Rightarrow> code_draws \<Rightarrow> actor \<Rightarrow> string \<Rightarrow> (world, string list) op" where
  "Regenerate X now draws actor code =
     seq_op (Verify X now (act_TenantID actor) (act_UserID actor) code)
    (bind_op (regenerate X draws actor) (\<lambda>codes.
     seq_op (emit (mfa_event ''recovery_codes_regenerated'' actor)) (ret codes)))"

record mfa_key =
  mk_ID :: string
  mk_Name :: string
  mk_CreatedAt :: time
  mk_LastUsedAt :: "time option"
  mk_Flagged :: bool

record mfa_state =
  mf_Enabled :: bool
  mf_TOTP :: bool
  mf_Keys :: "mfa_key list"
  mf_RecoveryCodesLeft :: nat
  mf_Required :: bool

definition Usable :: "mfa_state \<Rightarrow> nat" where
  "Usable st = (if mf_TOTP st then 1 else 0) + length (filter (\<lambda>k. \<not> mk_Flagged k) (mf_Keys st))"

definition State :: "string \<Rightarrow> string \<Rightarrow> (world, mfa_state) op" where
  "State tid uid =
     bind_op (on_db (Store_User tid uid)) (\<lambda>u.
     bind_op (on_db (Store_Tenant tid)) (\<lambda>t.
     bind_op (of_result (tenant_policy t)) (\<lambda>pol.
     bind_op (on_db (Store_ListWebAuthnCredentials tid uid)) (\<lambda>keys.
     bind_op (on_db (Store_ListRecoveryCodeHashes tid uid)) (\<lambda>codes.
     ret \<lparr>mf_Enabled = us_MFAEnabled u, mf_TOTP = (us_MFASecretEnc u \<noteq> ''''),
          mf_Keys = map (\<lambda>k. \<lparr>mk_ID = wc_ID k, mk_Name = wc_Name k, mk_CreatedAt = wc_CreatedAt k,
                             mk_LastUsedAt = wc_LastUsedAt k, mk_Flagged = (wc_CloneFlaggedAt k \<noteq> None)\<rparr>) keys,
          mf_RecoveryCodesLeft = length codes, mf_Required = MFARequired pol\<rparr>)))))"

definition Methods :: "string \<Rightarrow> string \<Rightarrow> (world, string list) op" where
  "Methods tid uid =
     bind_op (State tid uid) (\<lambda>st.
     ret ((if list_ex (\<lambda>k. \<not> mk_Flagged k) (mf_Keys st) then [''webauthn''] else [])
          @ (if mf_TOTP st then [''totp''] else [])
          @ (if mf_RecoveryCodesLeft st > 0 then [''recovery''] else [])))"

definition KeyAdded :: "externals \<Rightarrow> code_draws \<Rightarrow> actor \<Rightarrow> (world, string list) op" where
  "KeyAdded X draws actor =
     (let tid = act_TenantID actor; uid = act_UserID actor in
      bind_op (on_db (Store_User tid uid)) (\<lambda>u.
      bind_op (on_db (Store_ListWebAuthnCredentials tid uid)) (\<lambda>keys.
      seq_op (when_op (\<not> us_MFAEnabled u) (on_db (Store_SetMFA tid uid True (us_MFASecretEnc u))))
        (if us_MFASecretEnc u \<noteq> '''' \<or> length keys > 1 then ret [] else regenerate X draws actor))))"

definition KeyRemoved :: "actor \<Rightarrow> (world, unit) op" where
  "KeyRemoved actor =
     (let tid = act_TenantID actor; uid = act_UserID actor in
      bind_op (on_db (Store_User tid uid)) (\<lambda>u.
      bind_op (on_db (Store_ListWebAuthnCredentials tid uid)) (\<lambda>keys.
      if us_MFASecretEnc u \<noteq> '''' \<or> keys \<noteq> [] then ret () else clear tid uid)))"

definition GuardRemoval :: "string \<Rightarrow> string \<Rightarrow> string \<Rightarrow> (world, unit) op" where
  "GuardRemoval tid uid keyID =
     bind_op (State tid uid) (\<lambda>st.
     case find (\<lambda>k. mk_ID k = keyID) (mf_Keys st) of
       None \<Rightarrow> throw ErrNotFound
     | Some k \<Rightarrow> if \<not> mk_Flagged k \<and> mf_Required st \<and> Usable st \<le> 1 then throw ErrRequired else ret ())"

end
