(* ===== verification/Webauthn.thy ===== *)
theory Webauthn
  imports Mfa
begin

text \<open>
  Security keys: \<open>internal/webauthn/webauthn.go\<close>.  The WebAuthn library is a parameter: it parses
  responses, builds options and checks signatures; what it keeps between the two halves of a
  ceremony (its session data) is opaque.  The single-use ceremony records, the limits, clone flags
  and the removal rules are the service's own.
\<close>

section \<open>The library\<close>

text \<open>\<open>wa.Credential\<close> as far as the service reads and writes it; the signature counter has 32 bits.\<close>

record wa_credential =
  wa_ID :: string
  wa_PublicKey :: string
  wa_AAGUID :: string
  wa_SignCount :: int
  wa_Transport :: "string list"
  wa_BackupEligible :: bool
  wa_BackupState :: bool
  wa_CloneWarning :: bool

text \<open>The adapter \<open>user\<close>: handle, account name, label and credentials.\<close>

record wa_user =
  wu_handle :: "string option"
  wu_name :: string
  wu_label :: string
  wu_creds :: "wa_credential list"

text \<open>
  Parsed responses are opaque (the raw credential id of an assertion is read by the service).
  Options for the browser come with the library's session data.
\<close>

record webauthn_lib =
  wl_ParseCreation :: "string \<Rightarrow> string result"
  wl_ParseAssertion :: "string \<Rightarrow> (string \<times> string) result"
  wl_BeginRegistration :: "wa_user \<Rightarrow> (string \<times> string) result"
  wl_CreateCredential :: "wa_user \<Rightarrow> string \<Rightarrow> string \<Rightarrow> wa_credential result"
  wl_BeginLogin :: "wa_user \<Rightarrow> (string \<times> string) result"
  wl_ValidateLogin :: "wa_user \<Rightarrow> string \<Rightarrow> string \<times> string \<Rightarrow> wa_credential result"
  wl_ttl :: duration

section \<open>Limits and names\<close>

definition MaxKeys :: nat where "MaxKeys = 10"
definition MaxNameRunes :: nat where "MaxNameRunes = 64"
definition MaxResponseBytes :: int where "MaxResponseBytes = 64 * 1024"
definition MinCredentialID :: int where "MinCredentialID = 16"
definition MaxCredentialID :: int where "MaxCredentialID = 1023"
definition MaxPublicKey :: int where "MaxPublicKey = 2048"
definition MaxTransports :: int where "MaxTransports = 8"

definition purposeRegister :: string where "purposeRegister = ''reg''"
definition purposeSignin :: string where "purposeSignin = ''signin''"
definition purposeStepUp :: string where "purposeStepUp = ''stepup''"

definition ParseCreation :: "webauthn_lib \<Rightarrow> string \<Rightarrow> string result" where
  "ParseCreation L b = (if int (length b) > MaxResponseBytes then Inl ErrTooLarge else wl_ParseCreation L b)"

definition ParseAssertion :: "webauthn_lib \<Rightarrow> string \<Rightarrow> (string \<times> string) result" where
  "ParseAssertion L b = (if int (length b) > MaxResponseBytes then Inl ErrTooLarge else wl_ParseAssertion L b)"

text \<open>\<open>utf8.ValidString\<close>: no position decodes to the one-byte replacement character.\<close>

function utf8_valid :: "int list \<Rightarrow> bool" where
  "utf8_valid [] = True"
| "utf8_valid (a # bs) =
     (decode_rune (a # bs) \<noteq> (65533, 1) \<and> utf8_valid (drop (snd (decode_rune (a # bs))) (a # bs)))"
  by pat_completeness auto
termination
proof (relation "measure length")
  fix a bs show "(drop (snd (decode_rune (a # bs))) (a # bs), a # bs) \<in> measure length"
    using decode_rune_pos [of a bs] by simp
qed simp

definition IsControl :: "int \<Rightarrow> bool" where
  "IsControl r \<longleftrightarrow> (0 \<le> r \<and> r < 32) \<or> (127 \<le> r \<and> r < 160)"

definition NormalizeName :: "string \<Rightarrow> string result" where
  "NormalizeName name0 =
     (let name = trim_space name0; n = RuneCount name in
      if n = 0 \<or> n > MaxNameRunes \<or> \<not> utf8_valid (map of_char name) \<or> list_ex IsControl (runes name)
      then Inl ErrInvalidName else Inr name)"

section \<open>Rows and the library's view of them\<close>

definition credential :: "webauthn_credential \<Rightarrow> wa_credential" where
  "credential k =
     \<lparr>wa_ID = wc_CredentialID k, wa_PublicKey = wc_PublicKey k, wa_AAGUID = wc_AAGUID k,
      wa_SignCount = wc_SignCount k mod 2 ^ 32, wa_Transport = wc_Transports k,
      wa_BackupEligible = wc_BackupEligible k, wa_BackupState = wc_BackupState k, wa_CloneWarning = False\<rparr>"

definition newUser :: "user \<Rightarrow> string option \<Rightarrow> webauthn_credential list \<Rightarrow> wa_user" where
  "newUser u handle keys =
     \<lparr>wu_handle = handle, wu_name = us_Email u,
      wu_label = (if us_DisplayName u = '''' then us_Email u else us_DisplayName u),
      wu_creds = map credential keys\<rparr>"

definition usable :: "webauthn_credential list \<Rightarrow> webauthn_credential list" where
  "usable keys = filter (\<lambda>k. wc_CloneFlaggedAt k = None) keys"

definition View :: "webauthn_credential \<Rightarrow> mfa_key" where
  "View k = \<lparr>mk_ID = wc_ID k, mk_Name = wc_Name k, mk_CreatedAt = wc_CreatedAt k,
             mk_LastUsedAt = wc_LastUsedAt k, mk_Flagged = (wc_CloneFlaggedAt k \<noteq> None)\<rparr>"

section \<open>Ceremony records\<close>

definition save :: "webauthn_lib \<Rightarrow> time \<Rightarrow> string \<Rightarrow> ceremony \<Rightarrow> (world, unit) op" where
  "save L now subject c = kv_Set World_KV now (WebAuthnKey (ce_Purpose c) subject) (Doc (DCeremony c)) (wl_ttl L)"

text \<open>\<open>take\<close>: the record is consumed whether or not it fits; \<open>None\<close> is the \<open>false\<close> of the code.\<close>

definition take_ceremony :: "time \<Rightarrow> string \<Rightarrow> string \<Rightarrow> string \<Rightarrow> string \<Rightarrow> (world, ceremony option) op" where
  "take_ceremony now purpose subject tenantID userID =
     try_op (kv_GetDel World_KV now (WebAuthnKey purpose subject)) (\<lambda>r.
     case r of
       Inr (Some (Doc (DCeremony c))) \<Rightarrow>
         if ce_Purpose c = purpose \<and> ce_TenantID c = tenantID \<and> ce_UserID c = userID
         then ret (Some c) else ret None
     | _ \<Rightarrow> ret None)"

section \<open>Registration\<close>

definition BeginRegistration ::
    "externals \<Rightarrow> webauthn_lib \<Rightarrow> time \<Rightarrow> string option \<Rightarrow> actor \<Rightarrow> string \<Rightarrow> (world, string) op" where
  "BeginRegistration X L now candidate actor name0 =
     (let tid = act_TenantID actor; uid = act_UserID actor in
      bind_op (of_result (NormalizeName name0)) (\<lambda>name.
      bind_op (on_db (Store_User tid uid)) (\<lambda>u.
      bind_op (on_db (Store_ListWebAuthnCredentials tid uid)) (\<lambda>keys.
      if length keys \<ge> MaxKeys then throw ErrKeyLimit
      else if list_ex (\<lambda>k. ex_ef X (wc_Name k) name) keys then throw ErrNameTaken
      else case candidate of
        None \<Rightarrow> throw (ErrOther ''randomness unavailable'')
      | Some cand \<Rightarrow>
          bind_op (on_db (Store_EnsureWebAuthnHandle tid uid cand)) (\<lambda>handle.
          bind_op (of_result (wl_BeginRegistration L (newUser u (Some handle) keys))) (\<lambda>(creation, sess).
          seq_op (save L now uid \<lparr>ce_Purpose = purposeRegister, ce_TenantID = tid, ce_UserID = uid,
                                  ce_Name = name, ce_Session = sess\<rparr>)
            (ret creation)))))))"

record registered =
  re_Key :: mfa_key
  re_RecoveryCodes :: "string list"

definition credential_fits :: "wa_credential \<Rightarrow> bool" where
  "credential_fits c \<longleftrightarrow>
     MinCredentialID \<le> int (length (wa_ID c)) \<and> int (length (wa_ID c)) \<le> MaxCredentialID
     \<and> int (length (wa_PublicKey c)) \<le> MaxPublicKey \<and> int (length (wa_Transport c)) \<le> MaxTransports"

definition registration_row :: "string \<Rightarrow> actor \<Rightarrow> string \<Rightarrow> wa_credential \<Rightarrow> webauthn_credential" where
  "registration_row newID actor name cred =
     \<lparr>wc_ID = newID, wc_TenantID = act_TenantID actor, wc_UserID = act_UserID actor,
      wc_CredentialID = wa_ID cred, wc_PublicKey = wa_PublicKey cred, wc_AAGUID = wa_AAGUID cred,
      wc_SignCount = wa_SignCount cred, wc_Transports = wa_Transport cred,
      wc_BackupEligible = wa_BackupEligible cred, wc_BackupState = wa_BackupState cred, wc_Name = name,
      wc_CreatedAt = zero_time, wc_LastUsedAt = None, wc_CloneFlaggedAt = None\<rparr>"

definition insert_error :: "err \<Rightarrow> err" where
  "insert_error e =
     (if e = ErrCredentialExists then ErrAlreadyRegistered else if e = ErrConflict then ErrNameTaken else e)"

text \<open>Storing a verified credential: the row, then the shared second-factor state.\<close>

definition store_key ::
    "externals \<Rightarrow> time \<Rightarrow> code_draws \<Rightarrow> actor \<Rightarrow> webauthn_credential \<Rightarrow> (world, registered) op" where
  "store_key X now draws actor row =
     try_op (on_db (Store_InsertWebAuthnCredential (ex_ef X) now row)) (\<lambda>r.
     case r of
       Inl e \<Rightarrow> throw (insert_error e)
     | Inr _ \<Rightarrow>
         bind_op (KeyAdded X draws actor) (\<lambda>codes.
         seq_op (emit (event ''mfa_enrolled'' (act_TenantID actor) (act_Kind actor) (act_UserID actor)
                         ''webauthn_credential'' (wc_ID row) ''ok'' ''''))
           (ret \<lparr>re_Key = View (row\<lparr>wc_CreatedAt := now\<rparr>), re_RecoveryCodes = codes\<rparr>)))"

definition FinishRegistration ::
    "externals \<Rightarrow> webauthn_lib \<Rightarrow> time \<Rightarrow> string \<Rightarrow> code_draws \<Rightarrow> actor \<Rightarrow> string \<Rightarrow> (world, registered) op" where
  "FinishRegistration X L now newID draws actor response =
     (let tid = act_TenantID actor; uid = act_UserID actor in
      bind_op (take_ceremony now purposeRegister uid tid uid) (\<lambda>c.
      case (c, ParseCreation L response) of
        (Some c, Inr parsed) \<Rightarrow>
          bind_op (on_db (Store_User tid uid)) (\<lambda>u.
          bind_op (on_db (Store_WebAuthnHandle tid uid)) (\<lambda>handle.
          bind_op (on_db (Store_ListWebAuthnCredentials tid uid)) (\<lambda>keys.
          case wl_CreateCredential L (newUser u handle keys) (ce_Session c) parsed of
            Inl _ \<Rightarrow> throw ErrRegistrationFailed
          | Inr cred \<Rightarrow>
              if \<not> credential_fits cred then throw ErrRegistrationFailed
              else if length keys \<ge> MaxKeys then throw ErrKeyLimit
              else store_key X now draws actor (registration_row newID actor (ce_Name c) cred))))
      | _ \<Rightarrow> throw ErrRegistrationFailed))"

section \<open>Assertions\<close>

definition beginAssertion ::
    "webauthn_lib \<Rightarrow> time \<Rightarrow> string \<Rightarrow> string \<Rightarrow> string \<Rightarrow> string \<Rightarrow> (world, string) op" where
  "beginAssertion L now purpose subject tenantID userID =
     bind_op (on_db (Store_User tenantID userID)) (\<lambda>u.
     bind_op (on_db (Store_WebAuthnHandle tenantID userID)) (\<lambda>handle.
     bind_op (on_db (Store_ListWebAuthnCredentials tenantID userID)) (\<lambda>keys.
     case wl_BeginLogin L (newUser u handle (usable keys)) of
       Inl _ \<Rightarrow> throw ErrNoKeys
     | Inr (assertion, sess) \<Rightarrow>
         seq_op (save L now subject \<lparr>ce_Purpose = purpose, ce_TenantID = tenantID, ce_UserID = userID,
                                     ce_Name = '''', ce_Session = sess\<rparr>)
           (ret assertion))))"

text \<open>The loop over the keys keeps the last match; no match is the zero row.\<close>

definition asserted_key :: "webauthn_credential list \<Rightarrow> string \<Rightarrow> webauthn_credential option" where
  "asserted_key keys rawID = find (\<lambda>k. wc_CredentialID k = rawID) (rev keys)"

definition key_id :: "webauthn_credential option \<Rightarrow> string" where
  "key_id k = (case k of None \<Rightarrow> '''' | Some k \<Rightarrow> wc_ID k)"

definition key_flagged :: "webauthn_credential option \<Rightarrow> bool" where
  "key_flagged k = (case k of None \<Rightarrow> False | Some k \<Rightarrow> wc_CloneFlaggedAt k \<noteq> None)"

text \<open>After the library accepted an assertion: a clone warning flags the key, anything else is recorded as a use.\<close>

definition record_use ::
    "time \<Rightarrow> string \<Rightarrow> string \<Rightarrow> string \<Rightarrow> wa_credential \<Rightarrow> (world, unit) op" where
  "record_use now tenantID userID keyID cred =
     (if wa_CloneWarning cred then
        seq_op (on_db (Store_FlagWebAuthnClone now tenantID keyID))
       (seq_op (emit (event ''mfa_clone_suspected'' tenantID ''user'' userID ''webauthn_credential'' keyID
                        ''refused'' ''counter_regression''))
          (throw ErrKeyFlagged))
      else on_db (Store_UpdateWebAuthnUse now tenantID keyID (wa_SignCount cred) (wa_BackupState cred)))"

text \<open>The part of \<open>finishAssertion\<close> after the response was parsed.\<close>

definition validate_assertion ::
    "webauthn_lib \<Rightarrow> time \<Rightarrow> string \<Rightarrow> string \<Rightarrow> string \<Rightarrow> string \<times> string \<Rightarrow> (world, unit) op" where
  "validate_assertion L now tenantID userID session parsed =
     bind_op (on_db (Store_User tenantID userID)) (\<lambda>u.
     bind_op (on_db (Store_WebAuthnHandle tenantID userID)) (\<lambda>handle.
     bind_op (on_db (Store_ListWebAuthnCredentials tenantID userID)) (\<lambda>keys.
     let key = asserted_key keys (fst parsed) in
     if key_flagged key then throw ErrKeyFlagged
     else case wl_ValidateLogin L (newUser u handle (usable keys)) session parsed of
       Inl _ \<Rightarrow> throw ErrAssertionFailed
     | Inr cred \<Rightarrow> record_use now tenantID userID (key_id key) cred)))"

definition finishAssertion ::
    "webauthn_lib \<Rightarrow> time \<Rightarrow> string \<Rightarrow> string \<Rightarrow> string \<Rightarrow> string \<Rightarrow> string \<Rightarrow> (world, unit) op" where
  "finishAssertion L now purpose subject tenantID userID response =
     bind_op (take_ceremony now purpose subject tenantID userID) (\<lambda>c.
     case c of
       None \<Rightarrow> throw ErrAssertionFailed
     | Some c \<Rightarrow>
         (case ParseAssertion L response of
            Inl _ \<Rightarrow> throw ErrAssertionFailed
          | Inr parsed \<Rightarrow> validate_assertion L now tenantID userID (ce_Session c) parsed))"

definition SigninOptions :: "webauthn_lib \<Rightarrow> time \<Rightarrow> string \<Rightarrow> string \<Rightarrow> string \<Rightarrow> (world, string) op" where
  "SigninOptions L now ref tenantID userID = beginAssertion L now purposeSignin ref tenantID userID"

definition VerifySignin :: "webauthn_lib \<Rightarrow> time \<Rightarrow> string \<Rightarrow> string \<Rightarrow> string \<Rightarrow> string \<Rightarrow> (world, unit) op" where
  "VerifySignin L now ref tenantID userID response = finishAssertion L now purposeSignin ref tenantID userID response"

definition StepUpOptions :: "webauthn_lib \<Rightarrow> time \<Rightarrow> actor \<Rightarrow> (world, string) op" where
  "StepUpOptions L now actor =
     beginAssertion L now purposeStepUp (act_UserID actor) (act_TenantID actor) (act_UserID actor)"

section \<open>Renaming and removal\<close>

definition Rename :: "externals \<Rightarrow> actor \<Rightarrow> string \<Rightarrow> string \<Rightarrow> (world, mfa_key) op" where
  "Rename X actor ident name0 =
     (let tid = act_TenantID actor; uid = act_UserID actor in
      bind_op (of_result (NormalizeName name0)) (\<lambda>name.
      try_op (on_db (Store_RenameWebAuthnCredential (ex_ef X) tid uid ident name)) (\<lambda>r.
      case r of
        Inl e \<Rightarrow> throw (if e = ErrConflict then ErrNameTaken else e)
      | Inr _ \<Rightarrow>
          bind_op (on_db (Store_ListWebAuthnCredentials tid uid)) (\<lambda>keys.
          case find (\<lambda>k. wc_ID k = ident) keys of None \<Rightarrow> throw ErrNotFound | Some k \<Rightarrow> ret (View k)))))"

record confirmation =
  cf_Code :: string
  cf_Credential :: string

text \<open>The policy of \<open>failed\<close>: the default one unless the tenant's can be read and parsed.\<close>

definition policy_or_default :: "tenant result \<Rightarrow> policy" where
  "policy_or_default r =
     (case r of Inl _ \<Rightarrow> DefaultPolicy
      | Inr t \<Rightarrow> (case tenant_policy t of Inl _ \<Rightarrow> DefaultPolicy | Inr pol \<Rightarrow> pol))"

definition failed :: "time \<Rightarrow> actor \<Rightarrow> (world, unit) op" where
  "failed now actor =
     (let tid = act_TenantID actor; uid = act_UserID actor in
      try_op (on_db (Store_Tenant tid)) (\<lambda>r.
      let pol = policy_or_default r in
      seq_op (emit (event ''mfa_removed'' tid (act_Kind actor) uid '''' '''' ''refused'' ''confirmation_failed''))
     (try_op (Count World_KV now (RateKey ''fail'' uid) (LockoutDuration pol)) (\<lambda>n.
      when_op ((case n of Inl _ \<Rightarrow> 0 | Inr n \<Rightarrow> n) \<ge> LockoutThreshold pol)
        (ignore_op (Lock World_KV now uid (LockoutDuration pol))
           (emit (event ''lockout'' tid (act_Kind actor) uid '''' '''' ''refused'' ''mfa_failures'')))))))"

text \<open>A confirmation: a code, or a key assertion; neither fails.\<close>

definition confirm ::
    "externals \<Rightarrow> webauthn_lib \<Rightarrow> time \<Rightarrow> actor \<Rightarrow> confirmation \<Rightarrow> (world, unit) op" where
  "confirm X L now actor conf =
     (if cf_Code conf \<noteq> ''''
      then seq_op (Verify X now (act_TenantID actor) (act_UserID actor) (cf_Code conf)) (ret ())
      else if cf_Credential conf \<noteq> ''''
      then finishAssertion L now purposeStepUp (act_UserID actor) (act_TenantID actor) (act_UserID actor)
             (cf_Credential conf)
      else throw ErrConfirmationFailed)"

text \<open>\<open>Remove\<close> from the confirmation on.\<close>

definition remove_confirmed ::
    "externals \<Rightarrow> webauthn_lib \<Rightarrow> time \<Rightarrow> actor \<Rightarrow> string \<Rightarrow> confirmation \<Rightarrow> (world, unit) op" where
  "remove_confirmed X L now actor ident conf =
     try_op (confirm X L now actor conf) (\<lambda>c.
     case c of
       Inl _ \<Rightarrow> ignore_op (failed now actor) (throw ErrConfirmationFailed)
     | Inr _ \<Rightarrow>
         seq_op (on_db (Store_DeleteWebAuthnCredential (act_TenantID actor) (act_UserID actor) ident))
        (seq_op (KeyRemoved actor)
           (emit (event ''mfa_removed'' (act_TenantID actor) (act_Kind actor) (act_UserID actor)
                    ''webauthn_credential'' ident ''ok'' ''user''))))"

definition Remove ::
    "externals \<Rightarrow> webauthn_lib \<Rightarrow> time \<Rightarrow> actor \<Rightarrow> string \<Rightarrow> confirmation \<Rightarrow> (world, unit) op" where
  "Remove X L now actor ident conf =
     try_op (GuardRemoval (act_TenantID actor) (act_UserID actor) ident) (\<lambda>g.
     case g of
       Inl e \<Rightarrow> throw (if e = ErrRequired then ErrLastFactor else e)
     | Inr _ \<Rightarrow>
         try_op (Locked World_KV now (act_UserID actor)) (\<lambda>locked.
         if locked = Inr True then throw ErrKeysLocked else remove_confirmed X L now actor ident conf))"

end
