(* ===== verification/Signin.thy ===== *)
theory Signin
  imports Session_Manager Webauthn
begin

text \<open>
  Sign-in: \<open>internal/user/signin.go\<close>.  Step one checks the password and either creates a session or
  leaves a challenge in the cache; step two completes a challenge with a code or a security key.
  The timing pad has no effect on the result and is not modelled; fresh tokens, identifiers and
  salts are arguments.  \<open>wiring\<close> says which optional collaborators the service was given.
\<close>

section \<open>Requests and results\<close>

definition IPWindow :: duration where "IPWindow = 10 * minute"
definition IPLimit :: int where "IPLimit = 60"
definition AccountWindow :: duration where "AccountWindow = 10 * minute"
definition AccountLimit :: int where "AccountLimit = 20"
definition ChallengeTTL :: duration where "ChallengeTTL = 5 * minute"

record wiring =
  wi_mfa :: bool
  wi_methods :: bool
  wi_keys :: bool

record signin_input =
  in_TenantSlug :: string
  in_Email :: string
  in_Password :: string
  in_IP :: string
  in_UserAgent :: string

record signin_result =
  sr_MFARequired :: bool
  sr_Challenge :: string
  sr_MFAMethods :: "string list"
  sr_Session :: "session option"
  sr_Secret :: string
  sr_Roles :: "string list"
  sr_MFASetupRequired :: bool

definition zero_tenant :: tenant where
  "zero_tenant = \<lparr>tn_ID = '''', tn_Slug = '''', tn_DisplayName = '''', tn_Status = '''', tn_Kind = '''',
     tn_Policy = NoBytes, tn_CreatedAt = zero_time, tn_UpdatedAt = zero_time\<rparr>"

text \<open>The draws of a request: session id, session secret, challenge token, salt of a rehash.\<close>

record draws =
  dr_ID :: string
  dr_Secret :: "string option"
  dr_Challenge :: "string option"
  dr_Salt :: "string option"

definition HashIP :: "externals \<Rightarrow> string \<Rightarrow> string" where
  "HashIP X ip = HashToken X (''ip:'' @ ip)"

definition HashEmail :: "externals \<Rightarrow> string \<Rightarrow> string" where
  "HashEmail X email = HashToken X (''email:'' @ to_lower (ex_ul X) (trim_space email))"

section \<open>Step one\<close>

definition lookup_tenant :: "externals \<Rightarrow> string \<Rightarrow> string \<Rightarrow> (world, tenant) op" where
  "lookup_tenant X given email =
     (if trim_space given \<noteq> '''' then
        (case ParseSlug given of Inl e \<Rightarrow> throw e | Inr slug \<Rightarrow> on_db (Store_TenantBySlug slug))
      else
        (case SlugFromEmail (ex_ul X) (ex_etld1 X) email of
           Inl _ \<Rightarrow> on_db Store_SoleTenant
         | Inr slug \<Rightarrow>
             try_op (on_db (Store_TenantBySlug slug)) (\<lambda>r.
               if r = Inl ErrNotFound then on_db Store_SoleTenant else of_result r)))"

definition attempt_op :: "string \<Rightarrow> string \<Rightarrow> string \<Rightarrow> string \<Rightarrow> string \<Rightarrow> string \<Rightarrow> (world, unit) op" where
  "attempt_op tid uid emailHash ipHash out reason =
     ignore_op (on_db (Store_Attempt tid uid emailHash ipHash out reason)) (ret ())"

text \<open>\<open>n, err := Count (...)\<close> with \<open>err == nil && n > limit\<close>.\<close>

definition over_limit :: "time \<Rightarrow> string \<Rightarrow> duration \<Rightarrow> int \<Rightarrow> (world, bool) op" where
  "over_limit now key window limit =
     try_op (Count World_KV now key window) (\<lambda>r. ret (case r of Inl _ \<Rightarrow> False | Inr n \<Rightarrow> n > limit))"

definition is_locked :: "time \<Rightarrow> string \<Rightarrow> (world, bool) op" where
  "is_locked now uid = try_op (Locked World_KV now uid) (\<lambda>r. ret (r = Inr True))"

text \<open>The account a request names: the tenant (zero when unknown) and the user, if known to sign-in.\<close>

definition find_account :: "externals \<Rightarrow> string \<Rightarrow> string \<Rightarrow> (world, tenant \<times> user option) op" where
  "find_account X slug email =
     try_op (lookup_tenant X slug email) (\<lambda>t.
     case t of
       Inl _ \<Rightarrow> ret (zero_tenant, None)
     | Inr t \<Rightarrow>
         try_op (on_db (Store_UserByEmail (ex_ul X) (tn_ID t) email)) (\<lambda>u.
         case u of
           Inl _ \<Rightarrow> ret (t, None)
         | Inr u \<Rightarrow> ret (t, if us_Status u = ''imported'' then None else Some u)))"

definition fail_count :: "time \<Rightarrow> string \<Rightarrow> policy \<Rightarrow> (world, int) op" where
  "fail_count now uid pol =
     try_op (Count World_KV now (RateKey ''fail'' uid) (LockoutDuration pol)) (\<lambda>r.
       ret (case r of Inl _ \<Rightarrow> 0 | Inr n \<Rightarrow> n))"

definition failure ::
    "time \<Rightarrow> tenant \<Rightarrow> user \<Rightarrow> policy \<Rightarrow> string \<Rightarrow> string \<Rightarrow> string \<Rightarrow> (world, 'a) op" where
  "failure now t u pol emailHash ipHash reason =
     bind_op (fail_count now (us_ID u) pol) (\<lambda>n.
     if n \<ge> LockoutThreshold pol then
       ignore_op (Lock World_KV now (us_ID u) (LockoutDuration pol))
      (seq_op (emit (event ''lockout'' (tn_ID t) ''user'' (us_ID u) '''' '''' ''refused'' ''threshold''))
      (seq_op (attempt_op (tn_ID t) (us_ID u) emailHash ipHash ''refused'' ''locked'')
      (seq_op (emit (event ''signin_failed'' (tn_ID t) ''user'' (us_ID u) '''' '''' ''refused'' reason))
         (throw ErrInvalidCredentials))))
     else
       seq_op (attempt_op (tn_ID t) (us_ID u) emailHash ipHash ''refused'' reason)
      (seq_op (emit (event ''signin_failed'' (tn_ID t) ''user'' (us_ID u) '''' '''' ''refused'' reason))
         (throw ErrInvalidCredentials)))"

definition establish ::
    "externals \<Rightarrow> time \<Rightarrow> draws \<Rightarrow> challenge \<Rightarrow> string list \<Rightarrow> string \<Rightarrow> (world, signin_result) op" where
  "establish X now dr c amr emailHash =
     bind_op (Create X now (dr_ID dr) (dr_Secret dr)
       \<lparr>cp_TenantID = ch_TenantID c, cp_UserID = ch_UserID c, cp_Roles = ch_Roles c, cp_AMR = amr,
        cp_Operator = ch_Operator c, cp_IPHash = ch_IPHash c, cp_UserAgent = ch_UserAgent c,
        cp_Policy = ch_Policy c\<rparr>) (\<lambda>(sess, secret).
     ignore_op (on_db (Store_TouchSignin now (ch_TenantID c) (ch_UserID c)))
    (seq_op (attempt_op (ch_TenantID c) (ch_UserID c) emailHash (ch_IPHash c) ''ok'' '''')
    (seq_op (emit (event ''signin_ok'' (ch_TenantID c) ''user'' (ch_UserID c) ''session'' (ss_ID sess) ''ok'' ''''))
       (ret \<lparr>sr_MFARequired = False, sr_Challenge = '''', sr_MFAMethods = [], sr_Session = Some sess,
            sr_Secret = secret, sr_Roles = ch_Roles c, sr_MFASetupRequired = False\<rparr>))))"

definition mfaMethods :: "wiring \<Rightarrow> string \<Rightarrow> string \<Rightarrow> (world, string list) op" where
  "mfaMethods wi tid uid =
     bind_op (if wi_methods wi
              then try_op (Methods tid uid) (\<lambda>r. ret (case r of Inl _ \<Rightarrow> [''webauthn'', ''totp'', ''recovery''] | Inr m \<Rightarrow> m))
              else ret [''webauthn'', ''totp'', ''recovery'']) (\<lambda>all.
     ret (if wi_keys wi then all else filter (\<lambda>m. m \<noteq> ''webauthn'') all))"

text \<open>What step one does once the credentials and both statuses are in order.\<close>

definition admit_account ::
    "externals \<Rightarrow> wiring \<Rightarrow> time \<Rightarrow> draws \<Rightarrow> signin_input \<Rightarrow> tenant \<Rightarrow> user \<Rightarrow> policy \<Rightarrow> bool \<Rightarrow> string \<Rightarrow> string
     \<Rightarrow> (world, signin_result) op" where
  "admit_account X wi now dr inp t u pol rehash emailHash ipHash =
     ignore_op (kv_Del World_KV now [RateKey ''fail'' (us_ID u)])
    (ignore_op
       (if rehash then
          (case Hash X (dr_Salt dr) (in_Password inp) of
             Inl _ \<Rightarrow> ret () | Inr h \<Rightarrow> on_db (Store_SetPasswordHash (tn_ID t) (us_ID u) h))
        else ret ())
    (bind_op (on_db (Store_Roles (tn_ID t) (us_ID u))) (\<lambda>roles.
     let c = \<lparr>ch_TenantID = tn_ID t, ch_UserID = us_ID u, ch_IPHash = ipHash, ch_UserAgent = in_UserAgent inp,
              ch_Roles = roles, ch_Operator = (tn_Kind t = ''platform''), ch_Policy = pol\<rparr> in
     if us_MFAEnabled u then
       (case dr_Challenge dr of
          None \<Rightarrow> throw (ErrOther ''randomness unavailable'')
        | Some ident \<Rightarrow>
            seq_op (kv_Set World_KV now (ChallengeKey (HashToken X ident)) (Doc (DChallenge c)) ChallengeTTL)
           (seq_op (attempt_op (tn_ID t) (us_ID u) emailHash ipHash ''ok'' ''mfa_pending'')
           (bind_op (mfaMethods wi (tn_ID t) (us_ID u)) (\<lambda>methods.
            ret \<lparr>sr_MFARequired = True, sr_Challenge = ident, sr_MFAMethods = methods, sr_Session = None,
                 sr_Secret = '''', sr_Roles = [], sr_MFASetupRequired = False\<rparr>))))
     else
       bind_op (establish X now dr c [''pwd''] emailHash) (\<lambda>res.
       ret (res\<lparr>sr_MFASetupRequired := (MFARequired pol \<and> \<not> us_MFAEnabled u)\<rparr>)))))"

text \<open>The checks of a known account that is not locked, in the order of the code.\<close>

definition check_account ::
    "externals \<Rightarrow> wiring \<Rightarrow> time \<Rightarrow> draws \<Rightarrow> signin_input \<Rightarrow> tenant \<Rightarrow> user \<Rightarrow> string \<Rightarrow> string
     \<Rightarrow> (world, signin_result) op" where
  "check_account X wi now dr inp t u emailHash ipHash =
     (let (ok, rehash) = Password_Verify X (in_Password inp)
            (case us_PasswordHash u of None \<Rightarrow> '''' | Some h \<Rightarrow> h);
          pol = fst (ParsePolicy (tn_Policy t) (tn_Kind t = ''platform''))
      in
      if \<not> ok then failure now t u pol emailHash ipHash ''wrong_password''
      else if tn_Status t \<noteq> ''active'' then failure now t u pol emailHash ipHash ''tenant_suspended''
      else if us_Status u \<noteq> ''active'' then failure now t u pol emailHash ipHash (''user_'' @ us_Status u)
      else admit_account X wi now dr inp t u pol rehash emailHash ipHash)"

text \<open>Step one for the account found: unknown accounts and locked ones are refused.\<close>

definition refuse_unknown :: "tenant \<Rightarrow> string \<Rightarrow> string \<Rightarrow> (world, signin_result) op" where
  "refuse_unknown t emailHash ipHash =
     seq_op (attempt_op (tn_ID t) '''' emailHash ipHash ''refused'' ''unknown_account'')
    (seq_op (when_op (tn_ID t \<noteq> '''')
       (emit (event ''signin_failed'' (tn_ID t) ''user'' '''' '''' '''' ''refused'' ''unknown_account'')))
       (throw ErrInvalidCredentials))"

definition try_account ::
    "externals \<Rightarrow> wiring \<Rightarrow> time \<Rightarrow> draws \<Rightarrow> signin_input \<Rightarrow> tenant \<Rightarrow> user option \<Rightarrow> string \<Rightarrow> string
     \<Rightarrow> (world, signin_result) op" where
  "try_account X wi now dr inp t known emailHash ipHash =
     (case known of
        None \<Rightarrow> refuse_unknown t emailHash ipHash
      | Some u \<Rightarrow>
          bind_op (is_locked now (us_ID u)) (\<lambda>locked.
          if locked then
            seq_op (attempt_op (tn_ID t) (us_ID u) emailHash ipHash ''refused'' ''locked'')
           (seq_op (emit (event ''signin_failed'' (tn_ID t) ''user'' (us_ID u) '''' '''' ''refused'' ''locked''))
              (throw ErrLocked))
          else check_account X wi now dr inp t u emailHash ipHash))"

definition Start :: "externals \<Rightarrow> wiring \<Rightarrow> time \<Rightarrow> draws \<Rightarrow> signin_input \<Rightarrow> (world, signin_result) op" where
  "Start X wi now dr inp =
     (let email = to_lower (ex_ul X) (trim_space (in_Email inp));
          ipHash = HashIP X (in_IP inp); emailHash = HashEmail X email in
      bind_op (over_limit now (RateKey ''signin_ip'' ipHash) IPWindow IPLimit) (\<lambda>over.
      if over then
        seq_op (attempt_op '''' '''' emailHash ipHash ''refused'' ''rate_limited'') (throw ErrRateLimited)
      else
        bind_op (find_account X (in_TenantSlug inp) email) (\<lambda>(t, known).
        bind_op (over_limit now (RateKey ''signin_acct'' (tn_ID t @ '':'' @ emailHash)) AccountWindow AccountLimit) (\<lambda>over.
        if over then
          seq_op (attempt_op (tn_ID t) (case known of None \<Rightarrow> '''' | Some u \<Rightarrow> us_ID u) emailHash ipHash
                    ''refused'' ''rate_limited'') (throw ErrRateLimited)
        else try_account X wi now dr inp t known emailHash ipHash))))"

section \<open>Step two\<close>

definition pending :: "externals \<Rightarrow> time \<Rightarrow> string \<Rightarrow> (world, challenge \<times> string) op" where
  "pending X now challengeID =
     (let key = ChallengeKey (HashToken X challengeID) in
      try_op (kv_Get World_KV now key) (\<lambda>r.
      case r of
        Inr (Some (Doc (DChallenge c))) \<Rightarrow>
          if challengeID = '''' then throw ErrInvalidCredentials else ret (c, key)
      | _ \<Rightarrow> throw ErrInvalidCredentials))"

text \<open>A failed second step: the shared failure counter and lockout, which also ends the challenge.\<close>

definition second_step_failed ::
    "externals \<Rightarrow> time \<Rightarrow> challenge \<Rightarrow> string \<Rightarrow> string \<Rightarrow> err \<Rightarrow> (world, 'a) op" where
  "second_step_failed X now c key ip e =
     bind_op (fail_count now (ch_UserID c) (ch_Policy c)) (\<lambda>n.
     let over = (n \<ge> LockoutThreshold (ch_Policy c)); reason = (if over then ''locked'' else ''mfa_failed'') in
     seq_op (when_op over
       (ignore_op (Lock World_KV now (ch_UserID c) (LockoutDuration (ch_Policy c)))
       (ignore_op (kv_Del World_KV now [key])
          (emit (event ''lockout'' (ch_TenantID c) ''user'' (ch_UserID c) '''' '''' ''refused'' ''mfa_failures'')))))
    (seq_op (attempt_op (ch_TenantID c) (ch_UserID c) '''' (HashIP X ip) ''refused'' reason)
    (seq_op (emit (event ''signin_failed'' (ch_TenantID c) ''user'' (ch_UserID c) '''' '''' ''refused'' reason))
       (throw (if e = ErrKeyFlagged then ErrKeyFlagged else ErrInvalidCredentials)))))"

definition complete ::
    "externals \<Rightarrow> time \<Rightarrow> draws \<Rightarrow> string \<Rightarrow> string \<Rightarrow> string \<Rightarrow> (challenge \<Rightarrow> (world, string) op)
     \<Rightarrow> (world, signin_result) op" where
  "complete X now dr challengeID ip ua verify =
     bind_op (pending X now challengeID) (\<lambda>(c, key).
     bind_op (is_locked now (ch_UserID c)) (\<lambda>locked.
     if locked then throw ErrLocked
     else try_op (verify c) (\<lambda>r.
       case r of
         Inl e \<Rightarrow> second_step_failed X now c key ip e
       | Inr meth \<Rightarrow>
           ignore_op (kv_Del World_KV now [key])
          (ignore_op (kv_Del World_KV now [RateKey ''fail'' (ch_UserID c)])
             (establish X now dr (c\<lparr>ch_IPHash := HashIP X ip, ch_UserAgent := ua\<rparr>) [''pwd'', meth] '''')))))"

definition verify_code :: "externals \<Rightarrow> wiring \<Rightarrow> time \<Rightarrow> string \<Rightarrow> challenge \<Rightarrow> (world, string) op" where
  "verify_code X wi now code c =
     (if wi_mfa wi then Verify X now (ch_TenantID c) (ch_UserID c) code else throw ErrInvalidCredentials)"

definition CompleteMFA ::
    "externals \<Rightarrow> wiring \<Rightarrow> time \<Rightarrow> draws \<Rightarrow> string \<Rightarrow> string \<Rightarrow> string \<Rightarrow> string \<Rightarrow> (world, signin_result) op" where
  "CompleteMFA X wi now dr challengeID code ip ua = complete X now dr challengeID ip ua (verify_code X wi now code)"

definition WebAuthnOptions ::
    "externals \<Rightarrow> webauthn_lib \<Rightarrow> wiring \<Rightarrow> time \<Rightarrow> string \<Rightarrow> (world, string) op" where
  "WebAuthnOptions X L wi now challengeID =
     bind_op (pending X now challengeID) (\<lambda>(c, key).
     bind_op (is_locked now (ch_UserID c)) (\<lambda>locked.
     if locked then throw ErrLocked
     else bind_op (over_limit now (RateKey ''webauthn_options'' (ch_UserID c)) AccountWindow AccountLimit) (\<lambda>over.
     if over then throw ErrRateLimited
     else if \<not> wi_keys wi then throw ErrInvalidCredentials
     else try_op (SigninOptions L now (HashToken X challengeID) (ch_TenantID c) (ch_UserID c)) (\<lambda>r.
       if r = Inl ErrNoKeys then throw ErrInvalidCredentials else of_result r))))"

definition verify_key ::
    "externals \<Rightarrow> webauthn_lib \<Rightarrow> wiring \<Rightarrow> time \<Rightarrow> string \<Rightarrow> string \<Rightarrow> challenge \<Rightarrow> (world, string) op" where
  "verify_key X L wi now challengeID response c =
     (if wi_keys wi
      then seq_op (VerifySignin L now (HashToken X challengeID) (ch_TenantID c) (ch_UserID c) response) (ret ''hwk'')
      else throw ErrInvalidCredentials)"

definition CompleteWebAuthn ::
    "externals \<Rightarrow> webauthn_lib \<Rightarrow> wiring \<Rightarrow> time \<Rightarrow> draws \<Rightarrow> string \<Rightarrow> string \<Rightarrow> string \<Rightarrow> string
     \<Rightarrow> (world, signin_result) op" where
  "CompleteWebAuthn X L wi now dr challengeID response ip ua =
     complete X now dr challengeID ip ua (verify_key X L wi now challengeID response)"

end
