(* ===== verification/Webauthn_Safety.thy ===== *)
theory Webauthn_Safety
  imports Webauthn Mfa_Safety Session_Safety
begin

text \<open>
  Security keys, under every pattern of store and cache outages: an assertion is accepted only
  against a ceremony record that it uses up, only for a key that is not flagged as cloned; and under
  a policy that requires a second factor no removal takes the last usable one.
\<close>

section \<open>Ceremonies are used once\<close>

definition ceremony_for :: "time \<Rightarrow> string \<Rightarrow> string \<Rightarrow> string \<Rightarrow> string \<Rightarrow> world \<Rightarrow> ceremony \<Rightarrow> bool" where
  "ceremony_for now purpose subject tid uid w c \<longleftrightarrow>
     sees w now (WebAuthnKey purpose subject) = Some (Doc (DCeremony c))
     \<and> ce_Purpose c = purpose \<and> ce_TenantID c = tid \<and> ce_UserID c = uid"

lemma wp_take_ceremony:
  "wp (take_ceremony now purpose subject tid uid)
     (\<lambda>r w'. db w' = db w \<and>
        (case r of Inl _ \<Rightarrow> False | Inr None \<Rightarrow> True
         | Inr (Some c) \<Rightarrow> ceremony_for now purpose subject tid uid w c
             \<and> (\<forall>t \<ge> now. sees w' t (WebAuthnKey purpose subject) = None))) w"
  unfolding take_ceremony_def wp_simps
  by (rule wp_mono [OF kv_GetDel_db])
    (auto simp: wp_simps ceremony_for_def outcome_def view_del_def same_from_def
       split: sum.split option.split kv_value.split doc.split)

text \<open>What an accepted assertion has behind it.\<close>

definition assertion_checked ::
    "webauthn_lib \<Rightarrow> string \<Rightarrow> string \<Rightarrow> memstore \<Rightarrow> string \<Rightarrow> string \<Rightarrow> bool" where
  "assertion_checked L tid uid m session response \<longleftrightarrow>
     (\<exists>u handle parsed cred.
        factor tid uid m = Some u \<and> ParseAssertion L response = Inr parsed
        \<and> \<not> key_flagged (asserted_key (keysOf tid uid m) (fst parsed))
        \<and> wl_ValidateLogin L (newUser u handle (usable (keysOf tid uid m))) session parsed = Inr cred
        \<and> \<not> wa_CloneWarning cred)"



lemma wp_record_use:
  "wp (record_use now tid uid kid cred) (\<lambda>r w'. sees w' = sees w \<and> (r = Inr () \<longrightarrow> \<not> wa_CloneWarning cred)) w"
  unfolding record_use_def wp_simps
  by (auto intro!: wp_mono [OF on_db_sees] simp: wp_simps split: sum.split)

lemma wp_validate_assertion:
  assumes p: "ParseAssertion L response = Inr parsed"
  shows "wp (validate_assertion L now tid uid session parsed)
     (\<lambda>r w'. sees w' = sees w \<and> (r = Inr () \<longrightarrow> assertion_checked L tid uid (db w) session response)) w"
  unfolding validate_assertion_def
proof (rule wp_bind_read [OF reads_User]; (rule wp_bind_read [OF reads_Handle]; (rule wp_bind_read [OF reads_Keys])?)?)
  fix u handle keys fs1 fs2 fs3
  assume u: "found (map_option snd (userByID tid uid (db w))) = Inr u"
    and k: "Inr (keysOf tid uid (db (w\<lparr>faults := fs1, faults := fs2\<rparr>))) = Inr keys"
  then have "factor tid uid (db w) = Some u" "keys = keysOf tid uid (db w)" by (simp_all add: factor_def)
  then show "wp (let key = asserted_key keys (fst parsed) in
       if key_flagged key then throw ErrKeyFlagged
       else case wl_ValidateLogin L (newUser u handle (usable keys)) session parsed of
         Inl _ \<Rightarrow> throw ErrAssertionFailed
       | Inr cred \<Rightarrow> record_use now tid uid (key_id key) cred)
     (\<lambda>r w'. sees w' = sees w \<and> (r = Inr () \<longrightarrow> assertion_checked L tid uid (db w) session response))
     (w\<lparr>faults := fs1, faults := fs2, faults := fs3\<rparr>)"
    unfolding Let_def wp_simps using p
    by (auto simp: assertion_checked_def intro!: wp_mono [OF wp_record_use] split: sum.split)
qed auto

lemma wp_finishAssertion:
  "wp (finishAssertion L now purpose subject tid uid response)
     (\<lambda>r w'. r = Inr () \<longrightarrow>
        (\<exists>c. ceremony_for now purpose subject tid uid w c \<and> assertion_checked L tid uid (db w) (ce_Session c) response)
        \<and> (\<forall>t \<ge> now. sees w' t (WebAuthnKey purpose subject) = None)) w"
  unfolding finishAssertion_def wp_simps
  by (rule wp_mono [OF wp_take_ceremony])
    (auto simp: wp_simps intro!: wp_mono [OF wp_validate_assertion] split: sum.split option.split)

text \<open>
  C31: a security-key step is accepted only with a live ceremony of its own and uses it up.  When an
  assertion is accepted, then (whatever calls failed) there was a ceremony record for this purpose,
  tenant and user, the library accepted the response for the keys that are not flagged, the key that
  answered is not flagged and raised no clone warning; and from then on the record is gone, so that
  the same response is refused until new options are requested.
\<close>

theorem assertion_single_use:
  assumes "finishAssertion L now purpose subject tid uid response w = (Inr (), w')"
  shows "(\<exists>c. ceremony_for now purpose subject tid uid w c
              \<and> assertion_checked L tid uid (db w) (ce_Session c) response)
    \<and> (\<forall>t \<ge> now. \<exists>e. fst (finishAssertion L t purpose subject tid uid response' w') = Inl e)"
proof -
  from wp_elim [OF wp_finishAssertion assms]
  have a: "\<exists>c. ceremony_for now purpose subject tid uid w c \<and> assertion_checked L tid uid (db w) (ce_Session c) response"
    and gone: "\<And>t. now \<le> t \<Longrightarrow> sees w' t (WebAuthnKey purpose subject) = None" by auto
  have "\<exists>e. fst (finishAssertion L t purpose subject tid uid response' w') = Inl e" if "now \<le> t" for t
  proof (cases "fst (finishAssertion L t purpose subject tid uid response' w')")
    case (Inr u)
    then obtain w2 where "finishAssertion L t purpose subject tid uid response' w' = (Inr (), w2)"
      by (cases "finishAssertion L t purpose subject tid uid response' w'") auto
    from wp_elim [OF wp_finishAssertion this] gone [OF that] show ?thesis by (auto simp: ceremony_for_def)
  qed blast
  with a show ?thesis by blast
qed


definition demo_lib :: webauthn_lib where
  "demo_lib =
     \<lparr>wl_ParseCreation = Inr, wl_ParseAssertion = (\<lambda>s. Inr (s, s)), wl_BeginRegistration = (\<lambda>u. Inr (''opts'', ''sess'')),
      wl_CreateCredential = (\<lambda>u s p. Inl (ErrOther ''none'')), wl_BeginLogin = (\<lambda>u. Inr (''opts'', ''sess'')),
      wl_ValidateLogin = (\<lambda>u s p. case find (\<lambda>c. wa_ID c = fst p) (wu_creds u) of
          Some c \<Rightarrow> Inr (c\<lparr>wa_SignCount := wa_SignCount c + 1\<rparr>) | None \<Rightarrow> Inl (ErrOther ''no such key'')),
      wl_ttl = minute\<rparr>"

definition demo_key :: webauthn_credential where
  "demo_key = \<lparr>wc_ID = ''k1'', wc_TenantID = ''t1'', wc_UserID = ''u1'', wc_CredentialID = ''cred'', wc_PublicKey = ''pub'',
     wc_AAGUID = '''', wc_SignCount = 3, wc_Transports = [], wc_BackupEligible = False, wc_BackupState = False,
     wc_Name = ''key'', wc_CreatedAt = 0, wc_LastUsedAt = None, wc_CloneFlaggedAt = None\<rparr>"

definition demo_key_world :: world where
  "demo_key_world = demo_mfa_world\<lparr>db := (db demo_mfa_world)\<lparr>wa_keys := [(''t1/u1'', [demo_key])]\<rparr>\<rparr>"

definition demo_ceremony_world :: world where
  "demo_ceremony_world = snd (SigninOptions demo_lib 0 ''ref'' ''t1'' ''u1'' demo_key_world)"

theorem assertion_single_use_witness:
  "\<exists>w'. finishAssertion demo_lib second purposeSignin ''ref'' ''t1'' ''u1'' ''cred'' demo_ceremony_world = (Inr (), w')
     \<and> (\<exists>e. fst (finishAssertion demo_lib second purposeSignin ''ref'' ''t1'' ''u1'' ''cred'' w') = Inl e)"
proof -
  have "fst (finishAssertion demo_lib second purposeSignin ''ref'' ''t1'' ''u1'' ''cred'' demo_ceremony_world) = Inr ()"
    by code_simp
  then obtain w' where w': "finishAssertion demo_lib second purposeSignin ''ref'' ''t1'' ''u1'' ''cred'' demo_ceremony_world = (Inr (), w')"
    by (cases "finishAssertion demo_lib second purposeSignin ''ref'' ''t1'' ''u1'' ''cred'' demo_ceremony_world") simp
  from assertion_single_use [OF w', of "''cred''"]
  have "\<exists>e. fst (finishAssertion demo_lib second purposeSignin ''ref'' ''t1'' ''u1'' ''cred'' w') = Inl e" by blast
  with w' show ?thesis by (intro exI [of _ w'] conjI)
qed

section \<open>The last factor\<close>

text \<open>The part of the tables that decides which factors an account has.\<close>

definition key_marks :: "webauthn_credential list \<Rightarrow> (string \<times> time option) list" where
  "key_marks ks = map (\<lambda>k. (wc_ID k, wc_CloneFlaggedAt k)) ks"

definition factors :: "string \<Rightarrow> string \<Rightarrow> memstore \<Rightarrow> string option \<times> (string \<times> time option) list \<times> tenant option" where
  "factors tid uid m =
     (map_option us_MFASecretEnc (factor tid uid m), key_marks (keysOf tid uid m), map_of (Tenants m) tid)"

definition usable_factors :: "string \<Rightarrow> string \<Rightarrow> memstore \<Rightarrow> nat" where
  "usable_factors tid uid m =
     (case factor tid uid m of None \<Rightarrow> 0 | Some u \<Rightarrow> if us_MFASecretEnc u \<noteq> '''' then 1 else 0)
     + usableKeys (keysOf tid uid m)"

definition mfa_required :: "string \<Rightarrow> memstore \<Rightarrow> bool" where
  "mfa_required tid m =
     (case map_of (Tenants m) tid of None \<Rightarrow> False
      | Some t \<Rightarrow> (case tenant_policy t of Inl _ \<Rightarrow> False | Inr pol \<Rightarrow> MFARequired pol))"

lemma usableKeys_marks: "usableKeys ks = length (filter (\<lambda>(_, f). f = None) (key_marks ks))"
  by (simp add: usableKeys_def key_marks_def filter_map comp_def)

lemma usable_factors_alt:
  "usable_factors tid uid m =
     (case fst (factors tid uid m) of None \<Rightarrow> 0 | Some s \<Rightarrow> if s \<noteq> '''' then 1 else 0)
     + length (filter (\<lambda>(_, f). f = None) (fst (snd (factors tid uid m))))"
  by (simp add: usable_factors_def factors_def usableKeys_marks split: option.split)

lemma usable_factors_cong: "factors tid uid m = factors tid uid m' \<Longrightarrow> usable_factors tid uid m = usable_factors tid uid m'"
  by (simp add: usable_factors_alt)

lemma verified_factors:
  assumes "verified X now tid uid code m r m'" "users_ok m"
  shows "factors t i m' = factors t i m \<and> users_ok m'"
proof -
  from assms(1) obtain e where e: "m' = apply_effect tid uid e m" by (auto simp: verified_def)
  have "map_option us_MFASecretEnc (factor t i m') = map_option us_MFASecretEnc (factor t i m)"
    unfolding e factor_effect [OF assms(2)] by (auto simp: option.map_comp comp_def split: verify_effect.split)
  moreover have "wa_keys m' = wa_keys m" "Tenants m' = Tenants m"
    unfolding e by (cases e; auto simp: mfa_writes with_user_def put_user_def Store_UseRecoveryCode_def split: option.split)+
  ultimately show ?thesis using users_ok_effect [OF assms(2)] by (simp add: factors_def keysOf_def e)
qed

lemma get_list_Cons: "get_list ((k, l) # t) k' = (if k' = k then l else get_list t k')"
  by (simp add: get_list_def)

lemma update_first_map:
  "update_first P f l = Some l' \<Longrightarrow> (\<And>x. g (f x) = g x) \<Longrightarrow> map g l' = map g l"
  by (induction l arbitrary: l') (auto split: if_splits)

lemma updateKey_rows_map:
  assumes "updateKey_rows owns ident f t = Some t'" "\<And>k. g (f k) = g k"
  shows "map g (get_list t' own) = map g (get_list t own)"
  using assms(1)
proof (induction t arbitrary: t')
  case (Cons x t)
  obtain k l where x: "x = (k, l)" by force
  show ?case
  proof (cases "if owns k then update_first (\<lambda>k. wc_ID k = ident) f l else None")
    case None
    with Cons.prems x obtain t1 where "updateKey_rows owns ident f t = Some t1" "t' = (k, l) # t1"
      by (auto split: if_splits)
    with Cons.IH x show ?thesis by (simp add: get_list_Cons)
  next
    case (Some l1)
    with Cons.prems x have "t' = (k, l1) # t" by (auto split: if_splits)
    moreover from Some have "update_first (\<lambda>k. wc_ID k = ident) f l = Some l1" by (auto split: if_splits)
    then have "map g l1 = map g l" by (rule update_first_map) (rule assms(2))
    ultimately show ?thesis using x by (simp add: get_list_Cons)
  qed
qed simp

lemma factors_use:
  "factors t i (snd (Store_UpdateWebAuthnUse now tid ident n b m)) = factors t i m
   \<and> users_ok (snd (Store_UpdateWebAuthnUse now tid ident n b m)) = users_ok m"
proof -
  have "key_marks (keysOf t i m') = key_marks (keysOf t i m)"
    if "updateKey_rows owns ident (\<lambda>k. k\<lparr>wc_SignCount := n, wc_BackupState := b, wc_LastUsedAt := Some now\<rparr>) (wa_keys m) = Some rows"
      "m' = m\<lparr>wa_keys := rows\<rparr>" for owns rows m'
    using updateKey_rows_map [OF that(1), of "\<lambda>k. (wc_ID k, wc_CloneFlaggedAt k)"] that(2)
    by (simp add: key_marks_def keysOf_def)
  then show ?thesis
    by (auto simp: Store_UpdateWebAuthnUse_def updateKey_def factors_def factor_def userByID_def users_ok_def split: option.split)
qed


definition same_factors :: "memstore \<Rightarrow> memstore \<Rightarrow> bool" where
  "same_factors m m' \<longleftrightarrow> (\<forall>t i. factors t i m' = factors t i m) \<and> (users_ok m \<longrightarrow> users_ok m')"

lemma same_factors_refl [simp]: "same_factors m m"
  by (simp add: same_factors_def)

lemma wp_record_use_factors:
  "wp (record_use now tid uid kid cred) (\<lambda>r w'. r = Inr () \<longrightarrow> same_factors (db w) (db w')) w"
  unfolding record_use_def wp_simps
  using factors_use
  by (auto intro!: wp_db_fs simp: wp_simps same_factors_def split: sum.split)

lemma wp_finishAssertion_factors:
  "wp (finishAssertion L now purpose subject tid uid response)
     (\<lambda>r w'. r = Inr () \<longrightarrow> same_factors (db w) (db w')) w"
proof -
  have v: "wp (validate_assertion L now tid uid session parsed) (\<lambda>r w'. r = Inr () \<longrightarrow> same_factors d (db w')) w1"
    if "db w1 = d" for d session parsed w1
    unfolding validate_assertion_def
    by (rule wp_bind_read [OF reads_User]; (rule wp_bind_read [OF reads_Handle]; (rule wp_bind_read [OF reads_Keys])?)?)
      (use that in \<open>auto simp: Let_def wp_simps intro!: wp_mono [OF wp_record_use_factors] split: sum.split\<close>)
  show ?thesis
    unfolding finishAssertion_def wp_simps
    by (rule wp_mono [OF wp_take_ceremony])
      (auto simp: wp_simps intro!: v split: sum.split option.split)
qed

lemma wp_confirm:
  assumes "users_ok (db w)"
  shows "wp (confirm X L now actor conf) (\<lambda>r w'. r = Inr () \<longrightarrow> same_factors (db w) (db w')) w"
proof -
  have "wp (Verify X now (act_TenantID actor) (act_UserID actor) (cf_Code conf))
      (\<lambda>r w'. same_factors (db w) (db w')) w"
    by (rule wp_mono [OF Verify_spec]) (use verified_factors assms in \<open>auto simp: same_factors_def\<close>)
  then show ?thesis
    unfolding confirm_def
    by (auto simp: wp_simps wp_finishAssertion_factors split: sum.split elim!: wp_mono)
qed

lemma wp_State:
  "wp (State tid uid) (\<lambda>r w'. db w' = db w \<and> (\<forall>st. r = Inr st \<longrightarrow>
      mf_Keys st = map View (keysOf tid uid (db w)) \<and> mf_Required st = mfa_required tid (db w)
      \<and> Usable st = usable_factors tid uid (db w))) w"
  unfolding State_def
  by (intro read_intros)
    (auto simp: wp_simps View_def mfa_required_def Usable_def usable_factors_def usableKeys_def factor_def
       filter_map comp_def)

lemma find_map_View: "find (\<lambda>k. mk_ID k = kid) (map View ks) = map_option View (find (\<lambda>k. wc_ID k = kid) ks)"
  by (induction ks) (auto simp: View_def)

lemma wp_GuardRemoval:
  "wp (GuardRemoval tid uid kid) (\<lambda>r w'. db w' = db w \<and> (r = Inr () \<longrightarrow>
      (\<exists>k. find (\<lambda>k. wc_ID k = kid) (keysOf tid uid (db w)) = Some k
         \<and> (wc_CloneFlaggedAt k \<noteq> None \<or> \<not> mfa_required tid (db w) \<or> 1 < usable_factors tid uid (db w))))) w"
  unfolding GuardRemoval_def wp_simps
  by (rule wp_mono [OF wp_State])
    (auto simp: wp_simps find_map_View View_def split: sum.split option.split)

lemma remove_first_marks:
  assumes "remove_first (\<lambda>k. wc_ID k = kid) ks = Some ks'" "find (\<lambda>k. wc_ID k = kid) ks = Some k"
  shows "usableKeys ks = usableKeys ks' + (if wc_CloneFlaggedAt k = None then 1 else 0)"
  using assms by (induction ks arbitrary: ks') (auto simp: usableKeys_def split: if_splits)

lemma find_marks:
  "key_marks ks' = key_marks ks \<Longrightarrow> find (\<lambda>k. wc_ID k = kid) ks = Some k \<Longrightarrow>
     \<exists>k'. find (\<lambda>k. wc_ID k = kid) ks' = Some k' \<and> wc_CloneFlaggedAt k' = wc_CloneFlaggedAt k"
  by (induction ks arbitrary: ks') (auto simp: key_marks_def Cons_eq_map_conv split: if_splits)

text \<open>Deleting a key takes away one usable factor, or none when the key was flagged.\<close>

lemma delete_usable:
  assumes "find (\<lambda>k. wc_ID k = kid) (keysOf tid uid m) = Some k"
    and "wc_CloneFlaggedAt k \<noteq> None \<and> 0 < usable_factors tid uid m \<or> 1 < usable_factors tid uid m"
  shows "0 < usable_factors tid uid (snd (Store_DeleteWebAuthnCredential tid uid kid m))"
proof (cases "remove_first (\<lambda>k. wc_ID k = kid) (keysOf tid uid m)")
  case None
  with assms(2) show ?thesis by (auto simp: Store_DeleteWebAuthnCredential_def)
next
  case (Some l)
  let ?m = "m\<lparr>wa_keys := AList.update (pair_key tid uid) l (wa_keys m)\<rparr>"
  have "factor tid uid ?m = factor tid uid m" "keysOf tid uid ?m = l"
    by (simp_all add: factor_def userByID_def keysOf_def get_list_def)
  moreover note remove_first_marks [OF Some assms(1)]
  ultimately have "usable_factors tid uid m = usable_factors tid uid ?m + (if wc_CloneFlaggedAt k = None then 1 else 0)"
    by (simp add: usable_factors_def)
  with assms(2) Some show ?thesis by (auto simp: Store_DeleteWebAuthnCredential_def split: if_splits)
qed

text \<open>With a usable factor left nothing is cleared.\<close>

lemma wp_KeyRemoved:
  assumes "0 < usable_factors (act_TenantID actor) (act_UserID actor) (db w)"
  shows "wp (KeyRemoved actor) (\<lambda>r w'. db w' = db w) w"
  unfolding KeyRemoved_def Let_def
  by (intro read_intros) (use assms in \<open>auto simp: wp_simps usable_factors_def usableKeys_def factor_def\<close>)


lemma keeps_Locked: "keeps (\<lambda>w. P (db w)) (Locked World_KV now uid)"
  unfolding Locked_def by (intro keeps_intros keeps_World_KV)

lemma Locked_db: "wp (Locked World_KV now uid) (\<lambda>r w'. db w' = db w) w"
  using keeps_wp [OF keeps_Locked [of "\<lambda>d. d = db w"], of w] by simp

lemma wp_delete_key:
  assumes "find (\<lambda>k. wc_ID k = kid) (keysOf (act_TenantID actor) (act_UserID actor) (db w)) = Some k"
    and "wc_CloneFlaggedAt k \<noteq> None \<and> 0 < usable_factors (act_TenantID actor) (act_UserID actor) (db w)
       \<or> 1 < usable_factors (act_TenantID actor) (act_UserID actor) (db w)"
  shows "wp (seq_op (on_db (Store_DeleteWebAuthnCredential (act_TenantID actor) (act_UserID actor) kid))
      (seq_op (KeyRemoved actor) (emit e)))
    (\<lambda>r w'. 0 < usable_factors (act_TenantID actor) (act_UserID actor) (db w')) w"
proof -
  let ?U = "usable_factors (act_TenantID actor) (act_UserID actor)"
  have "0 < ?U (snd (Store_DeleteWebAuthnCredential (act_TenantID actor) (act_UserID actor) kid (db w)))" "0 < ?U (db w)"
    using delete_usable [OF assms] assms(2) by auto
  then show ?thesis
    unfolding wp_simps
    by (intro wp_db_fs) (auto intro!: wp_mono [OF wp_KeyRemoved] split: sum.split)
qed

lemma wp_remove_confirmed:
  assumes "users_ok (db w)" "0 < usable_factors (act_TenantID actor) (act_UserID actor) (db w)"
    and k: "find (\<lambda>k. wc_ID k = ident) (keysOf (act_TenantID actor) (act_UserID actor) (db w)) = Some k"
      "wc_CloneFlaggedAt k \<noteq> None \<or> 1 < usable_factors (act_TenantID actor) (act_UserID actor) (db w)"
  shows "wp (remove_confirmed X L now actor ident conf) (\<lambda>r w'. r \<noteq> Inl ErrConfirmationFailed \<longrightarrow>
      0 < usable_factors (act_TenantID actor) (act_UserID actor) (db w')) w"
  unfolding remove_confirmed_def wp_try
proof (rule wp_mono [OF wp_confirm [OF assms(1)]])
  let ?t = "act_TenantID actor" and ?u = "act_UserID actor"
  let ?del = "seq_op (on_db (Store_DeleteWebAuthnCredential ?t ?u ident)) (seq_op (KeyRemoved actor)
      (emit (event ''mfa_removed'' ?t (act_Kind actor) ?u ''webauthn_credential'' ident ''ok'' ''user'')))"
  fix c :: "unit result" and w1 :: world
  assume c: "c = Inr () \<longrightarrow> same_factors (db w) (db w1)"
  show "wp (case c of Inl _ \<Rightarrow> ignore_op (failed now actor) (throw ErrConfirmationFailed) | Inr _ \<Rightarrow> ?del)
      (\<lambda>r w'. r \<noteq> Inl ErrConfirmationFailed \<longrightarrow> 0 < usable_factors ?t ?u (db w')) w1"
  proof (cases c)
    case (Inl e1)
    then show ?thesis by (simp only: sum.case wp_simps) (simp add: wp_iff)
  next
    case (Inr x)
    with c have f: "factors ?t ?u (db w1) = factors ?t ?u (db w)" by (simp add: same_factors_def)
    then have "key_marks (keysOf ?t ?u (db w1)) = key_marks (keysOf ?t ?u (db w))" by (simp add: factors_def)
    from find_marks [OF this k(1)] obtain k1 where k1: "find (\<lambda>k. wc_ID k = ident) (keysOf ?t ?u (db w1)) = Some k1"
      "wc_CloneFlaggedAt k1 = wc_CloneFlaggedAt k" by blast
    have "wp ?del (\<lambda>r w'. 0 < usable_factors ?t ?u (db w')) w1"
      using wp_delete_key [OF k1(1)] k(2) k1(2) assms(2) usable_factors_cong [OF f] by auto
    then show ?thesis using Inr by (auto elim: wp_mono)
  qed
qed

lemma wp_Remove:
  assumes "users_ok (db w)" "mfa_required (act_TenantID actor) (db w)"
    and "0 < usable_factors (act_TenantID actor) (act_UserID actor) (db w)"
  shows "wp (Remove X L now actor ident conf) (\<lambda>r w'. r \<noteq> Inl ErrConfirmationFailed \<longrightarrow>
      0 < usable_factors (act_TenantID actor) (act_UserID actor) (db w')) w"
  unfolding Remove_def wp_try
  by (rule wp_mono [OF wp_GuardRemoval])
    (use assms in \<open>auto simp: wp_simps intro!: wp_mono [OF Locked_db] wp_remove_confirmed split: sum.split\<close>)

lemma wp_Disable:
  assumes "users_ok (db w)" "mfa_required (act_TenantID actor) (db w)"
    and "0 < usable_factors (act_TenantID actor) (act_UserID actor) (db w)"
  shows "wp (Disable X now actor code) (\<lambda>r w'. 0 < usable_factors (act_TenantID actor) (act_UserID actor) (db w')) w"
proof -
  let ?t = "act_TenantID actor" and ?u = "act_UserID actor"
  have set: "0 < usable_factors ?t ?u (snd (Store_SetMFA ?t ?u True '''' m))"
    if "factors ?t ?u m = factors ?t ?u (db w)" "usableKeys (keysOf ?t ?u (db w)) \<noteq> 0" for m
  proof -
    have "usableKeys (keysOf ?t ?u m) \<noteq> 0" using that by (simp add: factors_def usableKeys_marks)
    moreover have "keysOf ?t ?u (snd (Store_SetMFA ?t ?u True '''' m)) = keysOf ?t ?u m"
      by (auto simp: mfa_writes with_user_def put_user_def keysOf_def split: option.split)
    ultimately show ?thesis by (simp add: usable_factors_def)
  qed
  have rest: "wp (seq_op (Verify X now ?t ?u code)
       (seq_op (on_db (Store_SetMFA ?t ?u True '''')) (emit e)))
      (\<lambda>r w'. 0 < usable_factors ?t ?u (db w')) (w\<lparr>faults := fs\<rparr>)"
    if "usableKeys (keysOf ?t ?u (db w)) \<noteq> 0" for e fs
  proof -
    have ok: "0 < usable_factors ?t ?u (db w1) \<and> 0 < usable_factors ?t ?u (snd (Store_SetMFA ?t ?u True '''' (db w1)))"
      if "verified X now ?t ?u code (db w) r (db w1)" for r w1
      using verified_factors [OF that assms(1)] usable_factors_cong [of ?t ?u "db w1" "db w"] assms(3)
        set [of "db w1"] \<open>usableKeys (keysOf ?t ?u (db w)) \<noteq> 0\<close> by simp
    show ?thesis
      unfolding wp_simps
      by (rule wp_mono [OF Verify_spec]) (auto intro!: wp_db_fs dest!: ok split: sum.split)
  qed
  show ?thesis
    unfolding Disable_def Let_def
    by (intro read_intros)
      (use assms(2,3) rest in \<open>auto simp: mfa_required_def usableKeys_def check_op_def wp_seq [of "ret _"] wp_seq [of "throw _"] wp_ret wp_throw\<close>)
qed


definition demo_required_world :: world where
  "demo_required_world = demo_key_world\<lparr>db := (db demo_key_world)\<lparr>Tenants := [(''t1'', demo_tenant\<lparr>tn_Kind := ''platform''\<rparr>)]\<rparr>\<rparr>"

definition demo_user_actor :: actor where
  "demo_user_actor = no_actor\<lparr>act_Kind := ''user'', act_UserID := ''u1'', act_TenantID := ''t1''\<rparr>"

text \<open>
  C32: under a policy that requires a second factor, nobody is left without one.  If the account has
  a usable factor (an authenticator app, or a key that is not flagged as cloned), then after
  \<open>Disable\<close>, and after \<open>Remove\<close> with any outcome but a failed confirmation, it still has one,
  whatever calls failed on the way.  (A failed confirmation removes nothing, but the assertion it
  rests on may have flagged a cloned key.)
\<close>

theorem last_factor_stays:
  assumes "users_ok (db w)" "mfa_required (act_TenantID actor) (db w)"
    and "0 < usable_factors (act_TenantID actor) (act_UserID actor) (db w)"
  shows "0 < usable_factors (act_TenantID actor) (act_UserID actor) (db (snd (Disable X now actor code w)))
    \<and> (fst (Remove X L now actor ident conf w) = Inl ErrConfirmationFailed
       \<or> 0 < usable_factors (act_TenantID actor) (act_UserID actor) (db (snd (Remove X L now actor ident conf w))))"
  using wp_Disable [OF assms, of X now code] wp_Remove [OF assms, of X L now ident conf] by (auto simp: wp_iff)

theorem last_factor_stays_witness:
  "fst (Remove demo_X demo_lib (100 * minute) demo_user_actor ''k1'' \<lparr>cf_Code = ''123456'', cf_Credential = ''''\<rparr> demo_required_world)
     = Inr ()
   \<and> fst (Disable demo_X (100 * minute) demo_user_actor ''123456'' demo_required_world) = Inr ()
   \<and> 0 < usable_factors ''t1'' ''u1'' (db (snd (Disable demo_X (100 * minute) demo_user_actor ''123456'' demo_required_world)))
   \<and> 0 < usable_factors ''t1'' ''u1'' (db (snd (Remove demo_X demo_lib (100 * minute) demo_user_actor ''k1''
          \<lparr>cf_Code = ''123456'', cf_Credential = ''''\<rparr> demo_required_world)))"
proof -
  have r: "fst (Remove demo_X demo_lib (100 * minute) demo_user_actor ''k1'' \<lparr>cf_Code = ''123456'', cf_Credential = ''''\<rparr> demo_required_world)
     = Inr ()" by code_simp
  have d: "fst (Disable demo_X (100 * minute) demo_user_actor ''123456'' demo_required_world) = Inr ()" by code_simp
  have a: "act_TenantID demo_user_actor = ''t1''" "act_UserID demo_user_actor = ''u1''"
    by (simp_all add: demo_user_actor_def)
  have "users_ok (db demo_required_world)" "mfa_required ''t1'' (db demo_required_world)"
    "0 < usable_factors ''t1'' ''u1'' (db demo_required_world)"
    by code_simp+
  from last_factor_stays [of demo_required_world demo_user_actor, unfolded a, OF this,
      where X = demo_X and L = demo_lib and now = "100 * minute" and code = "''123456''" and ident = "''k1''"
        and conf = "\<lparr>cf_Code = ''123456'', cf_Credential = ''''\<rparr>"] r d
  show ?thesis by simp
qed

end
