(* ===== verification/Signin_Safety.thy ===== *)
theory Signin_Safety
  imports Signin Webauthn_Safety
begin

text \<open>
  No session without authentication: in every run of sign-in requests, with any failures of the
  store and the cache, a session row belongs to an account whose password was presented while the
  account and its tenant were active, and, when the account asks for a second step, whose second
  factor was verified too.  The proof is one invariant: \<open>guarded\<close> bounds the session rows and the
  pending challenges by what a ghost log of successful checks allows.
\<close>

section \<open>The invariant and what keeps it\<close>

definition guarded ::
    "(string \<Rightarrow> string \<Rightarrow> string list \<Rightarrow> bool) \<Rightarrow> (string \<Rightarrow> string \<Rightarrow> bool) \<Rightarrow> time \<Rightarrow> world \<Rightarrow> bool" where
  "guarded S C now w \<longleftrightarrow>
     (\<forall>s \<in> snd ` set (Sessions (db w)). S (ss_TenantID s) (ss_UserID s) (ss_AMR s))
     \<and> (\<forall>t k c. now \<le> t \<longrightarrow> sees w t (ChallengeKey k) = Some (Doc (DChallenge c)) \<longrightarrow> C (ch_TenantID c) (ch_UserID c))"

named_theorems guarded_intros \<open>operations that keep the sign-in invariant\<close>

lemma guardedI:
  assumes "\<And>s. s \<in> snd ` set (Sessions (db w)) \<Longrightarrow> S (ss_TenantID s) (ss_UserID s) (ss_AMR s)"
    and "\<And>t k c. now \<le> t \<Longrightarrow> sees w t (ChallengeKey k) = Some (Doc (DChallenge c)) \<Longrightarrow> C (ch_TenantID c) (ch_UserID c)"
  shows "guarded S C now w"
  using assms unfolding guarded_def by (intro conjI ballI allI impI)

lemma guarded_session:
  "guarded S C now w \<Longrightarrow> s \<in> snd ` set (Sessions (db w)) \<Longrightarrow> S (ss_TenantID s) (ss_UserID s) (ss_AMR s)"
  unfolding guarded_def by (drule conjunct1) (erule bspec)

lemma guarded_challenge:
  assumes "guarded S C now w" "now \<le> t" "sees w t (ChallengeKey k) = Some (Doc (DChallenge c))"
  shows "C (ch_TenantID c) (ch_UserID c)"
  using assms(1) [unfolded guarded_def, THEN conjunct2, rule_format, OF assms(2,3)] .

lemma guarded_later: "guarded S C now w \<Longrightarrow> now \<le> t \<Longrightarrow> guarded S C t w"
  by (rule guardedI) (erule (1) guarded_session, erule guarded_challenge, rule order_trans)

lemma guarded_mono:
  assumes g: "guarded S C now w" and "\<And>a b c. S a b c \<Longrightarrow> S' a b c" "\<And>a b. C a b \<Longrightarrow> C' a b"
  shows "guarded S' C' now w"
  by (rule guardedI) (rule assms(2), erule guarded_session [OF g], rule assms(3), erule (1) guarded_challenge [OF g])

text \<open>Only the rows and the visible challenges matter.\<close>

lemma guarded_weaken:
  assumes g: "guarded S C now w" and "Sessions (db w') = Sessions (db w)"
    and c: "\<And>t k c. now \<le> t \<Longrightarrow> sees w' t (ChallengeKey k) = Some (Doc (DChallenge c))
           \<Longrightarrow> sees w t (ChallengeKey k) = Some (Doc (DChallenge c))"
  shows "guarded S C now w'"
proof (rule guardedI)
  fix s assume "s \<in> snd ` set (Sessions (db w'))"
  then show "S (ss_TenantID s) (ss_UserID s) (ss_AMR s)" using guarded_session [OF g] assms(2) by simp
next
  fix t k c assume "now \<le> t" "sees w' t (ChallengeKey k) = Some (Doc (DChallenge c))"
  then show "C (ch_TenantID c) (ch_UserID c)" using guarded_challenge [OF g \<open>now \<le> t\<close> assms(3)] by blast
qed

lemma guarded_db:
  assumes "\<And>d. Sessions (snd (m d)) = Sessions d"
  shows "keeps (guarded S C now) (on_db m)"
  by (rule keepsI, rule wp_db_fs) (auto simp: assms elim!: guarded_weaken)

lemma guarded_emit [guarded_intros]: "keeps (guarded S C now) (emit e)"
  by (rule keepsI) (auto elim!: guarded_weaken)

lemma guarded_kv:
  assumes "\<And>w. wp m (\<lambda>r w'. \<forall>t k c. now \<le> t \<longrightarrow> sees w' t (ChallengeKey k) = Some (Doc (DChallenge c))
      \<longrightarrow> sees w t (ChallengeKey k) = Some (Doc (DChallenge c))) w"
    and "\<And>P. keeps (\<lambda>w. P (db w)) m"
  shows "keeps (guarded S C now) m"
proof (rule keepsI)
  fix w assume "guarded S C now w"
  then show "wp m (\<lambda>_. guarded S C now) w"
    by (intro wp_mono [OF wp_and_db [OF assms]]) (auto elim!: guarded_weaken)
qed

lemma outcome_point: "outcome now old upd new r \<Longrightarrow> now \<le> t \<Longrightarrow> new t k = upd t k \<or> new t k = old t k"
  by (auto simp: outcome_def same_from_def)

text \<open>A cache call whose update shows no challenge that was not there.\<close>

lemma guarded_outcome:
  assumes "\<And>w. wp m (\<lambda>r w'. outcome now (sees w) (upd (sees w)) (sees w') r \<and> R r w w') w"
    and "\<And>P. keeps (\<lambda>w. P (db w)) m"
    and "\<And>f t x c. upd f t (ChallengeKey x) = Some (Doc (DChallenge c)) \<Longrightarrow> f t (ChallengeKey x) = Some (Doc (DChallenge c))"
  shows "keeps (guarded S C now) m"
proof (rule guarded_kv [OF wp_mono [OF assms(1)] assms(2)])
  fix w r w'
  assume o: "outcome now (sees w) (upd (sees w)) (sees w') r \<and> R r w w'"
  have "sees w' t (ChallengeKey k) = upd (sees w) t (ChallengeKey k) \<or> sees w' t (ChallengeKey k) = sees w t (ChallengeKey k)"
    if "now \<le> t" for t k using outcome_point [OF conjunct1 [OF o] that] .
  with assms(3) show "\<forall>t k c. now \<le> t \<longrightarrow> sees w' t (ChallengeKey k) = Some (Doc (DChallenge c))
      \<longrightarrow> sees w t (ChallengeKey k) = Some (Doc (DChallenge c))"
    by metis
qed

lemma guarded_Get [guarded_intros]: "keeps (guarded S C now) (kv_Get World_KV now k)"
  by (rule guarded_outcome [where upd = "\<lambda>f. f", OF wkv.Get keeps_World_KV(1)])

lemma guarded_GetDel [guarded_intros]: "keeps (guarded S C now) (kv_GetDel World_KV now k)"
  by (rule guarded_outcome [where upd = "view_del [k]", OF wkv.GetDel keeps_World_KV(2)])
    (simp add: view_del_def split: if_splits)

lemma guarded_Del [guarded_intros]: "keeps (guarded S C now) (kv_Del World_KV now ks)"
  by (rule guarded_outcome [where upd = "view_del ks" and R = "\<lambda>_ _ _. True", OF _ keeps_World_KV(4)])
    (use wkv.Del in \<open>simp_all add: view_del_def split: if_splits\<close>)

lemma guarded_Set:
  assumes "\<nexists>x c. k = ChallengeKey x \<and> v = Doc (DChallenge c)"
  shows "keeps (guarded S C now) (kv_Set World_KV now k v ttl)"
  by (rule guarded_outcome [where upd = "view_set now k v ttl" and R = "\<lambda>_ _ _. True", OF _ keeps_World_KV(3)])
    (use wkv.Set assms in \<open>auto simp: view_set_def split: if_splits\<close>)

lemma guarded_Publish [guarded_intros]: "keeps (guarded S C now) (kv_Publish World_KV ch msg)"
  by (rule guarded_kv [OF wp_mono [OF wkv.Publish] keeps_World_KV(6)]) simp

lemma mem_view_put_other: "x \<noteq> k \<Longrightarrow> mem_view (mem_put k e m) t x = mem_view m t x"
  by (simp add: mem_view_def mem_put_def)

lemma Incr_other: "wp (kv_Incr World_KV now k ttl) (\<lambda>r w'. \<forall>t x. now \<le> t \<longrightarrow> x \<noteq> k \<longrightarrow> sees w' t x = sees w t x) w"
proof -
  have "mem_view (snd (live now k (kv w))) t = mem_view (kv w) t" if "now \<le> t" for t
    using same_fromD [OF live_view that] .
  then have "wp (Mem_Incr now k ttl) (\<lambda>r m'. \<forall>t x. now \<le> t \<longrightarrow> x \<noteq> k \<longrightarrow> mem_view m' t x = mem_view (kv w) t x) (kv w)"
    by (auto simp: Mem_Incr_def wp_iff Let_def mem_view_put_other split: prod.splits option.split kv_value.split)
  then show ?thesis
    unfolding World_KV_def KV.simps by (rule wp_on_kv_faulty) (auto simp: sees_def)
qed

lemma guarded_Count [guarded_intros]: "keeps (guarded S C now) (Count World_KV now (RateKey kind subj) window)"
  unfolding Count_def
  by (rule guarded_kv [OF wp_mono [OF Incr_other]]) (auto intro: keeps_World_KV simp: key_simps)


lemma guarded_read: "reads m f \<Longrightarrow> keeps (guarded S C now) (on_db m)"
  by (rule guarded_db) (simp add: reads_def)

lemmas guarded_reads [guarded_intros] = store_reads [THEN guarded_read]

lemma guarded_writes [guarded_intros]:
  "keeps (guarded S C now) (on_db (Store_Attempt a b c d e f))"
  "keeps (guarded S C now) (on_db (Store_TouchSignin now' tid uid))"
  "keeps (guarded S C now) (on_db (Store_SetPasswordHash tid uid h))"
  "keeps (guarded S C now) (on_db (Store_FlagWebAuthnClone now' tid ident))"
  "keeps (guarded S C now) (on_db (Store_UpdateWebAuthnUse now' tid ident n b'))"
  by (rule guarded_db, simp add: Store_Attempt_def Store_TouchSignin_def Store_SetPasswordHash_def map_users_def
        Store_FlagWebAuthnClone_def Store_UpdateWebAuthnUse_def updateKey_def split: option.split)+

lemma guarded_Locked [guarded_intros]: "keeps (guarded S C now) (Locked World_KV now uid)"
  unfolding Locked_def by (intro keeps_intros guarded_intros)

lemma guarded_Lock [guarded_intros]: "keeps (guarded S C now) (Lock World_KV now uid d)"
  unfolding Lock_def by (rule guarded_Set) simp

lemma guarded_small [guarded_intros]:
  "keeps (guarded S C now) (attempt_op tid uid a b c d)"
  "keeps (guarded S C now) (over_limit now (RateKey kind subj) window limit)"
  "keeps (guarded S C now) (is_locked now uid)"
  "keeps (guarded S C now) (fail_count now uid pol)"
  unfolding attempt_op_def over_limit_def is_locked_def fail_count_def by (intro keeps_intros guarded_intros)+

lemma guarded_failure [guarded_intros]: "keeps (guarded S C now) (failure now t u pol a b c)"
  unfolding failure_def by (intro keeps_intros guarded_intros)

lemma guarded_Methods [guarded_intros]: "keeps (guarded S C now) (mfaMethods wi tid uid)"
  unfolding mfaMethods_def Methods_def State_def by (intro keeps_intros guarded_intros)

lemma guarded_find_account [guarded_intros]: "keeps (guarded S C now) (find_account X slug email)"
  unfolding find_account_def lookup_tenant_def by (intro keeps_intros guarded_intros)

lemma guarded_second_step_failed [guarded_intros]: "keeps (guarded S C now) (second_step_failed X now c key ip e)"
  unfolding second_step_failed_def Let_def by (intro keeps_intros guarded_intros)

lemma guarded_pending [guarded_intros]: "keeps (guarded S C now) (pending X now cid)"
  unfolding pending_def Let_def
  by (intro keeps_intros guarded_intros) (auto intro!: keeps_intros guarded_intros split: sum.split option.split kv_value.split doc.split)

section \<open>Creating a session\<close>

lemma guarded_putView [guarded_intros]: "keeps (guarded S C now) (putView now h v)"
  unfolding putView_def Let_def by (auto intro!: keeps_intros guarded_intros guarded_Set)

lemma guarded_tenantVersion [guarded_intros]: "keeps (guarded S C now) (tenantVersion now tid)"
  unfolding tenantVersion_def TenantVersion_def
  by (auto intro!: keeps_intros guarded_intros split: option.split kv_value.split)

lemma guarded_loadProfile [guarded_intros]: "keeps (guarded S C now) (loadProfile v)"
  unfolding loadProfile_def by (intro keeps_intros guarded_intros)

lemma guarded_insert:
  assumes "S (ss_TenantID s) (ss_UserID s) (ss_AMR s)"
  shows "keeps (guarded S C now) (on_db (Store_Insert s))"
proof (rule keepsI, rule wp_db_fs)
  fix w fs
  assume g: "guarded S C now w"
  have "guarded S C now (w\<lparr>faults := fs, db := snd (Store_Insert s (db w))\<rparr>)"
  proof (rule guardedI)
    fix x assume "x \<in> snd ` set (Sessions (db (w\<lparr>faults := fs, db := snd (Store_Insert s (db w))\<rparr>)))"
    then have "x = s \<or> x \<in> snd ` set (Sessions (db w))"
      using set_update_subset [of "ss_ID s" s "Sessions (db w)"]
      by (auto simp: Store_Insert_def)
    then show "S (ss_TenantID x) (ss_UserID x) (ss_AMR x)"
      using guarded_session [OF g] assms by blast
  qed (use guarded_challenge [OF g] in simp)
  then show "guarded S C now (w\<lparr>faults := fs, db := snd (Store_Insert s (db w))\<rparr>)"
    "guarded S C now (w\<lparr>faults := fs, db := snd (Store_Insert s (db w))\<rparr>)" by simp_all
next
  fix w fs
  assume "guarded S C now w" then show "guarded S C now (w\<lparr>faults := fs\<rparr>)" by (auto elim!: guarded_weaken)
qed

lemma guarded_establish:
  assumes "S (ch_TenantID c) (ch_UserID c) amr"
  shows "keeps (guarded S C now) (establish X now dr c amr emailHash)"
  unfolding establish_def Create_def Let_def
  by (intro keeps_intros guarded_intros guarded_insert) (simp_all add: assms)


section \<open>Step two, for any way of verifying\<close>

lemma db_is_locked: "keeps (\<lambda>w. P (db w)) (is_locked now uid)"
  unfolding is_locked_def by (intro keeps_intros keeps_Locked)

lemma wp_pending:
  assumes "guarded S C now w"
  shows "wp (pending X now cid) (\<lambda>r w'. guarded S C now w' \<and> db w' = db w
      \<and> (\<forall>c key. r = Inr (c, key) \<longrightarrow> C (ch_TenantID c) (ch_UserID c))) w"
proof -
  have "wp (kv_Get World_KV now k) (\<lambda>r w'. guarded S C now w' \<and> db w' = db w \<and> (\<forall>v. r = Inr v \<longrightarrow> v = sees w now k)) w" for k
    using keeps_wp [OF guarded_Get assms, of k] kv_Get_db [of now k w] by (auto simp: wp_iff)
  then show ?thesis
    unfolding pending_def Let_def wp_try
    by (rule wp_mono)
      (auto simp: wp_simps dest: guarded_challenge [OF assms order_refl sym]
         split: sum.split option.split kv_value.split doc.split)
qed

text \<open>
  What sign-in relies on: a verifier of the second step that neither creates sessions nor leaves
  challenges, and that succeeds only when the factor was checked (\<open>passed\<close>).
\<close>

locale second_step =
  fixes verify :: "challenge \<Rightarrow> (world, string) op"
    and passed :: "memstore \<Rightarrow> string \<Rightarrow> string \<Rightarrow> string \<Rightarrow> bool"
    and now :: time
  assumes quiet: "keeps (guarded S C now) (verify c)"
    and sound: "wp (verify c) (\<lambda>r w'. \<forall>meth. r = Inr meth \<longrightarrow> passed (db w) (ch_TenantID c) (ch_UserID c) meth) w"
begin

lemma complete_guarded:
  assumes g: "guarded S C now w"
    and new: "\<And>tid uid meth. C tid uid \<Longrightarrow> passed (db w) tid uid meth \<Longrightarrow> S tid uid [''pwd'', meth]"
  shows "wp (complete X now dr cid ip ua verify) (\<lambda>_. guarded S C now) w"
proof -
  have fin: "wp (case r of Inl e \<Rightarrow> second_step_failed X now c key ip e
       | Inr meth \<Rightarrow> ignore_op (kv_Del World_KV now [key]) (ignore_op (kv_Del World_KV now [RateKey ''fail'' (ch_UserID c)])
           (establish X now dr (c\<lparr>ch_IPHash := HashIP X ip, ch_UserAgent := ua\<rparr>) [''pwd'', meth] ''''))) (\<lambda>_. guarded S C now) w1"
    if "guarded S C now w1" "\<And>meth. r = Inr meth \<Longrightarrow> S (ch_TenantID c) (ch_UserID c) [''pwd'', meth]" for r c key w1
    using that by (cases r) (auto intro!: keeps_wp keeps_intros guarded_intros guarded_establish)
  have mid: "wp (try_op (verify c) (\<lambda>r. case r of Inl e \<Rightarrow> second_step_failed X now c key ip e
       | Inr meth \<Rightarrow> ignore_op (kv_Del World_KV now [key]) (ignore_op (kv_Del World_KV now [RateKey ''fail'' (ch_UserID c)])
           (establish X now dr (c\<lparr>ch_IPHash := HashIP X ip, ch_UserAgent := ua\<rparr>) [''pwd'', meth] '''')))) (\<lambda>_. guarded S C now) w1"
    if "guarded S C now w1" "db w1 = db w" "C (ch_TenantID c) (ch_UserID c)" for c key w1
  proof -
    have "wp (verify c) (\<lambda>r w'. guarded S C now w' \<and> (\<forall>meth. r = Inr meth \<longrightarrow> passed (db w) (ch_TenantID c) (ch_UserID c) meth)) w1"
      using keeps_wp [OF quiet that(1)] sound [of c w1] that(2) by (simp add: wp_iff)
    then show ?thesis
      unfolding wp_try by (rule wp_mono) (use new that(3) in \<open>auto intro!: fin\<close>)
  qed
  have locked: "wp (is_locked now uid) (\<lambda>r w'. guarded S C now w' \<and> db w' = db w) w1"
    if "guarded S C now w1" "db w1 = db w" for uid w1
    by (rule keeps_wp [OF keeps_conj [OF guarded_small(3) db_is_locked]]) (use that in simp)
  show ?thesis
    unfolding complete_def wp_bind
    by (rule wp_mono [OF wp_pending [OF g]])
      (auto simp: wp_bind intro!: wp_mono [OF locked] mid split: sum.split, simp_all add: wp_simps)
qed

end


lemma guarded_Verify: "keeps (guarded S C now) (Verify X now tid uid code)"
proof (rule keepsI)
  fix w assume g: "guarded S C now w"
  have "Sessions (apply_effect tid uid e m) = Sessions m" for e m
    by (cases e) (auto simp: mfa_writes with_user_def put_user_def Store_UseRecoveryCode_def split: option.split)
  then show "wp (Verify X now tid uid code) (\<lambda>_. guarded S C now) w"
    by (intro wp_mono [OF Verify_spec]) (auto simp: verified_def sees_def intro!: guarded_weaken [OF g])
qed

lemma guarded_finishAssertion: "keeps (guarded S C now) (finishAssertion L now purpose subject tid uid response)"
  unfolding finishAssertion_def take_ceremony_def validate_assertion_def record_use_def Let_def
  by (intro keeps_intros guarded_intros)
    (auto intro!: keeps_intros guarded_intros split: sum.split option.split kv_value.split doc.split)

text \<open>Both ways of the second step keep the contract.\<close>

interpretation code_step: second_step "verify_code X wi now code"
    "\<lambda>m tid uid meth. \<exists>m'. verified X now tid uid code m (Inr meth) m'" now for X wi now code
proof
  show "keeps (guarded S C now) (verify_code X wi now code c)" for S C c
    unfolding verify_code_def by (intro keeps_intros guarded_Verify)
  show "wp (verify_code X wi now code c)
      (\<lambda>r w'. \<forall>meth. r = Inr meth \<longrightarrow> (\<exists>m'. verified X now (ch_TenantID c) (ch_UserID c) code (db w) (Inr meth) m')) w" for c w
    unfolding verify_code_def
    by (auto simp: wp_simps intro!: wp_mono [OF Verify_spec])
qed

interpretation key_step: second_step "verify_key X L wi now cid response"
    "\<lambda>m tid uid meth. meth = ''hwk'' \<and> (\<exists>session. assertion_checked L tid uid m session response)" now
    for X L wi now cid response
proof
  show "keeps (guarded S C now) (verify_key X L wi now cid response c)" for S C c
    unfolding verify_key_def VerifySignin_def by (intro keeps_intros guarded_finishAssertion)
  show "wp (verify_key X L wi now cid response c)
      (\<lambda>r w'. \<forall>meth. r = Inr meth \<longrightarrow> meth = ''hwk'' \<and> (\<exists>session. assertion_checked L (ch_TenantID c) (ch_UserID c) (db w) session response)) w" for c w
    unfolding verify_key_def VerifySignin_def
    by (auto simp: wp_simps intro!: wp_mono [OF wp_finishAssertion] split: sum.split)
qed

section \<open>Step one\<close>

definition tenant_row :: "memstore \<Rightarrow> tenant \<Rightarrow> bool" where
  "tenant_row m t \<longleftrightarrow> t \<in> snd ` set (Tenants m)"

definition account :: "externals \<Rightarrow> memstore \<Rightarrow> string \<Rightarrow> tenant \<Rightarrow> user \<Rightarrow> bool" where
  "account X m email t u \<longleftrightarrow>
     tenant_row m t \<and> map_of (Users m) (Store_key (ex_ul X) (tn_ID t) email) = Some u"

text \<open>The password of an active account of an active tenant was presented.\<close>

definition credentials_ok :: "externals \<Rightarrow> memstore \<Rightarrow> signin_input \<Rightarrow> tenant \<Rightarrow> user \<Rightarrow> bool" where
  "credentials_ok X m inp t u \<longleftrightarrow>
     account X m (to_lower (ex_ul X) (trim_space (in_Email inp))) t u
     \<and> tn_Status t = ''active'' \<and> us_Status u = ''active''
     \<and> fst (Password_Verify X (in_Password inp) (case us_PasswordHash u of None \<Rightarrow> '''' | Some h \<Rightarrow> h))"

lemma guarded_Set_challenge:
  assumes "C (ch_TenantID c) (ch_UserID c)"
  shows "keeps (guarded S C now) (kv_Set World_KV now (ChallengeKey k) (Doc (DChallenge c)) ttl)"
proof (rule keepsI, rule wp_mono [OF kv_Set_db])
  fix w w' :: world and r :: "unit result"
  assume g: "guarded S C now w"
    and o: "outcome now (sees w) (view_set now (ChallengeKey k) (Doc (DChallenge c)) ttl (sees w)) (sees w') r \<and> db w' = db w"
  show "guarded S C now w'"
  proof (rule guardedI)
    fix s assume "s \<in> snd ` set (Sessions (db w'))"
    then show "S (ss_TenantID s) (ss_UserID s) (ss_AMR s)" using guarded_session [OF g] o by simp
  next
    fix t x d assume t: "now \<le> t" and x: "sees w' t (ChallengeKey x) = Some (Doc (DChallenge d))"
    from outcome_point [OF conjunct1 [OF o] t, of "ChallengeKey x"] x
    consider "view_set now (ChallengeKey k) (Doc (DChallenge c)) ttl (sees w) t (ChallengeKey x) = Some (Doc (DChallenge d))"
      | "sees w t (ChallengeKey x) = Some (Doc (DChallenge d))" by auto
    then have "d = c \<or> sees w t (ChallengeKey x) = Some (Doc (DChallenge d))"
      by cases (auto simp: view_set_def split: if_splits)
    then show "C (ch_TenantID d) (ch_UserID d)" using assms guarded_challenge [OF g t] by blast
  qed
qed

lemma guarded_admit_account:
  assumes "us_MFAEnabled u \<Longrightarrow> C (tn_ID t) (us_ID u)" "\<not> us_MFAEnabled u \<Longrightarrow> S (tn_ID t) (us_ID u) [''pwd'']"
  shows "keeps (guarded S C now) (admit_account X wi now dr inp t u pol rehash a b)"
proof (cases "us_MFAEnabled u")
  case True
  then show ?thesis
    unfolding admit_account_def Let_def
    by (simp only: if_True, intro keeps_intros guarded_intros guarded_Set_challenge) (simp add: assms(1))
next
  case False
  then show ?thesis
    unfolding admit_account_def Let_def
    by (simp only: if_False, intro keeps_intros guarded_intros guarded_establish) (simp add: assms(2))
qed

lemma tenant_row_slug: "map_option snd (find_row P (Tenants m)) = Some t \<Longrightarrow> tenant_row m t"
  by (auto simp: tenant_row_def find_row_def find_Some_iff in_set_conv_nth image_iff) (metis nth_mem snd_conv)

lemma tenant_row_sole: "fst (Store_SoleTenant m) = Inr t \<Longrightarrow> tenant_row m t"
  by (auto simp: Store_SoleTenant_def tenant_row_def split: list.splits)

lemma wp_lookup_tenant:
  "wp (lookup_tenant X slug email) (\<lambda>r w'. db w' = db w \<and> (\<forall>t. r = Inr t \<longrightarrow> tenant_row (db w) t)) w"
proof -
  let ?Q = "\<lambda>r w'. db w' = db w \<and> (\<forall>t. r = Inr t \<longrightarrow> tenant_row (db w) t)"
  have slug: "wp (on_db (Store_TenantBySlug s)) ?Q w1" if "db w1 = db w" for s w1
    by (rule wp_db_read) (use that in \<open>auto simp: Store_TenantBySlug_def intro!: tenant_row_slug\<close>)
  have sole: "wp (on_db Store_SoleTenant) ?Q w1" if "db w1 = db w" for w1
    by (rule wp_db_read [where r = "fst (Store_SoleTenant (db w))"])
      (use that reads_SoleTenant in \<open>auto simp: reads_def intro: tenant_row_sole\<close>)
  show ?thesis
    unfolding lookup_tenant_def
    by (auto simp: wp_simps intro!: slug sole wp_mono [OF slug] split: sum.split)
qed

lemma wp_find_account:
  "wp (find_account X slug email) (\<lambda>r w'. db w' = db w \<and> (\<forall>t u. r = Inr (t, Some u) \<longrightarrow> account X (db w) email t u)) w"
proof -
  let ?Q = "\<lambda>r w'. db w' = db w \<and> (\<forall>t u. r = Inr (t, Some u) \<longrightarrow> account X (db w) email t u)"
  have user: "wp (try_op (on_db (Store_UserByEmail (ex_ul X) (tn_ID t) email)) (\<lambda>u. case u of Inl _ \<Rightarrow> ret (t, None)
      | Inr u \<Rightarrow> ret (t, if us_Status u = ''imported'' then None else Some u))) ?Q w1"
    if "db w1 = db w" "tenant_row (db w) t" for t w1
    by (rule wp_try_read [OF reads_UserByEmail])
      (use that in \<open>auto simp: wp_simps account_def found_def split: option.split\<close>)
  show ?thesis
    unfolding find_account_def wp_try [of "lookup_tenant _ _ _"]
    by (rule wp_mono [OF wp_lookup_tenant]) (auto simp: wp_ret intro!: user split: sum.split)
qed


lemma db_over_limit: "keeps (\<lambda>w. P (db w)) (over_limit now k window limit)"
  unfolding over_limit_def Count_def by (intro keeps_intros keeps_World_KV)

text \<open>What the log must allow for a request in a store.\<close>

definition allows ::
    "(string \<Rightarrow> string \<Rightarrow> string list \<Rightarrow> bool) \<Rightarrow> (string \<Rightarrow> string \<Rightarrow> bool) \<Rightarrow> externals \<Rightarrow> memstore \<Rightarrow> signin_input \<Rightarrow> bool" where
  "allows S C X m inp \<longleftrightarrow>
     (\<forall>t u. credentials_ok X m inp t u \<longrightarrow>
        (if us_MFAEnabled u then C (tn_ID t) (us_ID u) else S (tn_ID t) (us_ID u) [''pwd'']))"

lemma guarded_check_account:
  assumes "allows S C X m inp" "account X m (to_lower (ex_ul X) (trim_space (in_Email inp))) t u"
  shows "keeps (guarded S C now) (check_account X wi now dr inp t u a b)"
proof (cases "credentials_ok X m inp t u")
  case True
  with assms(1) have "us_MFAEnabled u \<Longrightarrow> C (tn_ID t) (us_ID u)" "\<not> us_MFAEnabled u \<Longrightarrow> S (tn_ID t) (us_ID u) [''pwd'']"
    unfolding allows_def by (metis (full_types))+
  then show ?thesis
    unfolding check_account_def Let_def by (intro keeps_intros guarded_intros guarded_admit_account) auto
next
  case False
  with assms(2) show ?thesis
    unfolding check_account_def Let_def credentials_ok_def
    by (auto intro!: guarded_intros simp: case_prod_unfold)
qed

lemma guarded_try_account:
  assumes "allows S C X m inp"
    "\<And>u. known = Some u \<Longrightarrow> account X m (to_lower (ex_ul X) (trim_space (in_Email inp))) t u"
  shows "keeps (guarded S C now) (try_account X wi now dr inp t known a b)"
  unfolding try_account_def refuse_unknown_def
  using assms by (cases known) (auto intro!: keeps_intros guarded_intros guarded_check_account)

lemma wp_Start:
  assumes g: "guarded S C now w" and a: "allows S C X (db w) inp"
  shows "wp (Start X wi now dr inp) (\<lambda>_. guarded S C now) w"
proof -
  let ?I = "\<lambda>w'. guarded S C now w' \<and> db w' = db w"
  let ?email = "to_lower (ex_ul X) (trim_space (in_Email inp))"
  have over: "keeps ?I (over_limit now (RateKey kind subj) window limit)" for kind subj window limit
    by (rule keeps_conj [OF guarded_small(2) db_over_limit])
  have find: "wp (find_account X slug ?email) (\<lambda>r w'. guarded S C now w'
      \<and> (\<forall>t u. r = Inr (t, Some u) \<longrightarrow> account X (db w) ?email t u)) w1"
    if "?I w1" for slug w1
    using keeps_wp [OF guarded_find_account, of S C now w1] wp_find_account [of X slug ?email w1] that by (simp add: wp_iff)
  have rest: "keeps (guarded S C now) (bind_op (over_limit now (RateKey kind subj) window limit) (\<lambda>over.
      if over then seq_op (attempt_op b c d e f h) (throw ErrRateLimited)
      else try_account X wi now dr inp t known i j))"
    if "\<And>u. known = Some u \<Longrightarrow> account X (db w) ?email t u" for kind subj window limit b c d e f h t known i j
    by (intro keeps_intros guarded_intros guarded_try_account [OF a]) (rule that)
  have found: "wp (bind_op (find_account X slug ?email) (\<lambda>(t, known).
      bind_op (over_limit now (RateKey ''signin_acct'' (k t)) window limit) (\<lambda>over.
      if over then seq_op (attempt_op (tn_ID t) (case known of None \<Rightarrow> '''' | Some u \<Rightarrow> us_ID u) c d e f) (throw ErrRateLimited)
      else try_account X wi now dr inp t known c d))) (\<lambda>_. guarded S C now) w1"
    if "?I w1" for slug k window limit c d e f w1
    unfolding wp_bind [of "find_account _ _ _"]
    by (rule wp_mono [OF find [OF that]]) (auto intro!: keeps_wp rest split: sum.split)
  show ?thesis
    unfolding Start_def Let_def
  proof (rule wp_bind_keeps [OF over])
    show "?I w" using g by simp
  next
    fix b :: bool and w1 assume I: "?I w1"
    show "wp (if b then seq_op (attempt_op '''' '''' (HashEmail X ?email) (HashIP X (in_IP inp)) ''refused'' ''rate_limited'')
        (throw ErrRateLimited)
      else bind_op (find_account X (in_TenantSlug inp) ?email) (\<lambda>(t, known).
        bind_op (over_limit now (RateKey ''signin_acct'' (tn_ID t @ '':'' @ HashEmail X ?email)) AccountWindow AccountLimit) (\<lambda>over.
        if over then seq_op (attempt_op (tn_ID t) (case known of None \<Rightarrow> '''' | Some u \<Rightarrow> us_ID u) (HashEmail X ?email)
            (HashIP X (in_IP inp)) ''refused'' ''rate_limited'') (throw ErrRateLimited)
        else try_account X wi now dr inp t known (HashEmail X ?email) (HashIP X (in_IP inp))))) (\<lambda>_. guarded S C now) w1"
      unfolding wp_if using I
      by (auto intro!: found keeps_wp keeps_intros guarded_intros)
  qed auto
qed


section \<open>Runs of the service\<close>

text \<open>
  The ghost log of checks that succeeded: a password of an active account, with whether the account
  asks for a second step, and a second factor.
\<close>

datatype evidence = Pwd string string bool | Factor string string string

definition passwords :: "externals \<Rightarrow> memstore \<Rightarrow> signin_input \<Rightarrow> evidence set" where
  "passwords X m inp = {Pwd (tn_ID t) (us_ID u) (us_MFAEnabled u) | t u. credentials_ok X m inp t u}"

definition code_factors :: "externals \<Rightarrow> time \<Rightarrow> memstore \<Rightarrow> string \<Rightarrow> evidence set" where
  "code_factors X now m code = {Factor tid uid meth | tid uid meth. \<exists>m'. verified X now tid uid code m (Inr meth) m'}"

definition key_factors :: "webauthn_lib \<Rightarrow> memstore \<Rightarrow> string \<Rightarrow> evidence set" where
  "key_factors L m response = {Factor tid uid ''hwk'' | tid uid. \<exists>session. assertion_checked L tid uid m session response}"

text \<open>
  A run: sign-in requests at any times, in any order and with any failures, and between them any
  change of the rest of the service that adds no session row and no challenge.
\<close>

inductive signin_run :: "externals \<Rightarrow> webauthn_lib \<Rightarrow> wiring \<Rightarrow> time \<Rightarrow> world \<Rightarrow> evidence set \<Rightarrow> bool" for X L wi where
  initial: "signin_run X L wi now w {}"
    if "Sessions (db w) = []" "\<And>t k c. now \<le> t \<Longrightarrow> sees w t (ChallengeKey k) \<noteq> Some (Doc (DChallenge c))"
| start: "signin_run X L wi now (snd (Start X wi now dr inp w)) (log \<union> passwords X (db w) inp)"
    if "signin_run X L wi past w log" "past \<le> now"
| code: "signin_run X L wi now (snd (CompleteMFA X wi now dr cid code ip ua w)) (log \<union> code_factors X now (db w) code)"
    if "signin_run X L wi past w log" "past \<le> now"
| key: "signin_run X L wi now (snd (CompleteWebAuthn X L wi now dr cid resp ip ua w)) (log \<union> key_factors L (db w) resp)"
    if "signin_run X L wi past w log" "past \<le> now"
| other: "signin_run X L wi now w' log"
    if "signin_run X L wi past w log" "past \<le> now" "snd ` set (Sessions (db w')) \<subseteq> snd ` set (Sessions (db w))"
      "\<And>t k c. now \<le> t \<Longrightarrow> sees w' t (ChallengeKey k) = Some (Doc (DChallenge c))
         \<Longrightarrow> sees w t (ChallengeKey k) = Some (Doc (DChallenge c))"

definition proven :: "evidence set \<Rightarrow> string \<Rightarrow> string \<Rightarrow> string list \<Rightarrow> bool" where
  "proven log tid uid amr \<longleftrightarrow>
     amr = [''pwd''] \<and> Pwd tid uid False \<in> log
     \<or> (\<exists>meth. amr = [''pwd'', meth] \<and> Pwd tid uid True \<in> log \<and> Factor tid uid meth \<in> log)"

abbreviation asked :: "evidence set \<Rightarrow> string \<Rightarrow> string \<Rightarrow> bool" where
  "asked log tid uid \<equiv> Pwd tid uid True \<in> log"

lemma proven_mono: "proven log tid uid amr \<Longrightarrow> log \<subseteq> log' \<Longrightarrow> proven log' tid uid amr"
  by (auto simp: proven_def)

abbreviation logged :: "evidence set \<Rightarrow> time \<Rightarrow> world \<Rightarrow> bool" where
  "logged log \<equiv> guarded (proven log) (asked log)"

lemma logged_grows: "logged log past w \<Longrightarrow> past \<le> now \<Longrightarrow> log \<subseteq> log' \<Longrightarrow> logged log' now w"
  by (rule guarded_mono, erule (1) guarded_later) (auto elim: proven_mono)

lemma allows_passwords: "passwords X m inp \<subseteq> log \<Longrightarrow> allows (proven log) (asked log) X m inp"
  by (fastforce simp: allows_def passwords_def proven_def)

lemma signin_run_logged: "signin_run X L wi now w log \<Longrightarrow> logged log now w"
proof (induction rule: signin_run.induct)
  case (initial w now)
  then show ?case by (intro guardedI) auto
next
  case (start past w log now dr inp)
  show ?case
    by (rule wpD [OF wp_Start], rule logged_grows [OF start.IH start.hyps(2)])
      (simp, rule allows_passwords, simp)
next
  case (code past w log now dr cid code ip ua)
  show ?case
    unfolding CompleteMFA_def
    by (rule wpD [OF code_step.complete_guarded], rule logged_grows [OF code.IH code.hyps(2)])
      (auto simp: proven_def code_factors_def)
next
  case (key past w log now dr cid resp ip ua)
  show ?case
    unfolding CompleteWebAuthn_def
    by (rule wpD [OF key_step.complete_guarded], rule logged_grows [OF key.IH key.hyps(2)])
      (auto simp: proven_def key_factors_def)
next
  case (other past w log now w')
  note g = guarded_later [OF other.IH other.hyps(2)]
  show ?case
    by (rule guardedI, rule guarded_session [OF g], erule subsetD [OF other.hyps(3)])
      (rule guarded_challenge [OF g], assumption, erule (1) other.hyps(4))
qed

text \<open>
  C1: no session without authentication.  In every run of sign-in requests, at any times, with any
  failures of the store and the cache and any other changes of the accounts in between, each session
  row belongs to a user whose password was presented while the account and the tenant were active;
  when the session says that a second factor was used, that factor was verified for that very user;
  and when the account asked for a second step at the time of the password, no session was created
  on the password alone.
\<close>

theorem no_session_without_authentication:
  assumes "signin_run X L wi now w log" "s \<in> snd ` set (Sessions (db w))"
  shows "ss_AMR s = [''pwd''] \<and> Pwd (ss_TenantID s) (ss_UserID s) False \<in> log
     \<or> (\<exists>meth. ss_AMR s = [''pwd'', meth] \<and> Pwd (ss_TenantID s) (ss_UserID s) True \<in> log
          \<and> Factor (ss_TenantID s) (ss_UserID s) meth \<in> log)"
  using guarded_session [OF signin_run_logged [OF assms(1)] assms(2)] by (simp add: proven_def)


text \<open>A concrete account with a password and an authenticator app, and its sign-in.\<close>

definition demo_password_hash :: string where
  "demo_password_hash = ''$argon2id$v=19$m=65536,t=3,p=4$c2FsdA$Y29y''"

definition demo_signin_world :: world where
  "demo_signin_world = New_World\<lparr>db := Store_AddUser (ex_ul demo_X)
     (demo_mfa_user\<lparr>us_PasswordHash := Some demo_password_hash\<rparr>)
     (New_Store\<lparr>Tenants := [(''t1'', demo_tenant)]\<rparr>)\<rparr>"

definition demo_input :: signin_input where
  "demo_input = \<lparr>in_TenantSlug = ''acme'', in_Email = ''a@acme.test'', in_Password = ''correct horse battery'',
     in_IP = ''10.0.0.1'', in_UserAgent = ''ua''\<rparr>"

definition demo_draws :: draws where
  "demo_draws = \<lparr>dr_ID = ''s1'', dr_Secret = Some ''secret'', dr_Challenge = Some ''challenge'', dr_Salt = Some ''0123456789abcdef''\<rparr>"

definition demo_wiring :: wiring where
  "demo_wiring = \<lparr>wi_mfa = True, wi_methods = True, wi_keys = True\<rparr>"

definition demo_started :: world where
  "demo_started = snd (Start demo_X demo_wiring (100 * minute) demo_draws demo_input demo_signin_world)"

definition demo_signed_in :: world where
  "demo_signed_in = snd (CompleteMFA demo_X demo_wiring (101 * minute) demo_draws ''challenge'' ''123456'' ''10.0.0.1'' ''ua'' demo_started)"

lemma demo_signed_in_row: "map (\<lambda>(_, s). (ss_TenantID s, ss_UserID s, ss_AMR s)) (Sessions (db demo_signed_in))
    = [(''t1'', ''u1'', [''pwd'', ''otp''])]"
  by code_simp

lemma demo_times: "(0 :: int) \<le> 100 * minute" "100 * minute \<le> (101 * minute :: int)"
  by (simp_all add: minute_def second_def)

theorem no_session_without_authentication_witness:
  "\<exists>log s. signin_run demo_X demo_lib demo_wiring (101 * minute) demo_signed_in log
     \<and> s \<in> snd ` set (Sessions (db demo_signed_in)) \<and> ss_AMR s = [''pwd'', ''otp'']
     \<and> Pwd ''t1'' ''u1'' True \<in> log \<and> Factor ''t1'' ''u1'' ''otp'' \<in> log"
proof -
  have "signin_run demo_X demo_lib demo_wiring 0 demo_signin_world {}"
    by (rule signin_run.initial)
      (simp_all add: demo_signin_world_def Store_AddUser_def put_user_def New_Store_def New_World_def NewMemory_def sees_def mem_view_def)
  note started = signin_run.start [OF this demo_times(1), where dr = demo_draws and inp = demo_input, folded demo_started_def]
  obtain log where run: "signin_run demo_X demo_lib demo_wiring (101 * minute) demo_signed_in log"
    using signin_run.code [OF started demo_times(2)] unfolding demo_signed_in_def by blast
  obtain s where s: "s \<in> snd ` set (Sessions (db demo_signed_in))" "ss_TenantID s = ''t1''" "ss_UserID s = ''u1''"
      "ss_AMR s = [''pwd'', ''otp'']"
    using demo_signed_in_row by (auto simp: map_eq_Cons_conv)
  show ?thesis
    using no_session_without_authentication [OF run s(1)] run s by (intro exI [of _ log] exI [of _ s]) simp
qed

end
