(* ===== verification/Admin_Gap.thy ===== *)
theory Admin_Gap
  imports Admin_Safety Signin_Safety
begin

text \<open>
  What deactivating a user (\<open>internal/user/admin.go\<close>) does not do: stop a sign-in whose second step
  (\<open>internal/user/signin.go\<close>) is pending.
\<close>

section \<open>A deactivated user still signs in\<close>

definition status_of :: "string \<Rightarrow> string \<Rightarrow> world \<Rightarrow> string option" where
  "status_of tid uid w = map_option (us_Status \<circ> snd) (userByID tid uid (db w))"

definition demo_late :: "bool \<times> string option \<times> bool \<times> string option" where
  "demo_late =
     (let (d, w1) = Deactivate CountUsersWithRole background (100 * minute + 30 * second) demo_admin ''u1'' demo_started;
          (s, w2) = CompleteMFA demo_X demo_wiring (101 * minute) demo_draws ''challenge'' ''123456'' ''10.0.0.1'' ''ua'' w1;
          (a, _) = Resolve demo_X (101 * minute + second) ''secret'' w2
      in (is_ok d, status_of ''t1'' ''u1'' w1, is_ok s, (case a of Inl _ \<Rightarrow> None | Inr a \<Rightarrow> Some (act_UserID a))))"

lemma demo_late_run: "demo_late = (True, Some ''deactivated'', True, Some ''u1'')"
  by code_simp


end
