(* ===== verification/Tokens.thy ===== *)
theory Tokens
  imports Crypto
begin

text \<open>
  Access and enrollment tokens and the signing keys: \<open>internal/token\<close> and the token part of the SDK
  (\<open>sdk/pkg/authclient/token.go\<close>, \<open>jwks.go\<close>).  The JWT library and Ed25519 are parameters.  The ring
  works on any key store; the in-memory one (\<open>MemKeys\<close>) and the SQL one (\<open>tokendb\<close>, with the unique
  index on the active state) are both defined.
\<close>

section \<open>Libraries\<close>

text \<open>
  The claims object of a token: the registered claims and the members the service adds.  An absent
  member is the zero value.
\<close>

record claims =
  cl_Issuer :: string
  cl_Subject :: string
  cl_Audience :: "string list"
  cl_IssuedAt :: "time option"
  cl_NotBefore :: "time option"
  cl_ExpiresAt :: "time option"
  cl_ID :: string
  cl_TenantID :: string
  cl_SessionID :: string
  cl_Roles :: "string list"
  cl_AMR :: "string list"
  cl_SpiffePaths :: "string list"

text \<open>
  The parser options the code sets (issued-at checked and expiry required always); an empty audience
  asks for none.  A parse fails because of the key function, because the token is malformed or badly
  signed, or because of claims, each named.
\<close>

record jwt_options =
  jo_Methods :: "string list"
  jo_Issuer :: string
  jo_Audience :: string
  jo_Leeway :: duration

datatype jwt_error = KeyError err | Malformed | InvalidClaims "string list"

text \<open>
  \<open>jw_Sign priv kid claims\<close> is \<open>SignedString\<close> of an EdDSA token with that key id;
  \<open>jw_Parse options now keyfunc token\<close> is \<open>ParseWithClaims\<close>, the key function taking the algorithm
  and the key id (empty when absent).
\<close>

record jwt_lib =
  jw_Sign :: "string \<Rightarrow> string \<Rightarrow> claims \<Rightarrow> string result"
  jw_Parse :: "jwt_options \<Rightarrow> time \<Rightarrow> (string \<Rightarrow> string \<Rightarrow> string result) \<Rightarrow> string \<Rightarrow> (jwt_error, claims) sum"
  jw_GenerateKey :: "string \<Rightarrow> string \<times> string"
  jw_Public :: "string \<Rightarrow> string"

definition EdDSA :: string where "EdDSA = ''EdDSA''"

text \<open>\<open>jwt.NewNumericDate\<close> keeps whole seconds.\<close>

definition NumericDate :: "time \<Rightarrow> time" where
  "NumericDate t = t div second * second"

section \<open>Verification in the SDK\<close>

abbreviation ErrUnknownKey :: err where "ErrUnknownKey \<equiv> Sentinel ''authclient.UnknownKeyError''"

definition MaxTokenLifetime :: duration where "MaxTokenLifetime = 15 * minute"

definition key_func :: "(string \<Rightarrow> string option) \<Rightarrow> string \<Rightarrow> string \<Rightarrow> string result" where
  "key_func lookup alg kid =
     (if alg \<noteq> EdDSA then Inl (ErrOther ''alg must be EdDSA'')
      else if kid = '''' then Inl (ErrOther ''kid required'')
      else case lookup kid of None \<Rightarrow> Inl ErrUnknownKey | Some pub \<Rightarrow> Inr pub)"

definition clamp_skew :: "duration \<Rightarrow> duration" where
  "clamp_skew skew = (if skew < 0 \<or> skew > 60 * second then 60 * second else skew)"

definition VerifyToken ::
    "jwt_lib \<Rightarrow> string \<Rightarrow> string \<Rightarrow> duration \<Rightarrow> duration \<Rightarrow> time \<Rightarrow> (string \<Rightarrow> string option) \<Rightarrow> claims result" where
  "VerifyToken J s iss skew maxLife now lookup =
     (if int (length s) > 8 * 1024 then Inl (ErrOther ''token: too long'')
      else
        let maxLife = (if maxLife \<le> 0 \<or> maxLife > MaxTokenLifetime then MaxTokenLifetime else maxLife) in
        case jw_Parse J \<lparr>jo_Methods = [EdDSA], jo_Issuer = iss, jo_Audience = '''', jo_Leeway = clamp_skew skew\<rparr> now
               (key_func lookup) s of
          Inl (KeyError e) \<Rightarrow> Inl (if e = ErrUnknownKey then ErrUnknownKey else ErrOther ''token'')
        | Inl _ \<Rightarrow> Inl (ErrOther ''token'')
        | Inr c \<Rightarrow>
            (case (cl_IssuedAt c, cl_ExpiresAt c, cl_NotBefore c) of
               (Some iat, Some exp, Some _) \<Rightarrow>
                 if exp - iat > maxLife then Inl (ErrOther ''token: lifetime exceeds the maximum'')
                 else if cl_Subject c = '''' \<or> cl_TenantID c = '''' \<or> cl_SessionID c = '''' \<or> cl_ID c = ''''
                 then Inl (ErrOther ''token: required claims missing'')
                 else Inr c
             | _ \<Rightarrow> Inl (ErrOther ''token: lifetime exceeds the maximum'')))"

section \<open>Published keys\<close>

record jwk =
  jk_Kty :: string
  jk_Crv :: string
  jk_Kid :: string
  jk_X :: string
  jk_Use :: string
  jk_Alg :: string
  jk_State :: string

definition PublicKeySize :: nat where "PublicKeySize = 32"
definition PrivateKeySize :: nat where "PrivateKeySize = 64"

definition NewJWK :: "string \<Rightarrow> string \<Rightarrow> string \<Rightarrow> jwk" where
  "NewJWK kid pub st =
     \<lparr>jk_Kty = ''OKP'', jk_Crv = ''Ed25519'', jk_Kid = kid, jk_X = b64_encode url_alphabet pub, jk_Use = ''sig'',
      jk_Alg = EdDSA, jk_State = st\<rparr>"

definition JWK_PublicKey :: "jwk \<Rightarrow> string result" where
  "JWK_PublicKey k =
     (if jk_Kty k \<noteq> ''OKP'' \<or> jk_Crv k \<noteq> ''Ed25519'' \<or> (jk_Alg k \<noteq> '''' \<and> jk_Alg k \<noteq> EdDSA) \<or> jk_Kid k = ''''
      then Inl (ErrOther ''authclient: unsupported key'')
      else case b64_decode url_alphabet (jk_X k) of
        None \<Rightarrow> Inl (ErrOther ''authclient: malformed key'')
      | Some raw \<Rightarrow> if length raw \<noteq> PublicKeySize then Inl (ErrOther ''authclient: malformed key'') else Inr raw)"

text \<open>The loop of \<open>ParseJWKS\<close> over the decoded document; the accumulator is the map built so far.\<close>

fun parse_keys :: "jwk list \<Rightarrow> (string \<times> string) list \<Rightarrow> (string \<times> string) list result" where
  "parse_keys [] out = Inr out"
| "parse_keys (k # ks) out =
     (case JWK_PublicKey k of
        Inl e \<Rightarrow> Inl e
      | Inr pub \<Rightarrow>
          if map_of out (jk_Kid k) \<noteq> None then Inl (ErrOther ''authclient: duplicate kid'')
          else parse_keys ks (AList.update (jk_Kid k) pub out))"

text \<open>A document is its size and its decoded content (\<open>None\<close>: not a key set).\<close>

definition ParseJWKS :: "int \<Rightarrow> jwk list option \<Rightarrow> (string \<times> string) list result" where
  "ParseJWKS len doc =
     (if len > 64 * 1024 then Inl (ErrOther ''authclient: jwks too large'')
      else case doc of None \<Rightarrow> Inl (ErrOther ''authclient: jwks'') | Some ks \<Rightarrow> parse_keys ks [])"

section \<open>Signing keys\<close>

definition StateActive :: string where "StateActive = ''active''"
definition StateRetiring :: string where "StateRetiring = ''retiring''"
definition StateRetired :: string where "StateRetired = ''retired''"

lemmas key_states = StateActive_def StateRetiring_def StateRetired_def

definition keyAD :: "string \<Rightarrow> string" where
  "keyAD kid = ''signing_key:'' @ kid"

text \<open>The randomness of a new key: the Ed25519 seed and the envelope's draw.\<close>

type_synonym key_draw = "string option \<times> (string \<times> string \<times> string) option"

definition kid_of :: "externals \<Rightarrow> string \<Rightarrow> string" where
  "kid_of X pub = b64_encode url_alphabet (take 12 (ex_sha256 X pub))"

definition GenerateKey :: "externals \<Rightarrow> jwt_lib \<Rightarrow> key_draw \<Rightarrow> time \<Rightarrow> signing_key result" where
  "GenerateKey X J draw now =
     (case fst draw of
        None \<Rightarrow> Inl (ErrOther ''randomness unavailable'')
      | Some seed \<Rightarrow>
          let (pub, priv) = jw_GenerateKey J seed; kid = kid_of X pub in
          (case Encrypt X (snd draw) priv (keyAD kid) of
             Inl e \<Rightarrow> Inl e
           | Inr enc \<Rightarrow> Inr \<lparr>sk_KID = kid, sk_PublicKey = pub, sk_PrivateEnc = enc, sk_State = StateActive,
                            sk_CreatedAt = now, sk_RetiringAt = None, sk_RetiredAt = None\<rparr>))"

definition OpenKey :: "externals \<Rightarrow> jwt_lib \<Rightarrow> signing_key \<Rightarrow> string result" where
  "OpenKey X J k =
     (case Decrypt X (sk_PrivateEnc k) (keyAD (sk_KID k)) of
        Inl e \<Rightarrow> Inl e
      | Inr raw \<Rightarrow>
          if length raw \<noteq> PrivateKeySize then Inl (ErrOther ''token: sealed key has wrong size'')
          else if sk_PublicKey k \<noteq> jw_Public J raw then Inl (ErrOther ''token: sealed key does not match public key'')
          else Inr raw)"


section \<open>Key stores\<close>

record 's key_store =
  ks_List :: "('s, signing_key list) op"
  ks_Insert :: "signing_key \<Rightarrow> ('s, unit) op"
  ks_SetState :: "string \<Rightarrow> string \<Rightarrow> time \<Rightarrow> ('s, unit) op"
  ks_Remove :: "string \<Rightarrow> ('s, unit) op"

type_synonym key_rows = "(string \<times> signing_key) list"

text \<open>A row in a new state; the time of the transition is recorded.\<close>

definition in_state :: "string \<Rightarrow> time \<Rightarrow> signing_key \<Rightarrow> signing_key" where
  "in_state st at k =
     k\<lparr>sk_State := st,
       sk_RetiringAt := (if st = StateRetiring then Some at else sk_RetiringAt k),
       sk_RetiredAt := (if st = StateRetired then Some at else sk_RetiredAt k)\<rparr>"

definition MemKeys_List :: "(key_rows, signing_key list) op" where
  "MemKeys_List m = (Inr (map snd m), m)"

definition MemKeys_Insert :: "signing_key \<Rightarrow> (key_rows, unit) op" where
  "MemKeys_Insert k m = (Inr (), AList.update (sk_KID k) k m)"

definition MemKeys_SetState :: "string \<Rightarrow> string \<Rightarrow> time \<Rightarrow> (key_rows, unit) op" where
  "MemKeys_SetState kid st at m =
     (case map_of m kid of None \<Rightarrow> (Inl ErrNotFound, m) | Some k \<Rightarrow> (Inr (), AList.update kid (in_state st at k) m))"

definition MemKeys_Remove :: "string \<Rightarrow> (key_rows, unit) op" where
  "MemKeys_Remove kid m = (Inr (), filter (\<lambda>(x, _). x \<noteq> kid) m)"

definition MemKeys :: "key_rows key_store" where
  "MemKeys = \<lparr>ks_List = MemKeys_List, ks_Insert = MemKeys_Insert, ks_SetState = MemKeys_SetState, ks_Remove = MemKeys_Remove\<rparr>"

text \<open>
  The SQL repository: the key id is the primary key, a partial unique index allows one active row,
  an update of no row is no error, and only retired rows are deleted.  The database clock of
  \<open>now ()\<close> is taken to agree with the caller's.
\<close>

definition active_row :: "key_rows \<Rightarrow> string \<Rightarrow> bool" where
  "active_row m except = list_ex (\<lambda>(x, k). x \<noteq> except \<and> sk_State k = StateActive) m"

definition unique_violation :: err where
  "unique_violation = ErrOther ''duplicate key value violates unique constraint''"

definition ListSigningKeys :: "(key_rows, signing_key list) op" where
  "ListSigningKeys m = (Inr (sort_key sk_CreatedAt (map snd m)), m)"

definition InsertSigningKey :: "signing_key \<Rightarrow> (key_rows, unit) op" where
  "InsertSigningKey k m =
     (if map_of m (sk_KID k) \<noteq> None \<or> (sk_State k = StateActive \<and> active_row m (sk_KID k)) then (Inl unique_violation, m)
      else (Inr (), m @ [(sk_KID k, k)]))"

definition SetSigningKeyState :: "string \<Rightarrow> string \<Rightarrow> time \<Rightarrow> (key_rows, unit) op" where
  "SetSigningKeyState kid st at m =
     (case map_of m kid of
        None \<Rightarrow> (Inr (), m)
      | Some k \<Rightarrow>
          if st = StateActive \<and> active_row m kid then (Inl unique_violation, m)
          else (Inr (), AList.update kid (in_state st at k) m))"

definition RemoveSigningKey :: "string \<Rightarrow> (key_rows, unit) op" where
  "RemoveSigningKey kid m = (Inr (), filter (\<lambda>(x, k). \<not> (x = kid \<and> sk_State k = StateRetired)) m)"

definition StoreKeys :: "key_rows key_store" where
  "StoreKeys = \<lparr>ks_List = ListSigningKeys, ks_Insert = InsertSigningKey, ks_SetState = SetSigningKeyState,
     ks_Remove = RemoveSigningKey\<rparr>"

section \<open>The ring\<close>

record ring_config =
  rc_AccessLifetime :: duration
  rc_RotationInterval :: duration
  rc_RetiringPeriod :: duration
  rc_ClockSkew :: duration

definition NewRing :: "ring_config \<Rightarrow> ring_config" where
  "NewRing cfg =
     \<lparr>rc_AccessLifetime = (if rc_AccessLifetime cfg \<le> 0 \<or> rc_AccessLifetime cfg > 15 * minute then 15 * minute else rc_AccessLifetime cfg),
      rc_RotationInterval = (if rc_RotationInterval cfg \<le> 0 then 24 * hour else rc_RotationInterval cfg),
      rc_RetiringPeriod = (if rc_RetiringPeriod cfg \<le> 0 then 30 * minute else rc_RetiringPeriod cfg),
      rc_ClockSkew = (if rc_ClockSkew cfg \<le> 0 \<or> rc_ClockSkew cfg > 60 * second then 60 * second else rc_ClockSkew cfg)\<rparr>"

record ring_key =
  rk_row :: signing_key
  rk_priv :: "string option"

type_synonym ring_keys = "(string \<times> ring_key) list"

record 's ring =
  rg_store :: 's
  rg_keys :: ring_keys

definition on_keys :: "('s, 'a) op \<Rightarrow> ('s ring, 'a) op" where
  "on_keys m w = (case m (rg_store w) of (r, s) \<Rightarrow> (r, w\<lparr>rg_store := s\<rparr>))"

text \<open>Writing through the pointer to a key of the map.\<close>

definition map_key :: "string \<Rightarrow> (ring_key \<Rightarrow> ring_key) \<Rightarrow> ('s ring, unit) op" where
  "map_key kid f = modify_op (\<lambda>w. w\<lparr>rg_keys := map (\<lambda>(x, k). (x, if x = kid then f k else k)) (rg_keys w)\<rparr>)"

fun retire_active :: "'s key_store \<Rightarrow> time \<Rightarrow> ring_keys \<Rightarrow> string list \<Rightarrow> ('s ring, string list) op" where
  "retire_active KS now [] retired = ret retired"
| "retire_active KS now ((kid, k) # ks) retired =
     (if sk_State (rk_row k) = StateActive then
        seq_op (on_keys (ks_SetState KS kid StateRetiring now))
       (seq_op (map_key kid (\<lambda>k. k\<lparr>rk_row := (rk_row k)\<lparr>sk_State := StateRetiring, sk_RetiringAt := Some now\<rparr>\<rparr>))
          (retire_active KS now ks (retired @ [kid])))
      else retire_active KS now ks retired)"

definition put_back :: "'s key_store \<Rightarrow> time \<Rightarrow> string list \<Rightarrow> ('s ring, unit) op" where
  "put_back KS now retired =
     for_op retired (\<lambda>kid.
       try_op (on_keys (ks_SetState KS kid StateActive now)) (\<lambda>r.
       case r of
         Inl _ \<Rightarrow> ret ()
       | Inr _ \<Rightarrow> map_key kid (\<lambda>k. k\<lparr>rk_row := (rk_row k)\<lparr>sk_State := StateActive, sk_RetiringAt := None\<rparr>\<rparr>)))"

definition Rotate :: "externals \<Rightarrow> jwt_lib \<Rightarrow> 's key_store \<Rightarrow> time \<Rightarrow> key_draw \<Rightarrow> ('s ring, unit) op" where
  "Rotate X J KS now draw =
     bind_op (of_result (GenerateKey X J draw now)) (\<lambda>k.
     bind_op (gets_op rg_keys) (\<lambda>keys.
     bind_op (retire_active KS now keys []) (\<lambda>retired.
     try_op (on_keys (ks_Insert KS k)) (\<lambda>r.
     case r of
       Inl e \<Rightarrow> seq_op (put_back KS now retired) (throw e)
     | Inr _ \<Rightarrow>
         modify_op (\<lambda>w. w\<lparr>rg_keys := AList.update (sk_KID k)
           \<lparr>rk_row = k, rk_priv = (case OpenKey X J k of Inl _ \<Rightarrow> None | Inr p \<Rightarrow> Some p)\<rparr> (rg_keys w)\<rparr>)))))"

text \<open>The keys of \<open>Load\<close>: sealed halves of keys that are not retired must open.\<close>

fun open_keys :: "externals \<Rightarrow> jwt_lib \<Rightarrow> signing_key list \<Rightarrow> ring_keys \<Rightarrow> ring_keys result" where
  "open_keys X J [] fresh = Inr fresh"
| "open_keys X J (k # ks) fresh =
     (if sk_State k \<noteq> StateRetired then
        (case OpenKey X J k of
           Inl e \<Rightarrow> Inl e
         | Inr p \<Rightarrow> open_keys X J ks (AList.update (sk_KID k) \<lparr>rk_row = k, rk_priv = Some p\<rparr> fresh))
      else open_keys X J ks (AList.update (sk_KID k) \<lparr>rk_row = k, rk_priv = None\<rparr> fresh))"

definition Load :: "externals \<Rightarrow> jwt_lib \<Rightarrow> 's key_store \<Rightarrow> time \<Rightarrow> key_draw \<Rightarrow> ('s ring, unit) op" where
  "Load X J KS now draw =
     bind_op (on_keys (ks_List KS)) (\<lambda>keys.
     bind_op (of_result (open_keys X J keys [])) (\<lambda>fresh.
     seq_op (modify_op (\<lambda>w. w\<lparr>rg_keys := fresh\<rparr>))
       (if list_ex (\<lambda>k. sk_State k = StateActive) keys then ret () else Rotate X J KS now draw)))"

definition maxEnrollLifetime :: duration where "maxEnrollLifetime = 24 * hour"
definition defaultEnrollLifetime :: duration where "defaultEnrollLifetime = 10 * minute"

definition keepRetired :: "ring_config \<Rightarrow> duration" where
  "keepRetired cfg = max (rc_AccessLifetime cfg) maxEnrollLifetime + rc_ClockSkew cfg"

text \<open>\<open>t != nil && now.Sub(*t) >= d\<close>\<close>

definition elapsed :: "time \<Rightarrow> time option \<Rightarrow> duration \<Rightarrow> bool" where
  "elapsed now t d = (case t of None \<Rightarrow> False | Some t \<Rightarrow> now - t \<ge> d)"

text \<open>The loop of \<open>Sweep\<close>: the ids of the keys to keep, and whether to rotate.\<close>

fun sweep_loop ::
    "'s key_store \<Rightarrow> ring_config \<Rightarrow> time \<Rightarrow> ring_keys \<Rightarrow> string list \<Rightarrow> bool \<Rightarrow> ('s ring, string list \<times> bool) op" where
  "sweep_loop KS cfg now [] keep rot = ret (keep, rot)"
| "sweep_loop KS cfg now ((kid, k) # ks) keep rot =
     (let st = sk_State (rk_row k) in
      if st = StateActive then
        sweep_loop KS cfg now ks (keep @ [kid]) (rot \<or> now - sk_CreatedAt (rk_row k) \<ge> rc_RotationInterval cfg)
      else if st = StateRetiring \<and> elapsed now (sk_RetiringAt (rk_row k)) (rc_RetiringPeriod cfg) then
        seq_op (on_keys (ks_SetState KS kid StateRetired now))
       (seq_op (map_key kid (\<lambda>k. \<lparr>rk_row = (rk_row k)\<lparr>sk_State := StateRetired, sk_RetiredAt := Some now\<rparr>, rk_priv = None\<rparr>))
          (sweep_loop KS cfg now ks (keep @ [kid]) rot))
      else if st = StateRetired \<and> elapsed now (sk_RetiredAt (rk_row k)) (keepRetired cfg) then
        seq_op (on_keys (ks_Remove KS kid)) (sweep_loop KS cfg now ks keep rot)
      else sweep_loop KS cfg now ks (keep @ [kid]) rot)"

definition Sweep :: "externals \<Rightarrow> jwt_lib \<Rightarrow> 's key_store \<Rightarrow> ring_config \<Rightarrow> time \<Rightarrow> key_draw \<Rightarrow> ('s ring, unit) op" where
  "Sweep X J KS cfg now draw =
     bind_op (gets_op rg_keys) (\<lambda>keys.
     bind_op (sweep_loop KS cfg now keys [] False) (\<lambda>(keep, rot).
     seq_op (modify_op (\<lambda>w. w\<lparr>rg_keys := filter (\<lambda>(kid, _). List.member keep kid) (rg_keys w)\<rparr>))
       (if rot then Rotate X J KS now draw else ret ())))"

text \<open>The newest active key; among equally old ones the first found.\<close>

definition active_key :: "ring_keys \<Rightarrow> ring_key result" where
  "active_key keys =
     (case fold (\<lambda>(_, k) best.
        if sk_State (rk_row k) = StateActive
           \<and> (case best of None \<Rightarrow> True | Some b \<Rightarrow> sk_CreatedAt (rk_row b) < sk_CreatedAt (rk_row k))
        then Some k else best) keys None of
        None \<Rightarrow> Inl ErrNoActiveKey | Some k \<Rightarrow> Inr k)"

definition PublicKey :: "ring_keys \<Rightarrow> string \<Rightarrow> string option" where
  "PublicKey keys kid = map_option (\<lambda>k. sk_PublicKey (rk_row k)) (map_of keys kid)"

definition Ring_JWKS :: "ring_keys \<Rightarrow> jwk list" where
  "Ring_JWKS keys = map (\<lambda>(_, k). NewJWK (sk_KID (rk_row k)) (sk_PublicKey (rk_row k)) (sk_State (rk_row k))) keys"

section \<open>Issuing\<close>

record token_request =
  tr_UserID :: string
  tr_TenantID :: string
  tr_SessionID :: string
  tr_Roles :: "string list"
  tr_AMR :: "string list"
  tr_Audience :: string
  tr_Lifetime :: duration

definition token_lifetime :: "ring_config \<Rightarrow> token_request \<Rightarrow> duration" where
  "token_lifetime cfg req =
     (if tr_Lifetime req \<le> 0 \<or> tr_Lifetime req > rc_AccessLifetime cfg then rc_AccessLifetime cfg else tr_Lifetime req)"

definition Issue ::
    "jwt_lib \<Rightarrow> string \<Rightarrow> ring_config \<Rightarrow> ring_keys \<Rightarrow> time \<Rightarrow> string \<Rightarrow> token_request \<Rightarrow> (string \<times> claims) result" where
  "Issue J iss cfg keys now jti req =
     (case active_key keys of
        Inl e \<Rightarrow> Inl e
      | Inr k \<Rightarrow>
          if tr_UserID req = '''' \<or> tr_TenantID req = '''' \<or> tr_SessionID req = ''''
          then Inl (ErrOther ''token: user, tenant and session are required'')
          else
            let c = \<lparr>cl_Issuer = iss, cl_Subject = tr_UserID req,
                     cl_Audience = (if tr_Audience req \<noteq> '''' then [tr_Audience req] else []),
                     cl_IssuedAt = Some (NumericDate now), cl_NotBefore = Some (NumericDate now),
                     cl_ExpiresAt = Some (NumericDate (now + token_lifetime cfg req)), cl_ID = jti,
                     cl_TenantID = tr_TenantID req, cl_SessionID = tr_SessionID req, cl_Roles = tr_Roles req,
                     cl_AMR = tr_AMR req, cl_SpiffePaths = []\<rparr>
            in case rk_priv k of
                 None \<Rightarrow> Inl ErrBrokenKey
               | Some priv \<Rightarrow>
                   (case jw_Sign J priv (sk_KID (rk_row k)) c of Inl e \<Rightarrow> Inl e | Inr tok \<Rightarrow> Inr (tok, c)))"

definition Issuer_Verify :: "jwt_lib \<Rightarrow> string \<Rightarrow> ring_config \<Rightarrow> ring_keys \<Rightarrow> time \<Rightarrow> string \<Rightarrow> claims result" where
  "Issuer_Verify J iss cfg keys now tok =
     VerifyToken J tok iss (rc_ClockSkew cfg) (rc_AccessLifetime cfg) now (PublicKey keys)"

section \<open>Enrollment tokens\<close>

definition EnrollAudience :: string where "EnrollAudience = ''lcm''"

abbreviation ErrEnrollmentLifetime :: err where "ErrEnrollmentLifetime \<equiv> Sentinel ''token.ErrEnrollmentLifetime''"

record enroll_grant =
  eg_JTI :: string
  eg_TenantID :: string
  eg_SpiffePaths :: "string list"
  eg_ExpiresAt :: time

definition IssueEnrollment ::
    "jwt_lib \<Rightarrow> string \<Rightarrow> ring_keys \<Rightarrow> time \<Rightarrow> string \<Rightarrow> string \<Rightarrow> string list \<Rightarrow> duration \<Rightarrow> (string \<times> enroll_grant) result" where
  "IssueEnrollment J iss keys now jti tenantID paths ttl0 =
     (if tenantID = '''' \<or> paths = [] then Inl (ErrOther ''token: tenant and spiffe paths are required'')
      else if ttl0 > maxEnrollLifetime then Inl ErrEnrollmentLifetime
      else
        let ttl = (if ttl0 \<le> 0 then defaultEnrollLifetime else ttl0) in
        case active_key keys of
          Inl e \<Rightarrow> Inl e
        | Inr k \<Rightarrow>
            (case rk_priv k of
               None \<Rightarrow> Inl ErrBrokenKey
             | Some priv \<Rightarrow>
                 let c = \<lparr>cl_Issuer = iss, cl_Subject = tenantID, cl_Audience = [EnrollAudience],
                          cl_IssuedAt = Some (NumericDate now), cl_NotBefore = Some (NumericDate now),
                          cl_ExpiresAt = Some (NumericDate (now + ttl)), cl_ID = jti, cl_TenantID = tenantID,
                          cl_SessionID = '''', cl_Roles = [], cl_AMR = [], cl_SpiffePaths = paths\<rparr>
                 in case jw_Sign J priv (sk_KID (rk_row k)) c of
                      Inl e \<Rightarrow> Inl e
                    | Inr tok \<Rightarrow> Inr (tok, \<lparr>eg_JTI = jti, eg_TenantID = tenantID, eg_SpiffePaths = paths, eg_ExpiresAt = now + ttl\<rparr>)))"

text \<open>Only a time failure of an otherwise authentic token is named; everything else is opaque.\<close>

definition enrollParseError :: "jwt_error \<Rightarrow> err" where
  "enrollParseError e =
     (case e of
        InvalidClaims fs \<Rightarrow>
          if List.member fs ''issuer'' \<or> List.member fs ''audience'' then ErrOther ''token''
          else if List.member fs ''expired'' then ErrEnrollmentExpired
          else if List.member fs ''not_valid_yet'' \<or> List.member fs ''used_before_issued'' then ErrEnrollmentNotYetValid
          else ErrOther ''token''
      | _ \<Rightarrow> ErrOther ''token'')"

definition enroll_key_func :: "(string \<Rightarrow> string option) \<Rightarrow> string \<Rightarrow> string \<Rightarrow> string result" where
  "enroll_key_func lookup alg kid =
     (if kid = '''' then Inl (ErrOther ''kid required'')
      else case lookup kid of None \<Rightarrow> Inl (ErrOther ''unknown kid'') | Some pub \<Rightarrow> Inr pub)"

definition VerifyEnrollment :: "jwt_lib \<Rightarrow> string \<Rightarrow> ring_config \<Rightarrow> ring_keys \<Rightarrow> time \<Rightarrow> string \<Rightarrow> enroll_grant result" where
  "VerifyEnrollment J iss cfg keys now s =
     (if int (length s) > 8 * 1024 then Inl (ErrOther ''token: too long'')
      else case jw_Parse J \<lparr>jo_Methods = [EdDSA], jo_Issuer = iss, jo_Audience = EnrollAudience,
                            jo_Leeway = clamp_skew (rc_ClockSkew cfg)\<rparr> now (enroll_key_func (PublicKey keys)) s of
        Inl e \<Rightarrow> Inl (enrollParseError e)
      | Inr c \<Rightarrow>
          (case (cl_ExpiresAt c, cl_IssuedAt c) of
             (Some exp, Some iat) \<Rightarrow>
               if exp - iat > maxEnrollLifetime then Inl (ErrOther ''token: lifetime exceeds the maximum'')
               else if cl_TenantID c = '''' \<or> cl_ID c = '''' \<or> cl_SpiffePaths c = []
               then Inl (ErrOther ''token: required claims missing'')
               else Inr \<lparr>eg_JTI = cl_ID c, eg_TenantID = cl_TenantID c, eg_SpiffePaths = cl_SpiffePaths c, eg_ExpiresAt = exp\<rparr>
           | _ \<Rightarrow> Inl (ErrOther ''token: lifetime exceeds the maximum'')))"

end
