(* ===== verification/Oauth.thy ===== *)
theory Oauth
  imports Signin_Safety Token_Safety
begin

text \<open>
  The authorization-code flow (\<open>internal/oauth\<close>): the checks of an authorization request, codes in the
  cache, their redemption and PKCE.  \<open>net/url\<close> parsing is a parameter.  The theorems: a token is given
  only for a code that was issued less than a minute earlier to this client and redirect address and
  only against the verifier of its challenge; when the cache works and requests do not overlap, a code
  is redeemed at most once; two overlapping requests can both redeem it.
\<close>

section \<open>PKCE\<close>

definition MinVerifier :: nat where "MinVerifier = 43"
definition MaxVerifier :: nat where "MaxVerifier = 128"

abbreviation ErrPKCE :: err where "ErrPKCE \<equiv> Sentinel ''oauth.ErrPKCE''"

definition verifier_char :: "char \<Rightarrow> bool" where
  "verifier_char c =
     (let n = (of_char c :: nat) in
      65 \<le> n \<and> n \<le> 90 \<or> 97 \<le> n \<and> n \<le> 122 \<or> 48 \<le> n \<and> n \<le> 57
      \<or> c = CHR ''-'' \<or> c = CHR ''.'' \<or> c = CHR ''_'' \<or> c = CHR ''~'')"

definition validVerifier :: "string \<Rightarrow> bool" where
  "validVerifier v \<longleftrightarrow> \<not> (length v < MinVerifier \<or> length v > MaxVerifier) \<and> list_all verifier_char v"

definition Challenge :: "externals \<Rightarrow> string \<Rightarrow> string" where
  "Challenge X verifier = b64_encode url_alphabet (ex_sha256 X verifier)"

definition VerifyPKCE :: "externals \<Rightarrow> string \<Rightarrow> string \<Rightarrow> unit result" where
  "VerifyPKCE X verifier chal =
     (if \<not> validVerifier verifier \<or> chal = '''' then Inl ErrPKCE
      else if \<not> ConstantTimeEqual (Challenge X verifier) chal then Inl ErrPKCE
      else Inr ())"

section \<open>Requests\<close>

definition CodeTTL :: duration where "CodeTTL = 60 * second"

abbreviation ErrInvalidRequest :: err where "ErrInvalidRequest \<equiv> Sentinel ''oauth.ErrInvalidRequest''"
abbreviation ErrInvalidGrant :: err where "ErrInvalidGrant \<equiv> Sentinel ''oauth.ErrInvalidGrant''"
abbreviation ErrInvalidClient :: err where "ErrInvalidClient \<equiv> Sentinel ''oauth.ErrInvalidClient''"

record authorize_request =
  ar_ResponseType :: string
  ar_ClientID :: string
  ar_RedirectURI :: string
  ar_State :: string
  ar_CodeChallenge :: string
  ar_CodeChallengeMethod :: string

text \<open>\<open>url.Values.Get\<close>: the first value of a name, empty when there is none.\<close>

definition values_Get :: "(string \<times> string list) list \<Rightarrow> string \<Rightarrow> string" where
  "values_Get q name = (case map_of q name of Some (v # _) \<Rightarrow> v | _ \<Rightarrow> '''')"

text \<open>What the code reads of a parsed address.\<close>

record url_parts =
  ur_Scheme :: string
  ur_Host :: string
  ur_Fragment :: string

definition ParseAuthorize ::
    "(string \<Rightarrow> url_parts result) \<Rightarrow> (string \<times> string list) list \<Rightarrow> authorize_request result" where
  "ParseAuthorize url_Parse q =
     (let r = \<lparr>ar_ResponseType = values_Get q ''response_type'', ar_ClientID = values_Get q ''client_id'',
               ar_RedirectURI = values_Get q ''redirect_uri'', ar_State = values_Get q ''state'',
               ar_CodeChallenge = values_Get q ''code_challenge'',
               ar_CodeChallengeMethod = values_Get q ''code_challenge_method''\<rparr> in
      if ar_ResponseType r \<noteq> ''code'' \<or> ar_ClientID r = '''' \<or> ar_RedirectURI r = '''' \<or> ar_State r = ''''
         \<or> ar_CodeChallengeMethod r \<noteq> ''S256'' \<or> length (ar_CodeChallenge r) \<noteq> 43
         \<or> int (length (ar_State r)) > 512 \<or> int (length (ar_ClientID r)) > 128
      then Inl ErrInvalidRequest
      else case url_Parse (ar_RedirectURI r) of
        Inl _ \<Rightarrow> Inl ErrInvalidRequest
      | Inr u \<Rightarrow>
          if ur_Scheme u = '''' \<or> ur_Host u = '''' \<or> ur_Fragment u \<noteq> '''' then Inl ErrInvalidRequest else Inr r)"

definition ValidateClient :: "authorize_request \<Rightarrow> (world, client_application) op" where
  "ValidateClient r =
     try_op (on_db (Store_Client (ar_ClientID r))) (\<lambda>c.
     case c of
       Inl _ \<Rightarrow> throw ErrInvalidRequest
     | Inr c \<Rightarrow> if List.member (ca_RedirectURIs c) (ar_RedirectURI r) then ret c else throw ErrInvalidRequest)"

section \<open>Codes\<close>

definition pending_of :: "actor \<Rightarrow> client_application \<Rightarrow> authorize_request \<Rightarrow> pending_code" where
  "pending_of actor c r =
     \<lparr>pc_ClientID = ca_ClientID c, pc_RedirectURI = ar_RedirectURI r, pc_Challenge = ar_CodeChallenge r,
      pc_TenantID = act_TenantID actor, pc_UserID = act_UserID actor, pc_SessionID = act_SessionID actor,
      pc_Roles = act_Roles actor, pc_AMR = act_AMR actor\<rparr>"

definition IssueCode ::
    "externals \<Rightarrow> time \<Rightarrow> string option \<Rightarrow> actor \<Rightarrow> client_application \<Rightarrow> authorize_request \<Rightarrow> (world, string) op" where
  "IssueCode X now rand actor c r =
     (if act_TenantID actor \<noteq> ca_TenantID c then
        seq_op (emit (event ''cross_tenant_refused'' (ca_TenantID c) (act_Kind actor) (act_UserID actor) '''' ''''
                  ''refused'' ''oauth_client_tenant''))
          (throw ErrInvalidRequest)
      else
        bind_op (of_result (RandomToken rand)) (\<lambda>code.
        seq_op (kv_Set World_KV now (CodeKey (HashToken X code)) (Doc (DCode (pending_of actor c r))) CodeTTL)
          (ret code)))"

record code_request =
  cq_GrantType :: string
  cq_Code :: string
  cq_RedirectURI :: string
  cq_ClientID :: string
  cq_CodeVerifier :: string
  cq_ClientSecret :: string

record code_response =
  cr_AccessToken :: string
  cr_TokenType :: string
  cr_ExpiresIn :: int

text \<open>The issuer the service was wired with.\<close>

record issuer =
  is_lib :: jwt_lib
  is_Issuer :: string
  is_cfg :: ring_config

definition client_secret_ok :: "externals \<Rightarrow> client_application \<Rightarrow> string \<Rightarrow> bool" where
  "client_secret_ok X c secret \<longleftrightarrow>
     ca_Public c
     \<or> (case ca_SecretHash c of
          None \<Rightarrow> False
        | Some h \<Rightarrow> secret \<noteq> '''' \<and> (case VerifyPassword X secret h of Inl _ \<Rightarrow> False | Inr (ok, _) \<Rightarrow> ok))"

definition code_token :: "client_application \<Rightarrow> pending_code \<Rightarrow> token_request" where
  "code_token c p =
     \<lparr>tr_UserID = pc_UserID p, tr_TenantID = pc_TenantID p, tr_SessionID = pc_SessionID p, tr_Roles = pc_Roles p,
      tr_AMR = pc_AMR p, tr_Audience = ca_ClientID c, tr_Lifetime = 0\<rparr>"

text \<open>
  Redemption up to the read of the code, and from its deletion on: between the two calls to the cache
  another request can run.
\<close>

definition redeem_read :: "externals \<Rightarrow> time \<Rightarrow> code_request \<Rightarrow> (world, doc kv_value) op" where
  "redeem_read X now r =
     (if cq_GrantType r \<noteq> ''authorization_code'' \<or> cq_Code r = '''' \<or> cq_ClientID r = '''' \<or> cq_RedirectURI r = ''''
      then throw ErrInvalidRequest
      else try_op (kv_Get World_KV now (CodeKey (HashToken X (cq_Code r)))) (\<lambda>v.
        case v of Inr (Some raw) \<Rightarrow> ret raw | _ \<Rightarrow> throw ErrInvalidGrant))"

definition exchange ::
    "externals \<Rightarrow> issuer \<Rightarrow> ring_keys \<Rightarrow> time \<Rightarrow> string \<Rightarrow> code_request \<Rightarrow> pending_code \<Rightarrow> (world, code_response) op" where
  "exchange X I keys now jti r p =
     try_op (on_db (Store_Client (cq_ClientID r))) (\<lambda>c.
     case c of
       Inl _ \<Rightarrow> throw ErrInvalidGrant
     | Inr c \<Rightarrow>
         if pc_ClientID p \<noteq> cq_ClientID r \<or> pc_RedirectURI p \<noteq> cq_RedirectURI r then throw ErrInvalidGrant
         else if \<not> client_secret_ok X c (cq_ClientSecret r) then throw ErrInvalidClient
         else case VerifyPKCE X (cq_CodeVerifier r) (pc_Challenge p) of
           Inl _ \<Rightarrow> throw ErrInvalidGrant
         | Inr _ \<Rightarrow>
             bind_op (of_result (Issue (is_lib I) (is_Issuer I) (is_cfg I) keys now jti (code_token c p))) (\<lambda>(tok, cl).
             ret \<lparr>cr_AccessToken = tok, cr_TokenType = ''Bearer'',
                  cr_ExpiresIn = (case (cl_ExpiresAt cl, cl_IssuedAt cl) of (Some e, Some i) \<Rightarrow> (e - i) div second | _ \<Rightarrow> 0)\<rparr>))"

definition redeem_rest ::
    "externals \<Rightarrow> issuer \<Rightarrow> ring_keys \<Rightarrow> time \<Rightarrow> string \<Rightarrow> code_request \<Rightarrow> doc kv_value \<Rightarrow> (world, code_response) op" where
  "redeem_rest X I keys now jti r raw =
     ignore_op (kv_Del World_KV now [CodeKey (HashToken X (cq_Code r))])
       (case raw of Doc (DCode p) \<Rightarrow> exchange X I keys now jti r p | _ \<Rightarrow> throw ErrInvalidGrant)"

definition Redeem ::
    "externals \<Rightarrow> issuer \<Rightarrow> ring_keys \<Rightarrow> time \<Rightarrow> string \<Rightarrow> code_request \<Rightarrow> (world, code_response) op" where
  "Redeem X I keys now jti r = bind_op (redeem_read X now r) (redeem_rest X I keys now jti r)"


section \<open>The authorization endpoint\<close>

text \<open>
  The handler of \<open>GET /authorize\<close>: an error page, a detour through the sign-in page, or the redirect to
  the client with a code.  The signed-in user of the request is an argument; how the code and the
  state are added to the address is the URL library's.
\<close>

definition RequireUser :: "actor option \<Rightarrow> actor result" where
  "RequireUser user =
     (case user of
        None \<Rightarrow> Inl (Sentinel ''httpapi.ErrUnauthenticated'')
      | Some a \<Rightarrow>
          if act_Kind a \<noteq> KindUser \<and> act_Kind a \<noteq> KindOperator then Inl (Sentinel ''httpapi.ErrUnauthenticated'') else Inr a)"

datatype authorize_reply = ErrorPage err | ToSignin | RedirectTo string string string

definition authorize ::
    "(string \<Rightarrow> url_parts result) \<Rightarrow> externals \<Rightarrow> time \<Rightarrow> string option \<Rightarrow> actor option \<Rightarrow> (string \<times> string list) list
      \<Rightarrow> (world, authorize_reply) op" where
  "authorize url_Parse X now rand user q =
     (case ParseAuthorize url_Parse q of
        Inl e \<Rightarrow> ret (ErrorPage e)
      | Inr req \<Rightarrow>
          try_op (ValidateClient req) (\<lambda>c.
          case c of
            Inl e \<Rightarrow> ret (ErrorPage e)
          | Inr client \<Rightarrow>
              (case RequireUser user of
                 Inl _ \<Rightarrow> ret ToSignin
               | Inr a \<Rightarrow>
                   try_op (IssueCode X now rand a client req) (\<lambda>code.
                   case code of
                     Inl e \<Rightarrow> ret (ErrorPage e)
                   | Inr code \<Rightarrow> ret (RedirectTo (ar_RedirectURI req) code (ar_State req))))))"

section \<open>What each request does to the codes\<close>

definition code_at :: "world \<Rightarrow> time \<Rightarrow> string \<Rightarrow> pending_code option" where
  "code_at w t h = (case sees w t (CodeKey h) of Some (Doc (DCode p)) \<Rightarrow> Some p | _ \<Rightarrow> None)"

lemma code_at_Some: "code_at w t h = Some p \<longleftrightarrow> sees w t (CodeKey h) = Some (Doc (DCode p))"
  by (auto simp: code_at_def split: option.splits kv_value.splits doc.splits)

lemma code_at_sees: "sees w' = sees w \<Longrightarrow> code_at w' = code_at w"
  by (simp add: code_at_def fun_eq_iff)

text \<open>The entry a request for a code may have written, also when it reports an error.\<close>

definition code_asked :: "externals \<Rightarrow> string option \<Rightarrow> actor \<Rightarrow> client_application \<Rightarrow> string option" where
  "code_asked X rand actor c =
     (if act_TenantID actor = ca_TenantID c then map_option (\<lambda>b. HashToken X (b64_encode url_alphabet b)) rand else None)"

lemma wp_IssueCode:
  "wp (IssueCode X now rand actor c r)
     (\<lambda>_ w'. \<forall>t h p. now \<le> t \<longrightarrow> code_at w' t h = Some p \<longrightarrow>
        code_at w t h = Some p
        \<or> t < now + CodeTTL \<and> code_asked X rand actor c = Some h \<and> p = pending_of actor c r) w"
proof (cases "act_TenantID actor = ca_TenantID c \<and> rand \<noteq> None")
  case False
  have "code_at (w\<lparr>audit := a\<rparr>) = code_at w" for a by (rule code_at_sees) (simp add: sees_def)
  with False show ?thesis
    by (cases rand) (simp_all add: IssueCode_def wp_simps RandomToken_def)
next
  case True
  then obtain b where b: "rand = Some b" by blast
  let ?code = "b64_encode url_alphabet b"
  have set: "wp (kv_Set World_KV now (CodeKey (HashToken X ?code)) (Doc (DCode (pending_of actor c r))) CodeTTL)
      (\<lambda>res w'. \<forall>t h p. now \<le> t \<longrightarrow> code_at w' t h = Some p \<longrightarrow>
        code_at w t h = Some p \<or> t < now + CodeTTL \<and> h = HashToken X ?code \<and> p = pending_of actor c r) w"
  proof (rule wp_mono [OF wkv.Set], intro allI impI)
    fix res w' t h p
    assume "outcome now (sees w) (view_set now (CodeKey (HashToken X ?code)) (Doc (DCode (pending_of actor c r))) CodeTTL (sees w)) (sees w') res"
      and "now \<le> t" "code_at w' t h = Some p"
    then show "code_at w t h = Some p \<or> t < now + CodeTTL \<and> h = HashToken X ?code \<and> p = pending_of actor c r"
      by (drule_tac k = "CodeKey h" in outcome_point)
        (auto simp: code_at_Some view_set_def CodeTTL_def second_def split: if_splits)
  qed
  show ?thesis
    using True b
    by (simp add: IssueCode_def wp_simps RandomToken_def code_asked_def)
      (rule wp_mono [OF set], auto simp: wp_simps split: sum.split)
qed

lemma wp_client:
  "wp (on_db (Store_Client cid)) (\<lambda>r w'. sees w' = sees w \<and> (\<forall>c. r = Inr c \<longrightarrow> map_of (Clients (db w)) cid = Some c)) w"
  by (rule wp_db) (auto simp: sees_def Store_Client_def found_def split: option.splits)

text \<open>What a successful exchange has checked.\<close>

definition exchanged ::
    "externals \<Rightarrow> issuer \<Rightarrow> ring_keys \<Rightarrow> time \<Rightarrow> string \<Rightarrow> code_request \<Rightarrow> pending_code \<Rightarrow> memstore \<Rightarrow> code_response \<Rightarrow> bool" where
  "exchanged X I keys now jti r p m resp \<longleftrightarrow>
     pc_ClientID p = cq_ClientID r \<and> pc_RedirectURI p = cq_RedirectURI r
     \<and> validVerifier (cq_CodeVerifier r) \<and> Challenge X (cq_CodeVerifier r) = pc_Challenge p
     \<and> (\<exists>c cl. map_of (Clients m) (cq_ClientID r) = Some c \<and> client_secret_ok X c (cq_ClientSecret r)
          \<and> Issue (is_lib I) (is_Issuer I) (is_cfg I) keys now jti (code_token c p) = Inr (cr_AccessToken resp, cl))"

lemma VerifyPKCE_ok: "VerifyPKCE X v c = Inr u \<longleftrightarrow> validVerifier v \<and> c \<noteq> '''' \<and> Challenge X v = c"
  by (auto simp: VerifyPKCE_def ConstantTimeEqual_def)

lemma wp_exchange:
  "wp (exchange X I keys now jti r p)
     (\<lambda>res w'. sees w' = sees w \<and> (\<forall>resp. res = Inr resp \<longrightarrow> exchanged X I keys now jti r p (db w) resp)) w"
  unfolding exchange_def wp_try
  by (rule wp_mono [OF wp_client]) (auto simp: wp_simps exchanged_def VerifyPKCE_ok split: sum.split)


lemma wp_redeem_read:
  "wp (redeem_read X now r)
     (\<lambda>res w'. same_from now (sees w') (sees w) \<and> db w' = db w
        \<and> (\<forall>raw. res = Inr raw \<longrightarrow> sees w now (CodeKey (HashToken X (cq_Code r))) = Some raw)) w"
proof -
  have refl: "same_from now (sees w) (sees w)" by (simp add: same_from_def)
  show ?thesis
    unfolding redeem_read_def wp_simps
    by (simp add: refl) (intro impI wp_mono [OF kv_Get_db], auto simp: wp_simps outcome_def split: sum.split option.split)
qed

lemma wp_redeem_rest:
  "wp (redeem_rest X I keys now jti r raw)
     (\<lambda>res w'. (\<forall>t h p. now \<le> t \<longrightarrow> code_at w' t h = Some p \<longrightarrow> code_at w t h = Some p)
        \<and> (\<forall>resp. res = Inr resp \<longrightarrow> (\<exists>p. raw = Doc (DCode p) \<and> exchanged X I keys now jti r p (db w) resp))
        \<and> (faults w = [] \<longrightarrow> (\<forall>t\<ge>now. code_at w' t (HashToken X (cq_Code r)) = None))) w"
proof -
  let ?k = "CodeKey (HashToken X (cq_Code r))"
  have del: "wp (kv_Del World_KV now [?k]) (\<lambda>res w'. (\<forall>t h p. now \<le> t \<longrightarrow> code_at w' t h = Some p \<longrightarrow> code_at w t h = Some p)
      \<and> db w' = db w \<and> (faults w = [] \<longrightarrow> (\<forall>t\<ge>now. code_at w' t (HashToken X (cq_Code r)) = None))) w"
  proof -
    have "wp (kv_Del World_KV now [?k]) (\<lambda>res w'. faults w = [] \<longrightarrow> sees w' = view_del [?k] (sees w)) w"
    proof (cases "faults w = []")
      case True
      then show ?thesis by (rule wp_Del) simp
    next
      case False
      then show ?thesis by (intro wp_mono [OF wp_any]) simp
    qed
    with kv_Del_db [of now "[?k]" w]
    have "wp (kv_Del World_KV now [?k]) (\<lambda>res w'. (outcome now (sees w) (view_del [?k] (sees w)) (sees w') res \<and> db w' = db w)
        \<and> (faults w = [] \<longrightarrow> sees w' = view_del [?k] (sees w))) w"
      by (simp only: wp_conj simp_thms)
    then show ?thesis
    proof (rule wp_mono, elim conjE, intro conjI allI impI)
      fix res w' t h p
      assume "outcome now (sees w) (view_del [?k] (sees w)) (sees w') res" "now \<le> t" "code_at w' t h = Some p"
      then show "code_at w t h = Some p"
        by (drule_tac k = "CodeKey h" in outcome_point) (auto simp: code_at_Some view_del_def split: if_splits)
    next
      fix res :: "unit result" and w' t
      assume "faults w = []" "faults w = [] \<longrightarrow> sees w' = view_del [?k] (sees w)"
      then show "code_at w' t (HashToken X (cq_Code r)) = None" by (simp add: code_at_def view_del_def)
    qed
  qed
  show ?thesis
    unfolding redeem_rest_def wp_ignore
  proof (rule wp_mono [OF del], elim conjE)
    fix w' assume codes: "\<forall>t h p. now \<le> t \<longrightarrow> code_at w' t h = Some p \<longrightarrow> code_at w t h = Some p"
      and d: "db w' = db w" and gone: "faults w = [] \<longrightarrow> (\<forall>t\<ge>now. code_at w' t (HashToken X (cq_Code r)) = None)"
    have ex: "wp (exchange X I keys now jti r p) (\<lambda>res w''. code_at w'' = code_at w'
        \<and> (\<forall>resp. res = Inr resp \<longrightarrow> exchanged X I keys now jti r p (db w) resp)) w'" for p
      by (rule wp_mono [OF wp_exchange]) (simp add: d, blast dest: code_at_sees)
    show "wp (case raw of Doc (DCode p) \<Rightarrow> exchange X I keys now jti r p | _ \<Rightarrow> throw ErrInvalidGrant)
        (\<lambda>res w'. (\<forall>t h p. now \<le> t \<longrightarrow> code_at w' t h = Some p \<longrightarrow> code_at w t h = Some p)
        \<and> (\<forall>resp. res = Inr resp \<longrightarrow> (\<exists>p. raw = Doc (DCode p) \<and> exchanged X I keys now jti r p (db w) resp))
        \<and> (faults w = [] \<longrightarrow> (\<forall>t\<ge>now. code_at w' t (HashToken X (cq_Code r)) = None))) w'"
    proof (cases "\<exists>p. raw = Doc (DCode p)")
      case True
      then obtain p where p: "raw = Doc (DCode p)" by blast
      show ?thesis
        unfolding p kv_value.case doc.case by (rule wp_mono [OF ex]) (use codes gone in simp)
    next
      case False
      then have "(case raw of Doc (DCode p) \<Rightarrow> exchange X I keys now jti r p | _ \<Rightarrow> throw ErrInvalidGrant) = throw ErrInvalidGrant"
        by (simp split: kv_value.split doc.split)
      then show ?thesis using codes gone by (simp only: wp_throw) simp
    qed
  qed
qed


section \<open>Runs of the flow\<close>

text \<open>
  The log of a run: the codes that were asked for, with the user, the client row and the request, and
  the codes a token was given for.
\<close>

datatype code_event = Asked string time actor client_application authorize_request | Given string

definition asked_events ::
    "(string \<Rightarrow> url_parts result) \<Rightarrow> externals \<Rightarrow> time \<Rightarrow> string option \<Rightarrow> actor option \<Rightarrow> (string \<times> string list) list \<Rightarrow> memstore
      \<Rightarrow> code_event list" where
  "asked_events url_Parse X now rand user q m =
     (case (ParseAuthorize url_Parse q, RequireUser user) of
        (Inr r, Inr a) \<Rightarrow>
          (case map_of (Clients m) (ar_ClientID r) of
             Some c \<Rightarrow>
               (case code_asked X rand a c of
                  Some h \<Rightarrow> if List.member (ca_RedirectURIs c) (ar_RedirectURI r) then [Asked h now a c r] else []
                | None \<Rightarrow> [])
           | None \<Rightarrow> [])
      | _ \<Rightarrow> [])"

definition given_events :: "externals \<Rightarrow> code_request \<Rightarrow> code_response result \<Rightarrow> code_event list" where
  "given_events X r res = (case res of Inl _ \<Rightarrow> [] | Inr _ \<Rightarrow> [Given (HashToken X (cq_Code r))])"

text \<open>
  Requests one after the other at times that do not decrease, each in a state that satisfies \<open>F\<close>, with
  arbitrary other activity in between that adds no code.
\<close>

inductive code_run ::
    "(string \<Rightarrow> url_parts result) \<Rightarrow> externals \<Rightarrow> issuer \<Rightarrow> (world \<Rightarrow> bool) \<Rightarrow> time \<Rightarrow> world \<Rightarrow> code_event list \<Rightarrow> bool"
  for up X I F where
  initial: "code_run up X I F now w []" if "\<And>t h. now \<le> t \<Longrightarrow> code_at w t h = None"
| ask: "code_run up X I F now (snd (authorize up X now rand user q w)) (log @ asked_events up X now rand user q (db w))"
    if "code_run up X I F past w log" "past \<le> now" "F w"
| redeem: "code_run up X I F now (snd (Redeem X I keys now jti r w)) (log @ given_events X r (fst (Redeem X I keys now jti r w)))"
    if "code_run up X I F past w log" "past \<le> now" "F w"
| other: "code_run up X I F now w' log"
    if "code_run up X I F past w log" "past \<le> now" "\<And>t h p. now \<le> t \<Longrightarrow> code_at w' t h = Some p \<Longrightarrow> code_at w t h = Some p"

lemma wp_ValidateClient:
  "wp (ValidateClient r)
     (\<lambda>res w'. code_at w' = code_at w \<and> (\<forall>c. res = Inr c \<longrightarrow>
        map_of (Clients (db w)) (ar_ClientID r) = Some c \<and> List.member (ca_RedirectURIs c) (ar_RedirectURI r))) w"
  unfolding ValidateClient_def wp_try
  by (rule wp_mono [OF wp_client]) (auto simp: wp_simps split: sum.split dest: code_at_sees)

lemma wp_authorize:
  "wp (authorize up X now rand user q)
     (\<lambda>_ w'. \<forall>t h p. now \<le> t \<longrightarrow> code_at w' t h = Some p \<longrightarrow>
        code_at w t h = Some p
        \<or> t < now + CodeTTL \<and> (\<exists>a c r. Asked h now a c r \<in> set (asked_events up X now rand user q (db w)) \<and> p = pending_of a c r)) w"
proof (cases "ParseAuthorize up q")
  case (Inl e)
  then show ?thesis by (simp add: authorize_def wp_simps)
next
  case (Inr r)
  show ?thesis
    unfolding authorize_def Inr sum.case wp_try
  proof (rule wp_mono [OF wp_ValidateClient], elim conjE)
    fix res :: "client_application result" and w'
    assume same: "code_at w' = code_at w"
      and c: "\<forall>c. res = Inr c \<longrightarrow> map_of (Clients (db w)) (ar_ClientID r) = Some c \<and> List.member (ca_RedirectURIs c) (ar_RedirectURI r)"
    show "wp (case res of
            Inl e \<Rightarrow> ret (ErrorPage e)
          | Inr client \<Rightarrow>
              (case RequireUser user of
                 Inl _ \<Rightarrow> ret ToSignin
               | Inr a \<Rightarrow>
                   try_op (IssueCode X now rand a client r) (\<lambda>code.
                   case code of
                     Inl e \<Rightarrow> ret (ErrorPage e)
                   | Inr code \<Rightarrow> ret (RedirectTo (ar_RedirectURI r) code (ar_State r)))))
       (\<lambda>_ w'. \<forall>t h p. now \<le> t \<longrightarrow> code_at w' t h = Some p \<longrightarrow>
        code_at w t h = Some p
        \<or> t < now + CodeTTL \<and> (\<exists>a c r. Asked h now a c r \<in> set (asked_events up X now rand user q (db w)) \<and> p = pending_of a c r)) w'"
    proof (cases "\<exists>cl a. res = Inr cl \<and> RequireUser user = Inr a")
      case True
      then obtain cl a where cl: "res = Inr cl" "RequireUser user = Inr a" by blast
      have "Asked h now a cl r \<in> set (asked_events up X now rand user q (db w))" if "code_asked X rand a cl = Some h" for h
        using that c cl Inr by (simp add: asked_events_def)
      then show ?thesis
        unfolding cl sum.case wp_try
        by (intro wp_mono [OF wp_IssueCode]) (simp add: wp_simps same cl split: sum.split, blast)
    next
      case False
      then show ?thesis using same by (cases res; cases "RequireUser user") (simp_all add: wp_simps)
    qed
  qed
qed


lemma wp_Redeem:
  "wp (Redeem X I keys now jti r)
     (\<lambda>res w'. (\<forall>t h p. now \<le> t \<longrightarrow> code_at w' t h = Some p \<longrightarrow> code_at w t h = Some p)
        \<and> (\<forall>resp. res = Inr resp \<longrightarrow>
             (\<exists>p. code_at w now (HashToken X (cq_Code r)) = Some p \<and> exchanged X I keys now jti r p (db w) resp)
             \<and> (faults w = [] \<longrightarrow> (\<forall>t\<ge>now. code_at w' t (HashToken X (cq_Code r)) = None)))) w"
proof -
  have read: "wp (redeem_read X now r) (\<lambda>res w'. (\<forall>t\<ge>now. \<forall>h. code_at w' t h = code_at w t h) \<and> db w' = db w
      \<and> (faults w = [] \<longrightarrow> faults w' = [])
      \<and> (\<forall>raw. res = Inr raw \<longrightarrow> sees w now (CodeKey (HashToken X (cq_Code r))) = Some raw)) w"
  proof -
    have "wp (redeem_read X now r) (\<lambda>res w'. faults w = [] \<longrightarrow> faults w' = []) w"
    proof (cases "faults w = []")
      case True
      then show ?thesis
        unfolding redeem_read_def wp_simps by (simp, intro impI wp_Get) (auto simp: calm_def wp_simps split: option.split)
    next
      case False
      then show ?thesis by (intro wp_mono [OF wp_any]) simp
    qed
    with wp_redeem_read [of X now r w] show ?thesis
      by (auto simp: wp_iff same_from_def code_at_def)
  qed
  show ?thesis
    unfolding Redeem_def wp_bind
  proof (rule wp_mono [OF read], elim conjE)
    fix res :: "doc kv_value result" and w'
    assume same: "\<forall>t\<ge>now. \<forall>h. code_at w' t h = code_at w t h" and d: "db w' = db w"
      and f: "faults w = [] \<longrightarrow> faults w' = []"
      and raw: "\<forall>raw. res = Inr raw \<longrightarrow> sees w now (CodeKey (HashToken X (cq_Code r))) = Some raw"
    let ?Q = "\<lambda>res w'. (\<forall>t h p. now \<le> t \<longrightarrow> code_at w' t h = Some p \<longrightarrow> code_at w t h = Some p)
        \<and> (\<forall>resp. res = Inr resp \<longrightarrow>
             (\<exists>p. code_at w now (HashToken X (cq_Code r)) = Some p \<and> exchanged X I keys now jti r p (db w) resp)
             \<and> (faults w = [] \<longrightarrow> (\<forall>t\<ge>now. code_at w' t (HashToken X (cq_Code r)) = None)))"
    have "wp (redeem_rest X I keys now jti r v) ?Q w'" if "res = Inr v" for v
      by (rule wp_mono [OF wp_redeem_rest]) (use same d f raw that in \<open>auto simp: code_at_Some\<close>)
    then show "case res of Inl e \<Rightarrow> ?Q (Inl e) w' | Inr v \<Rightarrow> wp (redeem_rest X I keys now jti r v) ?Q w'"
      using same by (cases res) auto
  qed
qed

lemmas Redeem_codes = wp_Redeem [unfolded wp_iff, THEN conjunct1, rule_format]
lemmas Redeem_given = wp_Redeem [unfolded wp_iff, THEN conjunct2, rule_format]

text \<open>Every code in the cache was asked for less than a minute ago.\<close>

lemma code_run_asked:
  assumes "code_run up X I F now w log" "now \<le> t" "code_at w t h = Some p"
  shows "\<exists>t0 a c r. Asked h t0 a c r \<in> set log \<and> t < t0 + CodeTTL \<and> p = pending_of a c r"
  using assms
proof (induction arbitrary: t h p rule: code_run.induct)
  case (ask past w log now rand user q)
  have "code_at w t h = Some p
      \<or> t < now + CodeTTL \<and> (\<exists>a c r. Asked h now a c r \<in> set (asked_events up X now rand user q (db w)) \<and> p = pending_of a c r)"
    using wpD [OF wp_authorize] ask.prems by blast
  then show ?case
  proof
    assume "code_at w t h = Some p"
    from ask.IH [OF _ this] ask.hyps(2) ask.prems(1) show ?case by fastforce
  qed fastforce
next
  case (redeem past w log now keys jti r)
  have "code_at w t h = Some p" using Redeem_codes redeem.prems by blast
  from redeem.IH [OF _ this] redeem.hyps(2) redeem.prems(1) show ?case by fastforce
next
  case (other past w log now w')
  from other.IH [OF _ other.hyps(3)] other.hyps(2) other.prems show ?case by fastforce
qed simp


text \<open>Asked events are for registered addresses of clients of the user's own tenant.\<close>

definition asked_ok :: "code_event \<Rightarrow> bool" where
  "asked_ok e =
     (case e of
        Asked h t a c r \<Rightarrow>
          act_TenantID a = ca_TenantID c \<and> List.member (ca_RedirectURIs c) (ar_RedirectURI r)
          \<and> (act_Kind a = KindUser \<or> act_Kind a = KindOperator)
      | Given h \<Rightarrow> True)"

lemma asked_events_ok: "list_all asked_ok (asked_events up X now rand user q m)"
  by (auto simp: asked_events_def asked_ok_def code_asked_def RequireUser_def split: sum.splits option.splits if_splits)

lemma code_run_ok: "code_run up X I F now w log \<Longrightarrow> list_all asked_ok log"
  by (induction rule: code_run.induct)
    (simp_all add: asked_events_ok, simp add: given_events_def asked_ok_def split: sum.split)

text \<open>
  C5: A token is given only for a code of the same flow.  In every run, with any cache and store
  failures: when \<open>Redeem\<close> returns a token, the code was asked for less than a minute earlier by a
  signed-in user of the tenant that owns the client, with a redirect address registered for that
  client; the redemption names the same client and address, authenticates the client, and its PKCE
  verifier hashes to the challenge of the request; and the token was issued for exactly that user and
  session.
\<close>

theorem token_only_for_own_code:
  assumes "code_run up X I F past w log" "past \<le> now" "Redeem X I keys now jti r w = (Inr resp, w')"
  shows "\<exists>t a c req c' cl. Asked (HashToken X (cq_Code r)) t a c req \<in> set log \<and> now < t + CodeTTL
     \<and> act_TenantID a = ca_TenantID c \<and> (act_Kind a = KindUser \<or> act_Kind a = KindOperator)
     \<and> List.member (ca_RedirectURIs c) (cq_RedirectURI r) \<and> cq_ClientID r = ca_ClientID c \<and> cq_RedirectURI r = ar_RedirectURI req
     \<and> validVerifier (cq_CodeVerifier r) \<and> Challenge X (cq_CodeVerifier r) = ar_CodeChallenge req
     \<and> map_of (Clients (db w)) (cq_ClientID r) = Some c' \<and> client_secret_ok X c' (cq_ClientSecret r)
     \<and> Issue (is_lib I) (is_Issuer I) (is_cfg I) keys now jti (code_token c' (pending_of a c req)) = Inr (cr_AccessToken resp, cl)"
proof -
  have "fst (Redeem X I keys now jti r w) = Inr resp" using assms(3) by simp
  from Redeem_given [OF this] obtain p where p: "code_at w now (HashToken X (cq_Code r)) = Some p"
    and e: "exchanged X I keys now jti r p (db w) resp" by blast
  from code_run_asked [OF assms(1,2) p] obtain t a c req where
    l: "Asked (HashToken X (cq_Code r)) t a c req \<in> set log" "now < t + CodeTTL" "p = pending_of a c req" by blast
  from e obtain c' cl where "map_of (Clients (db w)) (cq_ClientID r) = Some c'" "client_secret_ok X c' (cq_ClientSecret r)"
    "Issue (is_lib I) (is_Issuer I) (is_cfg I) keys now jti (code_token c' p) = Inr (cr_AccessToken resp, cl)"
    by (auto simp: exchanged_def)
  moreover have "asked_ok (Asked (HashToken X (cq_Code r)) t a c req)"
    using code_run_ok [OF assms(1)] l(1) by (simp add: list_all_iff)
  ultimately show ?thesis
    using e l by (intro exI [of _ t] exI [of _ a] exI [of _ c] exI [of _ req] exI [of _ c'] exI [of _ cl])
      (simp add: exchanged_def pending_of_def asked_ok_def)
qed

definition count_asked :: "string \<Rightarrow> code_event list \<Rightarrow> nat" where
  "count_asked h log = length (filter (\<lambda>e. case e of Asked x _ _ _ _ \<Rightarrow> x = h | _ \<Rightarrow> False) log)"

definition count_given :: "string \<Rightarrow> code_event list \<Rightarrow> nat" where
  "count_given h log = length (filter (\<lambda>e. e = Given h) log)"

definition pending_at :: "time \<Rightarrow> world \<Rightarrow> string \<Rightarrow> bool" where
  "pending_at now w h \<longleftrightarrow> (\<exists>t\<ge>now. code_at w t h \<noteq> None)"

lemma pending_atI: "code_at w t h = Some p \<Longrightarrow> now \<le> t \<Longrightarrow> past \<le> now \<Longrightarrow> pending_at past w h"
  by (auto simp: pending_at_def intro!: exI [of _ t])

lemma pending_atE: "pending_at now w h \<Longrightarrow> (\<And>t p. now \<le> t \<Longrightarrow> code_at w t h = Some p \<Longrightarrow> P) \<Longrightarrow> P"
  by (auto simp: pending_at_def)

lemma counts_append [simp]:
  "count_asked h (a @ b) = count_asked h a + count_asked h b" "count_given h (a @ b) = count_given h a + count_given h b"
  by (simp_all add: count_asked_def count_given_def)

lemma count_given_asked [simp]: "count_given h (asked_events up X now rand user q m) = 0"
  by (auto simp: count_given_def asked_events_def split: sum.split option.split)

lemma count_asked_given [simp]: "count_asked h (given_events X r res) = 0"
  by (simp add: count_asked_def given_events_def split: sum.split)

lemma count_asked_pos: "Asked h t a c r \<in> set log \<Longrightarrow> 0 < count_asked h log"
  by (force simp: count_asked_def filter_empty_conv)

lemma code_run_count:
  assumes "code_run up X I (\<lambda>w. faults w = []) now w log"
  shows "count_given h log + of_bool (pending_at now w h) \<le> count_asked h log"
  using assms
proof (induction rule: code_run.induct)
  case (initial now w)
  then show ?case by (auto simp: pending_at_def count_given_def)
next
  case (ask past w log now rand user q)
  let ?w = "snd (authorize up X now rand user q w)"
  have "pending_at past w h \<or> 0 < count_asked h (asked_events up X now rand user q (db w))" if pend: "pending_at now ?w h"
  proof -
    obtain t p where "now \<le> t" "code_at ?w t h = Some p" using pend by (auto simp: pending_at_def)
    then have "code_at w t h = Some p \<or> (\<exists>a c r. Asked h now a c r \<in> set (asked_events up X now rand user q (db w)))"
      using wpD [OF wp_authorize] by blast
    with ask.hyps(2) \<open>now \<le> t\<close> show ?thesis by (meson pending_atI count_asked_pos)
  qed
  with ask.IH show ?case by (cases "pending_at now ?w h") (auto simp: of_bool_def split: if_splits)
next
  case (redeem past w log now keys jti r)
  let ?R = "Redeem X I keys now jti r w"
  have sub: "pending_at past w h" if "pending_at now (snd ?R) h"
    using that by (rule pending_atE) (meson pending_atI Redeem_codes redeem.hyps(2))
  show ?case
  proof (cases "h = HashToken X (cq_Code r) \<and> (\<exists>resp. fst ?R = Inr resp)")
    case True
    then obtain resp where resp: "fst ?R = Inr resp" and h: "h = HashToken X (cq_Code r)" by blast
    from Redeem_given [OF resp] h redeem.hyps(3) have "\<exists>p. code_at w now h = Some p" "\<not> pending_at now (snd ?R) h"
      by (auto simp: pending_at_def)
    then have "pending_at past w h" "\<not> pending_at now (snd ?R) h" using pending_atI redeem.hyps(2) by blast+
    with redeem.IH resp h show ?thesis by (simp add: given_events_def count_given_def)
  next
    case False
    then have "count_given h (given_events X r (fst ?R)) = 0"
      by (cases "fst ?R") (auto simp: given_events_def count_given_def)
    with redeem.IH sub show ?thesis by (auto simp: of_bool_def split: if_splits)
  qed
next
  case (other past w log now w')
  have "pending_at past w h" if "pending_at now w' h"
    using that by (rule pending_atE) (meson pending_atI other.hyps(2,3))
  with other.IH show ?case by (auto simp: of_bool_def split: if_splits)
qed


text \<open>
  C6: A code is redeemed at most once.  In every run of requests that do not overlap and whose cache
  and store calls work, a token is given for a code at most as often as that code was asked for.
\<close>

theorem code_used_once:
  assumes "code_run up X I (\<lambda>w. faults w = []) now w log"
  shows "count_given h log \<le> count_asked h log"
  using code_run_count [OF assms, of h] by simp

section \<open>A concrete flow\<close>

definition demo_OX :: externals where "demo_OX = demo_X\<lparr>ex_sha256 := take 32\<rparr>"

definition demo_client :: client_application where
  "demo_client = \<lparr>ca_ClientID = ''portal'', ca_TenantID = ''t1'', ca_DisplayName = ''Portal'', ca_RedirectURIs = [''https://p/cb''],
     ca_Public = True, ca_SecretHash = None\<rparr>"

definition demo_user :: actor where
  "demo_user = no_actor\<lparr>act_Kind := KindUser, act_UserID := ''u1'', act_TenantID := ''t1'', act_SessionID := ''s1'',
     act_Roles := [''owner''], act_AMR := [''pwd'']\<rparr>"

definition demo_verifier :: string where "demo_verifier = replicate 43 (CHR ''v'')"

definition demo_query :: "(string \<times> string list) list" where
  "demo_query = [(''response_type'', [''code'']), (''client_id'', [''portal'']), (''redirect_uri'', [''https://p/cb'']), (''state'', [''x'']),
     (''code_challenge'', [Challenge demo_OX demo_verifier]), (''code_challenge_method'', [''S256''])]"

definition demo_url :: "string \<Rightarrow> url_parts result" where
  "demo_url s = Inr \<lparr>ur_Scheme = ''https'', ur_Host = ''p'', ur_Fragment = ''''\<rparr>"

definition demo_I :: issuer where
  "demo_I = \<lparr>is_lib = demo_J, is_Issuer = ''iss'', is_cfg = NewRing demo_cfg0\<rparr>"

definition demo_start :: world where
  "demo_start = New_World\<lparr>db := New_Store\<lparr>Clients := [(''portal'', demo_client)]\<rparr>\<rparr>"

definition demo_code :: string where "demo_code = ''YWJj''"

definition demo_redeem :: code_request where
  "demo_redeem = \<lparr>cq_GrantType = ''authorization_code'', cq_Code = demo_code, cq_RedirectURI = ''https://p/cb'',
     cq_ClientID = ''portal'', cq_CodeVerifier = demo_verifier, cq_ClientSecret = ''''\<rparr>"

abbreviation demo_redeemed :: "world \<Rightarrow> code_response result \<times> world" where
  "demo_redeemed \<equiv> Redeem demo_OX demo_I (rg_keys demo_ring) 1 ''j1'' demo_redeem"

definition demo_asked :: world where
  "demo_asked = snd (authorize demo_url demo_OX 0 (Some ''abc'') (Some demo_user) demo_query demo_start)"

definition demo_response :: code_response where
  "demo_response = \<lparr>cr_AccessToken = ''access'', cr_TokenType = ''Bearer'', cr_ExpiresIn = 900\<rparr>"

lemma demo_flow:
  "fst (authorize demo_url demo_OX 0 (Some ''abc'') (Some demo_user) demo_query demo_start)
     = Inr (RedirectTo ''https://p/cb'' demo_code ''x'')"
  "fst (demo_redeemed demo_asked) = Inr demo_response"
  "fst (demo_redeemed (snd (demo_redeemed demo_asked))) = Inl ErrInvalidGrant"
  by code_simp+


definition demo_log :: "code_event list" where
  "demo_log = asked_events demo_url demo_OX 0 (Some ''abc'') (Some demo_user) demo_query (db demo_start)"

lemma demo_log_eq:
  "demo_log = [Asked (HashToken demo_OX demo_code) 0 demo_user demo_client
     \<lparr>ar_ResponseType = ''code'', ar_ClientID = ''portal'', ar_RedirectURI = ''https://p/cb'', ar_State = ''x'',
      ar_CodeChallenge = Challenge demo_OX demo_verifier, ar_CodeChallengeMethod = ''S256''\<rparr>]"
  by code_simp

lemma demo_asked_run: "code_run demo_url demo_OX demo_I (\<lambda>w. faults w = []) 0 demo_asked demo_log"
proof -
  have none: "code_at demo_start t h = None" for t h
    by (simp add: code_at_def sees_def demo_start_def New_World_def NewMemory_def mem_view_def)
  have f: "faults demo_start = []" by (simp add: demo_start_def New_World_def)
  have "code_run demo_url demo_OX demo_I (\<lambda>w. faults w = []) 0 demo_start []" by (rule code_run.initial) (rule none)
  from code_run.ask [OF this order_refl f] show ?thesis
    by (simp only: demo_asked_def demo_log_def append_Nil)
qed

theorem token_only_for_own_code_witness:
  "\<exists>t a c req c' cl. Asked (HashToken demo_OX demo_code) t a c req \<in> set demo_log \<and> 1 < t + CodeTTL
     \<and> act_TenantID a = ca_TenantID c \<and> (act_Kind a = KindUser \<or> act_Kind a = KindOperator)
     \<and> List.member (ca_RedirectURIs c) ''https://p/cb'' \<and> ''portal'' = ca_ClientID c \<and> ''https://p/cb'' = ar_RedirectURI req
     \<and> validVerifier demo_verifier \<and> Challenge demo_OX demo_verifier = ar_CodeChallenge req
     \<and> map_of (Clients (db demo_asked)) ''portal'' = Some c' \<and> client_secret_ok demo_OX c' ''''
     \<and> Issue demo_J ''iss'' (NewRing demo_cfg0) (rg_keys demo_ring) 1 ''j1'' (code_token c' (pending_of a c req)) = Inr (''access'', cl)"
proof -
  have "demo_redeemed demo_asked = (Inr demo_response, snd (demo_redeemed demo_asked))"
    using demo_flow(2) by (metis prod.collapse)
  from token_only_for_own_code [OF demo_asked_run _ this] show ?thesis
    by (simp add: demo_redeem_def demo_response_def demo_I_def)
qed

theorem code_used_once_witness:
  "count_given (HashToken demo_OX demo_code) (demo_log @ given_events demo_OX demo_redeem (fst (demo_redeemed demo_asked))) \<le> 1"
proof -
  have f: "faults demo_asked = []" by code_simp
  have "count_given (HashToken demo_OX demo_code) (demo_log @ given_events demo_OX demo_redeem (fst (demo_redeemed demo_asked)))
      \<le> count_asked (HashToken demo_OX demo_code) (demo_log @ given_events demo_OX demo_redeem (fst (demo_redeemed demo_asked)))"
    by (rule code_used_once [OF code_run.redeem [OF demo_asked_run _ f]]) simp
  also have "\<dots> = 1" by (simp add: demo_log_eq count_asked_def given_events_def split: sum.split)
  finally show ?thesis .
qed

section \<open>Two redemptions of one code\<close>

definition demo_race :: "code_response result \<times> code_response result" where
  "demo_race =
     (let (a, w1) = redeem_read demo_OX 1 demo_redeem demo_asked;
          (b, w2) = redeem_read demo_OX 1 demo_redeem w1
      in case (a, b) of
        (Inr a, Inr b) \<Rightarrow>
          (let (r1, w3) = redeem_rest demo_OX demo_I (rg_keys demo_ring) 1 ''j1'' demo_redeem a w2;
               (r2, _) = redeem_rest demo_OX demo_I (rg_keys demo_ring) 1 ''j1'' demo_redeem b w3
           in (r1, r2))
      | _ \<Rightarrow> (Inl ErrInvalidGrant, Inl ErrInvalidGrant))"

lemma demo_race_run: "demo_race = (Inr demo_response, Inr demo_response)"
  by code_simp


end
