(* ===== verification/Authclient.thy ===== *)
theory Authclient
  imports Oauth
begin

text \<open>
  The service channel and the SDK that verifies tokens offline: the session and key handlers of
  \<open>internal/grpcapi\<close> (revocation feed, introspection, exchange) and the verifier of
  \<open>sdk/pkg/authclient\<close> with its key refresh and feed synchronisation.
\<close>

section \<open>The revocation feed\<close>

text \<open>A cursor is the time of the last entry delivered, in nanoseconds.\<close>

definition parseCursor :: "time \<Rightarrow> string \<Rightarrow> time result" where
  "parseCursor now c =
     (if c = '''' then Inr (now - RevocationRetention)
      else case ParseInt c of Inl _ \<Rightarrow> Inl (ErrOther ''malformed cursor'') | Inr n \<Rightarrow> Inr n)"

definition next_cursor :: "time \<Rightarrow> string \<Rightarrow> revocation list \<Rightarrow> string" where
  "next_cursor since c entries =
     (if entries \<noteq> [] then FormatInt (wrap64 (rv_TS (last entries)))
      else if c = '''' then FormatInt (wrap64 since) else c)"

definition RevokedSince :: "time \<Rightarrow> string \<Rightarrow> int \<Rightarrow> (world, revocation list \<times> string) op" where
  "RevokedSince now c limit0 =
     (case parseCursor now c of
        Inl e \<Rightarrow> throw e
      | Inr since \<Rightarrow>
          let limit = (if limit0 \<le> 0 \<or> limit0 > 1000 then 1000 else limit0) in
          try_op (Since since limit) (\<lambda>r.
          case r of
            Inl _ \<Rightarrow> throw (ErrOther ''feed unavailable'')
          | Inr entries \<Rightarrow> ret (entries, next_cursor since c entries)))"

section \<open>Introspection and exchange\<close>

text \<open>\<open>indexOf\<close> and \<open>contains\<close>: the position of a substring, by trying each.\<close>

fun indexOf :: "string \<Rightarrow> string \<Rightarrow> nat option" where
  "indexOf s sub =
     (if length s < length sub then None
      else if take (length sub) s = sub then Some 0
      else case s of [] \<Rightarrow> None | _ # cs \<Rightarrow> map_option Suc (indexOf cs sub))"

definition contains_text :: "string \<Rightarrow> string \<Rightarrow> bool" where
  "contains_text s sub \<longleftrightarrow> length s \<ge> length sub \<and> (s = sub \<or> sub = [] \<or> indexOf s sub \<noteq> None)"

record introspection =
  in_Active :: bool
  in_Reason :: string
  in_UserId :: string
  in_TenantId :: string
  in_SessionId :: string
  in_Roles :: "string list"
  in_ExpiresAt :: "time option"

definition unix :: "time \<Rightarrow> int" where
  "unix t = t div second"

text \<open>The entries that end a token, by the rule of the introspection.\<close>

definition ends_token :: "claims \<Rightarrow> revocation \<Rightarrow> bool" where
  "ends_token c e \<longleftrightarrow>
     \<not> (case cl_IssuedAt c of None \<Rightarrow> False | Some iat \<Rightarrow> unix (rv_TS e) < unix iat)
     \<and> (rv_Kind e = ''session'' \<and> rv_SubjectID e = cl_SessionID c
        \<or> rv_Kind e = ''user'' \<and> rv_SubjectID e = cl_Subject c
        \<or> rv_Kind e = ''tenant'' \<and> rv_SubjectID e = cl_TenantID c)"

definition nilTenant :: string where "nilTenant = ''00000000-0000-0000-0000-000000000000''"

text \<open>The text of a verification error is the JWT library's: an argument.\<close>

definition Introspect ::
    "issuer \<Rightarrow> ring_keys \<Rightarrow> time \<Rightarrow> string \<Rightarrow> string \<Rightarrow> (world, introspection) op" where
  "Introspect I keys now errText tok =
     (case Issuer_Verify (is_lib I) (is_Issuer I) (is_cfg I) keys now tok of
        Inl e \<Rightarrow>
          let reason = (if e = ErrUnknownKey then ''invalid'' else if contains_text errText ''expired'' then ''expired'' else ''invalid'') in
          seq_op (emit (event ''authz_denied'' nilTenant ''service'' '''' '''' '''' ''refused'' (''introspect_'' @ reason)))
            (ret \<lparr>in_Active = False, in_Reason = reason, in_UserId = '''', in_TenantId = '''', in_SessionId = '''', in_Roles = [],
                  in_ExpiresAt = None\<rparr>)
      | Inr c \<Rightarrow>
          try_op (Since (case cl_IssuedAt c of None \<Rightarrow> 0 | Some iat \<Rightarrow> iat - second) 1000) (\<lambda>r.
          case r of
            Inl _ \<Rightarrow> throw (ErrOther ''feed unavailable'')
          | Inr entries \<Rightarrow>
              let active = \<not> list_ex (ends_token c) entries; reason = (if active then '''' else ''revoked'') in
              seq_op (emit (event ''authz_denied'' (cl_TenantID c) ''service'' '''' ''session'' (cl_SessionID c)
                  (if active then ''ok'' else ''refused'') (''introspect_'' @ (if reason = '''' then ''active'' else reason))))
                (ret \<lparr>in_Active = active, in_Reason = reason, in_UserId = cl_Subject c, in_TenantId = cl_TenantID c,
                      in_SessionId = cl_SessionID c, in_Roles = cl_Roles c, in_ExpiresAt = cl_ExpiresAt c\<rparr>)))"

definition mint ::
    "issuer \<Rightarrow> ring_keys \<Rightarrow> time \<Rightarrow> string \<Rightarrow> actor \<Rightarrow> string \<Rightarrow> string \<Rightarrow> (world, string \<times> time option) op" where
  "mint I keys now jti a audience opn =
     (case Issue (is_lib I) (is_Issuer I) (is_cfg I) keys now jti
             \<lparr>tr_UserID = act_UserID a, tr_TenantID = act_TenantID a, tr_SessionID = act_SessionID a, tr_Roles = act_Roles a,
              tr_AMR = act_AMR a, tr_Audience = audience, tr_Lifetime = 0\<rparr> of
        Inl _ \<Rightarrow>
          seq_op (emit (event ''token_exchanged'' (act_TenantID a) ''service'' '''' ''session'' (act_SessionID a) ''failed'' (opn @ ''_mint_failed'')))
            (throw (ErrOther ''token unavailable''))
      | Inr (tok, c) \<Rightarrow>
          seq_op (emit (event ''token_exchanged'' (act_TenantID a) ''service'' '''' ''session'' (act_SessionID a) ''ok'' opn))
            (ret (tok, cl_ExpiresAt c)))"

definition Exchange ::
    "externals \<Rightarrow> issuer \<Rightarrow> ring_keys \<Rightarrow> time \<Rightarrow> string \<Rightarrow> string \<Rightarrow> string \<Rightarrow> (world, actor \<times> string \<times> time option) op" where
  "Exchange X I keys now jti secret audience =
     try_op (Resolve X now secret) (\<lambda>r.
     case r of
       Inl _ \<Rightarrow>
         seq_op (emit (event ''token_exchanged'' nilTenant ''service'' '''' '''' '''' ''refused'' ''no_session''))
           (throw (ErrOther ''no_session''))
     | Inr a \<Rightarrow> bind_op (mint I keys now jti a audience ''exchange'') (\<lambda>(tok, exp). ret (a, tok, exp)))"

definition MintToken ::
    "issuer \<Rightarrow> ring_keys \<Rightarrow> time \<Rightarrow> string \<Rightarrow> string \<Rightarrow> string \<Rightarrow> string \<Rightarrow> (world, actor \<times> string \<times> time option) op" where
  "MintToken I keys now jti tenantID sessionID audience =
     try_op (ByID now tenantID sessionID) (\<lambda>r.
     case r of
       Inl _ \<Rightarrow>
         seq_op (emit (event ''token_exchanged'' nilTenant ''service'' '''' ''session'' sessionID ''refused'' ''no_session''))
           (throw (ErrOther ''no_session''))
     | Inr a \<Rightarrow> bind_op (mint I keys now jti a audience ''mint'') (\<lambda>(tok, exp). ret (a, tok, exp)))"

section \<open>Keys over the channel\<close>

record channel_key =
  ck_Kid :: string
  ck_Kty :: string
  ck_Crv :: string
  ck_PublicKey :: string
  ck_State :: string
  ck_NotAfter :: "time option"

definition Ring_Keys :: "ring_keys \<Rightarrow> signing_key list" where
  "Ring_Keys keys = map (\<lambda>(_, k). rk_row k) keys"

text \<open>\<open>grace\<close> is the lifetime and the skew, in seconds, when configured.\<close>

definition KeysServer_List :: "(int \<times> int) option \<Rightarrow> ring_keys \<Rightarrow> channel_key list" where
  "KeysServer_List grace keys =
     map (\<lambda>k. \<lparr>ck_Kid = sk_KID k, ck_Kty = ''OKP'', ck_Crv = ''Ed25519'', ck_PublicKey = sk_PublicKey k, ck_State = sk_State k,
              ck_NotAfter = (case (sk_RetiredAt k, grace) of
                 (Some r, Some (life, skew)) \<Rightarrow> Some (r + (life + skew) * second) | _ \<Rightarrow> None)\<rparr>) (Ring_Keys keys)"

fun channel_keys :: "channel_key list \<Rightarrow> (string \<times> string) list \<Rightarrow> (string \<times> string) list result" where
  "channel_keys [] out = Inr out"
| "channel_keys (k # ks) out =
     (if ck_Kty k \<noteq> ''OKP'' \<or> ck_Crv k \<noteq> ''Ed25519'' \<or> length (ck_PublicKey k) \<noteq> PublicKeySize \<or> ck_Kid k = ''''
      then Inl (ErrOther ''authclient: unsupported key'')
      else if map_of out (ck_Kid k) \<noteq> None then Inl (ErrOther ''authclient: duplicate kid'')
      else channel_keys ks (AList.update (ck_Kid k) (ck_PublicKey k) out))"

definition GRPCKeys :: "channel_key list result \<Rightarrow> (string \<times> string) list result" where
  "GRPCKeys resp = (case resp of Inl e \<Rightarrow> Inl e | Inr ks \<Rightarrow> channel_keys ks [])"


section \<open>The verifier\<close>

record verifier_config =
  vc_Issuer :: string
  vc_Audience :: string
  vc_TenantID :: string
  vc_Skew :: duration
  vc_KeyRefresh :: duration
  vc_UnknownKidCap :: duration
  vc_RevocationPoll :: duration
  vc_MaxStale :: duration
  vc_Retention :: duration

record identity =
  id_UserID :: string
  id_TenantID :: string
  id_SessionID :: string
  id_Roles :: "string list"
  id_AMR :: "string list"
  id_Audience :: string
  id_IssuedAt :: time
  id_ExpiresAt :: time
  id_JTI :: string

abbreviation ErrRevoked :: err where "ErrRevoked \<equiv> Sentinel ''authclient.ErrRevoked''"
abbreviation ErrStale :: err where "ErrStale \<equiv> Sentinel ''authclient.ErrStale''"
abbreviation ErrWrongTenant :: err where "ErrWrongTenant \<equiv> Sentinel ''authclient.ErrWrongTenant''"

text \<open>
  The sources, operations on the state \<open>'s\<close> of the services behind them: the current keys, and the feed
  from a cursor (\<open>None\<close>: no feed configured).
\<close>

record 's sources =
  so_Keys :: "('s, (string \<times> string) list) op"
  so_Since :: "(string \<Rightarrow> ('s, revocation list \<times> string) op) option"

record 's verifier =
  vf_env :: 's
  vf_keySet :: "(string \<times> string) list"
  vf_keysAt :: time
  vf_lastUnknown :: time
  vf_entries :: "revocation list"
  vf_cursor :: string
  vf_revSyncedAt :: time
  vf_revSynced :: bool

definition New_config :: "verifier_config \<Rightarrow> verifier_config" where
  "New_config cfg = cfg\<lparr>
     vc_Skew := (if vc_Skew cfg \<le> 0 \<or> vc_Skew cfg > 60 * second then 60 * second else vc_Skew cfg),
     vc_KeyRefresh := (if vc_KeyRefresh cfg \<le> 0 then 5 * minute else vc_KeyRefresh cfg),
     vc_UnknownKidCap := (if vc_UnknownKidCap cfg \<le> 0 then minute else vc_UnknownKidCap cfg),
     vc_RevocationPoll := (if vc_RevocationPoll cfg \<le> 0 then 5 * second else vc_RevocationPoll cfg),
     vc_MaxStale := (if vc_MaxStale cfg \<le> 0 then 60 * minute else vc_MaxStale cfg),
     vc_Retention := (if vc_Retention cfg \<le> 0 then 60 * minute else vc_Retention cfg)\<rparr>"

definition New_Verifier :: "'s \<Rightarrow> 's verifier" where
  "New_Verifier env = \<lparr>vf_env = env, vf_keySet = [], vf_keysAt = zero_time, vf_lastUnknown = zero_time, vf_entries = [],
     vf_cursor = '''', vf_revSyncedAt = zero_time, vf_revSynced = False\<rparr>"

definition on_env :: "('s, 'a) op \<Rightarrow> ('s verifier, 'a) op" where
  "on_env m v = (case m (vf_env v) of (r, s) \<Rightarrow> (r, v\<lparr>vf_env := s\<rparr>))"

definition RefreshKeys :: "'s sources \<Rightarrow> time \<Rightarrow> ('s verifier, unit) op" where
  "RefreshKeys src now =
     bind_op (on_env (so_Keys src)) (\<lambda>ks. modify_op (\<lambda>v. v\<lparr>vf_keySet := ks, vf_keysAt := now\<rparr>))"

definition forgetExpired :: "verifier_config \<Rightarrow> time \<Rightarrow> revocation list \<Rightarrow> revocation list" where
  "forgetExpired cfg now es = filter (\<lambda>e. rv_TS e > now - vc_Retention cfg) es"

fun sync_pages ::
    "nat \<Rightarrow> verifier_config \<Rightarrow> (string \<Rightarrow> ('s, revocation list \<times> string) op) \<Rightarrow> time \<Rightarrow> string \<Rightarrow> ('s verifier, unit) op" where
  "sync_pages 0 cfg since now c = ret ()"
| "sync_pages (Suc i) cfg since now c =
     bind_op (on_env (since c)) (\<lambda>(entries, next_c).
     seq_op (modify_op (\<lambda>v. v\<lparr>vf_entries := forgetExpired cfg now (vf_entries v @ entries), vf_cursor := next_c\<rparr>))
       (if next_c = c \<or> entries = [] then ret () else sync_pages i cfg since now next_c))"

definition SyncRevocations :: "verifier_config \<Rightarrow> 's sources \<Rightarrow> time \<Rightarrow> ('s verifier, unit) op" where
  "SyncRevocations cfg src now =
     (case so_Since src of
        None \<Rightarrow> ret ()
      | Some since \<Rightarrow>
          bind_op (gets_op vf_cursor) (\<lambda>c.
          seq_op (sync_pages 100 cfg since now c)
            (modify_op (\<lambda>v. v\<lparr>vf_revSyncedAt := now, vf_revSynced := True\<rparr>))))"

text \<open>\<open>revoked\<close>: an entry for the session, the user or the tenant not older than the token, in seconds.\<close>

definition hits :: "claims \<Rightarrow> revocation \<Rightarrow> bool" where
  "hits c e \<longleftrightarrow>
     \<not> (case cl_IssuedAt c of None \<Rightarrow> False | Some iat \<Rightarrow> unix (rv_TS e) < unix iat)
     \<and> (rv_Kind e = ''session'' \<and> rv_SubjectID e = cl_SessionID c
        \<or> rv_Kind e = ''user'' \<and> rv_SubjectID e = cl_Subject c \<and> (rv_TenantID e = '''' \<or> rv_TenantID e = cl_TenantID c)
        \<or> rv_Kind e = ''tenant'' \<and> rv_SubjectID e = cl_TenantID c)"

definition Verifier_revoked :: "claims \<Rightarrow> revocation list \<Rightarrow> bool" where
  "Verifier_revoked c entries = list_ex (hits c) entries"

definition identity_of :: "claims \<Rightarrow> identity" where
  "identity_of c =
     \<lparr>id_UserID = cl_Subject c, id_TenantID = cl_TenantID c, id_SessionID = cl_SessionID c, id_Roles = cl_Roles c, id_AMR = cl_AMR c,
      id_Audience = (case cl_Audience c of [] \<Rightarrow> '''' | a # _ \<Rightarrow> a),
      id_IssuedAt = (case cl_IssuedAt c of None \<Rightarrow> zero_time | Some t \<Rightarrow> t),
      id_ExpiresAt = (case cl_ExpiresAt c of None \<Rightarrow> zero_time | Some t \<Rightarrow> t), id_JTI = cl_ID c\<rparr>"

definition verify_now :: "jwt_lib \<Rightarrow> verifier_config \<Rightarrow> time \<Rightarrow> string \<Rightarrow> 's verifier \<Rightarrow> claims result" where
  "verify_now J cfg now tok v = VerifyToken J tok (vc_Issuer cfg) (vc_Skew cfg) MaxTokenLifetime now (map_of (vf_keySet v))"

text \<open>The claims, with at most one refresh of the keys per \<open>UnknownKidCap\<close> for an unknown key.\<close>

definition verified_claims :: "jwt_lib \<Rightarrow> verifier_config \<Rightarrow> 's sources \<Rightarrow> time \<Rightarrow> string \<Rightarrow> ('s verifier, claims) op" where
  "verified_claims J cfg src now tok =
     bind_op (gets_op (verify_now J cfg now tok)) (\<lambda>r.
     if r = Inl ErrUnknownKey then
       bind_op (gets_op (\<lambda>v. now - vf_lastUnknown v \<ge> vc_UnknownKidCap cfg)) (\<lambda>allowed.
       if allowed then
         seq_op (modify_op (\<lambda>v. v\<lparr>vf_lastUnknown := now\<rparr>))
           (try_op (RefreshKeys src now) (\<lambda>rr.
            case rr of
              Inr _ \<Rightarrow> bind_op (gets_op (verify_now J cfg now tok)) of_result
            | Inl _ \<Rightarrow> of_result r))
       else of_result r)
     else of_result r)"

definition Verifier_Verify :: "jwt_lib \<Rightarrow> verifier_config \<Rightarrow> 's sources \<Rightarrow> time \<Rightarrow> string \<Rightarrow> ('s verifier, identity) op" where
  "Verifier_Verify J cfg src now tok =
     try_op (verified_claims J cfg src now tok) (\<lambda>r.
     case r of
       Inl _ \<Rightarrow> throw ErrUnauthenticated
     | Inr c \<Rightarrow>
         if vc_Audience cfg \<noteq> '''' \<and> \<not> List.member (cl_Audience c) (vc_Audience cfg) then throw ErrUnauthenticated
         else if vc_TenantID cfg \<noteq> '''' \<and> cl_TenantID c \<noteq> vc_TenantID cfg then throw ErrWrongTenant
         else if so_Since src = None then ret (identity_of c)
         else
           bind_op (gets_op (\<lambda>v. v)) (\<lambda>v.
           if \<not> vf_revSynced v \<or> now - vf_revSyncedAt v > vc_MaxStale cfg then throw ErrStale
           else if Verifier_revoked c (vf_entries v) then throw ErrRevoked
           else ret (identity_of c)))"

section \<open>Bearer tokens\<close>

text \<open>\<open>BearerToken\<close>; \<open>EqualFold\<close> of the first seven bytes with \<open>Bearer \<close> and \<open>TrimSpace\<close> of the rest.\<close>

definition BearerToken :: "externals \<Rightarrow> string \<Rightarrow> string" where
  "BearerToken X h =
     (if length h > 7 \<and> ex_ef X (take 7 h) ''Bearer '' then trim_space (drop 7 h) else '''')"

text \<open>The three middlewares: the handler runs with the identity of a valid token and otherwise not at all.\<close>

definition with_identity ::
    "jwt_lib \<Rightarrow> verifier_config \<Rightarrow> 's sources \<Rightarrow> externals \<Rightarrow> time \<Rightarrow> string
      \<Rightarrow> (identity \<Rightarrow> ('s verifier, 'a) op) \<Rightarrow> ('s verifier, 'a) op" where
  "with_identity J cfg src X now header handler =
     try_op (Verifier_Verify J cfg src now (BearerToken X header)) (\<lambda>r.
     case r of Inl _ \<Rightarrow> throw ErrUnauthenticated | Inr ident \<Rightarrow> handler ident)"

section \<open>The feed over the channel\<close>

text \<open>\<open>GRPCRevocations\<close>: the pages of the server's feed, with the page size of the client.\<close>

definition GRPCRevocations :: "int \<Rightarrow> time \<Rightarrow> string \<Rightarrow> (world, revocation list \<times> string) op" where
  "GRPCRevocations limit now c = RevokedSince now c limit"

end
