(* ===== verification/Authclient_Safety.thy ===== *)
theory Authclient_Safety
  imports Authclient
begin

text \<open>
  What the offline verifier guarantees: after a synchronisation that reached the end of the feed it
  refuses every token the feed has revoked, and it refuses everything when the feed is stale.  The
  limits are stated too: an introspection reads one page of the feed only.
\<close>

section \<open>Pages of the feed\<close>

definition in_order :: "revocation list \<Rightarrow> bool" where
  "in_order = sorted_wrt (\<lambda>a b. rv_TS a < rv_TS b)"

lemma after_prefix:
  assumes "in_order (ys @ zs)" "ys \<noteq> []"
  shows "filter (\<lambda>e. rv_TS e > rv_TS (last ys)) (ys @ zs) = zs"
proof -
  obtain us x where ys: "ys = us @ [x]" using assms(2) by (cases ys rule: rev_cases) auto
  have ord: "sorted_wrt (\<lambda>a b. rv_TS a < rv_TS b) (us @ x # zs)" using assms(1) ys by (simp add: in_order_def)
  then have "\<forall>e\<in>set us. \<not> rv_TS x < rv_TS e" "\<forall>e\<in>set zs. rv_TS x < rv_TS e"
    by (auto simp: sorted_wrt_append)
  then show ?thesis by (simp add: ys filter_empty_conv)
qed

lemma after_page:
  assumes "in_order F" "xs = filter (\<lambda>e. rv_TS e > s) F" "take L xs \<noteq> []"
  shows "filter (\<lambda>e. rv_TS e > rv_TS (last (take L xs))) F = drop L xs"
proof -
  let ?x = "last (take L xs)"
  have "?x \<in> set xs" using last_in_set [OF assms(3)] by (rule in_set_takeD)
  then have "s < rv_TS ?x" using assms(2) by simp
  then have "filter (\<lambda>e. rv_TS e > rv_TS ?x) F = filter (\<lambda>e. rv_TS e > rv_TS ?x) xs"
    unfolding assms(2) filter_filter by (intro filter_cong) auto
  also have "\<dots> = filter (\<lambda>e. rv_TS e > rv_TS ?x) (take L xs @ drop L xs)" by (simp only: append_take_drop_id)
  also have "\<dots> = drop L xs"
    by (rule after_prefix [OF _ assms(3)])
      (use assms(1,2) in \<open>simp only: append_take_drop_id in_order_def sorted_wrt_filter\<close>)
  finally show ?thesis .
qed

definition page_size :: "int \<Rightarrow> nat" where
  "page_size limit = nat (if limit \<le> 0 \<or> limit > 1000 then 1000 else limit)"

lemma page_size_pos: "0 < page_size limit"
  by (simp add: page_size_def)

lemma Since_page:
  "wp (Since s limit)
     (\<lambda>r w'. db w' = db w \<and> (\<forall>es. r = Inr es \<longrightarrow> es = take (page_size limit) (filter (\<lambda>e. rv_TS e > s) (Revs (db w))))) w"
  unfolding Since_def by (rule wp_db) (auto simp: Store_RevocationsSince_def page_size_def)

lemma RevokedSince_page:
  "wp (GRPCRevocations limit now c)
     (\<lambda>r w'. db w' = db w \<and> (\<forall>es nx. r = Inr (es, nx) \<longrightarrow>
        (\<exists>s. parseCursor now c = Inr s \<and> nx = next_cursor s c es
           \<and> es = take (page_size limit) (filter (\<lambda>e. rv_TS e > s) (Revs (db w)))))) w"
proof (cases "parseCursor now c")
  case (Inl e)
  then show ?thesis by (simp add: GRPCRevocations_def RevokedSince_def wp_simps)
next
  case (Inr s)
  have "page_size (if limit \<le> 0 \<or> limit > 1000 then 1000 else limit) = page_size limit" by (simp add: page_size_def)
  with wp_mono [OF Since_page [of s "if limit \<le> 0 \<or> limit > 1000 then 1000 else limit" w]] show ?thesis
    by (auto simp: GRPCRevocations_def RevokedSince_def wp_simps Let_def Inr split: sum.split)
qed


section \<open>Synchronisation\<close>

lemma wp_on_env: "wp (on_env m) Q v = wp m (\<lambda>r s. Q r (v\<lparr>vf_env := s\<rparr>)) (vf_env v)"
  by (simp add: wp_def on_env_def split: prod.split)

lemma FormatInt_not_empty: "int64 n \<Longrightarrow> FormatInt n \<noteq> ''''"
  using ParseInt_FormatInt [of n] by (auto simp: ParseInt_def)

lemma parseCursor_FormatInt [simp]: "int64 n \<Longrightarrow> parseCursor now (FormatInt n) = Inr n"
  by (simp add: parseCursor_def FormatInt_not_empty)

lemma FormatInt_inj: "int64 m \<Longrightarrow> int64 n \<Longrightarrow> FormatInt m = FormatInt n \<Longrightarrow> m = n"
  by (metis ParseInt_FormatInt sum.inject(2))

lemma forget_forget: "forgetExpired cfg now (forgetExpired cfg now xs @ ys) = forgetExpired cfg now (xs @ ys)"
  by (simp add: forgetExpired_def)

definition feed :: "world verifier \<Rightarrow> revocation list" where
  "feed v = Revs (db (vf_env v))"

text \<open>The cursor stands at \<open>s\<close>; an empty one stands at the start of the retention window.\<close>

definition cursor_at :: "time \<Rightarrow> string \<Rightarrow> time \<Rightarrow> bool" where
  "cursor_at now c s \<longleftrightarrow> int64 s \<and> (c = FormatInt s \<or> c = '''' \<and> s = now - RevocationRetention)"

lemma cursor_at_parse: "cursor_at now c s \<Longrightarrow> parseCursor now c = Inr s"
  by (auto simp: cursor_at_def) (simp add: parseCursor_def)

lemma cursor_at_unique: "cursor_at now c s \<Longrightarrow> cursor_at now c s' \<Longrightarrow> s' = s"
  using cursor_at_parse [of now c s] cursor_at_parse [of now c s'] by simp

lemma next_cursor_at:
  assumes "cursor_at now c s" "\<And>e. e \<in> set es \<Longrightarrow> int64 (rv_TS e)"
  shows "cursor_at now (next_cursor s c es) (if es = [] then s else rv_TS (last es))"
  using assms last_in_set [of es] by (auto simp: cursor_at_def next_cursor_def)

text \<open>
  What a run of pages has done when it started at \<open>s\<close>: it appended the first \<open>m\<close> entries of the rest of
  the feed, the cursor stands behind them, and without an error it stopped at the end of the feed or
  after all its pages.
\<close>

definition synced_to ::
    "verifier_config \<Rightarrow> time \<Rightarrow> revocation list \<Rightarrow> time \<Rightarrow> nat \<Rightarrow> 'a result \<Rightarrow> world verifier \<Rightarrow> world verifier \<Rightarrow> bool" where
  "synced_to cfg now F s n r v v' \<longleftrightarrow>
     (\<exists>m s'. cursor_at now (vf_cursor v') s' \<and> filter (\<lambda>e. rv_TS e > s') F = drop m (filter (\<lambda>e. rv_TS e > s) F)
        \<and> forgetExpired cfg now (vf_entries v') = forgetExpired cfg now (vf_entries v @ take m (filter (\<lambda>e. rv_TS e > s) F))
        \<and> (s' = s \<or> s' \<in> rv_TS ` set F)
        \<and> ((\<exists>a. r = Inr a) \<longrightarrow> n \<le> m \<or> drop m (filter (\<lambda>e. rv_TS e > s) F) = []))
     \<and> feed v' = F"

lemma wp_sync_pages:
  assumes "in_order F" "\<And>e. e \<in> set F \<Longrightarrow> int64 (rv_TS e)" "feed v = F" "vf_cursor v = c" "cursor_at now c s"
  shows "wp (sync_pages n cfg (GRPCRevocations limit now) now c) (\<lambda>r v'. synced_to cfg now F s (n * page_size limit) r v v') v"
  using assms(3-5)
proof (induction n arbitrary: v c s)
  case 0
  then show ?case
    by (auto simp: wp_simps synced_to_def intro!: exI [of _ "0 :: nat"] exI [of _ s])
next
  case (Suc n)
  let ?L = "page_size limit" and ?xs = "filter (\<lambda>e. rv_TS e > s) F"
  let ?es = "take ?L ?xs" and ?nx = "next_cursor s c (take ?L ?xs)"
  let ?s = "if ?es = [] then s else rv_TS (last ?es)"
  have stay: "synced_to cfg now F s k (Inl e) v u" if "feed u = F" "vf_cursor u = c" "vf_entries u = vf_entries v" for k e and u
    using that Suc.prems(3) by (auto simp: synced_to_def intro!: exI [of _ "0 :: nat"] exI [of _ s])
  have ints: "int64 (rv_TS e)" if "e \<in> set ?es" for e using that assms(2) by (auto dest: in_set_takeD)
  have cur: "cursor_at now ?nx ?s" by (rule next_cursor_at [OF Suc.prems(3) ints])
  have rest: "filter (\<lambda>e. rv_TS e > ?s) F = drop ?L ?xs"
    using after_page [OF assms(1) refl, of ?L s] page_size_pos [of limit] by simp
  have s_in: "?s = s \<or> ?s \<in> rv_TS ` set F"
  proof (cases "?es = []")
    case False
    then have "last ?es \<in> set F" using in_set_takeD [OF last_in_set [OF False]] by simp
    with False show ?thesis by (simp only: if_False) simp
  qed simp
  have step: "synced_to cfg now F s (Suc n * ?L) r v v'"
    if "synced_to cfg now F ?s (n * ?L) r u v'" "vf_entries u = forgetExpired cfg now (vf_entries v @ ?es)" for r :: "unit result" and u v'
  proof -
    from that(1) obtain m s' where m: "cursor_at now (vf_cursor v') s'" "filter (\<lambda>e. rv_TS e > s') F = drop m (drop ?L ?xs)"
      "forgetExpired cfg now (vf_entries v') = forgetExpired cfg now (vf_entries u @ take m (drop ?L ?xs))"
      "s' = ?s \<or> s' \<in> rv_TS ` set F" "(\<exists>a. r = Inr a) \<longrightarrow> n * ?L \<le> m \<or> drop m (drop ?L ?xs) = []" "feed v' = F"
      unfolding synced_to_def rest by blast
    have t: "take (?L + m) ?xs = ?es @ take m (drop ?L ?xs)" by (rule take_add)
    have f: "forgetExpired cfg now (vf_entries v') = forgetExpired cfg now (vf_entries v @ take (?L + m) ?xs)"
      using m(3) unfolding that(2) t by (simp only: forget_forget append_assoc)
    from m(2) have dr: "filter (\<lambda>e. rv_TS e > s') F = drop (?L + m) ?xs" by (simp add: add.commute)
    from m(5) have e: "(\<exists>a. r = Inr a) \<longrightarrow> Suc n * ?L \<le> ?L + m \<or> drop (?L + m) ?xs = []" by (simp add: add.commute)
    from m(4) s_in have "s' = s \<or> s' \<in> rv_TS ` set F" by metis
    with m(1,6) f dr e show ?thesis unfolding synced_to_def by blast
  qed
  show ?case
    unfolding sync_pages.simps wp_bind wp_on_env
  proof (rule wp_mono [OF RevokedSince_page], elim conjE)
    fix r :: "(revocation list \<times> string) result" and w' :: world
    assume d: "db w' = db (vf_env v)"
      and r: "\<forall>es nx. r = Inr (es, nx) \<longrightarrow> (\<exists>s. parseCursor now c = Inr s \<and> nx = next_cursor s c es
           \<and> es = take ?L (filter (\<lambda>e. rv_TS e > s) (Revs (db (vf_env v)))))"
    have fd: "feed (v\<lparr>vf_env := w'\<rparr>) = F" using d Suc.prems(1) by (simp add: feed_def)
    let ?Q = "\<lambda>r v'. synced_to cfg now F s (Suc n * ?L) r v v'"
    let ?u = "v\<lparr>vf_env := w', vf_entries := forgetExpired cfg now (vf_entries v @ ?es), vf_cursor := ?nx\<rparr>"
    have fu: "feed ?u = F" "vf_cursor ?u = ?nx" "vf_entries ?u = forgetExpired cfg now (vf_entries v @ ?es)"
      using d Suc.prems(1) by (simp_all add: feed_def)
    have stop: "?Q (Inr ()) ?u" if "?nx = c \<or> ?es = []"
    proof -
      have "?es = []"
      proof (rule ccontr)
        assume ne: "?es \<noteq> []"
        then have "last ?es \<in> set ?xs" using in_set_takeD [OF last_in_set] by blast
        then have "s < rv_TS (last ?es)" by simp
        moreover have "cursor_at now c (rv_TS (last ?es))" using cur ne that by auto
        ultimately show False
          using cursor_at_unique [OF Suc.prems(3)] by (metis less_irrefl)
      qed
      then have "?xs = []" using page_size_pos [of limit] by simp
      with \<open>?es = []\<close> cur fu show ?thesis
        unfolding synced_to_def by (intro conjI exI [of _ "0 :: nat"] exI [of _ s]) (auto simp: forgetExpired_def)
    qed
    have go: "wp (sync_pages n cfg (GRPCRevocations limit now) now ?nx) ?Q ?u"
      by (rule wp_mono [OF Suc.IH [OF fu(1,2) cur]]) (rule step, assumption, rule fu(3))
    show "case r of
         Inl e \<Rightarrow> ?Q (Inl e) (v\<lparr>vf_env := w'\<rparr>)
       | Inr a \<Rightarrow> wp (case a of (entries, next_c) \<Rightarrow>
            seq_op (modify_op (\<lambda>v. v\<lparr>vf_entries := forgetExpired cfg now (vf_entries v @ entries), vf_cursor := next_c\<rparr>))
              (if next_c = c \<or> entries = [] then ret () else sync_pages n cfg (GRPCRevocations limit now) now next_c)) ?Q (v\<lparr>vf_env := w'\<rparr>)"
    proof (cases r)
      case (Inl e)
      with fd Suc.prems(2) show ?thesis by (simp add: stay)
    next
      case (Inr a)
      obtain es nx where a: "a = (es, nx)" by force
      with r Inr cursor_at_parse [OF Suc.prems(3)] Suc.prems(1) have es: "es = ?es" "nx = ?nx" by (auto simp: feed_def)
      have "v\<lparr>vf_env := w', vf_entries := forgetExpired cfg now (vf_entries (v\<lparr>vf_env := w'\<rparr>) @ es), vf_cursor := nx\<rparr> = ?u"
        unfolding es by simp
      then show ?thesis
        unfolding Inr sum.case a prod.case wp_seq wp_modify using stop go es
        by (cases "?nx = c \<or> ?es = []") (simp_all only: wp_ret if_True if_False)
    qed
  qed
qed


section \<open>What a verifier knows\<close>

text \<open>The entry is in memory when it is in the retention window and behind the cursor.\<close>

definition sync_inv :: "verifier_config \<Rightarrow> time \<Rightarrow> world verifier \<Rightarrow> bool" where
  "sync_inv cfg now v \<longleftrightarrow>
     in_order (feed v) \<and> (\<forall>e\<in>set (feed v). int64 (rv_TS e) \<and> rv_TS e \<le> now)
     \<and> (vf_cursor v = ''''
        \<or> (\<exists>s\<le>now. int64 s \<and> vf_cursor v = FormatInt s
             \<and> (\<forall>e\<in>set (feed v). now - vc_Retention cfg < rv_TS e \<and> rv_TS e \<le> s \<longrightarrow> e \<in> set (vf_entries v))))"

lemma sync_invI:
  assumes "in_order (feed v)" "\<And>e. e \<in> set (feed v) \<Longrightarrow> int64 (rv_TS e) \<and> rv_TS e \<le> now"
    and "vf_cursor v = '''' \<or> s \<le> now \<and> int64 s \<and> vf_cursor v = FormatInt s"
    and "\<And>e. e \<in> set (feed v) \<Longrightarrow> now - vc_Retention cfg < rv_TS e \<Longrightarrow> rv_TS e \<le> s \<Longrightarrow> e \<in> set (vf_entries v)"
  shows "sync_inv cfg now v"
  unfolding sync_inv_def using assms by meson

lemma sync_inv_feed:
  assumes "sync_inv cfg now v"
  shows "in_order (feed v)" "e \<in> set (feed v) \<Longrightarrow> int64 (rv_TS e) \<and> rv_TS e \<le> now"
  using assms by (auto simp: sync_inv_def)

lemma sync_inv_later:
  assumes "sync_inv cfg past v" "past \<le> now" shows "sync_inv cfg now v"
proof (cases "vf_cursor v = ''''")
  case True
  with sync_inv_feed [OF assms(1)] assms(2) show ?thesis unfolding sync_inv_def by (meson order_trans)
next
  case False
  then obtain s where s: "s \<le> past" "int64 s" "vf_cursor v = FormatInt s"
    "\<And>e. e \<in> set (feed v) \<Longrightarrow> past - vc_Retention cfg < rv_TS e \<Longrightarrow> rv_TS e \<le> s \<Longrightarrow> e \<in> set (vf_entries v)"
    using assms(1) unfolding sync_inv_def by blast
  show ?thesis
  proof (rule sync_invI [where s = s])
    fix e assume "e \<in> set (feed v)" "now - vc_Retention cfg < rv_TS e" "rv_TS e \<le> s"
    then show "e \<in> set (vf_entries v)" using s(4) assms(2) by simp
  qed (use s assms(2) sync_inv_feed [OF assms(1)] in \<open>auto intro: order_trans\<close>)
qed

lemma forget_mem: "e \<in> set (forgetExpired cfg now xs) \<longleftrightarrow> e \<in> set xs \<and> rv_TS e > now - vc_Retention cfg"
  by (auto simp: forgetExpired_def)

lemma sync_inv_start:
  assumes "sync_inv cfg now v" "vc_Retention cfg \<le> RevocationRetention" "int64 (now - RevocationRetention)"
  obtains s where "cursor_at now (vf_cursor v) s" "s \<le> now"
    "\<And>e. e \<in> set (feed v) \<Longrightarrow> now - vc_Retention cfg < rv_TS e \<Longrightarrow> rv_TS e \<le> s \<Longrightarrow> e \<in> set (vf_entries v)"
proof (cases "vf_cursor v = ''''")
  case True
  show ?thesis
  proof (rule that [of "now - RevocationRetention"])
    show "cursor_at now (vf_cursor v) (now - RevocationRetention)" using True assms(3) by (simp add: cursor_at_def)
    show "now - RevocationRetention \<le> now" by (simp add: RevocationRetention_def minute_def second_def)
  qed (use assms(2) in auto)
next
  case False
  then show ?thesis using assms(1) that unfolding sync_inv_def cursor_at_def by blast
qed

lemma synced_inv:
  assumes inv: "sync_inv cfg now v" "vc_Retention cfg \<le> RevocationRetention" "int64 (now - RevocationRetention)"
    and s: "cursor_at now (vf_cursor v) s" "s \<le> now"
      "\<And>e. e \<in> set (feed v) \<Longrightarrow> now - vc_Retention cfg < rv_TS e \<Longrightarrow> rv_TS e \<le> s \<Longrightarrow> e \<in> set (vf_entries v)"
    and to: "synced_to cfg now (feed v) s n r v v'"
  shows "sync_inv cfg now v'"
    and "(\<exists>a. r = Inr a) \<Longrightarrow> length (feed v) \<le> n \<Longrightarrow> e \<in> set (feed v) \<Longrightarrow> now - vc_Retention cfg < rv_TS e \<Longrightarrow> e \<in> set (vf_entries v')"
proof -
  let ?xs = "filter (\<lambda>e. rv_TS e > s) (feed v)"
  from to obtain m s' where m: "cursor_at now (vf_cursor v') s'" "filter (\<lambda>e. rv_TS e > s') (feed v) = drop m ?xs"
    "forgetExpired cfg now (vf_entries v') = forgetExpired cfg now (vf_entries v @ take m ?xs)"
    "s' = s \<or> s' \<in> rv_TS ` set (feed v)" "(\<exists>a. r = Inr a) \<longrightarrow> n \<le> m \<or> drop m ?xs = []" and f: "feed v' = feed v"
    unfolding synced_to_def by blast
  have s': "s' \<le> now" using m(4) s(2) inv(1) by (auto simp: sync_inv_def)
  have known: "e \<in> set (vf_entries v')" if "e \<in> set (feed v)" "now - vc_Retention cfg < rv_TS e" "rv_TS e \<le> s \<or> e \<in> set (take m ?xs)" for e
  proof -
    have "e \<in> set (vf_entries v @ take m ?xs)" using that s(3) by auto
    then have "e \<in> set (forgetExpired cfg now (vf_entries v @ take m ?xs))" using that(2) by (simp only: forget_mem)
    then show ?thesis unfolding m(3) [symmetric] forget_mem by simp
  qed
  have behind: "rv_TS e \<le> s \<or> e \<in> set (take m ?xs)" if "e \<in> set (feed v)" "rv_TS e \<le> s'" for e
  proof (rule disjCI)
    assume "e \<notin> set (take m ?xs)"
    moreover have "e \<notin> set (drop m ?xs)" using that unfolding m(2) [symmetric] by simp
    ultimately have "e \<notin> set ?xs" by (metis Un_iff append_take_drop_id set_append)
    then show "rv_TS e \<le> s" using that(1) by simp
  qed
  show "sync_inv cfg now v'"
  proof (rule sync_invI [where s = s'])
    show "vf_cursor v' = '''' \<or> s' \<le> now \<and> int64 s' \<and> vf_cursor v' = FormatInt s'"
      using m(1) s' unfolding cursor_at_def by blast
    fix e assume "e \<in> set (feed v')" "now - vc_Retention cfg < rv_TS e" "rv_TS e \<le> s'"
    then show "e \<in> set (vf_entries v')" unfolding f using known behind by simp
  qed (use sync_inv_feed [OF inv(1)] in \<open>simp_all add: f\<close>)
  assume "\<exists>a. r = Inr a" "length (feed v) \<le> n" and e: "e \<in> set (feed v)" "now - vc_Retention cfg < rv_TS e"
  then have "n \<le> m \<or> drop m ?xs = []" using m(5) by blast
  moreover have "length ?xs \<le> n" using length_filter_le \<open>length (feed v) \<le> n\<close> by (rule order_trans)
  ultimately have "take m ?xs = ?xs" by auto
  with e known [OF e] show "e \<in> set (vf_entries v')" by (cases "rv_TS e \<le> s") auto
qed


text \<open>The sources of a client of the service: any answer to a request for keys, and the feed.\<close>

definition channel :: "(string \<times> string) list result \<Rightarrow> int \<Rightarrow> time \<Rightarrow> world sources" where
  "channel ks limit now = \<lparr>so_Keys = of_result ks, so_Since = Some (GRPCRevocations limit now)\<rparr>"

lemma wp_Sync:
  assumes inv: "sync_inv cfg now v" "vc_Retention cfg \<le> RevocationRetention" "int64 (now - RevocationRetention)"
  shows "wp (SyncRevocations cfg (channel ks limit now) now) (\<lambda>r v'. sync_inv cfg now v'
     \<and> (r = Inr () \<and> length (feed v) \<le> 100 * page_size limit \<longrightarrow>
          vf_revSyncedAt v' = now \<and> (\<forall>e\<in>set (feed v). now - vc_Retention cfg < rv_TS e \<longrightarrow> e \<in> set (vf_entries v')))) v"
proof -
  obtain s where s: "cursor_at now (vf_cursor v) s" "s \<le> now"
    "\<And>e. e \<in> set (feed v) \<Longrightarrow> now - vc_Retention cfg < rv_TS e \<Longrightarrow> rv_TS e \<le> s \<Longrightarrow> e \<in> set (vf_entries v)"
    using sync_inv_start [OF inv] by blast
  have pages: "wp (sync_pages 100 cfg (GRPCRevocations limit now) now (vf_cursor v))
      (\<lambda>r v'. synced_to cfg now (feed v) s (100 * page_size limit) r v v') v"
    by (rule wp_sync_pages [OF sync_inv_feed(1) [OF inv(1)] _ refl refl s(1)]) (use sync_inv_feed(2) [OF inv(1)] in blast)
  have keep: "sync_inv cfg now (v'\<lparr>vf_revSyncedAt := now, vf_revSynced := True\<rparr>) = sync_inv cfg now v'" for v'
    by (simp add: sync_inv_def feed_def)
  show ?thesis
    unfolding SyncRevocations_def channel_def sources.simps option.case wp_bind wp_gets sum.case wp_seq
  proof (rule wp_mono [OF pages])
    fix r :: "unit result" and v' assume to: "synced_to cfg now (feed v) s (100 * page_size limit) r v v'"
    note fin = synced_inv [OF inv s to]
    show "case r of
        Inl e \<Rightarrow> sync_inv cfg now v'
          \<and> (Inl e = Inr () \<and> length (feed v) \<le> 100 * page_size limit \<longrightarrow>
               vf_revSyncedAt v' = now \<and> (\<forall>e\<in>set (feed v). now - vc_Retention cfg < rv_TS e \<longrightarrow> e \<in> set (vf_entries v')))
      | Inr a \<Rightarrow> wp (modify_op (\<lambda>v. v\<lparr>vf_revSyncedAt := now, vf_revSynced := True\<rparr>)) (\<lambda>r v'. sync_inv cfg now v'
     \<and> (r = Inr () \<and> length (feed v) \<le> 100 * page_size limit \<longrightarrow>
          vf_revSyncedAt v' = now \<and> (\<forall>e\<in>set (feed v). now - vc_Retention cfg < rv_TS e \<longrightarrow> e \<in> set (vf_entries v')))) v'"
      using fin by (cases r) (simp_all add: wp_simps keep)
  qed
qed

section \<open>Verification\<close>

lemma VerifyToken_issued: "VerifyToken J s iss skew maxLife now lk = Inr c \<Longrightarrow> \<exists>iat. cl_IssuedAt c = Some iat"
  unfolding VerifyToken_def Let_def by (auto split: if_splits sum.splits option.splits jwt_error.splits)

text \<open>Looking at the claims leaves what the verifier knows of the feed alone.\<close>

definition same_feed :: "'s verifier \<Rightarrow> 's verifier \<Rightarrow> bool" where
  "same_feed v v' \<longleftrightarrow> vf_env v' = vf_env v \<and> vf_entries v' = vf_entries v \<and> vf_cursor v' = vf_cursor v
     \<and> vf_revSyncedAt v' = vf_revSyncedAt v \<and> vf_revSynced v' = vf_revSynced v"

lemma wp_verified_claims:
  "wp (verified_claims J cfg (channel ks limit now) now tok)
     (\<lambda>r v'. same_feed v v' \<and> (\<forall>c. r = Inr c \<longrightarrow> (\<exists>iat. cl_IssuedAt c = Some iat))) v"
  unfolding verified_claims_def channel_def RefreshKeys_def
  by (auto simp: wp_simps wp_on_env same_feed_def verify_now_def intro: VerifyToken_issued split: sum.split)

definition revokes :: "revocation \<Rightarrow> identity \<Rightarrow> bool" where
  "revokes e i \<longleftrightarrow>
     unix (id_IssuedAt i) \<le> unix (rv_TS e)
     \<and> (rv_Kind e = ''session'' \<and> rv_SubjectID e = id_SessionID i
        \<or> rv_Kind e = ''user'' \<and> rv_SubjectID e = id_UserID i \<and> (rv_TenantID e = '''' \<or> rv_TenantID e = id_TenantID i)
        \<or> rv_Kind e = ''tenant'' \<and> rv_SubjectID e = id_TenantID i)"

lemma wp_Verify:
  "wp (Verifier_Verify J cfg (channel ks limit now) now tok)
     (\<lambda>r v'. same_feed v v' \<and> (\<forall>i. r = Inr i \<longrightarrow>
        vf_revSynced v \<and> now - vf_revSyncedAt v \<le> vc_MaxStale cfg \<and> (\<forall>e\<in>set (vf_entries v). \<not> revokes e i)
        \<and> (vc_TenantID cfg \<noteq> '''' \<longrightarrow> id_TenantID i = vc_TenantID cfg))) v"
proof -
  have rv: "\<not> Verifier_revoked c es \<Longrightarrow> cl_IssuedAt c = Some iat \<Longrightarrow> e \<in> set es \<Longrightarrow> \<not> revokes e (identity_of c)" for c es iat e
    by (auto simp: Verifier_revoked_def hits_def revokes_def identity_of_def list_ex_iff)
  have src: "so_Since (channel ks limit now) \<noteq> None" by (simp add: channel_def)
  show ?thesis
    unfolding Verifier_Verify_def wp_try
  proof (rule wp_mono [OF wp_verified_claims], elim conjE)
    fix r :: "claims result" and v'
    assume sf: "same_feed v v'" and iat: "\<forall>c. r = Inr c \<longrightarrow> (\<exists>iat. cl_IssuedAt c = Some iat)"
    show "wp (case r of
       Inl _ \<Rightarrow> throw ErrUnauthenticated
     | Inr c \<Rightarrow>
         if vc_Audience cfg \<noteq> '''' \<and> \<not> List.member (cl_Audience c) (vc_Audience cfg) then throw ErrUnauthenticated
         else if vc_TenantID cfg \<noteq> '''' \<and> cl_TenantID c \<noteq> vc_TenantID cfg then throw ErrWrongTenant
         else if so_Since (channel ks limit now) = None then ret (identity_of c)
         else
           bind_op (gets_op (\<lambda>v. v)) (\<lambda>v.
           if \<not> vf_revSynced v \<or> now - vf_revSyncedAt v > vc_MaxStale cfg then throw ErrStale
           else if Verifier_revoked c (vf_entries v) then throw ErrRevoked
           else ret (identity_of c)))
       (\<lambda>r v'. same_feed v v' \<and> (\<forall>i. r = Inr i \<longrightarrow>
        vf_revSynced v \<and> now - vf_revSyncedAt v \<le> vc_MaxStale cfg \<and> (\<forall>e\<in>set (vf_entries v). \<not> revokes e i)
        \<and> (vc_TenantID cfg \<noteq> '''' \<longrightarrow> id_TenantID i = vc_TenantID cfg))) v'"
    proof (cases r)
      case (Inr c)
      then obtain i where "cl_IssuedAt c = Some i" using iat by blast
      with rv [of c "vf_entries v"] sf src Inr show ?thesis
        by (auto simp: wp_simps same_feed_def identity_of_def)
    qed (simp add: wp_simps sf)
  qed
qed


section \<open>Runs of a client\<close>

text \<open>
  A verifier from its start: synchronisations (failing or not), verifications, and feeds that grow by
  later entries.
\<close>

inductive client_run :: "jwt_lib \<Rightarrow> verifier_config \<Rightarrow> int \<Rightarrow> time \<Rightarrow> world verifier \<Rightarrow> bool" for J cfg limit where
  start: "client_run J cfg limit now (New_Verifier w)"
    if "in_order (Revs (db w))" "\<And>e. e \<in> set (Revs (db w)) \<Longrightarrow> int64 (rv_TS e) \<and> rv_TS e \<le> now"
| sync: "client_run J cfg limit now (snd (SyncRevocations cfg (channel ks limit now) now v))"
    if "client_run J cfg limit past v" "past \<le> now" "int64 (now - RevocationRetention)"
| verify: "client_run J cfg limit now (snd (Verifier_Verify J cfg (channel ks limit now) now tok v))"
    if "client_run J cfg limit past v" "past \<le> now"
| grow: "client_run J cfg limit now (v\<lparr>vf_env := w\<rparr>)"
    if "client_run J cfg limit past v" "past \<le> now" "Revs (db w) = feed v @ new_entries" "in_order (Revs (db w))"
      "\<And>e. e \<in> set new_entries \<Longrightarrow> int64 (rv_TS e) \<and> past < rv_TS e \<and> rv_TS e \<le> now"

lemma client_run_inv:
  assumes "client_run J cfg limit now v" "vc_Retention cfg \<le> RevocationRetention"
  shows "sync_inv cfg now v"
  using assms
proof (induction rule: client_run.induct)
  case (start w now)
  then show ?case by (auto simp: sync_inv_def feed_def New_Verifier_def)
next
  case (sync past v now ks)
  from wp_Sync [OF sync_inv_later [OF sync.IH [OF sync.prems] sync.hyps(2)] sync.prems sync.hyps(3), of ks limit]
  show ?case by (simp add: wp_iff)
next
  case (verify past v now ks tok)
  have "same_feed v (snd (Verifier_Verify J cfg (channel ks limit now) now tok v))"
    using wp_Verify [of J cfg ks limit now tok v] by (simp add: wp_iff)
  with sync_inv_later [OF verify.IH [OF verify.prems] verify.hyps(2)] show ?case
    by (simp add: sync_inv_def same_feed_def feed_def)
next
  case (grow past v now w new_entries)
  note inv = grow.IH [OF grow.prems]
  let ?v = "v\<lparr>vf_env := w\<rparr>"
  have f: "feed ?v = feed v @ new_entries" using grow.hyps(3) by (simp add: feed_def)
  have ord: "in_order (feed ?v)" using grow.hyps(4) by (simp add: feed_def)
  have ints: "int64 (rv_TS e) \<and> rv_TS e \<le> now" if "e \<in> set (feed ?v)" for e
    using that grow.hyps(2,5) sync_inv_feed(2) [OF inv] unfolding f by fastforce
  show ?case
  proof (cases "vf_cursor v = ''''")
    case True
    with ord ints show ?thesis unfolding sync_inv_def by simp
  next
    case False
    then obtain s where s: "s \<le> past" "int64 s" "vf_cursor v = FormatInt s"
      "\<And>e. e \<in> set (feed v) \<Longrightarrow> past - vc_Retention cfg < rv_TS e \<Longrightarrow> rv_TS e \<le> s \<Longrightarrow> e \<in> set (vf_entries v)"
      using inv unfolding sync_inv_def by blast
    show ?thesis
    proof (rule sync_invI [where s = s])
      fix e assume e: "e \<in> set (feed ?v)" "now - vc_Retention cfg < rv_TS e" "rv_TS e \<le> s"
      then have "e \<in> set (feed v)" using grow.hyps(5) s(1) unfolding f by fastforce
      with e s(4) grow.hyps(2) show "e \<in> set (vf_entries ?v)" by simp
    qed (use ord ints s grow.hyps(2) in auto)
  qed
qed


text \<open>A feed with another session's revocation, a synchronisation and an accepted token.\<close>

definition demo_revocation :: revocation where
  "demo_revocation = \<lparr>rv_TS = minute, rv_Kind = ''session'', rv_SubjectID = ''s9'', rv_TenantID = ''t1'', rv_Reason = ''signout''\<rparr>"

definition demo_vcfg :: verifier_config where
  "demo_vcfg = New_config \<lparr>vc_Issuer = ''iss'', vc_Audience = ''portal'', vc_TenantID = ''t1'', vc_Skew = 0, vc_KeyRefresh = 0,
     vc_UnknownKidCap = 0, vc_RevocationPoll = 0, vc_MaxStale = 0, vc_Retention = 0\<rparr>"

definition demo_client_start :: "world verifier" where
  "demo_client_start = New_Verifier (New_World\<lparr>db := New_Store\<lparr>Revs := [demo_revocation]\<rparr>\<rparr>)"

abbreviation demo_channel :: "time \<Rightarrow> world sources" where
  "demo_channel \<equiv> channel (Inr [(demo_kid, demo_pub)]) 0"

definition demo_synced :: "world verifier" where
  "demo_synced = snd (SyncRevocations demo_vcfg (demo_channel (2 * minute)) (2 * minute) demo_client_start)"

lemma demo_client_flow:
  "fst (SyncRevocations demo_vcfg (demo_channel (2 * minute)) (2 * minute) demo_client_start) = Inr ()"
  "vf_entries demo_synced = [demo_revocation]"
  "fst (Verifier_Verify demo_J demo_vcfg (demo_channel (3 * minute)) (3 * minute) ''access'' demo_synced) = Inr (identity_of demo_access)"
  by code_simp+


section \<open>Introspection reads one page\<close>

lemma take_page: "length xs = n \<Longrightarrow> take n (filter P (xs @ ys)) = xs" if "list_all P xs"
  using that by (simp add: list_all_iff)

text \<open>
  C23: Introspection reports a revoked token as active behind a full page.  \<open>Introspect\<close> looks at the first
  thousand entries since the token was issued.  When these are about others, the revocation of the
  token's own session behind them is not seen, and the token is reported as active.
\<close>

theorem introspect_misses_late_revocation:
  assumes tok: "Issuer_Verify (is_lib I) (is_Issuer I) (is_cfg I) keys now tok = Inr c" "cl_IssuedAt c = Some iat"
    and w: "faults w = []" "Revs (db w) = others @ [e]" "length others = 1000"
    and others: "list_all (\<lambda>o1. rv_TS o1 > iat - second \<and> \<not> ends_token c o1) others"
    and e: "rv_Kind e = ''session''" "rv_SubjectID e = cl_SessionID c" "iat \<le> rv_TS e"
  shows "ends_token c e \<and> (\<exists>res. fst (Introspect I keys now errText tok w) = Inr res \<and> in_Active res \<and> in_SessionId res = cl_SessionID c)"
proof -
  have "take 1000 (filter (\<lambda>e. rv_TS e > iat - second) (others @ [e])) = others"
    using take_page [of "\<lambda>e. rv_TS e > iat - second" others 1000 "[e]"] others w(3) by (simp add: list_all_iff)
  moreover have "\<not> list_ex (ends_token c) others" using others by (auto simp: list_ex_iff list_all_iff)
  ultimately have "fst (Introspect I keys now errText tok w) = Inr \<lparr>in_Active = True, in_Reason = '''', in_UserId = cl_Subject c,
      in_TenantId = cl_TenantID c, in_SessionId = cl_SessionID c, in_Roles = cl_Roles c, in_ExpiresAt = cl_ExpiresAt c\<rparr>"
    using w by (simp add: Introspect_def tok try_op_def Since_def on_db_def call_def Store_RevocationsSince_def Let_def
        seq_op_def bind_op_def emit_def modify_op_def ret_def)
  moreover have "ends_token c e"
    using e tok(2) zdiv_mono1 [of iat "rv_TS e" second] by (simp add: ends_token_def unix_def second_def)
  ultimately show ?thesis by simp
qed


definition demo_own_revocation :: revocation where
  "demo_own_revocation = demo_revocation\<lparr>rv_SubjectID := ''s1''\<rparr>"

definition demo_busy :: world where
  "demo_busy = New_World\<lparr>db := New_Store\<lparr>Revs := replicate 1000 demo_revocation @ [demo_own_revocation]\<rparr>\<rparr>"

theorem introspect_misses_late_revocation_witness:
  "ends_token demo_access demo_own_revocation
   \<and> (\<exists>res. fst (Introspect demo_I (rg_keys demo_ring) (2 * minute) '''' ''access'' demo_busy) = Inr res
        \<and> in_Active res \<and> in_SessionId res = cl_SessionID demo_access)"
proof (rule introspect_misses_late_revocation)
  show "Issuer_Verify (is_lib demo_I) (is_Issuer demo_I) (is_cfg demo_I) (rg_keys demo_ring) (2 * minute) ''access'' = Inr demo_access"
    by code_simp
  show "Revs (db demo_busy) = replicate 1000 demo_revocation @ [demo_own_revocation]" by (simp add: demo_busy_def)
  show "cl_IssuedAt demo_access = Some 0" by (simp add: demo_access_def)
qed (simp_all add: demo_busy_def New_World_def demo_own_revocation_def demo_revocation_def demo_access_def ends_token_def minute_def second_def list_all_iff)

end
