(* ===== verification/Authz.thy ===== *)
theory Authz
  imports Memstore_More World
begin

text \<open>
  Authorization objects, tuples and decisions (\<open>internal/authz\<close>: \<open>objects.go\<close>, \<open>client.go\<close>, \<open>fga.go\<close>,
  \<open>decide.go\<close>, \<open>escalation.go\<close>).  The client works on any backend; the in-memory one (\<open>Fake\<close>) and the
  chunked writes of the OpenFGA one are defined.
\<close>

section \<open>Objects\<close>

text \<open>\<open>^[a-z0-9](?:[a-z0-9-]{0,62}[a-z0-9])?$\<close>\<close>

definition role_slugRE :: "string \<Rightarrow> bool" where
  "role_slugRE s = match_label (\<lambda>c. is_az c \<or> is_09 c) (\<lambda>c. is_az c \<or> is_09 c \<or> c = CHR ''-'') 62 s"

abbreviation ErrAuthzMalformed :: err where "ErrAuthzMalformed \<equiv> Sentinel ''authz.ErrMalformed''"

definition authz_ParseSlug :: "string \<Rightarrow> string result" where
  "authz_ParseSlug s = (if \<not> role_slugRE s then Inl ErrAuthzMalformed else Inr s)"

definition ParsePermissionRef :: "string \<Rightarrow> perm_ref result" where
  "ParsePermissionRef s = (case ParseAny s of Inl _ \<Rightarrow> Inl ErrAuthzMalformed | Inr r \<Rightarrow> Inr r)"

definition UserObject :: "string \<Rightarrow> string" where "UserObject uid = ''user:'' @ uid"
definition TenantObject :: "string \<Rightarrow> string" where "TenantObject tid = ''tenant:'' @ tid"
definition RoleObject :: "string \<Rightarrow> string \<Rightarrow> string" where "RoleObject tid slug = ''role:'' @ tid @ ''/'' @ slug"
definition RoleAssignees :: "string \<Rightarrow> string \<Rightarrow> string" where "RoleAssignees tid slug = RoleObject tid slug @ ''#assignee''"
definition GroupObject :: "string \<Rightarrow> string \<Rightarrow> string" where "GroupObject tid gid = ''group:'' @ tid @ ''/'' @ gid"
definition GroupMembers :: "string \<Rightarrow> string \<Rightarrow> string" where "GroupMembers tid gid = GroupObject tid gid @ ''#member''"
definition PermissionObject :: "string \<Rightarrow> perm_ref \<Rightarrow> string" where "PermissionObject tid p = Object p tid"

definition ObjectTenant :: "string \<Rightarrow> string result" where
  "ObjectTenant obj =
     (case cut_byte (CHR '':'') obj of
        None \<Rightarrow> Inl ErrAuthzMalformed
      | Some (typ, rest) \<Rightarrow>
          (let tid = (if typ = ''tenant'' then Some rest
                      else if typ = ''role'' \<or> typ = ''permission'' \<or> typ = ''group'' then map_option fst (cut_byte (CHR ''/'') rest)
                      else None)
           in case tid of
                None \<Rightarrow> Inl ErrAuthzMalformed
              | Some tid \<Rightarrow> if \<not> ValidTenantID tid then Inl ErrAuthzMalformed else Inr tid))"

section \<open>Tuples\<close>

definition Tuple :: "string \<Rightarrow> string \<Rightarrow> string \<Rightarrow> fga_tuple" where
  "Tuple u r obj = \<lparr>tu_User = u, tu_Relation = r, tu_Object = obj\<rparr>"

definition MembershipTuple :: "string \<Rightarrow> string \<Rightarrow> string \<Rightarrow> fga_tuple" where
  "MembershipTuple tid uid relation = Tuple (UserObject uid) relation (TenantObject tid)"
definition RoleTenantTuple :: "string \<Rightarrow> string \<Rightarrow> fga_tuple" where
  "RoleTenantTuple tid slug = Tuple (TenantObject tid) ''tenant'' (RoleObject tid slug)"
definition RoleAssignmentTuple :: "string \<Rightarrow> string \<Rightarrow> string \<Rightarrow> fga_tuple" where
  "RoleAssignmentTuple tid slug uid = Tuple (UserObject uid) ''assignee'' (RoleObject tid slug)"
definition GroupTenantTuple :: "string \<Rightarrow> string \<Rightarrow> fga_tuple" where
  "GroupTenantTuple tid gid = Tuple (TenantObject tid) ''tenant'' (GroupObject tid gid)"
definition GroupMembershipTuple :: "string \<Rightarrow> string \<Rightarrow> string \<Rightarrow> fga_tuple" where
  "GroupMembershipTuple tid gid uid = Tuple (UserObject uid) ''member'' (GroupObject tid gid)"
definition GroupRoleTuple :: "string \<Rightarrow> string \<Rightarrow> string \<Rightarrow> fga_tuple" where
  "GroupRoleTuple tid gid slug = Tuple (GroupMembers tid gid) ''assignee'' (RoleObject tid slug)"
definition PermissionTenantTuple :: "string \<Rightarrow> perm_ref \<Rightarrow> fga_tuple" where
  "PermissionTenantTuple tid p = Tuple (TenantObject tid) ''tenant'' (PermissionObject tid p)"
definition GrantTuple :: "string \<Rightarrow> string \<Rightarrow> perm_ref \<Rightarrow> fga_tuple" where
  "GrantTuple tid slug p = Tuple (RoleAssignees tid slug) ''granted'' (PermissionObject tid p)"

section \<open>The in-memory backend\<close>

definition relation_rank :: "string \<Rightarrow> nat" where
  "relation_rank r =
     (if r = ''granted'' then 4 else if r = ''assignee'' then 3 else if r = ''member'' then 2 else if r = ''admin'' then 1 else 0)"

lemma list_ex_fundef_cong [fundef_cong]:
  "xs = ys \<Longrightarrow> (\<And>x. x \<in> set ys \<Longrightarrow> P x = Q x) \<Longrightarrow> list_ex P xs = list_ex Q ys"
  by (auto simp: list_ex_iff)

text \<open>\<open>Fake.check\<close>: a stored tuple, the tenant hierarchy, or a userset one relation further down.\<close>

function fga_check :: "fga_tuple list \<Rightarrow> fga_tuple \<Rightarrow> bool" where
  "fga_check ts t =
     (if List.member ts t then True
      else if tu_Relation t = ''member'' then
        (if has_prefix (tu_Object t) ''tenant:'' then fga_check ts (Tuple (tu_User t) ''admin'' (tu_Object t)) else False)
      else if tu_Relation t = ''admin'' then fga_check ts (Tuple (tu_User t) ''owner'' (tu_Object t))
      else if tu_Relation t = ''assignee'' then
        list_ex (\<lambda>k. tu_Object k = tu_Object t \<and> tu_Relation k = ''assignee''
          \<and> (case cut_suffix ''#member'' (tu_User k) of None \<Rightarrow> False | Some g \<Rightarrow> fga_check ts (Tuple (tu_User t) ''member'' g))) ts
      else if tu_Relation t = ''granted'' then
        list_ex (\<lambda>k. tu_Object k = tu_Object t \<and> tu_Relation k = ''granted''
          \<and> (case cut_suffix ''#assignee'' (tu_User k) of None \<Rightarrow> False | Some g \<Rightarrow> fga_check ts (Tuple (tu_User t) ''assignee'' g))) ts
      else False)"
  by pat_completeness auto
termination
  by (relation "measure (\<lambda>(ts, t). relation_rank (tu_Relation t))") (simp_all add: relation_rank_def Tuple_def)

declare fga_check.simps [simp del]

definition fake_add :: "fga_tuple \<Rightarrow> fga_tuple list \<Rightarrow> fga_tuple list" where
  "fake_add t ts = (if List.member ts t then ts else ts @ [t])"

text \<open>A malformed object stops the write; the tuples added before it stay.\<close>

fun fake_adds :: "fga_tuple list \<Rightarrow> (fga_tuple list, unit) op" where
  "fake_adds [] ts = (Inr (), ts)"
| "fake_adds (t # adds) ts =
     (case ObjectTenant (tu_Object t) of
        Inl e \<Rightarrow> (Inl e, ts)
      | Inr _ \<Rightarrow> fake_adds adds (fake_add t ts))"

definition Fake_Write :: "fga_tuple list \<Rightarrow> fga_tuple list \<Rightarrow> (fga_tuple list, unit) op" where
  "Fake_Write adds removes =
     seq_op (fake_adds adds) (modify_op (filter (\<lambda>t. \<not> List.member removes t)))"

definition Fake_Check :: "fga_tuple \<Rightarrow> (fga_tuple list, bool) op" where
  "Fake_Check t = gets_op (\<lambda>ts. fga_check ts t)"

definition Fake_BatchCheck :: "fga_tuple list \<Rightarrow> (fga_tuple list, bool list) op" where
  "Fake_BatchCheck qs = gets_op (\<lambda>ts. map (fga_check ts) qs)"

section \<open>Backends\<close>

record backend =
  be_Check :: "fga_tuple \<Rightarrow> (world, bool) op"
  be_BatchCheck :: "fga_tuple list \<Rightarrow> (world, bool list) op"
  be_Write :: "fga_tuple list \<Rightarrow> fga_tuple list \<Rightarrow> (world, unit) op"

definition Fake :: backend where
  "Fake = \<lparr>be_Check = (\<lambda>t. on_fga (Fake_Check t)), be_BatchCheck = (\<lambda>qs. on_fga (Fake_BatchCheck qs)),
     be_Write = (\<lambda>adds removes. on_fga (Fake_Write adds removes))\<rparr>"

text \<open>
  The OpenFGA backend: writes go out in requests of at most \<open>MaxTuplesPerWrite\<close> tuples, first the
  additions and then the removals.  A request is built by appending; it is sent when it is full.
\<close>

definition MaxTuplesPerWrite :: nat where "MaxTuplesPerWrite = 100"

type_synonym write_request = "fga_tuple list \<times> fga_tuple list"

fun chunk :: "(fga_tuple \<Rightarrow> write_request \<Rightarrow> write_request) \<Rightarrow> fga_tuple list \<Rightarrow> write_request \<Rightarrow> nat \<Rightarrow> write_request list
    \<Rightarrow> write_request \<times> nat \<times> write_request list" where
  "chunk put [] cur n out = (cur, n, out)"
| "chunk put (t # ts) cur n out =
     (if n = MaxTuplesPerWrite then chunk put ts (put t ([], [])) 1 (out @ [cur])
      else chunk put ts (put t cur) (Suc n) out)"

definition writeChunks :: "fga_tuple list \<Rightarrow> fga_tuple list \<Rightarrow> write_request list" where
  "writeChunks adds removes =
     (let (cur, n, out) = chunk (\<lambda>t (a, r). (a @ [t], r)) adds ([], []) 0 [];
          (cur, n, out) = chunk (\<lambda>t (a, r). (a, r @ [t])) removes cur n out
      in if n > 0 then out @ [cur] else out)"

definition SDK_Write :: "(write_request \<Rightarrow> (world, unit) op) \<Rightarrow> fga_tuple list \<Rightarrow> fga_tuple list \<Rightarrow> (world, unit) op" where
  "SDK_Write send adds removes =
     for_op (writeChunks adds removes) (\<lambda>req.
       try_op (send req) (\<lambda>r. case r of Inl _ \<Rightarrow> throw (ErrOther ''authz: write'') | Inr _ \<Rightarrow> ret ()))"

section \<open>The client\<close>

definition DecisionTTL :: duration where "DecisionTTL = 2 * second"

abbreviation ErrAuthzCrossTenant :: err where "ErrAuthzCrossTenant \<equiv> Sentinel ''authz.ErrCrossTenant''"

record az_client =
  az_Backend :: backend
  az_Cache :: bool

text \<open>\<open>guard.Require\<close>, with the hook the application installs: a refusal is audited.\<close>

definition require :: "req_context \<Rightarrow> string \<Rightarrow> (world, unit) op" where
  "require ctx tid =
     (case Require ctx tid of
        (r, None) \<Rightarrow> of_result r
      | (r, Some f) \<Rightarrow>
          seq_op (emit (event ''cross_tenant_refused'' (rf_TargetTenant f) (act_Kind (rf_Actor f)) (act_UserID (rf_Actor f)) '''' ''''
                    ''refused'' (rf_Reason f)))
            (of_result r))"

fun own_objects :: "string \<Rightarrow> string list \<Rightarrow> unit result" where
  "own_objects tid [] = Inr ()"
| "own_objects tid (obj # objs) =
     (case ObjectTenant obj of
        Inl e \<Rightarrow> Inl e
      | Inr ot \<Rightarrow> if ot \<noteq> tid then Inl ErrAuthzCrossTenant else own_objects tid objs)"

definition scoped :: "req_context \<Rightarrow> string \<Rightarrow> string list \<Rightarrow> (world, unit) op" where
  "scoped ctx tid objects = seq_op (require ctx tid) (of_result (own_objects tid objects))"

definition decisionKey :: "az_client \<Rightarrow> time \<Rightarrow> string \<Rightarrow> string \<Rightarrow> string \<Rightarrow> (world, string) op" where
  "decisionKey C now tid uid perm =
     (if \<not> az_Cache C then ret ''''
      else bind_op (TenantVersion World_KV now tid) (\<lambda>v. ret (DecisionKey tid uid (perm @ ''@'' @ FormatInt v))))"

definition boolStr :: "bool \<Rightarrow> string" where "boolStr b = (if b then ''1'' else ''0'')"

text \<open>A cached decision, when there is one; an unreadable one counts as none.\<close>

definition cached_text :: "time \<Rightarrow> string \<Rightarrow> (world, string option) op" where
  "cached_text now key =
     try_op (kv_Get World_KV now key) (\<lambda>r. case r of Inr (Some (Text v)) \<Rightarrow> ret (Some v) | _ \<Rightarrow> ret None)"

definition Allowed :: "az_client \<Rightarrow> req_context \<Rightarrow> time \<Rightarrow> string \<Rightarrow> string \<Rightarrow> perm_ref \<Rightarrow> (world, bool) op" where
  "Allowed C ctx now tid uid p =
     (let obj = PermissionObject tid p in
      seq_op (scoped ctx tid [obj])
     (try_op (decisionKey C now tid uid (Ref_String p)) (\<lambda>k.
      let key = (case k of Inl _ \<Rightarrow> '''' | Inr key \<Rightarrow> key) in
      bind_op (if key \<noteq> '''' then cached_text now key else ret None) (\<lambda>hit.
      case hit of
        Some v \<Rightarrow> ret (v = ''1'')
      | None \<Rightarrow>
          bind_op (be_Check (az_Backend C) (Tuple (UserObject uid) ''granted'' obj)) (\<lambda>ok.
          if key \<noteq> '''' then ignore_op (kv_Set World_KV now key (Text (boolStr ok)) DecisionTTL) (ret ok)
          else ret ok)))))"

definition AllowedMany :: "az_client \<Rightarrow> req_context \<Rightarrow> string \<Rightarrow> string \<Rightarrow> perm_ref list \<Rightarrow> (world, bool list) op" where
  "AllowedMany C ctx tid uid ps =
     (let objs = map (PermissionObject tid) ps in
      seq_op (scoped ctx tid objs)
        (be_BatchCheck (az_Backend C) (map (Tuple (UserObject uid) ''granted'') objs)))"

definition IsMember :: "az_client \<Rightarrow> req_context \<Rightarrow> string \<Rightarrow> string \<Rightarrow> (world, bool) op" where
  "IsMember C ctx tid uid =
     seq_op (scoped ctx tid []) (be_Check (az_Backend C) (Tuple (UserObject uid) ''member'' (TenantObject tid)))"

definition misplaced :: "fga_tuple \<Rightarrow> bool" where
  "misplaced t =
     (case ObjectTenant (tu_Object t) of
        Inl _ \<Rightarrow> False | Inr ot \<Rightarrow> tu_Relation t = ''tenant'' \<and> tu_User t \<noteq> TenantObject ot)"

definition Client_Write :: "az_client \<Rightarrow> req_context \<Rightarrow> time \<Rightarrow> string \<Rightarrow> fga_tuple list \<Rightarrow> fga_tuple list \<Rightarrow> (world, unit) op" where
  "Client_Write C ctx now tid adds removes =
     seq_op (check_op (\<not> list_ex misplaced (adds @ removes)) ErrAuthzCrossTenant)
    (seq_op (scoped ctx tid (map tu_Object (adds @ removes)))
    (seq_op (be_Write (az_Backend C) adds removes)
      (if az_Cache C then ignore_op (BumpTenantVersion World_KV now tid) (ret ()) else ret ())))"

section \<open>The self-escalation guard\<close>

definition MayGrant :: "az_client \<Rightarrow> req_context \<Rightarrow> actor \<Rightarrow> string \<Rightarrow> perm_ref list \<Rightarrow> (world, unit) op" where
  "MayGrant C ctx actor tid perms =
     (if perms = [] \<or> List.member (act_Roles actor) ''owner'' then ret ()
      else if act_Kind actor = KindSystem then ret ()
      else
        bind_op (AllowedMany C ctx tid (act_UserID actor) perms) (\<lambda>held.
        check_op (list_all (\<lambda>ok. ok) held) ErrSelfEscalation))"

section \<open>Decisions\<close>

definition ReasonNoPermission :: string where "ReasonNoPermission = ''no_permission''"
definition ReasonUserInactive :: string where "ReasonUserInactive = ''user_inactive''"
definition ReasonTenantSuspended :: string where "ReasonTenantSuspended = ''tenant_suspended''"
definition ReasonUnknownPermission :: string where "ReasonUnknownPermission = ''unknown_permission''"

record decision =
  de_Allowed :: bool
  de_Reason :: string
  de_PolicyVersion :: string

definition known_refs :: "string \<Rightarrow> (world, perm_ref list) op" where
  "known_refs tid = bind_op (on_db (Store_ListPermissions tid)) (\<lambda>ps. ret (map Permission_Ref ps))"

definition Resolve_ref :: "perm_ref list \<Rightarrow> perm_ref \<Rightarrow> perm_ref option" where
  "Resolve_ref known p =
     (if List.member known p then Some p
      else if \<not> IsLegacy p \<and> List.member known (p\<lparr>ref_module := ''''\<rparr>) then Some (p\<lparr>ref_module := ''''\<rparr>)
      else None)"

definition Decider_Allowed :: "az_client \<Rightarrow> req_context \<Rightarrow> time \<Rightarrow> string \<Rightarrow> string \<Rightarrow> perm_ref \<Rightarrow> (world, bool) op" where
  "Decider_Allowed C ctx now tid uid p =
     bind_op (known_refs tid) (\<lambda>known.
     case Resolve_ref known p of None \<Rightarrow> ret False | Some eval \<Rightarrow> Allowed C ctx now tid uid eval)"

text \<open>The first loop of \<open>BatchDecide\<close>: what is decided at once and what remains to be asked.\<close>

definition first_answer ::
    "az_client \<Rightarrow> time \<Rightarrow> string \<Rightarrow> string \<Rightarrow> string \<Rightarrow> perm_ref list \<Rightarrow> perm_ref \<Rightarrow> (world, decision \<times> perm_ref option) op" where
  "first_answer C now tid uid version known p =
     (let d = \<lparr>de_Allowed = False, de_Reason = ReasonNoPermission, de_PolicyVersion = version\<rparr> in
      case Resolve_ref known p of
        None \<Rightarrow> ret (d\<lparr>de_Reason := ReasonUnknownPermission\<rparr>, None)
      | Some eval \<Rightarrow>
          if az_Cache C then
            bind_op (cached_text now (DecisionKey tid uid (Ref_String eval @ ''@'' @ version))) (\<lambda>hit.
            case hit of
              Some v \<Rightarrow> ret (if v \<noteq> ''0'' then d\<lparr>de_Allowed := True, de_Reason := v\<rparr> else d, None)
            | None \<Rightarrow> ret (d, Some eval))
          else ret (d, Some eval))"

fun first_answers ::
    "az_client \<Rightarrow> time \<Rightarrow> string \<Rightarrow> string \<Rightarrow> string \<Rightarrow> perm_ref list \<Rightarrow> perm_ref list \<Rightarrow> (world, (decision \<times> perm_ref option) list) op" where
  "first_answers C now tid uid version known [] = ret []"
| "first_answers C now tid uid version known (p # ps) =
     bind_op (first_answer C now tid uid version known p) (\<lambda>a.
     bind_op (first_answers C now tid uid version known ps) (\<lambda>as. ret (a # as)))"

text \<open>The roles of the user, those through groups included; \<open>None\<close> is the nil slice.\<close>

fun first_of_role :: "effective_role list \<Rightarrow> string list \<Rightarrow> effective_role list" where
  "first_of_role [] seen = []"
| "first_of_role (r # rs) seen =
     (if List.member seen (ef_RoleID r) then first_of_role rs seen else r # first_of_role rs (ef_RoleID r # seen))"

definition effectiveRoles :: "string \<Rightarrow> string \<Rightarrow> (world, (string \<times> string) list option) op" where
  "effectiveRoles tid uid =
     try_op (on_db (Store_EffectiveRoles tid uid)) (\<lambda>r.
     case r of
       Inr rows \<Rightarrow> ret (Some (map (\<lambda>r. (ef_RoleID r, ef_Slug r)) (first_of_role rows [])))
     | Inl _ \<Rightarrow>
         try_op (on_db (Store_UserRoles tid uid)) (\<lambda>r.
         case r of
           Inl _ \<Rightarrow> ret None
         | Inr roles \<Rightarrow> ret (if roles = [] then None else Some (map (\<lambda>r. (ro_ID r, ro_Slug r)) roles))))"

fun grantingRole :: "string \<Rightarrow> (string \<times> string) list \<Rightarrow> perm_ref \<Rightarrow> (world, string) op" where
  "grantingRole tid [] p = ret ''role:unknown''"
| "grantingRole tid ((ident, slug) # roles) p =
     try_op (on_db (Store_RolePermissions tid ident)) (\<lambda>r.
     case r of
       Inl _ \<Rightarrow> grantingRole tid roles p
     | Inr perms \<Rightarrow> if List.member perms p then ret (''role:'' @ slug) else grantingRole tid roles p)"

text \<open>The second loop: the answers of the backend, put into the decisions that waited for them.\<close>

fun second_answers ::
    "az_client \<Rightarrow> time \<Rightarrow> string \<Rightarrow> string \<Rightarrow> string \<Rightarrow> (decision \<times> perm_ref option) list \<Rightarrow> bool list
      \<Rightarrow> (string \<times> string) list option \<Rightarrow> (world, decision list) op" where
  "second_answers C now tid uid version [] answers roles = ret []"
| "second_answers C now tid uid version ((d, None) # ds) answers roles =
     bind_op (second_answers C now tid uid version ds answers roles) (\<lambda>ds'. ret (d # ds'))"
| "second_answers C now tid uid version ((d, Some eval) # ds) answers roles =
     bind_op
       (if answers \<noteq> [] \<and> hd answers then
          bind_op (if roles = None then effectiveRoles tid uid else ret roles) (\<lambda>roles.
          bind_op (grantingRole tid (case roles of None \<Rightarrow> [] | Some rs \<Rightarrow> rs) eval) (\<lambda>reason.
          ret (d\<lparr>de_Allowed := True, de_Reason := reason\<rparr>, roles)))
        else ret (d, roles)) (\<lambda>(d', roles').
     ignore_op
       (if az_Cache C then
          kv_Set World_KV now (DecisionKey tid uid (Ref_String eval @ ''@'' @ version))
            (Text (if de_Allowed d' then de_Reason d' else ''0'')) DecisionTTL
        else ret ())
     (bind_op (second_answers C now tid uid version ds (tl answers) roles') (\<lambda>ds'. ret (d' # ds'))))"

definition denied_event :: "string \<Rightarrow> string \<Rightarrow> decision \<Rightarrow> (world, unit) op" where
  "denied_event tid uid d =
     when_op (\<not> de_Allowed d) (emit (event ''authz_denied'' tid ''user'' uid ''permission'' '''' ''refused'' (de_Reason d)))"

definition BatchDecide :: "az_client \<Rightarrow> req_context \<Rightarrow> time \<Rightarrow> string \<Rightarrow> string \<Rightarrow> perm_ref list \<Rightarrow> (world, decision list) op" where
  "BatchDecide C ctx now tid uid perms =
     seq_op (require ctx tid)
    (bind_op (if az_Cache C then
                try_op (TenantVersion World_KV now tid) (\<lambda>r. case r of Inl _ \<Rightarrow> ret '''' | Inr v \<Rightarrow> ret (FormatInt v))
              else ret '''') (\<lambda>version.
     let deny = (\<lambda>reason. ret (map (\<lambda>_. \<lparr>de_Allowed = False, de_Reason = reason, de_PolicyVersion = version\<rparr>) perms)) in
     try_op (on_db (Store_TenantStatus tid)) (\<lambda>ts.
     if ts \<noteq> Inr ''active'' then deny ReasonTenantSuspended
     else
       try_op (on_db (Store_UserStatus tid uid)) (\<lambda>us.
       if us \<noteq> Inr ''active'' then deny ReasonUserInactive
       else
         bind_op (known_refs tid) (\<lambda>known.
         bind_op (first_answers C now tid uid version known perms) (\<lambda>firsts.
         let ask = List.map_filter snd firsts in
         bind_op (if ask \<noteq> [] then AllowedMany C ctx tid uid ask else ret []) (\<lambda>answers.
         bind_op (second_answers C now tid uid version firsts answers None) (\<lambda>ds.
         seq_op (for_op ds (denied_event tid uid)) (ret ds)))))))))"

definition Decide :: "az_client \<Rightarrow> req_context \<Rightarrow> time \<Rightarrow> string \<Rightarrow> string \<Rightarrow> perm_ref \<Rightarrow> (world, decision) op" where
  "Decide C ctx now tid uid p =
     bind_op (BatchDecide C ctx now tid uid [p]) (\<lambda>ds. case ds of d # _ \<Rightarrow> ret d | [] \<Rightarrow> throw (ErrOther ''index out of range''))"

end
