(* ===== verification/Authz_Registry.thy ===== *)
theory Authz_Registry
  imports Authz Webauthn
begin

text \<open>
  The permission registry (\<open>internal/authz/registry.go\<close>): the permissions a module declares in a
  tenant, and the catalogue the role editor shows.
\<close>

section \<open>Registration\<close>

record permission_def =
  pd_Resource :: string
  pd_Action :: string
  pd_Description :: string

definition def_Ref :: "string \<Rightarrow> permission_def \<Rightarrow> perm_ref" where
  "def_Ref m d = \<lparr>ref_module = m, ref_resource = pd_Resource d, ref_action = pd_Action d\<rparr>"

definition AuthModule :: string where "AuthModule = ''auth''"
definition AuthDisplayName :: string where "AuthDisplayName = ''Authentication''"
definition LegacyDisplayName :: string where "LegacyDisplayName = ''Before modules''"

definition valid_def :: "permission_def \<Rightarrow> bool" where
  "valid_def d \<longleftrightarrow> ValidResource (pd_Resource d) \<and> ValidAction (pd_Action d) \<and> length (pd_Description d) \<le> 256"

text \<open>Rows whose description is unchanged are not rewritten.\<close>

fun upsert_defs :: "string \<Rightarrow> string \<Rightarrow> (perm_ref \<times> string) list \<Rightarrow> permission_def list \<Rightarrow> (world, unit) op" where
  "upsert_defs tid module known [] = ret ()"
| "upsert_defs tid module known (d # defs) =
     (if map_of known (def_Ref module d) = Some (pd_Description d) then upsert_defs tid module known defs
      else
        seq_op (on_db (Store_UpsertPermission tid
                  \<lparr>pm_Module = module, pm_Resource = pd_Resource d, pm_Action = pd_Action d, pm_Description = pd_Description d\<rparr>))
          (upsert_defs tid module ((def_Ref module d, pd_Description d) # known) defs))"

definition new_refs :: "perm_ref list \<Rightarrow> perm_ref list \<Rightarrow> perm_ref list" where
  "new_refs known refs = rev (remdups (rev (filter (\<lambda>r. \<not> List.member known r) refs)))"

definition Register ::
    "az_client \<Rightarrow> req_context \<Rightarrow> time \<Rightarrow> string \<Rightarrow> string \<Rightarrow> permission_def list \<Rightarrow> (world, nat) op" where
  "Register C ctx now tid module defs =
     seq_op (require ctx tid)
    (seq_op (check_op (module = '''' \<or> ValidModule module) ErrBadPermission)
    (seq_op (check_op (list_all valid_def defs) ErrBadPermission)
    (bind_op (on_db (Store_ListPermissions tid)) (\<lambda>existing.
     let known = rev (map (\<lambda>p. (Permission_Ref p, pm_Description p)) existing);
         tuples = map (PermissionTenantTuple tid) (new_refs (map fst known) (map (def_Ref module) defs)) in
     seq_op (when_op (tuples \<noteq> []) (Client_Write C ctx now tid tuples []))
    (seq_op (upsert_defs tid module known defs)
    (seq_op (when_op (defs \<noteq> []) (emit (event ''permission_registered'' tid ''service'' '''' '''' '''' ''ok'' '''')))
       (ret (length defs))))))))"

section \<open>Module names\<close>

definition ModuleDisplayNames :: "module_row list \<Rightarrow> (string \<times> string) list \<times> string list" where
  "ModuleDisplayNames mods =
     (fold (\<lambda>m names. if mo_Name m \<noteq> AuthModule \<or> mo_DisplayName m \<noteq> mo_Name m then AList.update (mo_Name m) (mo_DisplayName m) names
             else names) mods [(AuthModule, AuthDisplayName)],
      map mo_Name (filter (\<lambda>m. mo_RetiredAt m \<noteq> None) mods))"

definition DisplayName :: "(string \<times> string) list \<Rightarrow> string \<Rightarrow> string" where
  "DisplayName names m =
     (if m = '''' then LegacyDisplayName
      else case map_of names m of Some n \<Rightarrow> if n \<noteq> '''' then n else m | None \<Rightarrow> m)"

section \<open>The catalogue\<close>

record catalogue_entry =
  ce_Ref :: string
  ce_Module :: string
  ce_ModuleDisplayName :: string
  ce_Resource :: string
  ce_Action :: string
  ce_Description :: string
  ce_Grantable :: bool
  ce_Legacy :: bool

definition entry_of :: "(string \<times> string) list \<Rightarrow> permission \<Rightarrow> catalogue_entry" where
  "entry_of names p =
     \<lparr>ce_Ref = Ref_String (Permission_Ref p), ce_Module = pm_Module p, ce_ModuleDisplayName = DisplayName names (pm_Module p),
      ce_Resource = pm_Resource p, ce_Action = pm_Action p, ce_Description = pm_Description p, ce_Grantable = False,
      ce_Legacy = (pm_Module p = '''')\<rparr>"

text \<open>The order of the catalogue: the stable sorts of the least significant key come first.\<close>

definition sort_entries :: "catalogue_entry list \<Rightarrow> catalogue_entry list" where
  "sort_entries es =
     sort_key (\<lambda>e. (if ce_Legacy e then 1 else 0) :: nat) (sort_key ce_ModuleDisplayName (sort_key ce_Module
       (sort_key ce_Resource (sort_key ce_Action es))))"

definition entry_ref :: "catalogue_entry \<Rightarrow> perm_ref" where
  "entry_ref e = \<lparr>ref_module = ce_Module e, ref_resource = ce_Resource e, ref_action = ce_Action e\<rparr>"

fun with_held :: "catalogue_entry list \<Rightarrow> bool list \<Rightarrow> catalogue_entry list" where
  "with_held (e # es) (ok # oks) = e\<lparr>ce_Grantable := ok\<rparr> # with_held es oks"
| "with_held es oks = es"

text \<open>What the actor holds is asked in batches of \<open>MaxTuplesPerWrite\<close>.\<close>

function grantable_from :: "az_client \<Rightarrow> req_context \<Rightarrow> string \<Rightarrow> string \<Rightarrow> catalogue_entry list \<Rightarrow> (world, catalogue_entry list) op" where
  "grantable_from C ctx tid uid es =
     (if es = [] then ret []
      else
        bind_op (AllowedMany C ctx tid uid (map entry_ref (take MaxTuplesPerWrite es))) (\<lambda>held.
        bind_op (grantable_from C ctx tid uid (drop MaxTuplesPerWrite es)) (\<lambda>rest.
        ret (with_held (take MaxTuplesPerWrite es) held @ rest))))"
  by pat_completeness auto
termination
  by (relation "measure (\<lambda>(C, ctx, tid, uid, es). length es)") (simp_all add: MaxTuplesPerWrite_def)

definition Catalogue :: "az_client \<Rightarrow> req_context \<Rightarrow> string \<Rightarrow> actor \<Rightarrow> (world, catalogue_entry list) op" where
  "Catalogue C ctx tid actor =
     seq_op (require ctx tid)
    (bind_op (on_db (Store_ListPermissions tid)) (\<lambda>rows.
     bind_op (on_db Store_Modules) (\<lambda>mods.
     let (names, retired) = ModuleDisplayNames mods;
         es = sort_entries (map (entry_of names) (filter (\<lambda>p. \<not> List.member retired (pm_Module p)) rows)) in
     if act_Kind actor = KindSystem \<or> List.member (act_Roles actor) ''owner'' then ret (map (ce_Grantable_update (\<lambda>_. True)) es)
     else grantable_from C ctx tid (act_UserID actor) es)))"

declare grantable_from.simps [simp del]

end
