(* ===== verification/Authz_Roles.thy ===== *)
theory Authz_Roles
  imports Authz_Registry
begin

text \<open>
  Roles (\<open>internal/authz\<close>: \<open>assign.go\<close>, \<open>roles.go\<close>): assignment to users, custom roles, grants of
  built-in and module roles.  Each change touches the mirror rows in the store and the tuples of the
  authorization backend, in the order of the code.
\<close>

section \<open>Assignment\<close>

text \<open>The reason of a refusal is the text of its error.\<close>

definition reason_of :: "err \<Rightarrow> string" where
  "reason_of e =
     (if e = ErrSelfEscalation then ''self_escalation'' else if e = ErrLastOwner then ''last_owner''
      else if e = ErrRoleRetired then ''role_retired'' else '''')"

fun dedupe_from :: "string list \<Rightarrow> string list \<Rightarrow> string list" where
  "dedupe_from seen [] = []"
| "dedupe_from seen (x # xs) = (if List.member seen x then dedupe_from seen xs else x # dedupe_from (x # seen) xs)"

definition dedupe :: "string list \<Rightarrow> string list" where "dedupe = dedupe_from []"

definition containsRole :: "role list \<Rightarrow> string \<Rightarrow> bool" where
  "containsRole roles ident = list_ex (\<lambda>r. ro_ID r = ident) roles"

definition containsSlug :: "role list \<Rightarrow> string \<Rightarrow> bool" where
  "containsSlug roles slug = list_ex (\<lambda>r. ro_Slug r = slug) roles"

definition refuseRetired :: "role list \<Rightarrow> unit result" where
  "refuseRetired roles = (if list_ex (\<lambda>r. ro_RetiredAt r \<noteq> None) roles then Inl ErrRoleRetired else Inr ())"

text \<open>The permissions of roles that are neither owner nor admin.\<close>

fun granting_of :: "string \<Rightarrow> role list \<Rightarrow> (world, perm_ref list) op" where
  "granting_of tid [] = ret []"
| "granting_of tid (r # rs) =
     (if ro_Slug r = ''owner'' \<or> ro_Slug r = ''admin'' then throw ErrSelfEscalation
      else
        bind_op (on_db (Store_RolePermissions tid (ro_ID r))) (\<lambda>perms.
        bind_op (granting_of tid rs) (\<lambda>more. ret (perms @ more))))"

definition MayAssign :: "az_client \<Rightarrow> req_context \<Rightarrow> actor \<Rightarrow> string \<Rightarrow> string list \<Rightarrow> (world, unit) op" where
  "MayAssign C ctx actor tid roleIDs =
     seq_op (require ctx tid)
       (if roleIDs = [] then ret ()
        else
          bind_op (on_db (Store_RolesByID tid (dedupe roleIDs))) (\<lambda>roles.
          seq_op (of_result (refuseRetired roles))
            (if List.member (act_Roles actor) ''owner'' then ret ()
             else bind_op (granting_of tid roles) (\<lambda>granting. MayGrant C ctx actor tid granting))))"

definition role_event :: "actor \<Rightarrow> string \<Rightarrow> string \<Rightarrow> string \<Rightarrow> string \<Rightarrow> (world, unit) op" where
  "role_event actor tid typ uid out = emit (event typ tid (act_Kind actor) (act_UserID actor) ''user'' uid out '''')"

definition assign_refuse :: "actor \<Rightarrow> string \<Rightarrow> string \<Rightarrow> err \<Rightarrow> (world, 'a) op" where
  "assign_refuse actor tid uid e =
     seq_op (emit (event ''role_assigned'' tid (act_Kind actor) (act_UserID actor) ''user'' uid ''refused'' (reason_of e))) (throw e)"

text \<open>The tuples of a role a user gains or loses; the owner role also is a relation to the tenant.\<close>

definition role_tuples :: "string \<Rightarrow> string \<Rightarrow> role \<Rightarrow> fga_tuple list" where
  "role_tuples tid uid r =
     RoleAssignmentTuple tid (ro_Slug r) uid # (if ro_Slug r = ''owner'' then [MembershipTuple tid uid ''owner''] else [])"

definition AssignRoles ::
    "az_client \<Rightarrow> req_context \<Rightarrow> time \<Rightarrow> string \<Rightarrow> string \<Rightarrow> string list \<Rightarrow> (world, string list) op" where
  "AssignRoles C ctx now tid uid roleIDs =
     (case FromContext ctx of
        None \<Rightarrow> throw ErrNoActor
      | Some actor \<Rightarrow>
          seq_op (require ctx tid)
         (bind_op (on_db (Store_RolesByID tid (dedupe roleIDs))) (\<lambda>want.
          bind_op (on_db (Store_UserRoles tid uid)) (\<lambda>have.
          let adding = map ro_ID (filter (\<lambda>r. \<not> containsRole have (ro_ID r)) want) in
          try_op (MayAssign C ctx actor tid adding) (\<lambda>may.
          case may of
            Inl e \<Rightarrow> if e = ErrSelfEscalation \<or> e = ErrRoleRetired then assign_refuse actor tid uid e else throw e
          | Inr _ \<Rightarrow>
              bind_op
                (if containsSlug have ''owner'' \<and> \<not> containsSlug want ''owner''
                 then bind_op (on_db (Store_CountWithRole tid ''owner'')) (\<lambda>n. ret (n \<le> 1))
                 else ret False) (\<lambda>last_one.
              if last_one then assign_refuse actor tid uid ErrLastOwner
              else
                let gained = filter (\<lambda>r. \<not> containsRole have (ro_ID r)) want;
                    lost = filter (\<lambda>r. \<not> containsRole want (ro_ID r)) have in
                seq_op (on_db (Store_ReplaceBindings tid uid (map ro_ID want)))
               (seq_op (Client_Write C ctx now tid (concat (map (role_tuples tid uid) gained)) (concat (map (role_tuples tid uid) lost)))
               (seq_op (for_op gained (\<lambda>_. role_event actor tid ''role_assigned'' uid ''ok''))
               (seq_op (for_op lost (\<lambda>_. role_event actor tid ''role_revoked'' uid ''ok''))
                  (ret (map ro_Slug want)))))))))))"

section \<open>Views\<close>

record role_view =
  rv_ID :: string
  rv_Slug :: string
  rv_DisplayName :: string
  rv_Description :: string
  rv_Builtin :: bool
  rv_Origin :: string
  rv_Module :: string
  rv_ModuleDisplayName :: string
  rv_ModuleSlug :: string
  rv_Locked :: bool
  rv_Retired :: bool
  rv_RetiredAt :: "time option"
  rv_Permissions :: "string list"

record role_name =
  rn_Slug :: string
  rn_DisplayName :: string
  rn_Origin :: string
  rn_ModuleDisplayName :: string
  rn_Retired :: bool

definition moduleNames :: "(world, (string \<times> string) list) op" where
  "moduleNames =
     try_op (on_db Store_Modules) (\<lambda>r. ret (fst (ModuleDisplayNames (case r of Inl _ \<Rightarrow> [] | Inr mods \<Rightarrow> mods))))"

definition refsOf :: "perm_ref list \<Rightarrow> string list" where "refsOf perms = map Ref_String perms"

definition role_view_of :: "(string \<times> string) list \<Rightarrow> role \<Rightarrow> perm_ref list \<Rightarrow> role_view" where
  "role_view_of names ro perms =
     \<lparr>rv_ID = ro_ID ro, rv_Slug = ro_Slug ro, rv_DisplayName = ro_DisplayName ro, rv_Description = ro_Description ro,
      rv_Builtin = ro_Builtin ro, rv_Origin = OriginOf ro, rv_Module = ro_Module ro,
      rv_ModuleDisplayName = (if ro_Module ro \<noteq> '''' then DisplayName names (ro_Module ro) else ''''), rv_ModuleSlug = ro_ModuleSlug ro,
      rv_Locked = (OriginOf ro \<noteq> OriginCustom), rv_Retired = (ro_RetiredAt ro \<noteq> None), rv_RetiredAt = ro_RetiredAt ro,
      rv_Permissions = refsOf perms\<rparr>"

definition Roles_Names :: "string \<Rightarrow> (world, role_name list) op" where
  "Roles_Names tid =
     bind_op (on_db (Store_ListRoles tid)) (\<lambda>roles.
     bind_op moduleNames (\<lambda>names.
     ret (map (\<lambda>ro. \<lparr>rn_Slug = ro_Slug ro, rn_DisplayName = ro_DisplayName ro, rn_Origin = OriginOf ro,
       rn_ModuleDisplayName = (if ro_Module ro \<noteq> '''' then DisplayName names (ro_Module ro) else ''''),
       rn_Retired = (ro_RetiredAt ro \<noteq> None)\<rparr>) roles)))"

fun views :: "string \<Rightarrow> (string \<times> string) list \<Rightarrow> role list \<Rightarrow> (world, role_view list) op" where
  "views tid names [] = ret []"
| "views tid names (ro # roles) =
     bind_op (on_db (Store_RolePermissions tid (ro_ID ro))) (\<lambda>perms.
     bind_op (views tid names roles) (\<lambda>vs. ret (role_view_of names ro perms # vs)))"

definition Roles_List :: "req_context \<Rightarrow> string \<Rightarrow> (world, role_view list) op" where
  "Roles_List ctx tid =
     seq_op (require ctx tid)
    (bind_op (on_db (Store_ListRoles tid)) (\<lambda>roles.
     bind_op moduleNames (\<lambda>names. views tid names roles)))"

section \<open>Custom roles\<close>

text \<open>\<open>parsePerms\<close>; a legacy reference is accepted only when the role holds it already.\<close>

fun parse_refs :: "perm_ref list \<Rightarrow> perm_ref list \<Rightarrow> perm_ref list \<Rightarrow> string list \<Rightarrow> perm_ref list result" where
  "parse_refs known kept seen [] = Inr []"
| "parse_refs known kept seen (s # refs) =
     (case ParsePermissionRef s of
        Inl _ \<Rightarrow> Inl ErrRoleRef
      | Inr p \<Rightarrow>
          if \<not> List.member known p \<or> (IsLegacy p \<and> \<not> List.member kept p) then Inl ErrRoleRef
          else if List.member seen p then parse_refs known kept seen refs
          else (case parse_refs known kept (p # seen) refs of Inl e \<Rightarrow> Inl e | Inr ps \<Rightarrow> Inr (p # ps)))"

definition parsePerms :: "string \<Rightarrow> string list \<Rightarrow> perm_ref list \<Rightarrow> (world, perm_ref list) op" where
  "parsePerms tid refs kept = bind_op (known_refs tid) (\<lambda>known. of_result (parse_refs known kept [] refs))"

definition validDisplayName :: "string \<Rightarrow> string option" where
  "validDisplayName s0 =
     (let s = trim_space s0 in
      if s = '''' \<or> int (length s) > 120 \<or> list_ex IsControl (runes s) then None else Some s)"

definition custom_event :: "actor \<Rightarrow> string \<Rightarrow> string \<Rightarrow> string \<Rightarrow> (world, unit) op" where
  "custom_event actor tid typ ident = emit (event typ tid (act_Kind actor) (act_UserID actor) ''role'' ident ''ok'' '''')"

text \<open>The new role row; its id comes from \<open>store.NewID\<close>.\<close>

definition new_role :: "string \<Rightarrow> string \<Rightarrow> string \<Rightarrow> string \<Rightarrow> bool \<Rightarrow> string \<Rightarrow> role" where
  "new_role ident tid slug name builtin origin =
     \<lparr>ro_ID = ident, ro_TenantID = tid, ro_Slug = slug, ro_DisplayName = name, ro_Builtin = builtin, ro_CreatedAt = zero_time,
      ro_UpdatedAt = zero_time, ro_Origin = origin, ro_Module = '''', ro_ModuleSlug = '''', ro_Description = '''', ro_RetiredAt = None\<rparr>"

definition create_role ::
    "az_client \<Rightarrow> req_context \<Rightarrow> time \<Rightarrow> string \<Rightarrow> string \<Rightarrow> string \<Rightarrow> string \<Rightarrow> string list \<Rightarrow> bool \<Rightarrow> (world, role_view) op" where
  "create_role C ctx now newID tid slug displayName permRefs cloned =
     (case FromContext ctx of
        None \<Rightarrow> throw ErrNoActor
      | Some actor \<Rightarrow>
          seq_op (require ctx tid)
          (case (ParseCustomSlug slug, validDisplayName displayName) of
             (Inr _, Some name) \<Rightarrow>
               bind_op (parsePerms tid permRefs []) (\<lambda>perms.
               seq_op (MayGrant C ctx actor tid perms)
              (let ro = new_role newID tid slug name False OriginCustom in
               seq_op (try_op (on_db (Store_InsertRole ro)) (\<lambda>r.
                 case r of Inl e \<Rightarrow> throw (if e = ErrConflict then ErrRoleConflict else e) | Inr _ \<Rightarrow> ret ()))
              (seq_op (Client_Write C ctx now tid (RoleTenantTuple tid slug # map (GrantTuple tid slug) perms) [])
              (seq_op (on_db (Store_ReplaceRolePermissions tid newID perms))
              (seq_op (custom_event actor tid (if cloned then ''role_cloned'' else ''role_created'') newID)
                 (ret (role_view_of [] ro perms)))))))
           | _ \<Rightarrow> throw ErrRoleRef))"

definition Roles_Create ::
    "az_client \<Rightarrow> req_context \<Rightarrow> time \<Rightarrow> string \<Rightarrow> string \<Rightarrow> string \<Rightarrow> string \<Rightarrow> string list \<Rightarrow> (world, role_view) op" where
  "Roles_Create C ctx now newID tid slug displayName permRefs = create_role C ctx now newID tid slug displayName permRefs False"

definition Roles_Clone ::
    "az_client \<Rightarrow> req_context \<Rightarrow> time \<Rightarrow> string \<Rightarrow> string \<Rightarrow> string \<Rightarrow> string \<Rightarrow> string \<Rightarrow> (world, role_view) op" where
  "Roles_Clone C ctx now newID tid ident slug displayName =
     seq_op (require ctx tid)
    (bind_op (on_db (Store_Role tid ident)) (\<lambda>src.
     if ro_Slug src = ''owner'' then throw ErrBuiltin
     else
       bind_op (on_db (Store_RolePermissions tid ident)) (\<lambda>perms.
       create_role C ctx now newID tid slug displayName (map Ref_String (filter (\<lambda>p. \<not> IsLegacy p) perms)) True)))"

definition locked :: "role \<Rightarrow> unit result" where
  "locked ro =
     (if OriginOf ro = OriginBuiltin then Inl ErrBuiltin
      else if OriginOf ro = OriginModule then Inl ErrManagedRole else Inr ())"

definition Roles_Update ::
    "az_client \<Rightarrow> req_context \<Rightarrow> time \<Rightarrow> string \<Rightarrow> string \<Rightarrow> string \<Rightarrow> string list \<Rightarrow> (world, role_view) op" where
  "Roles_Update C ctx now tid ident displayName permRefs =
     (case FromContext ctx of
        None \<Rightarrow> throw ErrNoActor
      | Some actor \<Rightarrow>
          seq_op (require ctx tid)
         (bind_op (on_db (Store_Role tid ident)) (\<lambda>ro.
          seq_op (of_result (locked ro))
         (bind_op (on_db (Store_RolePermissions tid ident)) (\<lambda>current.
          bind_op (parsePerms tid permRefs current) (\<lambda>perms.
          let granting = filter (\<lambda>p. \<not> List.member current p) perms;
              removing = filter (\<lambda>p. \<not> List.member perms p) current in
          seq_op (MayGrant C ctx actor tid granting)
         (bind_op
            (if trim_space displayName \<noteq> '''' \<and> trim_space displayName \<noteq> ro_DisplayName ro then
               (case validDisplayName displayName of
                  None \<Rightarrow> throw ErrRoleRef
                | Some name \<Rightarrow> seq_op (on_db (Store_UpdateRoleName tid ident name)) (ret (ro\<lparr>ro_DisplayName := name\<rparr>)))
             else ret ro) (\<lambda>ro'.
          seq_op (Client_Write C ctx now tid (map (GrantTuple tid (ro_Slug ro)) granting) (map (GrantTuple tid (ro_Slug ro)) removing))
         (seq_op (on_db (Store_ReplaceRolePermissions tid ident perms))
         (seq_op (custom_event actor tid ''role_updated'' ident)
            (ret (role_view_of [] ro' perms))))))))))))"

definition Roles_Remove :: "az_client \<Rightarrow> req_context \<Rightarrow> time \<Rightarrow> string \<Rightarrow> string \<Rightarrow> (world, unit) op" where
  "Roles_Remove C ctx now tid ident =
     (case FromContext ctx of
        None \<Rightarrow> throw ErrNoActor
      | Some actor \<Rightarrow>
          seq_op (require ctx tid)
         (bind_op (on_db (Store_Role tid ident)) (\<lambda>ro.
          seq_op (of_result (locked ro))
         (bind_op (on_db (Store_RoleAssignees tid ident)) (\<lambda>assignees.
          bind_op (on_db (Store_RolePermissions tid ident)) (\<lambda>perms.
          let removes = map (RoleAssignmentTuple tid (ro_Slug ro)) assignees @ map (GrantTuple tid (ro_Slug ro)) perms
                @ [RoleTenantTuple tid (ro_Slug ro)] in
          seq_op (on_db (Store_RemoveRole tid ident))
         (seq_op (Client_Write C ctx now tid [] removes)
            (custom_event actor tid ''role_deleted'' ident))))))))"

section \<open>Grants of managed roles\<close>

definition first_occurrences :: "'a list \<Rightarrow> 'a list" where "first_occurrences xs = rev (remdups (rev xs))"

definition system_ctx :: "req_context \<Rightarrow> req_context" where
  "system_ctx ctx = WithActor ctx (no_actor\<lparr>act_Kind := KindSystem\<rparr>)"

definition setGrants ::
    "az_client \<Rightarrow> req_context \<Rightarrow> time \<Rightarrow> string \<Rightarrow> role \<Rightarrow> perm_ref list \<Rightarrow> (world, nat \<times> nat) op" where
  "setGrants C ctx now tid ro want =
     bind_op (on_db (Store_RolePermissions tid (ro_ID ro))) (\<lambda>current.
     let wanted = first_occurrences want;
         adds = map (GrantTuple tid (ro_Slug ro)) (filter (\<lambda>p. \<not> List.member current p) wanted);
         removes = map (GrantTuple tid (ro_Slug ro)) (filter (\<lambda>p. \<not> List.member wanted p) current) in
     if adds = [] \<and> removes = [] then ret (0, 0)
     else
       seq_op (Client_Write C (system_ctx ctx) now tid adds removes)
      (seq_op (on_db (Store_ReplaceRolePermissions tid (ro_ID ro) wanted))
         (ret (length adds, length removes))))"

definition addGrants :: "az_client \<Rightarrow> req_context \<Rightarrow> time \<Rightarrow> string \<Rightarrow> role \<Rightarrow> perm_ref list \<Rightarrow> (world, nat) op" where
  "addGrants C ctx now tid ro perms =
     bind_op (on_db (Store_RolePermissions tid (ro_ID ro))) (\<lambda>current.
     bind_op (setGrants C ctx now tid ro (current @ perms)) (\<lambda>(added, _). ret added))"

definition system_event :: "string \<Rightarrow> string \<Rightarrow> string \<Rightarrow> (world, unit) op" where
  "system_event tid typ ident = emit (event typ tid ''system'' '''' ''role'' ident ''ok'' '''')"

text \<open>The last built-in role with the slug; the value that comes with an error is not kept.\<close>

definition GrantBuiltin :: "az_client \<Rightarrow> req_context \<Rightarrow> time \<Rightarrow> string \<Rightarrow> string \<Rightarrow> perm_ref list \<Rightarrow> (world, bool) op" where
  "GrantBuiltin C ctx now tid slug refs =
     bind_op (on_db (Store_ListRoles tid)) (\<lambda>roles.
     case find (\<lambda>r. ro_Slug r = slug \<and> OriginOf r = OriginBuiltin) (rev roles) of
       None \<Rightarrow> ret False
     | Some ro \<Rightarrow>
         bind_op (addGrants C ctx now tid ro refs) (\<lambda>added.
         seq_op (when_op (added > 0) (system_event tid ''role_updated'' (ro_ID ro))) (ret True)))"

fun revoke_from ::
    "az_client \<Rightarrow> req_context \<Rightarrow> time \<Rightarrow> string \<Rightarrow> string \<Rightarrow> (string \<times> perm_ref list) list \<Rightarrow> role list \<Rightarrow> nat \<Rightarrow> (world, nat) op" where
  "revoke_from C ctx now tid module keep [] n = ret n"
| "revoke_from C ctx now tid module keep (ro # roles) n =
     (if OriginOf ro \<noteq> OriginBuiltin then revoke_from C ctx now tid module keep roles n
      else
        bind_op (on_db (Store_RolePermissions tid (ro_ID ro))) (\<lambda>current.
        let gone = (\<lambda>p. ref_module p = module \<and> \<not> List.member (get_list keep (ro_Slug ro)) p) in
        if \<not> list_ex gone current then revoke_from C ctx now tid module keep roles n
        else
          bind_op (setGrants C ctx now tid ro (filter (\<lambda>p. \<not> gone p) current)) (\<lambda>(_, removed).
          seq_op (system_event tid ''role_updated'' (ro_ID ro))
            (revoke_from C ctx now tid module keep roles (n + removed)))))"

definition RevokeBuiltin ::
    "az_client \<Rightarrow> req_context \<Rightarrow> time \<Rightarrow> string \<Rightarrow> string \<Rightarrow> (string \<times> perm_ref list) list \<Rightarrow> (world, nat) op" where
  "RevokeBuiltin C ctx now tid module keep =
     bind_op (on_db (Store_ListRoles tid)) (\<lambda>roles. revoke_from C ctx now tid module keep roles 0)"

text \<open>Each slug comes with the id \<open>store.NewID\<close> gives should the role be created.\<close>

definition ensure_one ::
    "(string \<Rightarrow> string) \<Rightarrow> az_client \<Rightarrow> req_context \<Rightarrow> time \<Rightarrow> string \<Rightarrow> role list \<Rightarrow> string \<Rightarrow> string \<Rightarrow> (world, bool) op" where
  "ensure_one uu C ctx now tid roles slug newID =
     (case find (\<lambda>r. ro_Slug r = slug) (rev roles) of
        Some ro \<Rightarrow>
          if OriginOf ro \<noteq> OriginCustom then ret False
          else
            seq_op (on_db (Store_AdoptBuiltinRole tid (ro_ID ro)))
           (seq_op (system_event tid ''role_updated'' (ro_ID ro)) (ret True))
      | None \<Rightarrow>
          if slug = '''' then throw (ErrOther ''slice bounds out of range'')
          else
            seq_op (Client_Write C (system_ctx ctx) now tid [RoleTenantTuple tid slug] [])
           (seq_op (on_db (Store_InsertRole
                      (new_role newID tid slug (to_upper uu (take 1 slug) @ drop 1 slug) True OriginBuiltin)))
           (seq_op (system_event tid ''role_created'' newID) (ret True))))"

fun ensure_from ::
    "(string \<Rightarrow> string) \<Rightarrow> az_client \<Rightarrow> req_context \<Rightarrow> time \<Rightarrow> string \<Rightarrow> role list \<Rightarrow> (string \<times> string) list \<Rightarrow> (world, string list) op" where
  "ensure_from uu C ctx now tid roles [] = ret []"
| "ensure_from uu C ctx now tid roles ((slug, newID) # slugs) =
     bind_op (ensure_one uu C ctx now tid roles slug newID) (\<lambda>changed.
     bind_op (ensure_from uu C ctx now tid roles slugs) (\<lambda>more. ret (if changed then slug # more else more)))"

definition EnsureBuiltin ::
    "(string \<Rightarrow> string) \<Rightarrow> az_client \<Rightarrow> req_context \<Rightarrow> time \<Rightarrow> string \<Rightarrow> (string \<times> string) list \<Rightarrow> (world, string list) op" where
  "EnsureBuiltin uu C ctx now tid slugs =
     bind_op (on_db (Store_ListRoles tid)) (\<lambda>roles. ensure_from uu C ctx now tid roles slugs)"

end
