(* ===== verification/Authz_Groups.thy ===== *)
theory Authz_Groups
  imports Authz_Roles "HOL-Library.Sublist"
begin

text \<open>
  Groups (\<open>internal/authz/groups.go\<close>, \<open>invite_escalation.go\<close>) with the listings of \<open>internal/memstore/groups.go\<close>
  they use: mirror rows, tuples through the group userset, and the escalation rules of direct
  assignment.
\<close>

section \<open>Listings of the store\<close>

definition Store_ListGroups :: "(string \<Rightarrow> string) \<Rightarrow> string \<Rightarrow> string \<Rightarrow> (memstore, group_row list) op" where
  "Store_ListGroups ul tid q m =
     (Inr (sort_key (\<lambda>g. to_lower ul (gp_Name g))
        (filter (\<lambda>g. gp_TenantID g = tid \<and> (q = '''' \<or> sublist (to_lower ul q) (to_lower ul (gp_Name g)))) (map snd (gs_groups m)))), m)"

definition Store_GroupMemberCounts :: "string \<Rightarrow> (memstore, (string \<times> nat) list) op" where
  "Store_GroupMemberCounts tid m =
     (Inr (map (\<lambda>(gid, g). (gid, length (get_list (gs_members m) gid))) (filter (\<lambda>(gid, g). gp_TenantID g = tid) (gs_groups m))), m)"

definition Store_GroupRoleSlugs :: "string \<Rightarrow> (memstore, (string \<times> string list) list) op" where
  "Store_GroupRoleSlugs tid m =
     (Inr (map (\<lambda>(gid, ids). (gid, sort (map ro_Slug (List.map_filter (map_of (RoleRows m)) ids))))
        (filter (\<lambda>(gid, ids). (case map_of (gs_groups m) gid of Some g \<Rightarrow> gp_TenantID g | None \<Rightarrow> '''') = tid) (gs_roles m))), m)"

section \<open>Administration\<close>

abbreviation ErrInvalidName :: err where "ErrInvalidName \<equiv> Sentinel ''authz.ErrInvalidName''"
abbreviation ErrNameTaken :: err where "ErrNameTaken \<equiv> Sentinel ''authz.ErrNameTaken''"

definition GroupNameMax :: nat where "GroupNameMax = 64"
definition GroupDescriptionMax :: nat where "GroupDescriptionMax = 500"
definition GroupBatchMax :: nat where "GroupBatchMax = 100"

text \<open>The text of the errors a group operation is refused with.\<close>

definition group_reason :: "err \<Rightarrow> string" where
  "group_reason e =
     (if e = ErrForbidden then ''forbidden'' else if e = ErrOwnerViaGroup then ''owner_via_group''
      else if e = ErrMemberCountMismatch then ''member_count_mismatch'' else reason_of e)"

definition group_event :: "actor \<Rightarrow> string \<Rightarrow> string \<Rightarrow> string \<Rightarrow> string \<Rightarrow> (world, unit) op" where
  "group_event actor tid typ kind ident = emit (event typ tid (act_Kind actor) (act_UserID actor) kind ident ''ok'' '''')"

definition group_refuse :: "actor \<Rightarrow> string \<Rightarrow> string \<Rightarrow> string \<Rightarrow> string \<Rightarrow> err \<Rightarrow> (world, 'a) op" where
  "group_refuse actor tid typ kind ident e =
     seq_op (emit (event typ tid (act_Kind actor) (act_UserID actor) kind ident ''refused'' (group_reason e))) (throw e)"

definition Groups_admin :: "req_context \<Rightarrow> string \<Rightarrow> string \<Rightarrow> string \<Rightarrow> string \<Rightarrow> (world, actor) op" where
  "Groups_admin ctx tid typ kind ident =
     (case FromContext ctx of
        None \<Rightarrow> throw ErrNoActor
      | Some actor \<Rightarrow>
          seq_op (require ctx tid)
            (if act_Kind actor = KindSystem \<or> IsAdmin actor then ret actor
             else group_refuse actor tid typ kind ident ErrForbidden))"

definition hasControl :: "string \<Rightarrow> bool" where "hasControl s = list_ex IsControl (runes s)"

definition ValidateGroupName :: "string \<Rightarrow> string result" where
  "ValidateGroupName name0 =
     (let name = trim_space name0 in
      if name = '''' \<or> length name > GroupNameMax \<or> hasControl name then Inl ErrInvalidName else Inr name)"

definition valid_description :: "string \<Rightarrow> string result" where
  "valid_description d0 =
     (let d = trim_space d0 in if length d > GroupDescriptionMax \<or> hasControl d then Inl ErrInvalidName else Inr d)"

text \<open>A conflict of the store is a taken name.\<close>

definition name_conflict :: "(world, unit) op \<Rightarrow> (world, unit) op" where
  "name_conflict m =
     try_op m (\<lambda>r. case r of Inl e \<Rightarrow> throw (if e = ErrConflict then ErrNameTaken else e) | Inr _ \<Rightarrow> ret ())"

definition Groups_Create ::
    "externals \<Rightarrow> az_client \<Rightarrow> req_context \<Rightarrow> time \<Rightarrow> string \<Rightarrow> string \<Rightarrow> string \<Rightarrow> string \<Rightarrow> (world, group_row) op" where
  "Groups_Create X C ctx now newID tid name0 description0 =
     bind_op (Groups_admin ctx tid ''group_created'' ''group'' '''') (\<lambda>actor.
     bind_op (of_result (ValidateGroupName name0)) (\<lambda>name.
     bind_op (of_result (valid_description description0)) (\<lambda>description.
     let grp = \<lparr>gp_ID = newID, gp_TenantID = tid, gp_Name = name, gp_Description = description,
                gp_CreatedBy = (if act_UserID actor \<noteq> '''' then Some (act_UserID actor) else None),
                gp_CreatedAt = zero_time, gp_UpdatedAt = zero_time\<rparr> in
     seq_op (name_conflict (on_db (Store_CreateGroup (ex_ef X) now grp)))
    (seq_op (Client_Write C ctx now tid [GroupTenantTuple tid newID] [])
    (seq_op (group_event actor tid ''group_created'' ''group'' newID)
       (ret grp))))))"

definition Groups_Update ::
    "externals \<Rightarrow> req_context \<Rightarrow> time \<Rightarrow> string \<Rightarrow> string \<Rightarrow> string \<Rightarrow> string \<Rightarrow> (world, group_row) op" where
  "Groups_Update X ctx now tid ident name0 description0 =
     bind_op (Groups_admin ctx tid ''group_updated'' ''group'' ident) (\<lambda>actor.
     bind_op (of_result (ValidateGroupName name0)) (\<lambda>name.
     bind_op (of_result (valid_description description0)) (\<lambda>description.
     seq_op (name_conflict (on_db (Store_UpdateGroup (ex_ef X) now tid ident name description)))
    (seq_op (group_event actor tid ''group_updated'' ''group'' ident)
       (on_db (Store_GetGroup tid ident))))))"

section \<open>Deletion\<close>

text \<open>
  The loop that pages through the members, \<open>GroupBatchMax\<close> at a time, each page starting after the
  last member of the one before.
\<close>

definition members_after :: "memstore \<Rightarrow> string \<Rightarrow> time option \<Rightarrow> string list" where
  "members_after m gid after =
     filter (\<lambda>uid. case (added_at m gid uid, after) of
        (None, _) \<Rightarrow> False | (Some _, None) \<Rightarrow> True | (Some at, Some x) \<Rightarrow> at > x) (get_list (gs_members m) gid)"

definition member_row :: "memstore \<Rightarrow> string \<Rightarrow> string \<Rightarrow> string \<Rightarrow> group_member" where
  "member_row m tid gid uid =
     (let u = (case userByID tid uid m of Some (_, u) \<Rightarrow> u | None \<Rightarrow> zero_user) in
      \<lparr>gm_UserID = uid, gm_Email = us_Email u, gm_DisplayName = us_DisplayName u, gm_Status = us_Status u,
       gm_AvatarID = us_AvatarID u, gm_AddedAt = (case added_at m gid uid of Some at \<Rightarrow> at | None \<Rightarrow> 0)\<rparr>)"

lemma Store_ListGroupMembers_rows:
  "Store_ListGroupMembers tid gid after (Suc n) m = (Inr (map (member_row m tid gid) (take (Suc n) (members_after m gid after))), m)"
  by (simp add: Store_ListGroupMembers_def members_after_def member_row_def [abs_def] Let_def take_map)

lemma on_db_read:
  assumes "on_db m w = (Inr x, w')" and "\<And>d. snd (m d) = d"
  shows "db w' = db w" and "fst (m (db w)) = Inr x"
  using assms by (auto simp: on_db_def call_def split: list.splits fault.splits prod.splits) (metis snd_conv)+

lemma ListGroupMembers_page:
  assumes "on_db (Store_ListGroupMembers tid gid after (Suc n)) w = (Inr page, w')"
  shows "db w' = db w" and "page = map (member_row (db w) tid gid) (take (Suc n) (members_after (db w) gid after))"
  using on_db_read [OF assms] by (simp_all add: Store_ListGroupMembers_rows)

lemma member_row_time: "uid \<in> set (members_after m gid after) \<Longrightarrow> added_at m gid uid = Some (gm_AddedAt (member_row m tid gid uid))"
  by (auto simp: members_after_def member_row_def Let_def split: option.splits)

lemma members_after_shrink:
  assumes "uid \<in> set (members_after m gid after)" and "added_at m gid uid = Some at"
  shows "length (members_after m gid (Some at)) < length (members_after m gid after)"
proof -
  let ?P = "\<lambda>after uid. case (added_at m gid uid, after) of
        (None, _) \<Rightarrow> False | (Some _, None) \<Rightarrow> True | (Some at, Some x) \<Rightarrow> (x :: time) < at"
  have "?P (Some at) u \<Longrightarrow> ?P after u" for u
    using assms by (auto simp: members_after_def split: option.splits)
  then have "members_after m gid (Some at) = filter (?P (Some at)) (members_after m gid after)"
    unfolding members_after_def by (simp add: filter_filter) (metis (mono_tags, lifting))
  moreover have "\<not> ?P (Some at) uid" using assms(2) by simp
  ultimately show ?thesis using length_filter_less [OF assms(1)] by simp
qed

lemma full_page_shrinks:
  assumes "on_db (Store_ListGroupMembers tid gid after GroupBatchMax) w = (Inr page, w')" and "\<not> length page < GroupBatchMax"
  shows "length (members_after (db w') gid (Some (gm_AddedAt (last page)))) < length (members_after (db w) gid after)"
proof -
  obtain n where n: "GroupBatchMax = Suc n" by (simp add: GroupBatchMax_def)
  note page = ListGroupMembers_page [OF assms(1) [unfolded n]]
  let ?us = "take (Suc n) (members_after (db w) gid after)"
  have ne: "?us \<noteq> []" using assms(2) page(2) n by auto
  then have mem: "last ?us \<in> set (members_after (db w) gid after)" using last_in_set in_set_takeD by fast
  have "last page = member_row (db w) tid gid (last ?us)" using page(2) ne by (simp add: last_map)
  then show ?thesis using members_after_shrink [OF mem] member_row_time [OF mem, of tid] page(1) by simp
qed

function member_pages :: "string \<Rightarrow> string \<Rightarrow> time option \<Rightarrow> (world, string list) op" where
  "member_pages tid gid after w =
     (case on_db (Store_ListGroupMembers tid gid after GroupBatchMax) w of
        (Inl e, w') \<Rightarrow> (Inl e, w')
      | (Inr page, w') \<Rightarrow>
          if length page < GroupBatchMax then (Inr (map gm_UserID page), w')
          else
            (case member_pages tid gid (Some (gm_AddedAt (last page))) w' of
               (Inl e, w'') \<Rightarrow> (Inl e, w'')
             | (Inr uids, w'') \<Rightarrow> (Inr (map gm_UserID page @ uids), w'')))"
  by pat_completeness auto
termination
  by (relation "measure (\<lambda>(tid, gid, after, w). length (members_after (db w) gid after))") (simp_all add: full_page_shrinks)

declare member_pages.simps [simp del]

function write_batches :: "az_client \<Rightarrow> req_context \<Rightarrow> time \<Rightarrow> string \<Rightarrow> fga_tuple list \<Rightarrow> (world, unit) op" where
  "write_batches C ctx now tid removes =
     (if removes = [] then ret ()
      else
        seq_op (Client_Write C ctx now tid [] (take GroupBatchMax removes))
          (write_batches C ctx now tid (drop GroupBatchMax removes)))"
  by pat_completeness auto
termination
  by (relation "measure (\<lambda>(C, ctx, now, tid, removes). length removes)") (simp_all add: GroupBatchMax_def)

declare write_batches.simps [simp del]

definition Groups_Delete :: "az_client \<Rightarrow> req_context \<Rightarrow> time \<Rightarrow> string \<Rightarrow> string \<Rightarrow> int \<Rightarrow> (world, unit) op" where
  "Groups_Delete C ctx now tid ident memberCount =
     bind_op (Groups_admin ctx tid ''group_deleted'' ''group'' ident) (\<lambda>actor.
     bind_op (on_db (Store_GetGroup tid ident)) (\<lambda>grp.
     bind_op (on_db (Store_CountGroupMembers tid ident)) (\<lambda>n.
     if int n \<noteq> memberCount then group_refuse actor tid ''group_deleted'' ''group'' ident ErrMemberCountMismatch
     else
       bind_op (on_db (Store_GroupRoles tid ident)) (\<lambda>roles.
       bind_op (member_pages tid ident None) (\<lambda>uids.
       let removes = GroupTenantTuple tid ident # map (\<lambda>r. GroupRoleTuple tid ident (ro_Slug r)) roles
             @ map (GroupMembershipTuple tid ident) uids in
       seq_op (on_db (Store_DeleteGroup tid ident))
      (seq_op (write_batches C ctx now tid removes)
         (group_event actor tid ''group_deleted'' ''group'' ident)))))))"

section \<open>Reading\<close>

record group_view =
  gv_Group :: group_row
  gv_Roles :: "string list"
  gv_MemberCount :: nat

definition Groups_Get :: "req_context \<Rightarrow> string \<Rightarrow> string \<Rightarrow> (world, group_view) op" where
  "Groups_Get ctx tid ident =
     bind_op (Groups_admin ctx tid ''group_updated'' ''group'' ident) (\<lambda>_.
     bind_op (on_db (Store_GetGroup tid ident)) (\<lambda>grp.
     bind_op (on_db (Store_GroupRoles tid ident)) (\<lambda>roles.
     bind_op (on_db (Store_CountGroupMembers tid ident)) (\<lambda>n.
     ret \<lparr>gv_Group = grp, gv_Roles = map ro_Slug roles, gv_MemberCount = n\<rparr>))))"

definition Groups_List :: "externals \<Rightarrow> req_context \<Rightarrow> string \<Rightarrow> string \<Rightarrow> (world, group_view list) op" where
  "Groups_List X ctx tid q =
     bind_op (Groups_admin ctx tid ''group_updated'' ''group'' '''') (\<lambda>_.
     bind_op (on_db (Store_ListGroups (ex_ul X) tid (trim_space q))) (\<lambda>groups.
     bind_op (on_db (Store_GroupMemberCounts tid)) (\<lambda>counts.
     bind_op (on_db (Store_GroupRoleSlugs tid)) (\<lambda>slugs.
     ret (map (\<lambda>g. \<lparr>gv_Group = g, gv_Roles = get_list slugs (gp_ID g),
        gv_MemberCount = (case map_of counts (gp_ID g) of Some n \<Rightarrow> n | None \<Rightarrow> 0)\<rparr>) groups)))))"

definition Groups_Members :: "req_context \<Rightarrow> string \<Rightarrow> string \<Rightarrow> time option \<Rightarrow> int \<Rightarrow> (world, group_member list) op" where
  "Groups_Members ctx tid ident after limit =
     bind_op (Groups_admin ctx tid ''group_updated'' ''group'' ident) (\<lambda>_.
     bind_op (on_db (Store_GetGroup tid ident)) (\<lambda>_.
     on_db (Store_ListGroupMembers tid ident after
       (if limit \<le> 0 \<or> limit > int GroupBatchMax then GroupBatchMax else nat limit))))"

definition Groups_UserGroups :: "externals \<Rightarrow> req_context \<Rightarrow> string \<Rightarrow> string \<Rightarrow> (world, group_row list) op" where
  "Groups_UserGroups X ctx tid uid =
     bind_op (Groups_admin ctx tid ''group_updated'' ''user'' uid) (\<lambda>_. on_db (Store_UserGroups (ex_ul X) tid uid))"

record role_source =
  rs_Kind :: string
  rs_GroupID :: string
  rs_GroupName :: string

record sourced_role =
  sr_RoleID :: string
  sr_Slug :: string
  sr_Sources :: "role_source list"

fun add_source :: "effective_role \<Rightarrow> sourced_role list \<Rightarrow> sourced_role list" where
  "add_source r [] =
     [\<lparr>sr_RoleID = ef_RoleID r, sr_Slug = ef_Slug r,
       sr_Sources = [\<lparr>rs_Kind = ef_Source r, rs_GroupID = ef_GroupID r, rs_GroupName = ef_GroupName r\<rparr>]\<rparr>]"
| "add_source r (x # xs) =
     (if sr_RoleID x = ef_RoleID r then
        (let src = \<lparr>rs_Kind = ef_Source r, rs_GroupID = ef_GroupID r, rs_GroupName = ef_GroupName r\<rparr> in
         (if List.member (sr_Sources x) src then x else x\<lparr>sr_Sources := sr_Sources x @ [src]\<rparr>) # xs)
      else x # add_source r xs)"

definition FoldEffectiveRoles :: "effective_role list \<Rightarrow> sourced_role list" where
  "FoldEffectiveRoles rows = fold add_source rows []"

definition Groups_EffectiveRoles :: "req_context \<Rightarrow> string \<Rightarrow> string \<Rightarrow> (world, sourced_role list) op" where
  "Groups_EffectiveRoles ctx tid uid =
     bind_op (Groups_admin ctx tid ''group_updated'' ''user'' uid) (\<lambda>_.
     bind_op (on_db (Store_EffectiveRoles tid uid)) (\<lambda>rows. ret (FoldEffectiveRoles rows)))"

section \<open>Members and roles\<close>

fun roleGrants :: "string \<Rightarrow> role list \<Rightarrow> (world, perm_ref list \<times> bool) op" where
  "roleGrants tid [] = ret ([], False)"
| "roleGrants tid (r # rs) =
     bind_op (on_db (Store_RolePermissions tid (ro_ID r))) (\<lambda>ps.
     bind_op (roleGrants tid rs) (\<lambda>(perms, privileged).
     ret (ps @ perms, ro_Slug r = ''owner'' \<or> ro_Slug r = ''admin'' \<or> privileged)))"

definition groupGrants :: "string \<Rightarrow> string \<Rightarrow> (world, perm_ref list \<times> bool) op" where
  "groupGrants tid gid = bind_op (on_db (Store_GroupRoles tid gid)) (\<lambda>roles. roleGrants tid roles)"

definition unprivileged :: "actor \<Rightarrow> bool" where
  "unprivileged actor \<longleftrightarrow> \<not> IsOwner actor \<and> act_Kind actor \<noteq> KindSystem"

fun join_grants :: "actor \<Rightarrow> string \<Rightarrow> string list \<Rightarrow> (world, perm_ref list) op" where
  "join_grants actor tid [] = ret []"
| "join_grants actor tid (gid # gids) =
     bind_op (on_db (Store_GetGroup tid gid)) (\<lambda>_.
     bind_op (groupGrants tid gid) (\<lambda>(ps, privileged).
     if privileged \<and> unprivileged actor then throw ErrSelfEscalation
     else bind_op (join_grants actor tid gids) (\<lambda>perms. ret (ps @ perms))))"

definition MayJoin :: "az_client \<Rightarrow> req_context \<Rightarrow> actor \<Rightarrow> string \<Rightarrow> string list \<Rightarrow> (world, unit) op" where
  "MayJoin C ctx actor tid groupIDs =
     bind_op (join_grants actor tid (dedupe groupIDs)) (\<lambda>perms. MayGrant C ctx actor tid perms)"

text \<open>The escalation check of a group change; a refusal is audited.\<close>

definition group_escalation :: "az_client \<Rightarrow> req_context \<Rightarrow> actor \<Rightarrow> string \<Rightarrow> string \<Rightarrow> string \<Rightarrow> perm_ref list \<Rightarrow> bool \<Rightarrow> (world, unit) op" where
  "group_escalation C ctx actor tid typ ident perms privileged =
     (if privileged \<and> unprivileged actor then group_refuse actor tid typ ''group'' ident ErrSelfEscalation
      else
        try_op (MayGrant C ctx actor tid perms) (\<lambda>r.
        case r of
          Inl e \<Rightarrow> if e = ErrSelfEscalation then group_refuse actor tid typ ''group'' ident e else throw e
        | Inr _ \<Rightarrow> ret ()))"

text \<open>The users that were added, in order; the count is the length.\<close>

fun add_each :: "actor \<Rightarrow> time \<Rightarrow> string \<Rightarrow> string \<Rightarrow> string list \<Rightarrow> (world, string list) op" where
  "add_each actor now tid gid [] = ret []"
| "add_each actor now tid gid (uid # uids) =
     bind_op (on_db (Store_IsGroupMember tid gid uid)) (\<lambda>is_member.
     if is_member then add_each actor now tid gid uids
     else
       bind_op (on_db (Store_AddGroupMembers now tid gid [uid])) (\<lambda>n.
       if n = 0 then add_each actor now tid gid uids
       else
         seq_op (group_event actor tid ''group_member_added'' ''user'' uid)
        (bind_op (add_each actor now tid gid uids) (\<lambda>added. ret (uid # added)))))"

definition AddMembers :: "az_client \<Rightarrow> req_context \<Rightarrow> time \<Rightarrow> string \<Rightarrow> string \<Rightarrow> string list \<Rightarrow> (world, nat) op" where
  "AddMembers C ctx now tid ident userIDs0 =
     bind_op (Groups_admin ctx tid ''group_member_added'' ''group'' ident) (\<lambda>actor.
     bind_op (on_db (Store_GetGroup tid ident)) (\<lambda>_.
     let userIDs = dedupe userIDs0 in
     seq_op (check_op (userIDs \<noteq> [] \<and> length userIDs \<le> GroupBatchMax) ErrInvalidName)
    (bind_op (groupGrants tid ident) (\<lambda>(perms, privileged).
     seq_op (group_escalation C ctx actor tid ''group_member_added'' ident perms privileged)
    (bind_op (add_each actor now tid ident userIDs) (\<lambda>added.
     seq_op (when_op (added \<noteq> []) (Client_Write C ctx now tid (map (GroupMembershipTuple tid ident) added) []))
       (ret (length added))))))))"

definition RemoveMember :: "az_client \<Rightarrow> req_context \<Rightarrow> time \<Rightarrow> string \<Rightarrow> string \<Rightarrow> string \<Rightarrow> (world, unit) op" where
  "RemoveMember C ctx now tid ident uid =
     bind_op (Groups_admin ctx tid ''group_member_removed'' ''group'' ident) (\<lambda>actor.
     bind_op (on_db (Store_GetGroup tid ident)) (\<lambda>_.
     bind_op (on_db (Store_IsGroupMember tid ident uid)) (\<lambda>is_member.
     if \<not> is_member then ret ()
     else
       seq_op (on_db (Store_RemoveGroupMember tid ident uid))
      (seq_op (Client_Write C ctx now tid [] [GroupMembershipTuple tid ident uid])
         (group_event actor tid ''group_member_removed'' ''user'' uid)))))"

definition SetRoles :: "az_client \<Rightarrow> req_context \<Rightarrow> time \<Rightarrow> string \<Rightarrow> string \<Rightarrow> string list \<Rightarrow> (world, string list) op" where
  "SetRoles C ctx now tid ident roleIDs0 =
     bind_op (Groups_admin ctx tid ''group_role_granted'' ''group'' ident) (\<lambda>actor.
     bind_op (on_db (Store_GetGroup tid ident)) (\<lambda>_.
     let roleIDs = dedupe roleIDs0 in
     seq_op (check_op (length roleIDs \<le> GroupBatchMax) ErrInvalidName)
    (bind_op (on_db (Store_RolesByID tid roleIDs)) (\<lambda>want.
     bind_op (on_db (Store_GroupRoles tid ident)) (\<lambda>have.
     if containsSlug want ''owner'' then group_refuse actor tid ''group_role_granted'' ''group'' ident ErrOwnerViaGroup
     else
       let adding = filter (\<lambda>r. \<not> containsRole have (ro_ID r)) want;
           removing = filter (\<lambda>r. \<not> containsRole want (ro_ID r)) have in
       case refuseRetired adding of
         Inl e \<Rightarrow> group_refuse actor tid ''group_role_granted'' ''group'' ident e
       | Inr _ \<Rightarrow>
           bind_op (roleGrants tid adding) (\<lambda>(perms, privileged).
           seq_op (group_escalation C ctx actor tid ''group_role_granted'' ident perms privileged)
          (seq_op (on_db (Store_ReplaceGroupRoles tid ident (map ro_ID want)))
          (seq_op (Client_Write C ctx now tid (map (\<lambda>r. GroupRoleTuple tid ident (ro_Slug r)) adding)
                     (map (\<lambda>r. GroupRoleTuple tid ident (ro_Slug r)) removing))
          (seq_op (for_op adding (\<lambda>_. group_event actor tid ''group_role_granted'' ''group'' ident))
          (seq_op (for_op removing (\<lambda>_. group_event actor tid ''group_role_revoked'' ''group'' ident))
             (ret (map ro_Slug want))))))))))))"

section \<open>Invitations\<close>

definition Invite_MayAssign :: "az_client \<Rightarrow> req_context \<Rightarrow> actor \<Rightarrow> string \<Rightarrow> string list \<Rightarrow> string list \<Rightarrow> (world, unit) op" where
  "Invite_MayAssign C ctx actor tid roleIDs groupIDs =
     (if act_Kind actor = KindOperator \<or> act_Kind actor = KindSystem then
        seq_op (require ctx tid)
       (bind_op (on_db (Store_RolesByID tid (dedupe roleIDs))) (\<lambda>roles. of_result (refuseRetired roles)))
      else seq_op (MayAssign C ctx actor tid roleIDs) (MayJoin C ctx actor tid groupIDs))"

end
