(* ===== verification/Profiles.thy ===== *)
theory Profiles
  imports Authz_Groups User_Admin
begin

text \<open>
  The person-facing part of a user: \<open>internal/user/profile.go\<close> and the services of
  \<open>internal/user/avatar.go\<close>, with the store operations only they call
  (\<open>internal/memstore/groups.go\<close>).  Decoding and redrawing a picture is the work of the image
  libraries, a parameter of the avatar service; the bound on concurrent decodes is left out.
\<close>

abbreviation ErrProfileName :: err where "ErrProfileName \<equiv> Sentinel ''user.ErrInvalidName''"
abbreviation ErrInvalidPhone :: err where "ErrInvalidPhone \<equiv> Sentinel ''user.ErrInvalidPhone''"
abbreviation ErrQueryTooShort :: err where "ErrQueryTooShort \<equiv> Sentinel ''user.ErrQueryTooShort''"

section \<open>Time stamps\<close>

text \<open>
  \<open>t.UTC ().Format (time.RFC3339)\<close>: the civil date of a day counted from 1 March of year 0 in eras
  of 400 years, and the time of day.
\<close>

definition civil :: "int \<Rightarrow> int \<times> int \<times> int" where
  "civil days =
     (let z = days + 719468; era = z div 146097; doe = z - era * 146097;
          yoe = (doe - doe div 1460 + doe div 36524 - doe div 146096) div 365;
          doy = doe - (365 * yoe + yoe div 4 - yoe div 100);
          mp = (5 * doy + 2) div 153;
          m = (if mp < 10 then mp + 3 else mp - 9)
      in (yoe + era * 400 + (if m \<le> 2 then 1 else 0), m, doy - (153 * mp + 2) div 5 + 1))"

definition padded :: "nat \<Rightarrow> int \<Rightarrow> string" where
  "padded n i = (let s = itoa (abs i) in (if i < 0 then ''-'' else '''') @ replicate (n - length s) (CHR ''0'') @ s)"

definition RFC3339 :: "time \<Rightarrow> string" where
  "RFC3339 t =
     (let secs = t div second; (y, m, d) = civil (secs div 86400); r = secs mod 86400 in
      padded 4 y @ ''-'' @ padded 2 m @ ''-'' @ padded 2 d @ ''T'' @ padded 2 (r div 3600) @ '':''
      @ padded 2 (r mod 3600 div 60) @ '':'' @ padded 2 (r mod 60) @ ''Z'')"

section \<open>Values\<close>

definition NameMax :: nat where "NameMax = 100"
definition LookupMax :: nat where "LookupMax = 100"
definition MembersMax :: nat where "MembersMax = 1000"
definition SearchMax :: nat where "SearchMax = 20"

record profile_update =
  pu_FirstName :: string
  pu_LastName :: string
  pu_Phone :: string
  pu_DisplayName :: "string option"

record profile_view =
  pv_ID :: string
  pv_Email :: string
  pv_DisplayName :: string
  pv_FirstName :: string
  pv_LastName :: string
  pv_Phone :: string
  pv_AvatarURL :: string
  pv_UpdatedAt :: string

record public_view =
  pw_ID :: string
  pw_DisplayName :: string
  pw_AvatarURL :: string
  pw_Email :: string

record contact_view =
  cv_ID :: string
  cv_DisplayName :: string
  cv_Email :: string

definition phoneRE :: "string \<Rightarrow> bool" where
  "phoneRE s =
     (case s of
        p # a # ds \<Rightarrow> p = CHR ''+'' \<and> is_09 a \<and> a \<noteq> CHR ''0'' \<and> list_all is_09 ds \<and> 6 \<le> length ds \<and> length ds \<le> 14
      | _ \<Rightarrow> False)"

definition phone_filler :: "char \<Rightarrow> bool" where "phone_filler c \<longleftrightarrow> c \<in> set '' -.()''"

text \<open>Every byte of a rune outside ASCII is refused as the rune is.\<close>

definition NormalizePhone :: "string \<Rightarrow> string result" where
  "NormalizePhone s0 =
     (let s = trim_space s0; out = filter (\<lambda>c. \<not> phone_filler c) s in
      if s = '''' then Inr ''''
      else if list_ex (\<lambda>c. \<not> (c = CHR ''+'' \<or> is_09 c)) out then Inl ErrInvalidPhone
      else if \<not> phoneRE out then Inl ErrInvalidPhone
      else Inr out)"

definition ValidateName :: "string \<Rightarrow> string result" where
  "ValidateName s0 =
     (let s = trim_space s0 in
      if length s > NameMax then Inl ErrProfileName
      else if list_ex IsControl (runes s) then Inl ErrProfileName
      else Inr s)"

definition DeriveDisplayName :: "string \<Rightarrow> string \<Rightarrow> string \<Rightarrow> string \<Rightarrow> string" where
  "DeriveDisplayName first_name last_name previous email =
     (let n = trim_space (first_name @ '' '' @ last_name) in
      if n \<noteq> '''' then n
      else if previous \<noteq> '''' then previous
      else (case cut_byte (CHR ''@'') email of Some (local, _) \<Rightarrow> local | None \<Rightarrow> email))"

definition mayEdit :: "actor \<Rightarrow> string \<Rightarrow> bool" where
  "mayEdit actor uid \<longleftrightarrow> act_UserID actor = uid \<or> IsAdmin actor \<or> act_Kind actor = KindSystem"

definition profile_view_of :: "user \<Rightarrow> profile_view" where
  "profile_view_of u =
     \<lparr>pv_ID = us_ID u, pv_Email = us_Email u, pv_DisplayName = us_DisplayName u, pv_FirstName = us_FirstName u,
      pv_LastName = us_LastName u, pv_Phone = us_Phone u, pv_AvatarURL = AvatarURL (us_ID u) (us_AvatarID u),
      pv_UpdatedAt = (case us_ProfileUpdatedAt u of None \<Rightarrow> '''' | Some t \<Rightarrow> RFC3339 t)\<rparr>"

section \<open>The services\<close>

definition Profiles_Get :: "actor \<Rightarrow> string \<Rightarrow> (world, profile_view) op" where
  "Profiles_Get actor uid =
     (if \<not> mayEdit actor uid then throw ErrAdminForbidden
      else bind_op (lookup actor uid) (\<lambda>u. ret (profile_view_of u)))"

text \<open>The display name an update leaves: the one given, the explicit one before, or one from the names.\<close>

definition patch_of :: "user \<Rightarrow> string \<Rightarrow> string \<Rightarrow> string \<Rightarrow> string option \<Rightarrow> profile_patch" where
  "patch_of u first_name last_name phone given =
     (let explicit = (case given of Some dn \<Rightarrow> dn \<noteq> '''' | None \<Rightarrow> us_DisplayNameExplicit u);
          name = (case given of Some dn \<Rightarrow> dn | None \<Rightarrow> us_DisplayName u)
      in \<lparr>pp_FirstName = first_name, pp_LastName = last_name, pp_Phone = phone,
          pp_DisplayName = (if explicit then name else DeriveDisplayName first_name last_name '''' (us_Email u)),
          pp_DisplayNameExplicit = explicit\<rparr>)"

definition validate_given :: "string option \<Rightarrow> string option result" where
  "validate_given given =
     (case given of None \<Rightarrow> Inr None | Some s \<Rightarrow> (case ValidateName s of Inl e \<Rightarrow> Inl e | Inr dn \<Rightarrow> Inr (Some dn)))"

definition Profiles_Update :: "time \<Rightarrow> actor \<Rightarrow> string \<Rightarrow> profile_update \<Rightarrow> (world, profile_view) op" where
  "Profiles_Update now actor uid inp =
     (if \<not> mayEdit actor uid then
        seq_op (admin_event actor ''profile_updated'' uid ''refused'' ''forbidden'') (throw ErrAdminForbidden)
      else
        bind_op (lookup actor uid) (\<lambda>u.
        bind_op (of_result (ValidateName (pu_FirstName inp))) (\<lambda>first_name.
        bind_op (of_result (ValidateName (pu_LastName inp))) (\<lambda>last_name.
        bind_op (of_result (NormalizePhone (pu_Phone inp))) (\<lambda>phone.
        bind_op (of_result (validate_given (pu_DisplayName inp))) (\<lambda>given.
        seq_op (on_db (Store_UpdateProfile now (act_TenantID actor) uid (patch_of u first_name last_name phone given)))
       (seq_op (admin_event actor ''profile_updated'' uid ''ok'' '''')
       (bind_op (on_db (Store_User (act_TenantID actor) uid)) (\<lambda>u'. ret (profile_view_of u'))))))))))"

definition Profiles_Lookup :: "actor \<Rightarrow> string list \<Rightarrow> (world, public_view list) op" where
  "Profiles_Lookup actor ids =
     bind_op (on_db (Store_LookupProfiles (act_TenantID actor) (take LookupMax ids))) (\<lambda>rows.
     ret (map (\<lambda>r. \<lparr>pw_ID = pr_ID r, pw_DisplayName = pr_DisplayName r, pw_AvatarURL = AvatarURL (pr_ID r) (pr_AvatarID r),
                     pw_Email = ''''\<rparr>) rows))"

definition Store_LookupContacts :: "string \<Rightarrow> string list \<Rightarrow> (memstore, public_profile list) op" where
  "Store_LookupContacts tid ids m =
     (Inr (sort_key pr_ID (List.map_filter (\<lambda>ident.
        case userByID tid ident m of
          None \<Rightarrow> None
        | Some (_, u) \<Rightarrow>
            if us_Status u = ''active'' \<and> us_Email u \<noteq> ''''
            then Some \<lparr>pr_ID = us_ID u, pr_DisplayName = us_DisplayName u, pr_AvatarID = None, pr_Email = us_Email u\<rparr>
            else None) (dedupe ids))), m)"

definition contacts_event :: "actor \<Rightarrow> (world, unit) op" where
  "contacts_event actor =
     emit (event ''contacts_looked_up'' (act_TenantID actor) (act_Kind actor) (act_UserID actor) ''user'' '''' ''ok'' '''')"

definition Profiles_Contacts :: "actor \<Rightarrow> string list \<Rightarrow> (world, contact_view list) op" where
  "Profiles_Contacts actor ids =
     bind_op (on_db (Store_LookupContacts (act_TenantID actor) (take LookupMax ids))) (\<lambda>rows.
     seq_op (contacts_event actor)
       (ret (map (\<lambda>r. \<lparr>cv_ID = pr_ID r, cv_DisplayName = pr_DisplayName r, cv_Email = pr_Email r\<rparr>) rows)))"

definition Store_ListActiveMembers :: "string \<Rightarrow> string \<Rightarrow> nat \<Rightarrow> string list \<Rightarrow> (memstore, string list) op" where
  "Store_ListActiveMembers tid after limit ids m =
     (Inr (take limit (sort (map us_ID (filter (\<lambda>u. us_TenantID u = tid \<and> us_Status u = ''active''
        \<and> (if ids = [] then us_ID u > after else List.member ids (us_ID u))) (map snd (Users m)))))), m)"

text \<open>A page of active members and the cursor of the next one.\<close>

definition Profiles_Members :: "actor \<Rightarrow> string \<Rightarrow> int \<Rightarrow> string list \<Rightarrow> (world, string list \<times> string) op" where
  "Profiles_Members actor after limit0 ids0 =
     (let limit = (if limit0 \<le> 0 \<or> limit0 > int MembersMax then MembersMax else nat limit0);
          ids = take MembersMax ids0 in
      bind_op (on_db (Store_ListActiveMembers (act_TenantID actor) after limit ids)) (\<lambda>out.
      ret (out, if ids = [] \<and> length out = limit then last out else '''')))"

fun contains_text :: "string \<Rightarrow> string \<Rightarrow> bool" where
  "contains_text [] q = (q = [])"
| "contains_text (c # s) q = (has_prefix (c # s) q \<or> contains_text s q)"

definition Store_SearchProfiles :: "(string \<Rightarrow> string) \<Rightarrow> string \<Rightarrow> string \<Rightarrow> nat \<Rightarrow> (memstore, public_profile list) op" where
  "Store_SearchProfiles ul tid q limit m =
     (let lq = to_lower ul q;
          hit = (\<lambda>u. us_TenantID u = tid \<and> us_Status u = ''active''
                   \<and> list_ex (\<lambda>s. contains_text (to_lower ul s) lq) [us_DisplayName u, us_FirstName u, us_LastName u, us_Email u]);
          rows = map (\<lambda>u. \<lparr>pr_ID = us_ID u, pr_DisplayName = us_DisplayName u, pr_AvatarID = us_AvatarID u, pr_Email = us_Email u\<rparr>)
                   (filter hit (map snd (Users m)))
      in (Inr (take limit (sort_key (\<lambda>r. to_lower ul (pr_DisplayName r)) (sort_key pr_ID rows))), m))"

text \<open>\<open>string ([]rune (q)[:n])\<close>: the first runes, an invalid byte written as U+FFFD.\<close>

fun utf8_rune :: "int \<Rightarrow> string" where
  "utf8_rune r = map char_of
     (if r < 128 then [r]
      else if r < 2048 then [192 + r div 64, 128 + r mod 64]
      else if r < 65536 then [224 + r div 4096, 128 + r div 64 mod 64, 128 + r mod 64]
      else [240 + r div 262144, 128 + r div 4096 mod 64, 128 + r div 64 mod 64, 128 + r mod 64])"

definition clip_runes :: "nat \<Rightarrow> string \<Rightarrow> string" where
  "clip_runes n s = (if RuneCount s > n then concat (map utf8_rune (take n (runes s))) else s)"

definition Profiles_Search :: "externals \<Rightarrow> actor \<Rightarrow> string \<Rightarrow> (world, public_view list) op" where
  "Profiles_Search X actor q0 =
     (let q = trim_space q0 in
      if RuneCount q < 2 then throw ErrQueryTooShort
      else
        bind_op (on_db (Store_SearchProfiles (ex_ul X) (act_TenantID actor) (clip_runes 100 q) SearchMax)) (\<lambda>rows.
        ret (map (\<lambda>r. \<lparr>pw_ID = pr_ID r, pw_DisplayName = pr_DisplayName r, pw_AvatarURL = AvatarURL (pr_ID r) (pr_AvatarID r),
                        pw_Email = pr_Email r\<rparr>) rows)))"

section \<open>Avatars\<close>

definition AvatarContentType :: string where "AvatarContentType = ''image/jpeg''"

abbreviation ErrUnsupportedType :: err where "ErrUnsupportedType \<equiv> Sentinel ''unsupported_type''"
abbreviation ErrAvatarTooLarge :: err where "ErrAvatarTooLarge \<equiv> Sentinel ''body_too_large''"
abbreviation ErrTooLargeDimensions :: err where "ErrTooLargeDimensions \<equiv> Sentinel ''too_large_dimensions''"
abbreviation ErrDecodeFailed :: err where "ErrDecodeFailed \<equiv> Sentinel ''decode_failed''"

text \<open>
  What the reader of an upload gives: its bytes, the error of the request's own size limit, or another
  error.  The image libraries sniff the type of the bytes, read the dimensions of the header, decode to
  a picture with its bounds, and draw a square of it (left, top, side) on white at a given edge as JPEG.
\<close>

datatype upload = Bytes string | OverLimit | Broken

record avatar_limits =
  al_MaxBytes :: int
  al_MaxPixels :: int
  al_Size :: int

record image_lib =
  im_Detect :: "string \<Rightarrow> string"
  im_Config :: "string \<Rightarrow> (int \<times> int) option"
  im_Decode :: "string \<Rightarrow> (int \<times> int \<times> int \<times> int) option"
  im_Redraw :: "string \<Rightarrow> int \<Rightarrow> int \<Rightarrow> int \<Rightarrow> int \<Rightarrow> string"

definition with_defaults :: "avatar_limits \<Rightarrow> avatar_limits" where
  "with_defaults l =
     \<lparr>al_MaxBytes = (if al_MaxBytes l \<le> 0 then 2097152 else al_MaxBytes l),
      al_MaxPixels = (if al_MaxPixels l \<le> 0 then 4096 * 4096 else al_MaxPixels l),
      al_Size = (if al_Size l \<le> 0 then 512 else al_Size l)\<rparr>"

text \<open>Integer division of the crop offsets truncates; both operands are not negative there.\<close>

definition NormaliseAvatar :: "image_lib \<Rightarrow> avatar_limits \<Rightarrow> upload \<Rightarrow> string result" where
  "NormaliseAvatar I l0 up =
     (let l = with_defaults l0 in
      case up of
        OverLimit \<Rightarrow> Inl ErrAvatarTooLarge
      | Broken \<Rightarrow> Inl ErrDecodeFailed
      | Bytes raw \<Rightarrow>
          if int (length raw) > al_MaxBytes l then Inl ErrAvatarTooLarge
          else if im_Detect I raw \<notin> set [''image/png'', ''image/jpeg'', ''image/webp''] then Inl ErrUnsupportedType
          else
            (case im_Config I raw of
               None \<Rightarrow> Inl ErrDecodeFailed
             | Some (width, height) \<Rightarrow>
                 if width \<le> 0 \<or> height \<le> 0 \<or> width * height > al_MaxPixels l then Inl ErrTooLargeDimensions
                 else
                   (case im_Decode I raw of
                      None \<Rightarrow> Inl ErrDecodeFailed
                    | Some (minX, minY, dx, dy) \<Rightarrow>
                        let side = min dx dy in
                        Inr (im_Redraw I raw (minX + (dx - side) div 2) (minY + (dy - side) div 2) side (min side (al_Size l))))))"

definition Avatars_Set :: "externals \<Rightarrow> image_lib \<Rightarrow> avatar_limits \<Rightarrow> time \<Rightarrow> actor \<Rightarrow> string \<Rightarrow> upload \<Rightarrow> (world, string) op" where
  "Avatars_Set X I limits now actor uid up =
     (if \<not> mayEdit actor uid then
        seq_op (admin_event actor ''avatar_updated'' uid ''refused'' ''forbidden'') (throw ErrAdminForbidden)
      else
        seq_op (lookup actor uid)
        (case NormaliseAvatar I limits up of
           Inl e \<Rightarrow> seq_op (admin_event actor ''avatar_updated'' uid ''refused'' (case e of Sentinel s \<Rightarrow> s | _ \<Rightarrow> '''')) (throw e)
         | Inr data \<Rightarrow>
             let ident = hex_encode (ex_sha256 X data) in
             seq_op (on_db (Store_UpsertAvatar now \<lparr>av_ID = ident, av_TenantID = act_TenantID actor, av_UserID = uid,
                 av_ContentType = AvatarContentType, av_Bytes = data, av_CreatedAt = 0\<rparr>))
            (seq_op (admin_event actor ''avatar_updated'' uid ''ok'' '''')
               (ret (AvatarURL uid (Some ident))))))"

definition Avatars_Remove :: "actor \<Rightarrow> string \<Rightarrow> (world, unit) op" where
  "Avatars_Remove actor uid =
     (if \<not> mayEdit actor uid then throw ErrAdminForbidden
      else
        bind_op (lookup actor uid) (\<lambda>u.
        if us_AvatarID u = None then ret ()
        else
          seq_op (on_db (Store_DeleteAvatar (act_TenantID actor) uid))
            (admin_event actor ''avatar_removed'' uid ''ok'' '''')))"

definition Avatars_Get :: "actor \<Rightarrow> string \<Rightarrow> string \<Rightarrow> (world, avatar) op" where
  "Avatars_Get actor uid ident =
     try_op (on_db (Store_GetAvatar (act_TenantID actor) uid ident)) (\<lambda>r.
     case r of Inl _ \<Rightarrow> throw ErrNotFound | Inr a \<Rightarrow> ret a)"


end
