(* ===== verification/Outbox.thy ===== *)
theory Outbox
  imports Password
begin

text \<open>
  Messages queued for delivery: the payloads of \<open>internal/email/outbox.go\<close>, the JSON text
  \<open>encoding/json\<close> writes for them, and their encryption.
\<close>

section \<open>Payloads\<close>

definition TemplateInvite :: string where "TemplateInvite = ''auth.invite''"
definition TemplateAccountReset :: string where "TemplateAccountReset = ''auth.account_reset''"
definition TemplateRecovery :: string where "TemplateRecovery = ''auth.recovery''"
definition PayloadVersion :: int where "PayloadVersion = 2"
definition templatePrefix :: string where "templatePrefix = ''auth.''"

text \<open>The variables in the order of their names, which is the order they are written in.\<close>

record payload =
  py_V :: int
  py_Template :: string
  py_Vars :: "(string \<times> string) list"

definition Invite_payload :: "string \<Rightarrow> string \<Rightarrow> string \<Rightarrow> payload" where
  "Invite_payload link validFor tenant_name =
     \<lparr>py_V = PayloadVersion, py_Template = TemplateInvite,
      py_Vars = (''link'', link) # (if tenant_name \<noteq> '''' then [(''tenant'', tenant_name)] else []) @ [(''valid_for'', validFor)]\<rparr>"

definition AccountReset_payload :: "string \<Rightarrow> string \<Rightarrow> payload" where
  "AccountReset_payload link validFor =
     \<lparr>py_V = PayloadVersion, py_Template = TemplateAccountReset, py_Vars = [(''link'', link), (''valid_for'', validFor)]\<rparr>"

definition Recovery_payload :: "string \<Rightarrow> string \<Rightarrow> payload" where
  "Recovery_payload link validFor =
     \<lparr>py_V = PayloadVersion, py_Template = TemplateRecovery, py_Vars = [(''link'', link), (''valid_for'', validFor)]\<rparr>"

section \<open>JSON text\<close>

definition json_hex :: "int \<Rightarrow> string" where
  "json_hex b = (CHR 0x5C # ''u00'') @ [hex_digit (nat (b div 16)), hex_digit (nat (b mod 16))]"

definition json_ascii :: "int \<Rightarrow> string" where
  "json_ascii b =
     (if b = 34 \<or> b = 92 then [CHR 0x5C, char_of b]
      else if b = 8 then (CHR 0x5C # ''b'') else if b = 12 then (CHR 0x5C # ''f'') else if b = 10 then (CHR 0x5C # ''n'')
      else if b = 13 then (CHR 0x5C # ''r'') else if b = 9 then (CHR 0x5C # ''t'')
      else if b < 32 \<or> b = 60 \<or> b = 62 \<or> b = 38 then json_hex b
      else [char_of b])"

text \<open>A string value: invalid bytes are replaced, the line separators escaped.\<close>

function json_chars :: "int list \<Rightarrow> string" where
  "json_chars [] = ''''"
| "json_chars (a # bs) =
     (let (r, n) = decode_rune (a # bs) in
      (if a < 128 then json_ascii a
       else if r = 65533 \<and> n = 1 then (CHR 0x5C # ''ufffd'')
       else if r = 8232 then (CHR 0x5C # ''u2028'') else if r = 8233 then (CHR 0x5C # ''u2029'')
       else map char_of (take n (a # bs)))
      @ json_chars (drop (snd (decode_rune (a # bs))) (a # bs)))"
  by pat_completeness auto
termination
proof (relation "measure length")
  fix a bs show "(drop (snd (decode_rune (a # bs))) (a # bs), a # bs) \<in> measure length"
    using decode_rune_pos [of a bs] by simp
qed simp

definition json_string :: "string \<Rightarrow> string" where
  "json_string s = [CHR 0x22] @ json_chars (map of_char s) @ [CHR 0x22]"

fun json_fields :: "(string \<times> string) list \<Rightarrow> string" where
  "json_fields [] = ''''"
| "json_fields [(k, v)] = json_string k @ '':'' @ json_string v"
| "json_fields ((k, v) # kvs) = json_string k @ '':'' @ json_string v @ '','' @ json_fields kvs"

definition marshal_payload :: "payload \<Rightarrow> string" where
  "marshal_payload p =
     ''{'' @ json_string ''v'' @ '':2,'' @ json_string ''template'' @ '':'' @ json_string (py_Template p) @ '',''
     @ json_string ''vars'' @ '':{'' @ json_fields (py_Vars p) @ ''}}''"

definition EncodePayload :: "payload \<Rightarrow> string result" where
  "EncodePayload p =
     (if \<not> has_prefix (py_Template p) templatePrefix \<or> length (py_Template p) = length templatePrefix
      then Inl (ErrOther ''email: template is outside auth.*'')
      else Inr (marshal_payload p))"

text \<open>Sealed for storage, bound to the recipient.\<close>

definition Outbox_Encode :: "externals \<Rightarrow> (string \<times> string \<times> string) option \<Rightarrow> string \<Rightarrow> payload \<Rightarrow> string result" where
  "Outbox_Encode X rand to_addr p =
     (case EncodePayload p of Inl e \<Rightarrow> Inl e | Inr js \<Rightarrow> Encrypt X rand js (''email:'' @ to_addr))"

end
