(* ===== verification/Invite.thy ===== *)
theory Invite
  imports Profiles Outbox
begin

text \<open>
  Invitations: \<open>internal/invite/invite.go\<close>, in database transactions (\<open>internal/store/store.go\<close>,
  \<open>internal/invite/invitedb/db.go\<close>) over the tables of the in-memory store.  Fresh identifiers,
  tokens and sealing randomness are arguments.
\<close>

abbreviation ErrInviteToken :: err where "ErrInviteToken \<equiv> Sentinel ''invite.ErrInvalidToken''"
abbreviation ErrBadEmail :: err where "ErrBadEmail \<equiv> Sentinel ''invite.ErrBadEmail''"
abbreviation errInvalidState :: err where "errInvalidState \<equiv> Sentinel ''invite.errInvalidState''"

text \<open>\<open>errors.Join (ErrPolicy, err)\<close>, by the rule that was broken.\<close>

definition policy_refused :: "err \<Rightarrow> err" where "policy_refused e = ErrOther (''password_policy '' @ Rule e)"

section \<open>Transactions\<close>

record scope =
  sc_TenantID :: string
  sc_OperatorGrant :: string
  sc_Operator :: bool
  sc_System :: bool

definition tenant_scope :: "string \<Rightarrow> scope" where
  "tenant_scope tid = \<lparr>sc_TenantID = tid, sc_OperatorGrant = '''', sc_Operator = False, sc_System = False\<rparr>"
definition system_scope :: scope where
  "system_scope = \<lparr>sc_TenantID = '''', sc_OperatorGrant = '''', sc_Operator = False, sc_System = True\<rparr>"

definition settings :: "scope \<Rightarrow> (string \<times> string) list" where
  "settings sc =
     (if sc_TenantID sc \<noteq> '''' then [(''app.tenant_id'', sc_TenantID sc)] else [])
     @ (if sc_OperatorGrant sc \<noteq> '''' then [(''app.operator_grant'', sc_OperatorGrant sc)] else [])
     @ (if sc_Operator sc then [(''app.operator'', ''on'')] else [])
     @ (if sc_System sc then [(''app.system'', ''on'')] else [])"

text \<open>Each setting is one statement; a statement is one call, and so are begin and commit.\<close>

definition applyScope :: "scope \<Rightarrow> (world, unit) op" where
  "applyScope sc = for_op (settings sc) (\<lambda>_. call (ret ()))"

text \<open>
  \<open>Store.Tx\<close>: an error of the function or of the commit rolls the tables back, unless the commit was
  made and only its answer lost.  Audit events, the cache and the tuples are not part of it.
\<close>

definition commit :: "memstore \<Rightarrow> 'a \<Rightarrow> (world, 'a) op" where
  "commit before x w =
     (case faults w of
        [] \<Rightarrow> (Inr x, w)
      | Works # fs \<Rightarrow> (Inr x, w\<lparr>faults := fs\<rparr>)
      | FailsBefore # fs \<Rightarrow> (Inl (ErrOther ''unavailable''), w\<lparr>faults := fs, db := before\<rparr>)
      | FailsAfter # fs \<Rightarrow> (Inl (ErrOther ''unavailable''), w\<lparr>faults := fs\<rparr>))"

definition Tx :: "scope \<Rightarrow> (world, 'a) op \<Rightarrow> (world, 'a) op" where
  "Tx sc fn w =
     (case seq_op (call (ret ())) (applyScope sc) w of
        (Inl e, w1) \<Rightarrow> (Inl e, w1)
      | (Inr _, w1) \<Rightarrow>
          (case fn w1 of
             (Inl e, w2) \<Rightarrow> (Inl e, w2\<lparr>db := db w1\<rparr>)
           | (Inr x, w2) \<Rightarrow> commit (db w1) x w2))"

section \<open>Requests\<close>

definition Invite_Lifetime :: duration where "Invite_Lifetime = 72 * hour"
definition ValidFor :: string where "ValidFor = ''72 hours''"
definition GroupsMax :: nat where "GroupsMax = 50"
definition AcceptPath :: string where "AcceptPath = ''/console/invite/accept''"
definition ActivateMax :: nat where "ActivateMax = 100"

record invite_params =
  ip_Email :: string
  ip_RoleIDs :: "string list"
  ip_GroupIDs :: "string list"
  ip_FirstName :: string
  ip_LastName :: string

text \<open>The draws of one invitation: its id, the token, the id of the message and the sealing randomness.\<close>

record invite_draws =
  iw_ID :: string
  iw_Token :: "string option"
  iw_Message :: string
  iw_Seal :: "(string \<times> string \<times> string) option"

text \<open>The service: the public address, whether the grant check is attached, the authorization client.\<close>

record invite_service =
  is_Issuer :: string
  is_Escalation :: bool
  is_Authz :: az_client

definition normEmail :: "externals \<Rightarrow> string \<Rightarrow> string result" where
  "normEmail X e0 =
     (let e = to_lower (ex_ul X) (trim_space e0) in
      case index_byte (CHR ''@'') e of
        None \<Rightarrow> Inl ErrBadEmail
      | Some at \<Rightarrow>
          if at = 0 \<or> at = length e - 1 \<or> contains_any e [CHR '' '', CHR 0x09, CHR 0x0D, CHR 0x0A] \<or> length e > 254
          then Inl ErrBadEmail else Inr e)"

definition orName :: "string \<Rightarrow> string \<Rightarrow> string" where "orName given row = (if given \<noteq> '''' then given else row)"

definition relabel :: "err \<Rightarrow> ('s, 'a) op \<Rightarrow> ('s, unit) op" where
  "relabel e m = try_op m (\<lambda>r. case r of Inl _ \<Rightarrow> throw e | Inr _ \<Rightarrow> ret ())"

definition invite_event :: "actor \<Rightarrow> string \<Rightarrow> string \<Rightarrow> string \<Rightarrow> string \<Rightarrow> string \<Rightarrow> (world, unit) op" where
  "invite_event actor tid out reason knd ident =
     emit (event ''invite_created'' tid (act_Kind actor) (act_UserID actor) knd ident out reason)"

section \<open>Inviting\<close>

definition checkGrants :: "invite_service \<Rightarrow> req_context \<Rightarrow> actor \<Rightarrow> string \<Rightarrow> invite_params \<Rightarrow> (world, unit) op" where
  "checkGrants S ctx actor tid p =
     (if length (ip_GroupIDs p) > GroupsMax then throw ErrBadEmail
      else
        seq_op
          (Tx (tenant_scope tid)
            (seq_op (relabel ErrBadEmail (on_db (Store_RolesByID tid (ip_RoleIDs p))))
              (for_op (ip_GroupIDs p) (\<lambda>gid. relabel ErrBadEmail (on_db (Store_GetGroup tid gid))))))
          (if \<not> is_Escalation S then ret ()
           else
             try_op (Invite_MayAssign (is_Authz S) ctx actor tid (ip_RoleIDs p) (ip_GroupIDs p)) (\<lambda>r.
             case r of Inl e \<Rightarrow> throw (if e = ErrNotFound then ErrBadEmail else e) | Inr _ \<Rightarrow> ret ())))"

definition queue :: "externals \<Rightarrow> invite_service \<Rightarrow> time \<Rightarrow> invite_draws \<Rightarrow> string \<Rightarrow> string \<Rightarrow> string \<Rightarrow> (world, unit) op" where
  "queue X S now D tid addr tok =
     try_op (on_db (Store_Tenant tid)) (\<lambda>t.
     let name = (case t of
                   Inl _ \<Rightarrow> ''''
                 | Inr t \<Rightarrow> if tn_DisplayName t = '''' then tn_Slug t else tn_DisplayName t)
     in bind_op (of_result (Outbox_Encode X (iw_Seal D) addr
            (Invite_payload (is_Issuer S @ AcceptPath @ ''?token='' @ tok) ValidFor name))) (\<lambda>blob.
        on_db (Store_Enqueue \<lparr>ob_ID = iw_Message D, ob_TenantID = tid, ob_Kind = ''invite'', ob_ToEmail = addr,
          ob_PayloadEnc = blob, ob_Attempts = 0, ob_NextAttemptAt = now\<rparr>)))"

definition invitation_of :: "externals \<Rightarrow> time \<Rightarrow> actor \<Rightarrow> string \<Rightarrow> string \<Rightarrow> string \<Rightarrow> invite_params \<Rightarrow> string \<Rightarrow> invitation" where
  "invitation_of X now actor tid ident addr p tok =
     \<lparr>iv_ID = ident, iv_TenantID = tid, iv_Email = addr, iv_RoleIDs = ip_RoleIDs p, iv_GroupIDs = ip_GroupIDs p,
      iv_FirstName = ip_FirstName p, iv_LastName = ip_LastName p, iv_TokenHash = HashToken X tok,
      iv_InvitedBy = (if act_UserID actor \<noteq> '''' then Some (act_UserID actor) else None),
      iv_ExpiresAt = now + Invite_Lifetime, iv_AcceptedAt = None, iv_RevokedAt = None\<rparr>"

definition invite :: "externals \<Rightarrow> invite_service \<Rightarrow> time \<Rightarrow> invite_draws \<Rightarrow> actor \<Rightarrow> string \<Rightarrow> string \<Rightarrow> invite_params \<Rightarrow> (world, string) op" where
  "invite X S now D actor tid addr p =
     bind_op (of_result (RandomToken (iw_Token D))) (\<lambda>tok.
     seq_op (on_db (Store_InsertInvitation (invitation_of X now actor tid (iw_ID D) addr p tok)))
    (seq_op (queue X S now D tid addr tok)
       (ret (iw_ID D))))"

definition activate :: "externals \<Rightarrow> invite_service \<Rightarrow> time \<Rightarrow> invite_draws \<Rightarrow> actor \<Rightarrow> string \<Rightarrow> user \<Rightarrow> invite_params \<Rightarrow> (world, string) op" where
  "activate X S now D actor tid u p =
     bind_op (invite X S now D actor tid (to_lower (ex_ul X) (us_Email u)) p) (\<lambda>ident.
     seq_op (on_db (Store_UpdateUserStatus tid (us_ID u) ''invited''))
    (seq_op (invite_event actor tid ''ok'' ''activation'' ''user'' (us_ID u))
       (ret ident)))"

definition create_tx :: "externals \<Rightarrow> invite_service \<Rightarrow> time \<Rightarrow> invite_draws \<Rightarrow> actor \<Rightarrow> string \<Rightarrow> string \<Rightarrow> string \<Rightarrow> string \<Rightarrow> invite_params \<Rightarrow> (world, string) op" where
  "create_tx X S now D actor tid addr first_name last_name p =
     try_op (on_db (Store_UserByEmail (ex_ul X) tid addr)) (\<lambda>r.
     let fresh = bind_op (invite X S now D actor tid addr (p\<lparr>ip_FirstName := first_name, ip_LastName := last_name\<rparr>)) (\<lambda>ident.
                   seq_op (invite_event actor tid ''ok'' '''' ''invite'' ident) (ret ident))
     in case r of
          Inl _ \<Rightarrow> fresh
        | Inr u \<Rightarrow>
            if us_Status u = ''imported'' then
              activate X S now D actor tid u
                (p\<lparr>ip_FirstName := orName first_name (us_FirstName u), ip_LastName := orName last_name (us_LastName u)\<rparr>)
            else if us_Status u \<noteq> ''invited'' then
              seq_op (invite_event actor tid ''refused'' ''account_exists'' ''user'' (us_ID u)) (ret '''')
            else fresh)"

definition CreateWith :: "externals \<Rightarrow> invite_service \<Rightarrow> req_context \<Rightarrow> time \<Rightarrow> invite_draws \<Rightarrow> actor \<Rightarrow> string \<Rightarrow> invite_params \<Rightarrow> (world, string) op" where
  "CreateWith X S ctx now D actor tid p =
     bind_op (of_result (normEmail X (ip_Email p))) (\<lambda>addr.
     (case (ValidateName (ip_FirstName p), ValidateName (ip_LastName p)) of
        (Inr first_name, Inr last_name) \<Rightarrow>
          seq_op (checkGrants S ctx actor tid p)
            (Tx (tenant_scope tid) (create_tx X S now D actor tid addr first_name last_name p))
      | _ \<Rightarrow> throw ErrBadEmail))"

definition Invite_Create :: "externals \<Rightarrow> invite_service \<Rightarrow> req_context \<Rightarrow> time \<Rightarrow> invite_draws \<Rightarrow> actor \<Rightarrow> string \<Rightarrow> string \<Rightarrow> string list \<Rightarrow> (world, string) op" where
  "Invite_Create X S ctx now D actor tid email roleIDs =
     CreateWith X S ctx now D actor tid \<lparr>ip_Email = email, ip_RoleIDs = roleIDs, ip_GroupIDs = [], ip_FirstName = '''', ip_LastName = ''''\<rparr>"

section \<open>Activating imported users\<close>

definition OutcomeInvited :: string where "OutcomeInvited = ''invited''"
definition OutcomeFailed :: string where "OutcomeFailed = ''failed''"
definition ReasonInvalidState :: string where "ReasonInvalidState = ''invalid_state''"
definition ReasonNotFound :: string where "ReasonNotFound = ''not_found''"
definition ReasonInternal :: string where "ReasonInternal = ''internal''"

record activate_item =
  ai_UserID :: string
  ai_Outcome :: string
  ai_InvitationID :: string
  ai_Reason :: string

definition auditForeign :: "actor \<Rightarrow> string \<Rightarrow> string \<Rightarrow> (world, unit) op" where
  "auditForeign actor tid uid =
     (if \<not> ValidTenantID uid then ret ()
      else
        try_op (Tx system_scope (on_db (Store_UserAnyTenant uid))) (\<lambda>r.
        case r of
          Inl _ \<Rightarrow> ret ()
        | Inr other \<Rightarrow>
            when_op (us_TenantID other \<noteq> tid)
              (emit (event ''cross_tenant_refused'' tid (act_Kind actor) (act_UserID actor) ''user'' uid ''refused'' ''foreign_user''))))"

definition activateOne :: "externals \<Rightarrow> invite_service \<Rightarrow> time \<Rightarrow> invite_draws \<Rightarrow> actor \<Rightarrow> string \<Rightarrow> string \<Rightarrow> invite_params \<Rightarrow> (world, activate_item) op" where
  "activateOne X S now D actor tid uid p =
     (let failed = (\<lambda>reason. \<lparr>ai_UserID = uid, ai_Outcome = OutcomeFailed, ai_InvitationID = '''', ai_Reason = reason\<rparr>) in
      try_op
        (Tx (tenant_scope tid)
          (bind_op (if ValidTenantID uid then on_db (Store_User tid uid) else throw ErrNotFound) (\<lambda>u.
           if us_Status u \<noteq> ''imported'' then throw errInvalidState
           else activate X S now D actor tid u (p\<lparr>ip_FirstName := us_FirstName u, ip_LastName := us_LastName u\<rparr>)))) (\<lambda>r.
      case r of
        Inr ident \<Rightarrow> ret \<lparr>ai_UserID = uid, ai_Outcome = OutcomeInvited, ai_InvitationID = ident, ai_Reason = ''''\<rparr>
      | Inl e \<Rightarrow>
          if e = errInvalidState then ret (failed ReasonInvalidState)
          else if e = ErrNotFound then seq_op (auditForeign actor tid uid) (ret (failed ReasonNotFound))
          else ret (failed ReasonInternal)))"

fun activate_each :: "externals \<Rightarrow> invite_service \<Rightarrow> time \<Rightarrow> invite_draws list \<Rightarrow> actor \<Rightarrow> string \<Rightarrow> invite_params \<Rightarrow> string list \<Rightarrow> (world, activate_item list) op" where
  "activate_each X S now Ds actor tid p [] = ret []"
| "activate_each X S now [] actor tid p (uid # uids) = ret []"
| "activate_each X S now (D # Ds) actor tid p (uid # uids) =
     bind_op (activateOne X S now D actor tid uid p) (\<lambda>it.
     bind_op (activate_each X S now Ds actor tid p uids) (\<lambda>its. ret (it # its)))"

text \<open>One set of draws per user id.\<close>

definition Activate :: "externals \<Rightarrow> invite_service \<Rightarrow> req_context \<Rightarrow> time \<Rightarrow> invite_draws list \<Rightarrow> actor \<Rightarrow> string \<Rightarrow> string list \<Rightarrow> invite_params \<Rightarrow> (world, activate_item list) op" where
  "Activate X S ctx now Ds actor tid userIDs p =
     (if userIDs = [] \<or> length userIDs > ActivateMax \<or> \<not> distinct userIDs then throw ErrBadEmail
      else seq_op (checkGrants S ctx actor tid p) (activate_each X S now Ds actor tid p userIDs))"

section \<open>Sending again\<close>

definition Resend :: "externals \<Rightarrow> invite_service \<Rightarrow> time \<Rightarrow> invite_draws \<Rightarrow> actor \<Rightarrow> string \<Rightarrow> string \<Rightarrow> (world, unit) op" where
  "Resend X S now D actor tid ident =
     Tx (tenant_scope tid)
       (try_op (on_db (Store_Invitation tid ident)) (\<lambda>r.
        case r of
          Inl _ \<Rightarrow> throw ErrNotFound
        | Inr iv \<Rightarrow>
            if iv_AcceptedAt iv \<noteq> None \<or> iv_RevokedAt iv \<noteq> None then throw ErrNotFound
            else
              bind_op (of_result (RandomToken (iw_Token D))) (\<lambda>tok.
              seq_op (on_db (Store_RotateInvitation tid ident (HashToken X tok) (now + Invite_Lifetime)))
             (seq_op (queue X S now D tid (iv_Email iv) tok)
                (invite_event actor tid ''ok'' ''resend'' ''invite'' ident)))))"

section \<open>Accepting\<close>

record accepted =
  ac_User :: user
  ac_Tenant :: tenant
  ac_Roles :: "string list"
  ac_Policy :: policy
  ac_Operator :: bool

definition open_at :: "time \<Rightarrow> invitation \<Rightarrow> bool" where
  "open_at now iv \<longleftrightarrow> iv_AcceptedAt iv = None \<and> iv_RevokedAt iv = None \<and> now < iv_ExpiresAt iv"

definition redeemable :: "time \<Rightarrow> string \<Rightarrow> (world, invitation \<times> tenant \<times> policy) op" where
  "redeemable now hash =
     try_op (on_db (Store_InvitationByHash hash)) (\<lambda>r.
     case r of
       Inl _ \<Rightarrow> throw ErrInviteToken
     | Inr iv \<Rightarrow>
         if \<not> open_at now iv then throw ErrInviteToken
         else
           try_op (on_db (Store_Tenant (iv_TenantID iv))) (\<lambda>t.
           case t of
             Inl _ \<Rightarrow> throw ErrInviteToken
           | Inr t \<Rightarrow>
               if tn_Status t \<noteq> ''active'' then throw ErrInviteToken
               else (case ParsePolicy (tn_Policy t) (tn_Kind t = ''platform'') of
                       (pol, Inr _) \<Rightarrow> ret (iv, t, pol) | (pol, Inl e) \<Rightarrow> throw e)))"

definition Invite_Requirements :: "externals \<Rightarrow> time \<Rightarrow> string \<Rightarrow> (world, requirements) op" where
  "Invite_Requirements X now token =
     (if token = '''' \<or> length token > 256 then throw ErrInviteToken
      else Tx system_scope (bind_op (redeemable now (HashToken X token)) (\<lambda>(iv, t, pol). ret (RequirementsFor pol))))"

text \<open>The account behind an invitation: a new row, or the invited one made active.\<close>

definition account_of :: "externals \<Rightarrow> string \<Rightarrow> invitation \<Rightarrow> string \<Rightarrow> string \<Rightarrow> (world, user) op" where
  "account_of X newID iv displayName h =
     try_op (on_db (Store_UserByEmail (ex_ul X) (iv_TenantID iv) (iv_Email iv))) (\<lambda>r.
     case r of
       Inl e \<Rightarrow>
         if e \<noteq> ErrNotFound then throw e
         else
           let given = trim_space displayName;
               dn = (if given = '''' then DeriveDisplayName (iv_FirstName iv) (iv_LastName iv) '''' (iv_Email iv) else given);
               u = zero_user\<lparr>us_ID := newID, us_TenantID := iv_TenantID iv, us_Email := iv_Email iv, us_DisplayName := dn,
                     us_Status := ''active'', us_PasswordHash := Some h, us_FirstName := iv_FirstName iv, us_LastName := iv_LastName iv,
                     us_DisplayNameExplicit := (given \<noteq> '''')\<rparr>
           in seq_op (on_db (Store_InsertUser (ex_ul X) u)) (ret u)
     | Inr u \<Rightarrow>
         if us_Status u = ''invited'' then
           seq_op (on_db (Store_SetPasswordHash (iv_TenantID iv) (us_ID u) h))
          (seq_op (on_db (Store_UpdateUserStatus (iv_TenantID iv) (us_ID u) ''active''))
             (ret (u\<lparr>us_Status := ''active'', us_PasswordHash := Some h\<rparr>)))
         else throw ErrInviteToken)"

text \<open>The groups of the invitation that still exist, and the tuples of joining them.\<close>

fun join_groups :: "time \<Rightarrow> string \<Rightarrow> string \<Rightarrow> string list \<Rightarrow> (world, fga_tuple list) op" where
  "join_groups now tid uid [] = ret []"
| "join_groups now tid uid (gid # gids) =
     try_op (on_db (Store_GetGroup tid gid)) (\<lambda>r.
     case r of
       Inl _ \<Rightarrow> join_groups now tid uid gids
     | Inr _ \<Rightarrow>
         seq_op (on_db (Store_AddGroupMembers now tid gid [uid]))
           (bind_op (join_groups now tid uid gids) (\<lambda>ts. ret (GroupMembershipTuple tid gid uid # ts))))"

definition accept_tuples :: "string \<Rightarrow> string \<Rightarrow> fga_tuple list \<Rightarrow> role list \<Rightarrow> fga_tuple list" where
  "accept_tuples tid uid joined_tuples roles =
     MembershipTuple tid uid ''member'' # joined_tuples
     @ concat (map (\<lambda>r. RoleAssignmentTuple tid (ro_Slug r) uid
                 # (if ro_Slug r = ''owner'' then [MembershipTuple tid uid ''owner''] else [])) roles)"

definition accept_tx :: "externals \<Rightarrow> time \<Rightarrow> string \<Rightarrow> string option \<Rightarrow> string \<Rightarrow> string \<Rightarrow> string \<Rightarrow> (world, accepted \<times> fga_tuple list) op" where
  "accept_tx X now newID salt hash displayName pw =
     bind_op (redeemable now hash) (\<lambda>(iv, t, pol).
     (case Check pol pw of
        Inl e \<Rightarrow> throw (policy_refused e)
      | Inr _ \<Rightarrow>
          bind_op (of_result (Hash X salt pw)) (\<lambda>h.
          bind_op (account_of X newID iv displayName h) (\<lambda>u.
          bind_op (on_db (Store_RolesByID (iv_TenantID iv) (iv_RoleIDs iv))) (\<lambda>all_roles.
          let roles = filter (\<lambda>r. ro_RetiredAt r = None) all_roles in
          seq_op (on_db (Store_ReplaceBindings (iv_TenantID iv) (us_ID u) (map ro_ID roles)))
         (seq_op (on_db (Store_MarkInvitationAccepted now (iv_ID iv)))
         (bind_op (join_groups now (iv_TenantID iv) (us_ID u) (iv_GroupIDs iv)) (\<lambda>ts.
          bind_op (on_db (Store_Roles (iv_TenantID iv) (us_ID u))) (\<lambda>slugs.
          seq_op (emit (event ''invite_accepted'' (iv_TenantID iv) ''user'' (us_ID u) ''invite'' (iv_ID iv) ''ok'' ''''))
            (ret (\<lparr>ac_User = u, ac_Tenant = t, ac_Roles = slugs, ac_Policy = pol, ac_Operator = (tn_Kind t = ''platform'')\<rparr>,
               accept_tuples (iv_TenantID iv) (us_ID u) ts roles)))))))))))"

definition Accept :: "externals \<Rightarrow> invite_service \<Rightarrow> req_context \<Rightarrow> time \<Rightarrow> string \<Rightarrow> string option \<Rightarrow> string \<Rightarrow> string \<Rightarrow> string \<Rightarrow> (world, accepted) op" where
  "Accept X S ctx now newID salt token displayName pw =
     (if token = '''' \<or> length token > 256 then throw ErrInviteToken
      else
        bind_op (Tx system_scope (accept_tx X now newID salt (HashToken X token) displayName pw)) (\<lambda>(out, tuples).
        seq_op (Client_Write (is_Authz S) (system_ctx ctx) now (tn_ID (ac_Tenant out)) tuples [])
          (ret out)))"


end
