(* ===== verification/Authz_Modules.thy ===== *)
theory Authz_Modules
  imports Authz_Groups
begin

text \<open>
  Module registration (\<open>internal/authz/modules.go\<close>): the platform catalogue, module permissions in
  every tenant, the migration of legacy grants, module roles and built-in grants.
\<close>

section \<open>Registrations\<close>

definition MaxRegistrationPermissions :: nat where "MaxRegistrationPermissions = 200"
definition MaxModuleRoles :: nat where "MaxModuleRoles = 20"
definition MaxRolePermissions :: nat where "MaxRolePermissions = 200"
definition MaxSkippedSamples :: nat where "MaxSkippedSamples = 5"

definition BuiltinRoleSlugs :: "string list" where
  "BuiltinRoleSlugs = [''owner'', ''admin'', ''member'', ''auditor'', ''operator'']"

abbreviation ErrBadRegistration :: err where "ErrBadRegistration \<equiv> Sentinel ''authz.ErrBadRegistration''"
abbreviation ErrUnknownModule :: err where "ErrUnknownModule \<equiv> Sentinel ''authz.ErrUnknownModule''"

record module_role =
  mr_Slug :: string
  mr_DisplayName :: string
  mr_Description :: string
  mr_Permissions :: "string list"

record builtin_grant =
  bg_Role :: string
  bg_Permissions :: "string list"

record registration =
  rg_Module :: string
  rg_DisplayName :: string
  rg_Delegate :: string
  rg_Permissions :: "permission_def list"
  rg_Roles :: "module_role list"
  rg_DeclaresRoles :: bool
  rg_Grants :: "builtin_grant list"
  rg_DeclaresGrants :: bool
  rg_Tenants :: "string list"

record skipped_grant =
  sg_Role :: string
  sg_Tenants :: nat
  sg_Sample :: "string list"
  sg_Reason :: string

record role_error =
  re_Slug :: string
  re_Reason :: string

record register_result =
  rr_Registered :: nat
  rr_Skipped :: "skipped_grant list"
  rr_RoleErrors :: "role_error list"
  rr_RolesUpserted :: nat
  rr_RolesRetired :: "string list"
  rr_GrantsRevoked :: nat

section \<open>Validation\<close>

definition printable :: "string \<Rightarrow> nat \<Rightarrow> bool" where
  "printable s n \<longleftrightarrow> length s \<le> n \<and> \<not> list_ex IsControl (runes s)"

definition own_refs :: "registration \<Rightarrow> string list" where
  "own_refs reg = map (\<lambda>p. pd_Resource p @ '':'' @ pd_Action p) (rg_Permissions reg)"

definition short_of :: "string \<Rightarrow> string \<Rightarrow> string" where
  "short_of module s = (case Parse s of Inr r \<Rightarrow> if ref_module r = module then Short r else s | Inl _ \<Rightarrow> s)"

text \<open>The reason a declared role is refused, \<open>''''\<close> when it is not, and its permissions.\<close>

definition check_role :: "registration \<Rightarrow> string list \<Rightarrow> module_role \<Rightarrow> string \<times> string list" where
  "check_role reg seen r =
     (let name = trim_space (mr_DisplayName r);
          shorts = map (short_of (rg_Module reg)) (mr_Permissions r) in
      if \<not> ValidRoleDefSlug (mr_Slug r) then (''invalid_slug'', [])
      else if List.member seen (mr_Slug r) then (''duplicate'', [])
      else if name = '''' \<or> \<not> printable name 120 \<or> \<not> printable (mr_Description r) 256 then (''invalid_name'', [])
      else if mr_Permissions r = [] then (''no_permissions'', [])
      else if length (mr_Permissions r) > MaxRolePermissions then (''too_many_permissions'', [])
      else if \<not> list_all (\<lambda>s. List.member (own_refs reg) s) shorts then (''foreign_permission'', [])
      else ('''', sort (first_occurrences shorts)))"

fun check_roles :: "registration \<Rightarrow> string list \<Rightarrow> module_role list \<Rightarrow> module_role_def list \<times> role_error list" where
  "check_roles reg seen [] = ([], [])"
| "check_roles reg seen (r # rs) =
     (let (reason, perms) = check_role reg seen r;
          (defs, errs) = check_roles reg (mr_Slug r # seen) rs in
      if reason \<noteq> '''' then (defs, \<lparr>re_Slug = mr_Slug r, re_Reason = reason\<rparr> # errs)
      else
        (\<lparr>md_Module = rg_Module reg, md_Slug = mr_Slug r, md_DisplayName = trim_space (mr_DisplayName r),
          md_Description = mr_Description r, md_Permissions = perms, md_UpdatedAt = zero_time, md_RetiredAt = None\<rparr> # defs, errs))"

definition validate_registration :: "registration \<Rightarrow> (module_role_def list \<times> role_error list) result" where
  "validate_registration reg =
     (if \<not> ValidModule (rg_Module reg) \<or> \<not> printable (rg_DisplayName reg) 120 \<or> trim_space (rg_DisplayName reg) \<noteq> rg_DisplayName reg
      then Inl ErrBadRegistration
      else if length (rg_Permissions reg) > MaxRegistrationPermissions \<or> length (rg_Roles reg) > MaxModuleRoles
      then Inl ErrBadRegistration
      else if \<not> list_all (\<lambda>p. ValidResource (pd_Resource p) \<and> ValidAction (pd_Action p) \<and> printable (pd_Description p) 256)
           (rg_Permissions reg)
      then Inl ErrBadRegistration
      else if \<not> list_all (\<lambda>g. List.member BuiltinRoleSlugs (bg_Role g)
           \<and> list_all (\<lambda>s. List.member (own_refs reg) s) (bg_Permissions g)) (rg_Grants reg)
      then Inl ErrBadRegistration
      else Inr (check_roles reg [] (rg_Roles reg)))"

section \<open>One tenant\<close>

definition module_event :: "string \<Rightarrow> string \<Rightarrow> string \<Rightarrow> string \<Rightarrow> string \<Rightarrow> string \<Rightarrow> (world, unit) op" where
  "module_event tid typ kind subjectKind subjectID reason =
     when_op (tid \<noteq> '''') (emit (event typ tid kind '''' subjectKind subjectID ''ok'' reason))"

definition migrated_grants :: "string \<Rightarrow> perm_ref list \<Rightarrow> perm_ref list \<Rightarrow> perm_ref list" where
  "migrated_grants module known grants =
     map (\<lambda>g. WithModule g module) (filter (\<lambda>g. IsLegacy g \<and> List.member known (WithModule g module)) grants)"

fun migrate_roles :: "az_client \<Rightarrow> req_context \<Rightarrow> time \<Rightarrow> string \<Rightarrow> string \<Rightarrow> perm_ref list \<Rightarrow> role list \<Rightarrow> (world, unit) op" where
  "migrate_roles C ctx now tid module known [] = ret ()"
| "migrate_roles C ctx now tid module known (ro # roles) =
     bind_op (on_db (Store_RolePermissions tid (ro_ID ro))) (\<lambda>grants.
     let add = migrated_grants module known grants in
     seq_op
       (if add = [] then ret ()
        else
          bind_op (addGrants C ctx now tid ro add) (\<lambda>_.
          module_event tid ''permission_migrated'' ''system'' ''role'' (ro_ID ro) ''''))
       (migrate_roles C ctx now tid module known roles))"

definition migrate :: "az_client \<Rightarrow> req_context \<Rightarrow> time \<Rightarrow> string \<Rightarrow> string \<Rightarrow> (world, unit) op" where
  "migrate C ctx now tid module =
     seq_op (on_db (Store_EnsureTenantModule now tid module))
    (bind_op (on_db (Store_TenantModule tid module)) (\<lambda>tm.
     if tm_LegacyMigratedAt tm \<noteq> None then ret ()
     else
       bind_op (known_refs tid) (\<lambda>known.
       bind_op (on_db (Store_ListRoles tid)) (\<lambda>roles.
       seq_op (migrate_roles C ctx now tid module (filter (\<lambda>p. ref_module p = module) known) roles)
         (on_db (Store_MarkLegacyMigrated now tid module))))))"

definition is_module_role :: "string \<Rightarrow> string \<Rightarrow> role \<Rightarrow> bool" where
  "is_module_role module slug ro \<longleftrightarrow> OriginOf ro = OriginModule \<and> ro_Module ro = module \<and> ro_ModuleSlug ro = slug"

definition moduleRole :: "string \<Rightarrow> string \<Rightarrow> string \<Rightarrow> (world, role) op" where
  "moduleRole tid module slug =
     bind_op (on_db (Store_ListRoles tid)) (\<lambda>roles. of_result (found (find (is_module_role module slug) roles)))"

text \<open>The tenant's copy of a role definition, created when it is missing; \<open>newID\<close> is the id of a new row.\<close>

definition create_copy ::
    "az_client \<Rightarrow> req_context \<Rightarrow> time \<Rightarrow> string \<Rightarrow> string \<Rightarrow> string \<Rightarrow> module_role_def \<Rightarrow> (world, role) op" where
  "create_copy C ctx now newID tid module d =
     bind_op (of_result (ModuleRoleSlug module (md_Slug d))) (\<lambda>slug.
     let ro = (new_role newID tid slug (md_DisplayName d) False OriginModule)
           \<lparr>ro_Description := md_Description d, ro_Module := module, ro_ModuleSlug := md_Slug d\<rparr> in
     seq_op (Client_Write C ctx now tid [RoleTenantTuple tid slug] [])
    (try_op (on_db (Store_InsertRole ro)) (\<lambda>r.
     case r of
       Inr _ \<Rightarrow> ret ro
     | Inl e \<Rightarrow> if e \<noteq> ErrConflict then throw e else moduleRole tid module (md_Slug d))))"

definition wanted_grants :: "string \<Rightarrow> perm_ref list \<Rightarrow> string list \<Rightarrow> perm_ref list" where
  "wanted_grants module known shorts =
     List.map_filter (\<lambda>s. case Qualify module s of Inr ref \<Rightarrow> if List.member known ref then Some ref else None | Inl _ \<Rightarrow> None) shorts"

text \<open>One definition; the result is the number of direct assignments a retired role keeps.\<close>

definition sync_role ::
    "az_client \<Rightarrow> req_context \<Rightarrow> time \<Rightarrow> string \<Rightarrow> string \<Rightarrow> string \<Rightarrow> role list \<Rightarrow> perm_ref list \<Rightarrow> module_role_def \<Rightarrow> (world, nat) op" where
  "sync_role C ctx now newID tid module roles known d =
     (let rest = (\<lambda>ro.
            bind_op (if md_RetiredAt d \<noteq> None
                     then try_op (on_db (Store_RoleAssignees tid (ro_ID ro))) (\<lambda>r. case r of Inr ids \<Rightarrow> ret (length ids) | Inl _ \<Rightarrow> ret 0)
                     else ret 0) (\<lambda>kept.
            seq_op (setGrants C ctx now tid ro (wanted_grants module known (md_Permissions d))) (ret kept))) in
      case find (is_module_role module (md_Slug d)) (rev roles) of
        None \<Rightarrow>
          if md_RetiredAt d \<noteq> None then ret 0
          else bind_op (create_copy C ctx now newID tid module d) rest
      | Some ro \<Rightarrow>
          seq_op
            (if ro_DisplayName ro \<noteq> md_DisplayName d \<or> ro_Description ro \<noteq> md_Description d
                \<or> (ro_RetiredAt ro = None) \<noteq> (md_RetiredAt d = None)
             then on_db (Store_UpdateModuleRole tid (ro_ID ro) (md_DisplayName d) (md_Description d) (md_RetiredAt d))
             else ret ())
            (rest ro))"

type_synonym id_source = "string \<Rightarrow> string \<Rightarrow> string"

fun sync_defs ::
    "az_client \<Rightarrow> req_context \<Rightarrow> time \<Rightarrow> id_source \<Rightarrow> string \<Rightarrow> string \<Rightarrow> role list \<Rightarrow> perm_ref list \<Rightarrow> module_role_def list
      \<Rightarrow> (world, (string \<times> nat) list) op" where
  "sync_defs C ctx now ids tid module roles known [] = ret []"
| "sync_defs C ctx now ids tid module roles known (d # defs) =
     bind_op (sync_role C ctx now (ids tid (md_Slug d)) tid module roles known d) (\<lambda>n.
     bind_op (sync_defs C ctx now ids tid module roles known defs) (\<lambda>kept. ret ((md_Slug d, n) # kept)))"

definition syncRoles ::
    "az_client \<Rightarrow> req_context \<Rightarrow> time \<Rightarrow> id_source \<Rightarrow> string \<Rightarrow> string \<Rightarrow> module_role_def list \<Rightarrow> (world, (string \<times> nat) list) op" where
  "syncRoles C ctx now ids tid module defs =
     bind_op (on_db (Store_ListRoles tid)) (\<lambda>roles.
     bind_op (known_refs tid) (\<lambda>known. sync_defs C ctx now ids tid module roles known defs))"

fun qualify_grant :: "string \<Rightarrow> perm_ref list \<Rightarrow> string list \<Rightarrow> perm_ref list result" where
  "qualify_grant module legacy [] = Inr []"
| "qualify_grant module legacy (s # shorts) =
     (case Qualify module s of
        Inl _ \<Rightarrow> Inl ErrBadRegistration
      | Inr ref \<Rightarrow>
          (case qualify_grant module legacy shorts of
             Inl e \<Rightarrow> Inl e
           | Inr refs \<Rightarrow>
               let l = ref\<lparr>ref_module := ''''\<rparr> in Inr (ref # (if List.member legacy l then [l] else []) @ refs)))"

definition Modules_grantBuiltin :: "az_client \<Rightarrow> req_context \<Rightarrow> time \<Rightarrow> string \<Rightarrow> string \<Rightarrow> builtin_grant \<Rightarrow> (world, bool) op" where
  "Modules_grantBuiltin C ctx now tid module g =
     bind_op (known_refs tid) (\<lambda>known.
     bind_op (of_result (qualify_grant module (filter IsLegacy known) (bg_Permissions g))) (\<lambda>refs.
     GrantBuiltin C ctx now tid (bg_Role g) refs))"

fun grant_sets :: "string \<Rightarrow> builtin_grant list \<Rightarrow> (string \<times> perm_ref list) list \<Rightarrow> (string \<times> perm_ref list) list result" where
  "grant_sets module [] want = Inr want"
| "grant_sets module (g # gs) want =
     (case qualify_grant module [] (bg_Permissions g) of
        Inl e \<Rightarrow> Inl e
      | Inr refs \<Rightarrow> grant_sets module gs (AList.update (bg_Role g) (get_list want (bg_Role g) @ refs) want))"

definition Modules_revokeBuiltin :: "az_client \<Rightarrow> req_context \<Rightarrow> time \<Rightarrow> string \<Rightarrow> string \<Rightarrow> builtin_grant list \<Rightarrow> (world, nat) op" where
  "Modules_revokeBuiltin C ctx now tid module grants =
     bind_op (of_result (grant_sets module grants [])) (\<lambda>want. RevokeBuiltin C ctx now tid module want)"

section \<open>Registration of a module\<close>

fun upsert_role_defs :: "time \<Rightarrow> module_role_def list \<Rightarrow> (world, module_role_def list) op" where
  "upsert_role_defs now [] = ret []"
| "upsert_role_defs now (d # defs) =
     bind_op (on_db (Store_UpsertModuleRoleDef now d)) (\<lambda>changed.
     bind_op (upsert_role_defs now defs) (\<lambda>ds. ret (if changed then d # ds else ds)))"

definition retire_role_defs :: "time \<Rightarrow> registration \<Rightarrow> (world, module_role_def list) op" where
  "retire_role_defs now reg =
     bind_op (on_db (Store_ModuleRoleDefs (rg_Module reg))) (\<lambda>current.
     let gone = filter (\<lambda>d. \<not> List.member (map mr_Slug (rg_Roles reg)) (md_Slug d) \<and> md_RetiredAt d = None) current in
     seq_op (for_op gone (\<lambda>d. on_db (Store_RetireModuleRoleDef now (rg_Module reg) (md_Slug d)))) (ret gone))"

definition note_skipped :: "string \<Rightarrow> string \<Rightarrow> (string \<times> skipped_grant) list \<Rightarrow> (string \<times> skipped_grant) list" where
  "note_skipped role tid skipped =
     (let sg = (case map_of skipped role of
            Some sg \<Rightarrow> sg | None \<Rightarrow> \<lparr>sg_Role = role, sg_Tenants = 0, sg_Sample = [], sg_Reason = ''role_missing''\<rparr>) in
      AList.update role
        (sg\<lparr>sg_Tenants := Suc (sg_Tenants sg),
            sg_Sample := (if length (sg_Sample sg) < MaxSkippedSamples then sg_Sample sg @ [tid] else sg_Sample sg)\<rparr>) skipped)"

fun apply_grants ::
    "az_client \<Rightarrow> req_context \<Rightarrow> time \<Rightarrow> string \<Rightarrow> string \<Rightarrow> builtin_grant list \<Rightarrow> (string \<times> skipped_grant) list
      \<Rightarrow> (world, (string \<times> skipped_grant) list) op" where
  "apply_grants C ctx now tid module [] skipped = ret skipped"
| "apply_grants C ctx now tid module (g # gs) skipped =
     bind_op (Modules_grantBuiltin C ctx now tid module g) (\<lambda>granted.
     apply_grants C ctx now tid module gs (if granted then skipped else note_skipped (bg_Role g) tid skipped))"

text \<open>The loop over the tenants: what was registered and revoked so far, and the skipped grants.\<close>

fun register_tenants ::
    "az_client \<Rightarrow> req_context \<Rightarrow> time \<Rightarrow> id_source \<Rightarrow> registration \<Rightarrow> module_role_def list \<Rightarrow> string list
      \<Rightarrow> nat \<times> nat \<times> (string \<times> skipped_grant) list \<Rightarrow> (world, nat \<times> nat \<times> (string \<times> skipped_grant) list) op" where
  "register_tenants C sys now ids reg defs [] acc = ret acc"
| "register_tenants C sys now ids reg defs (tid # tids) (registered, revoked, skipped) =
     bind_op (Register C sys now tid (rg_Module reg) (rg_Permissions reg)) (\<lambda>n.
     seq_op (migrate C sys now tid (rg_Module reg))
       (if rg_Delegate reg \<noteq> '''' then register_tenants C sys now ids reg defs tids (registered + n, revoked, skipped)
        else
          bind_op (syncRoles C sys now ids tid (rg_Module reg) defs) (\<lambda>_.
          bind_op (if rg_DeclaresGrants reg then Modules_revokeBuiltin C sys now tid (rg_Module reg) (rg_Grants reg) else ret 0) (\<lambda>k.
          bind_op (apply_grants C sys now tid (rg_Module reg) (rg_Grants reg) skipped) (\<lambda>skipped'.
          register_tenants C sys now ids reg defs tids (registered + n, revoked + k, skipped'))))))"

fun take_skipped :: "builtin_grant list \<Rightarrow> (string \<times> skipped_grant) list \<Rightarrow> skipped_grant list" where
  "take_skipped [] skipped = []"
| "take_skipped (g # gs) skipped =
     (case map_of skipped (bg_Role g) of
        None \<Rightarrow> take_skipped gs skipped
      | Some sg \<Rightarrow> sg # take_skipped gs (AList.delete (bg_Role g) skipped))"

definition platform_events_to :: "string \<Rightarrow> string list \<Rightarrow> string" where
  "platform_events_to platform tenants =
     (if platform = '''' then (case tenants of [] \<Rightarrow> '''' | t # _ \<Rightarrow> t) else platform)"

definition Modules_Register ::
    "az_client \<Rightarrow> string \<Rightarrow> req_context \<Rightarrow> time \<Rightarrow> id_source \<Rightarrow> registration \<Rightarrow> (world, register_result) op" where
  "Modules_Register C platform ctx now ids reg =
     bind_op (of_result (validate_registration reg)) (\<lambda>(defs, roleErrs).
     seq_op (check_op (\<not> (rg_Delegate reg \<noteq> '''' \<and> (rg_Roles reg \<noteq> [] \<or> rg_DeclaresRoles reg \<or> rg_Grants reg \<noteq> []))) ErrBadRegistration)
    (seq_op (check_op (list_all ValidTenantID (rg_Tenants reg)) ErrBadRegistration)
    (let sys = system_ctx ctx; at = platform_events_to platform (rg_Tenants reg) in
     seq_op (on_db (Store_UpsertModule now (rg_Module reg) (rg_DisplayName reg)))
    (seq_op (for_op (rg_Permissions reg) (\<lambda>p. on_db (Store_UpsertModulePermission
        \<lparr>mp_Module = rg_Module reg, mp_Resource = pd_Resource p, mp_Action = pd_Action p, mp_Description = pd_Description p,
         mp_RetiredAt = None\<rparr>)))
    (bind_op (if rg_Delegate reg = '''' then upsert_role_defs now defs else ret []) (\<lambda>upserted.
     bind_op (if rg_Delegate reg = '''' \<and> rg_DeclaresRoles reg then retire_role_defs now reg else ret []) (\<lambda>gone.
     bind_op (on_db (Store_ModuleRoleDefs (rg_Module reg))) (\<lambda>catalogueDefs.
     bind_op (register_tenants C sys now ids reg catalogueDefs (rg_Tenants reg) (0, 0, [])) (\<lambda>(registered, revoked, skipped).
     seq_op (module_event at ''module_registered'' ''service'' ''module'' '''' '''')
    (seq_op (for_op upserted (\<lambda>_. module_event at ''module_role_upserted'' ''service'' ''module_role'' '''' ''''))
    (seq_op (for_op gone (\<lambda>_. module_event at ''module_role_retired'' ''service'' ''module_role'' '''' ''''))
       (ret \<lparr>rr_Registered = registered, rr_Skipped = take_skipped (rg_Grants reg) skipped, rr_RoleErrors = roleErrs,
          rr_RolesUpserted = length upserted, rr_RolesRetired = map md_Slug gone, rr_GrantsRevoked = revoked\<rparr>))))))))))))"

section \<open>New tenants and retired modules\<close>

fun instantiate_modules :: "az_client \<Rightarrow> req_context \<Rightarrow> time \<Rightarrow> id_source \<Rightarrow> string \<Rightarrow> module_row list \<Rightarrow> (world, unit) op" where
  "instantiate_modules C sys now ids tid [] = ret ()"
| "instantiate_modules C sys now ids tid (mo # mods) =
     (if mo_RetiredAt mo \<noteq> None then instantiate_modules C sys now ids tid mods
      else
        bind_op (on_db (Store_ModulePermissions (mo_Name mo))) (\<lambda>perms.
        bind_op (Register C sys now tid (mo_Name mo)
          (map (\<lambda>p. \<lparr>pd_Resource = mp_Resource p, pd_Action = mp_Action p, pd_Description = mp_Description p\<rparr>)
            (filter (\<lambda>p. mp_RetiredAt p = None) perms))) (\<lambda>_.
        seq_op (migrate C sys now tid (mo_Name mo))
       (bind_op (on_db (Store_ModuleRoleDefs (mo_Name mo))) (\<lambda>defs.
        bind_op (syncRoles C sys now ids tid (mo_Name mo) defs) (\<lambda>_.
        instantiate_modules C sys now ids tid mods))))))"

definition InstantiateTenant :: "az_client \<Rightarrow> req_context \<Rightarrow> time \<Rightarrow> id_source \<Rightarrow> string \<Rightarrow> (world, unit) op" where
  "InstantiateTenant C ctx now ids tid =
     bind_op (on_db Store_Modules) (\<lambda>mods. instantiate_modules C (system_ctx ctx) now ids tid mods)"

text \<open>\<open>hook\<close> is \<open>Modules.Tenants\<close>, \<open>None\<close> when there is no hook.\<close>

definition Modules_RetireModule ::
    "az_client \<Rightarrow> string \<Rightarrow> (world, string list) op option \<Rightarrow> req_context \<Rightarrow> time \<Rightarrow> id_source \<Rightarrow> string \<Rightarrow> (world, string list) op" where
  "Modules_RetireModule C platform hook ctx now ids name =
     (let sys = system_ctx ctx in
      bind_op (on_db (Store_ModuleRoleDefs name)) (\<lambda>before.
      seq_op (try_op (on_db (Store_RetireModule now name)) (\<lambda>r.
        case r of Inl e \<Rightarrow> throw (if e = ErrNotFound then ErrUnknownModule else e) | Inr _ \<Rightarrow> ret ()))
     (bind_op (on_db (Store_ModuleRoleDefs name)) (\<lambda>defs.
      bind_op (case hook of None \<Rightarrow> ret [] | Some t \<Rightarrow> t) (\<lambda>tenants.
      seq_op (for_op tenants (\<lambda>tid. bind_op (syncRoles C sys now ids tid name defs) (\<lambda>_. ret ())))
     (let gone = filter (\<lambda>d. md_RetiredAt d = None) before in
      seq_op (for_op gone (\<lambda>_. module_event (platform_events_to platform tenants) ''module_role_retired'' ''operator'' ''module_role'' ''''
                ''module_retired''))
        (ret (map md_Slug gone))))))))"

end
