(* ===== verification/Authz_Verify.thy ===== *)
theory Authz_Verify
  imports Authz_Modules
begin

text \<open>
  Verification of the move from legacy to module-scoped permissions and the removal of the legacy
  ones (\<open>internal/authz/verify.go\<close>), with \<open>ListActiveMemberIDs\<close> of the store.
\<close>

section \<open>Reports\<close>

definition FindingLoss :: string where "FindingLoss = ''loss''"
definition FindingPending :: string where "FindingPending = ''pending''"
definition FindingDrift :: string where "FindingDrift = ''drift''"
definition FindingReview :: string where "FindingReview = ''review''"
definition FindingGain :: string where "FindingGain = ''gain''"

record finding =
  fi_Tenant :: string
  fi_Kind :: string
  fi_Role :: string
  fi_User :: string
  fi_Permission :: string

record report =
  rp_Tenants :: nat
  rp_Findings :: "finding list"

definition count_kind :: "string \<Rightarrow> report \<Rightarrow> nat" where
  "count_kind kind rep = length (filter (\<lambda>f. fi_Kind f = kind) (rp_Findings rep))"

definition Losses :: "report \<Rightarrow> nat" where "Losses rep = count_kind FindingLoss rep"

definition Clean :: "report \<Rightarrow> bool" where
  "Clean rep \<longleftrightarrow> count_kind FindingLoss rep = 0 \<and> count_kind FindingPending rep = 0 \<and> count_kind FindingDrift rep = 0"

section \<open>The state of a tenant\<close>

definition active_ids :: "memstore \<Rightarrow> string \<Rightarrow> string \<Rightarrow> string list" where
  "active_ids m tid after =
     sort (map us_ID (filter (\<lambda>u. us_TenantID u = tid \<and> us_Status u = ''active'' \<and> after < us_ID u) (map snd (Users m))))"

text \<open>\<open>ListActiveMemberIDs\<close> with no ids asked for, as this package calls it.\<close>

definition Store_ListActiveMemberIDs :: "string \<Rightarrow> string \<Rightarrow> nat \<Rightarrow> (memstore, string list) op" where
  "Store_ListActiveMemberIDs tid after limit m = (Inr (take limit (active_ids m tid after)), m)"

record tenant_state =
  ts_scopedBy :: "(string \<times> string list) list"
  ts_legacy :: "perm_ref list"
  ts_roles :: "role list"
  ts_grants :: "(string \<times> perm_ref list) list"
  ts_users :: "(string \<times> perm_ref list) list"

text \<open>The modules that register a permission under their name, by its short form.\<close>

definition scoped_by :: "perm_ref list \<Rightarrow> (string \<times> string list) list" where
  "scoped_by refs =
     map (\<lambda>(k, ms). (k, sort ms))
       (fold (\<lambda>p acc. if IsLegacy p then acc else AList.update (Short p) (get_list acc (Short p) @ [ref_module p]) acc) refs [])"

fun load_grants :: "string \<Rightarrow> role list \<Rightarrow> (world, (string \<times> perm_ref list) list) op" where
  "load_grants tid [] = ret []"
| "load_grants tid (r # rs) =
     bind_op (on_db (Store_RolePermissions tid (ro_ID r))) (\<lambda>ps.
     bind_op (load_grants tid rs) (\<lambda>grants. ret ((ro_ID r, remdups ps) # grants)))"

fun load_users :: "string \<Rightarrow> (string \<times> perm_ref list) list \<Rightarrow> string list \<Rightarrow> (world, (string \<times> perm_ref list) list) op" where
  "load_users tid grants [] = ret []"
| "load_users tid grants (uid # uids) =
     bind_op (on_db (Store_EffectiveRoles tid uid)) (\<lambda>rows.
     bind_op (load_users tid grants uids) (\<lambda>users.
     ret ((uid, remdups (concat (map (\<lambda>row. get_list grants (ef_RoleID row)) rows))) # users)))"

definition MembersPerPage :: nat where "MembersPerPage = 1000"

text \<open>
  The loop over the members.  Each page starts after the last id of the page before, so the number
  of members still to come decreases.
\<close>

lemma active_ids_shrink:
  assumes "x \<in> set (active_ids m tid after)"
  shows "length (active_ids m tid x) < length (active_ids m tid after)"
proof -
  let ?us = "filter (\<lambda>u. us_TenantID u = tid \<and> us_Status u = ''active'' \<and> after < us_ID u) (map snd (Users m))"
  from assms obtain u where u: "u \<in> set ?us" "us_ID u = x" by (auto simp: active_ids_def)
  have "filter (\<lambda>u. us_TenantID u = tid \<and> us_Status u = ''active'' \<and> x < us_ID u) (map snd (Users m))
      = filter (\<lambda>u. x < us_ID u) ?us"
    using u by (auto simp: filter_filter intro!: filter_cong)
  moreover have "length (filter (\<lambda>u. x < us_ID u) ?us) < length ?us"
    by (rule length_filter_less [OF u(1)]) (simp add: u(2))
  ultimately show ?thesis by (simp add: active_ids_def)
qed

lemma load_users_db: "load_users tid grants uids w = (Inr us, w') \<Longrightarrow> db w' = db w"
proof (induction uids arbitrary: w us)
  case Nil
  then show ?case by (simp add: ret_def)
next
  case (Cons uid uids)
  from Cons.prems obtain rows w1 where rows: "on_db (Store_EffectiveRoles tid uid) w = (Inr rows, w1)"
    by (auto simp: bind_op_def split: prod.splits sum.splits)
  with Cons.prems obtain us' where "load_users tid grants uids w1 = (Inr us', w')"
    by (auto simp: bind_op_def ret_def split: prod.splits sum.splits)
  with Cons.IH have "db w' = db w1" by blast
  also have "\<dots> = db w" by (rule on_db_read(1) [OF rows]) (simp add: Store_EffectiveRoles_def Let_def)
  finally show ?case .
qed

lemma member_page_shrinks:
  assumes ids: "on_db (Store_ListActiveMemberIDs tid after MembersPerPage) w = (Inr ids, w1)"
    and us: "load_users tid grants ids w1 = (Inr us, w2)" and full: "\<not> length ids < MembersPerPage"
  shows "length (active_ids (db w2) tid (last ids)) < length (active_ids (db w) tid after)"
proof -
  have same: "db w1 = db w" by (rule on_db_read(1) [OF ids]) (simp add: Store_ListActiveMemberIDs_def)
  have "fst (Store_ListActiveMemberIDs tid after MembersPerPage (db w)) = Inr ids"
    by (rule on_db_read(2) [OF ids]) (simp add: Store_ListActiveMemberIDs_def)
  then have eq: "ids = take MembersPerPage (active_ids (db w) tid after)" by (simp add: Store_ListActiveMemberIDs_def)
  moreover have "ids \<noteq> []" using full by (auto simp: MembersPerPage_def)
  ultimately have "last ids \<in> set (active_ids (db w) tid after)" using last_in_set in_set_takeD by metis
  from active_ids_shrink [OF this] load_users_db [OF us] same show ?thesis by simp
qed

function load_members :: "string \<Rightarrow> (string \<times> perm_ref list) list \<Rightarrow> string \<Rightarrow> (world, (string \<times> perm_ref list) list) op" where
  "load_members tid grants after w =
     (case on_db (Store_ListActiveMemberIDs tid after MembersPerPage) w of
        (Inl e, w1) \<Rightarrow> (Inl e, w1)
      | (Inr ids, w1) \<Rightarrow>
          (case load_users tid grants ids w1 of
             (Inl e, w2) \<Rightarrow> (Inl e, w2)
           | (Inr us, w2) \<Rightarrow>
               if length ids < MembersPerPage then (Inr us, w2)
               else
                 (case load_members tid grants (last ids) w2 of
                    (Inl e, w3) \<Rightarrow> (Inl e, w3)
                  | (Inr vs, w3) \<Rightarrow> (Inr (us @ vs), w3))))"
  by pat_completeness auto
termination
  by (relation "measure (\<lambda>(tid, grants, after, w). length (active_ids (db w) tid after))") (auto intro: member_page_shrinks [OF sym sym])

declare load_members.simps [simp del]

definition load :: "string \<Rightarrow> (world, tenant_state) op" where
  "load tid =
     bind_op (known_refs tid) (\<lambda>refs.
     bind_op (on_db (Store_ListRoles tid)) (\<lambda>roles.
     bind_op (load_grants tid roles) (\<lambda>grants.
     bind_op (load_members tid grants '''') (\<lambda>users.
     ret \<lparr>ts_scopedBy = scoped_by refs, ts_legacy = remdups (filter IsLegacy refs), ts_roles = roles, ts_grants = grants,
          ts_users = users\<rparr>))))"

definition sortedRefs :: "perm_ref list \<Rightarrow> perm_ref list" where "sortedRefs refs = sort_key Ref_String refs"

definition sortedKeys :: "(string \<times> 'v) list \<Rightarrow> string list" where "sortedKeys m = sort (remdups (map fst m))"

section \<open>Verify\<close>

definition finding_of :: "string \<Rightarrow> string \<Rightarrow> string \<Rightarrow> string \<Rightarrow> perm_ref \<Rightarrow> finding" where
  "finding_of tid kind role_slug uid p =
     \<lparr>fi_Tenant = tid, fi_Kind = kind, fi_Role = role_slug, fi_User = uid, fi_Permission = Ref_String p\<rparr>"

text \<open>The scoped forms of a legacy permission that are missing among the grants.\<close>

definition missing_scoped :: "tenant_state \<Rightarrow> perm_ref list \<Rightarrow> perm_ref \<Rightarrow> perm_ref list" where
  "missing_scoped s grants g =
     filter (\<lambda>p. \<not> List.member grants p) (map (WithModule g) (get_list (ts_scopedBy s) (Short g)))"

definition role_findings :: "string \<Rightarrow> tenant_state \<Rightarrow> role \<Rightarrow> finding list" where
  "role_findings tid s r =
     (let grants = get_list (ts_grants s) (ro_ID r) in
      concat (map (\<lambda>g.
        if \<not> IsLegacy g then []
        else (if get_list (ts_scopedBy s) (Short g) = [] then [finding_of tid FindingPending (ro_Slug r) '''' g] else [])
          @ map (finding_of tid FindingLoss (ro_Slug r) '''') (missing_scoped s grants g)) (sortedRefs grants))
      @ (if OriginOf r = OriginCustom \<and> (ro_Slug r = ''operator'' \<or> ro_Slug r = ''auditor'') then
           map (finding_of tid FindingReview (ro_Slug r) '''') (take 1 (filter (\<lambda>g. \<not> IsLegacy g) (sortedRefs grants)))
         else []))"

definition user_losses :: "string \<Rightarrow> tenant_state \<Rightarrow> string \<Rightarrow> finding list" where
  "user_losses tid s uid =
     (let eff = get_list (ts_users s) uid in
      concat (map (\<lambda>g. if \<not> IsLegacy g then [] else map (finding_of tid FindingLoss '''' uid) (missing_scoped s eff g)) (sortedRefs eff)))"

text \<open>The scoped grants of a sampled user that the backend does not confirm.\<close>

function drifts :: "az_client \<Rightarrow> req_context \<Rightarrow> string \<Rightarrow> string \<Rightarrow> perm_ref list \<Rightarrow> (world, finding list) op" where
  "drifts C sys tid uid refs =
     (if refs = [] then ret []
      else
        bind_op (AllowedMany C sys tid uid (take MaxTuplesPerWrite refs)) (\<lambda>held.
        bind_op (drifts C sys tid uid (drop MaxTuplesPerWrite refs)) (\<lambda>fs.
        ret (map (\<lambda>(p, _). finding_of tid FindingDrift '''' uid p)
               (filter (\<lambda>(_, ok). \<not> ok) (zip (take MaxTuplesPerWrite refs) held)) @ fs))))"
  by pat_completeness auto
termination
  by (relation "measure (\<lambda>(C, sys, tid, uid, refs). length refs)") (simp_all add: MaxTuplesPerWrite_def)

declare drifts.simps [simp del]

fun user_findings :: "az_client \<Rightarrow> req_context \<Rightarrow> string \<Rightarrow> tenant_state \<Rightarrow> nat \<Rightarrow> string list \<Rightarrow> (world, finding list) op" where
  "user_findings C sys tid s sample [] = ret []"
| "user_findings C sys tid s sample (uid # uids) =
     bind_op (if sample = 0 then ret []
              else drifts C sys tid uid (filter (\<lambda>g. \<not> IsLegacy g) (sortedRefs (get_list (ts_users s) uid)))) (\<lambda>ds.
     bind_op (user_findings C sys tid s (sample - 1) uids) (\<lambda>fs. ret (user_losses tid s uid @ ds @ fs)))"

definition SampleUsers :: "int \<Rightarrow> nat" where "SampleUsers n = (if n \<le> 0 then 50 else nat n)"

definition tenant_findings :: "az_client \<Rightarrow> int \<Rightarrow> req_context \<Rightarrow> string \<Rightarrow> (world, finding list) op" where
  "tenant_findings C sample ctx tid =
     bind_op (load tid) (\<lambda>s.
     bind_op (user_findings C (system_ctx ctx) tid s (SampleUsers sample) (sortedKeys (ts_users s))) (\<lambda>fs.
     ret (concat (map (role_findings tid s) (ts_roles s)) @ fs)))"

fun concat_op :: "('a \<Rightarrow> (world, 'b list) op) \<Rightarrow> 'a list \<Rightarrow> (world, 'b list) op" where
  "concat_op f [] = ret []"
| "concat_op f (x # xs) = bind_op (f x) (\<lambda>ys. bind_op (concat_op f xs) (\<lambda>zs. ret (ys @ zs)))"

definition Permissions_Verify :: "az_client \<Rightarrow> int \<Rightarrow> req_context \<Rightarrow> string list \<Rightarrow> (world, report) op" where
  "Permissions_Verify C sample ctx tenants =
     bind_op (concat_op (tenant_findings C sample ctx) tenants) (\<lambda>fs. ret \<lparr>rp_Tenants = length tenants, rp_Findings = fs\<rparr>)"

section \<open>Snapshots\<close>

fun Snapshot :: "string list \<Rightarrow> (world, (string \<times> (string \<times> string list) list) list) op" where
  "Snapshot [] = ret []"
| "Snapshot (tid # tids) =
     bind_op (load tid) (\<lambda>s.
     bind_op (Snapshot tids) (\<lambda>rest.
     let users = filter (\<lambda>(_, refs). refs \<noteq> []) (map (\<lambda>(uid, eff). (uid, refsOf (sortedRefs eff))) (ts_users s)) in
     ret ((tid, users) # rest)))"

text \<open>A permission a user had and has no more, neither itself nor, for a legacy one, its scoped forms.\<close>

definition lost_permission :: "tenant_state \<Rightarrow> perm_ref list \<Rightarrow> perm_ref \<Rightarrow> bool" where
  "lost_permission s cur p \<longleftrightarrow>
     \<not> List.member cur p
     \<and> \<not> (IsLegacy p \<and> get_list (ts_scopedBy s) (Short p) \<noteq> []
          \<and> list_all (\<lambda>m. List.member cur (WithModule p m)) (get_list (ts_scopedBy s) (Short p)))"

definition compare_user :: "string \<Rightarrow> tenant_state \<Rightarrow> string \<Rightarrow> string list \<Rightarrow> finding list result" where
  "compare_user tid s uid texts =
     (case those (map (\<lambda>t. case ParsePermissionRef t of Inr p \<Rightarrow> Some p | Inl _ \<Rightarrow> None) texts) of
        None \<Rightarrow> Inl ErrAuthzMalformed
      | Some had \<Rightarrow>
          let cur = get_list (ts_users s) uid in
          Inr (map (finding_of tid FindingLoss '''' uid) (filter (lost_permission s cur) had)
            @ map (finding_of tid FindingGain '''' uid)
                (filter (\<lambda>p. \<not> (List.member had p \<or> (\<not> IsLegacy p \<and> List.member had (p\<lparr>ref_module := ''''\<rparr>)))) (sortedRefs cur))))"

definition compare_tenant :: "string \<Rightarrow> (string \<times> string list) list \<Rightarrow> (world, finding list) op" where
  "compare_tenant tid users =
     bind_op (load tid) (\<lambda>s.
     concat_op (\<lambda>uid. of_result (compare_user tid s uid (get_list users uid))) (sortedKeys users))"

definition Compare :: "(string \<times> (string \<times> string list) list) list \<Rightarrow> (world, report) op" where
  "Compare before =
     bind_op (concat_op (\<lambda>tid. compare_tenant tid (get_list before tid)) (sortedKeys before)) (\<lambda>fs.
     ret \<lparr>rp_Tenants = length (sortedKeys before), rp_Findings = fs\<rparr>)"

section \<open>Removal of the legacy permissions\<close>

record prune_result =
  pu_Tenants :: nat
  pu_Permissions :: nat
  pu_Grants :: nat

abbreviation ErrPruneRefused :: err where "ErrPruneRefused \<equiv> Sentinel ''authz.ErrPruneRefused''"

definition legacy_grants :: "string \<Rightarrow> tenant_state \<Rightarrow> fga_tuple list" where
  "legacy_grants tid s =
     concat (map (\<lambda>r. map (GrantTuple tid (ro_Slug r)) (filter IsLegacy (sortedRefs (get_list (ts_grants s) (ro_ID r))))) (ts_roles s))"

definition prune_tenant :: "az_client \<Rightarrow> req_context \<Rightarrow> time \<Rightarrow> string \<Rightarrow> tenant_state \<Rightarrow> (world, unit) op" where
  "prune_tenant C ctx now tid s =
     seq_op (Client_Write C (system_ctx ctx) now tid []
               (legacy_grants tid s @ map (PermissionTenantTuple tid) (sortedRefs (ts_legacy s))))
    (bind_op (on_db (Store_DeleteLegacyPermissions tid)) (\<lambda>_.
     emit (event ''permission_pruned'' tid ''operator'' '''' '''' '''' ''ok'' ''cli_prune_legacy'')))"

fun prune_tenants :: "az_client \<Rightarrow> req_context \<Rightarrow> time \<Rightarrow> bool \<Rightarrow> string list \<Rightarrow> prune_result \<Rightarrow> (world, prune_result) op" where
  "prune_tenants C ctx now dryRun [] res = ret res"
| "prune_tenants C ctx now dryRun (tid # tids) res =
     bind_op (load tid) (\<lambda>s.
     let grants = length (legacy_grants tid s); legacy = length (ts_legacy s);
         res' = res\<lparr>pu_Permissions := pu_Permissions res + legacy, pu_Grants := pu_Grants res + grants\<rparr> in
     if legacy = 0 \<and> grants = 0 then prune_tenants C ctx now dryRun tids res'
     else
       seq_op (if dryRun then ret () else prune_tenant C ctx now tid s)
         (prune_tenants C ctx now dryRun tids (res'\<lparr>pu_Tenants := Suc (pu_Tenants res')\<rparr>)))"

definition PruneLegacy :: "az_client \<Rightarrow> int \<Rightarrow> req_context \<Rightarrow> time \<Rightarrow> string list \<Rightarrow> bool \<Rightarrow> (world, prune_result) op" where
  "PruneLegacy C sample ctx now tenants dryRun =
     bind_op (Permissions_Verify C sample ctx tenants) (\<lambda>rep.
     seq_op (check_op (Clean rep) ErrPruneRefused)
       (prune_tenants C ctx now dryRun tenants \<lparr>pu_Tenants = 0, pu_Permissions = 0, pu_Grants = 0\<rparr>))"

end
