(* ===== verification/Authz_Model.thy ===== *)
theory Authz_Model
  imports Authz_Verify Store_Facts
begin

text \<open>
  The authorization model (\<open>internal/authz/model.fga\<close>) as an inductive relation, and the in-memory
  backend as its implementation.  The chunked writes of the OpenFGA backend are one write.
\<close>

section \<open>The model\<close>

definition of_type :: "string \<Rightarrow> string \<Rightarrow> bool" where
  "of_type typ obj \<longleftrightarrow> has_prefix obj (typ @ '':'')"

definition userset :: "string \<Rightarrow> string \<Rightarrow> string" where
  "userset obj relation = obj @ ''#'' @ relation"

text \<open>The tuples the model admits: the directly related types of each relation.\<close>

definition tuple_typed :: "fga_tuple \<Rightarrow> bool" where
  "tuple_typed t \<longleftrightarrow>
     (of_type ''tenant'' (tu_Object t) \<and> List.member [''owner'', ''admin'', ''member''] (tu_Relation t) \<and> of_type ''user'' (tu_User t))
     \<or> (of_type ''group'' (tu_Object t) \<and> tu_Relation t = ''member'' \<and> of_type ''user'' (tu_User t))
     \<or> (of_type ''role'' (tu_Object t) \<and> tu_Relation t = ''assignee''
          \<and> (of_type ''user'' (tu_User t) \<or> of_type ''group'' (tu_User t) \<and> cut_suffix ''#member'' (tu_User t) \<noteq> None))
     \<or> (of_type ''permission'' (tu_Object t) \<and> tu_Relation t = ''granted''
          \<and> of_type ''role'' (tu_User t) \<and> cut_suffix ''#assignee'' (tu_User t) \<noteq> None)
     \<or> (list_ex (\<lambda>typ. of_type typ (tu_Object t)) [''group'', ''role'', ''permission''] \<and> tu_Relation t = ''tenant''
          \<and> of_type ''tenant'' (tu_User t))"

inductive related :: "fga_tuple set \<Rightarrow> string \<Rightarrow> string \<Rightarrow> string \<Rightarrow> bool" for T where
  stored: "Tuple u r obj \<in> T \<Longrightarrow> related T u r obj"
| owner_admin: "of_type ''tenant'' obj \<Longrightarrow> related T u ''owner'' obj \<Longrightarrow> related T u ''admin'' obj"
| admin_member: "of_type ''tenant'' obj \<Longrightarrow> related T u ''admin'' obj \<Longrightarrow> related T u ''member'' obj"
| group_assignee: "of_type ''role'' obj \<Longrightarrow> of_type ''group'' g \<Longrightarrow> Tuple (userset g ''member'') ''assignee'' obj \<in> T
    \<Longrightarrow> related T u ''member'' g \<Longrightarrow> related T u ''assignee'' obj"
| role_granted: "of_type ''permission'' obj \<Longrightarrow> of_type ''role'' g \<Longrightarrow> Tuple (userset g ''assignee'') ''granted'' obj \<in> T
    \<Longrightarrow> related T u ''assignee'' g \<Longrightarrow> related T u ''granted'' obj"

section \<open>The backend implements the model\<close>

lemma Tuple_eta [simp]: "Tuple (tu_User t) (tu_Relation t) (tu_Object t) = t"
  by (simp add: Tuple_def)

lemma Tuple_sel [simp]: "tu_User (Tuple u r obj) = u" "tu_Relation (Tuple u r obj) = r" "tu_Object (Tuple u r obj) = obj"
  by (simp_all add: Tuple_def)

lemma cut_suffix_userset: "cut_suffix (CHR ''#'' # r) u = Some g \<longleftrightarrow> u = userset g r"
  by (simp add: cut_suffix_Some_iff userset_def)

lemma check_via:
  "list_ex (\<lambda>k. tu_Object k = obj \<and> tu_Relation k = r
      \<and> (case cut_suffix (CHR ''#'' # r') (tu_User k) of None \<Rightarrow> False | Some g \<Rightarrow> P g)) ts
    \<longleftrightarrow> (\<exists>g. Tuple (userset g r') r obj \<in> set ts \<and> P g)"
proof
  assume "list_ex (\<lambda>k. tu_Object k = obj \<and> tu_Relation k = r
      \<and> (case cut_suffix (CHR ''#'' # r') (tu_User k) of None \<Rightarrow> False | Some g \<Rightarrow> P g)) ts"
  then obtain k g where k: "k \<in> set ts" "tu_Object k = obj" "tu_Relation k = r" "cut_suffix (CHR ''#'' # r') (tu_User k) = Some g" "P g"
    by (auto simp: list_ex_iff split: option.splits)
  then have "k = Tuple (userset g r') r obj" by (simp add: cut_suffix_userset Tuple_def)
  with k show "\<exists>g. Tuple (userset g r') r obj \<in> set ts \<and> P g" by (intro exI [of _ g]) simp
next
  assume "\<exists>g. Tuple (userset g r') r obj \<in> set ts \<and> P g"
  then obtain g where g: "Tuple (userset g r') r obj \<in> set ts" "P g" by blast
  moreover have "cut_suffix (CHR ''#'' # r') (userset g r') = Some g" by (simp add: cut_suffix_userset)
  ultimately show "list_ex (\<lambda>k. tu_Object k = obj \<and> tu_Relation k = r
      \<and> (case cut_suffix (CHR ''#'' # r') (tu_User k) of None \<Rightarrow> False | Some g \<Rightarrow> P g)) ts"
    by (auto simp: list_ex_iff intro!: bexI [of _ "Tuple (userset g r') r obj"])
qed

text \<open>What the backend answers for each relation.\<close>

lemma check_owner: "fga_check ts (Tuple u ''owner'' obj) \<longleftrightarrow> Tuple u ''owner'' obj \<in> set ts"
  by (subst fga_check.simps) simp

lemma check_admin: "fga_check ts (Tuple u ''admin'' obj) \<longleftrightarrow> Tuple u ''admin'' obj \<in> set ts \<or> fga_check ts (Tuple u ''owner'' obj)"
  by (subst fga_check.simps) simp

lemma check_member:
  "fga_check ts (Tuple u ''member'' obj)
    \<longleftrightarrow> Tuple u ''member'' obj \<in> set ts \<or> of_type ''tenant'' obj \<and> fga_check ts (Tuple u ''admin'' obj)"
  by (subst fga_check.simps) (simp add: of_type_def)

lemma check_assignee:
  "fga_check ts (Tuple u ''assignee'' obj)
    \<longleftrightarrow> Tuple u ''assignee'' obj \<in> set ts
      \<or> (\<exists>g. Tuple (userset g ''member'') ''assignee'' obj \<in> set ts \<and> fga_check ts (Tuple u ''member'' g))"
  by (subst fga_check.simps) (simp add: check_via)

lemma check_granted:
  "fga_check ts (Tuple u ''granted'' obj)
    \<longleftrightarrow> Tuple u ''granted'' obj \<in> set ts
      \<or> (\<exists>g. Tuple (userset g ''assignee'') ''granted'' obj \<in> set ts \<and> fga_check ts (Tuple u ''assignee'' g))"
  by (subst fga_check.simps) (simp add: check_via)

lemma check_other:
  "\<not> List.member [''admin'', ''member'', ''assignee'', ''granted''] r \<Longrightarrow> fga_check ts (Tuple u r obj) \<longleftrightarrow> Tuple u r obj \<in> set ts"
  by (subst fga_check.simps) auto

lemmas check_relation = check_owner check_admin check_member check_assignee check_granted check_other

text \<open>Tuples the model does not admit are not stored.\<close>

lemma typed_relation:
  assumes "list_all tuple_typed ts" "t \<in> set ts"
  shows "tu_Relation t = ''owner'' \<or> tu_Relation t = ''admin'' \<Longrightarrow> of_type ''tenant'' (tu_Object t)"
    and "tu_Relation t = ''member'' \<Longrightarrow> of_type ''tenant'' (tu_Object t) \<or> of_type ''group'' (tu_Object t)"
    and "tu_Relation t = ''assignee'' \<Longrightarrow> of_type ''role'' (tu_Object t) \<and> (of_type ''user'' (tu_User t) \<or> of_type ''group'' (tu_User t))"
    and "tu_Relation t = ''granted'' \<Longrightarrow> of_type ''permission'' (tu_Object t) \<and> of_type ''role'' (tu_User t)"
  using assms by (auto simp: list_all_iff tuple_typed_def)

lemma of_type_userset:
  assumes "CHR ''#'' \<notin> set typ"
  shows "of_type typ (userset g r) \<longleftrightarrow> of_type typ g"
proof
  assume "of_type typ (userset g r)"
  then obtain t where "typ @ '':'' @ t = g @ ''#'' @ r" by (auto simp: of_type_def has_prefix_iff userset_def)
  then obtain v where "typ @ '':'' = g @ v \<and> v @ t = ''#'' @ r \<or> (typ @ '':'') @ v = g \<and> t = v @ ''#'' @ r"
    using append_eq_append_conv2 [of "typ @ '':''" t g "''#'' @ r"] by auto
  then show "of_type typ g"
  proof
    assume "typ @ '':'' = g @ v \<and> v @ t = ''#'' @ r"
    then have v: "typ @ '':'' = g @ v" "v @ t = ''#'' @ r" by auto
    show ?thesis
    proof (cases v)
      case Nil
      with v show ?thesis by (auto simp: of_type_def has_prefix_iff)
    next
      case (Cons c cs)
      with v(2) have "c = CHR ''#''" by simp
      then have "CHR ''#'' \<in> set (typ @ '':'')" using v(1) Cons by simp
      with assms show ?thesis by simp
    qed
  next
    assume "(typ @ '':'') @ v = g \<and> t = v @ ''#'' @ r"
    then show ?thesis by (auto simp: of_type_def has_prefix_iff)
  qed
qed (auto simp: of_type_def has_prefix_iff userset_def)

lemma of_type_unique: "of_type ''user'' g \<Longrightarrow> \<not> of_type ''tenant'' g \<and> \<not> of_type ''group'' g"
  by (auto simp: of_type_def has_prefix_iff)

lemma group_userset:
  assumes ts: "list_all tuple_typed ts" and k: "Tuple (userset g ''member'') ''assignee'' obj \<in> set ts"
    and u: "fga_check ts (Tuple u ''member'' g)"
  shows "of_type ''role'' obj" and "of_type ''group'' g"
proof -
  from u ts have "of_type ''tenant'' g \<or> of_type ''group'' g"
    using typed_relation(2) [OF ts, of "Tuple u ''member'' g"] by (auto simp: check_member)
  then have "\<not> of_type ''user'' g" using of_type_unique by blast
  then show "of_type ''role'' obj" "of_type ''group'' g"
    using typed_relation(3) [OF ts k] by (simp_all add: of_type_userset)
qed

lemma role_userset:
  assumes ts: "list_all tuple_typed ts" and k: "Tuple (userset g ''assignee'') ''granted'' obj \<in> set ts"
  shows "of_type ''permission'' obj" and "of_type ''role'' g"
  using typed_relation(4) [OF ts k] by (simp_all add: of_type_userset)

lemma related_check: "related (set ts) u r obj \<Longrightarrow> fga_check ts (Tuple u r obj)"
proof (induction rule: related.induct)
  case (stored u r obj)
  then show ?case by (subst fga_check.simps) simp
qed (auto simp: check_admin check_member check_assignee check_granted)

lemma check_related:
  assumes ts: "list_all tuple_typed ts"
  shows "fga_check ts (Tuple u r obj) \<Longrightarrow> related (set ts) u r obj"
proof -
  have own: "fga_check ts (Tuple u ''owner'' obj) \<Longrightarrow> related (set ts) u ''owner'' obj \<and> of_type ''tenant'' obj" for u obj
    using typed_relation(1) [OF ts, of "Tuple u ''owner'' obj"] by (simp add: check_owner related.stored)
  have adm: "fga_check ts (Tuple u ''admin'' obj) \<Longrightarrow> related (set ts) u ''admin'' obj" for u obj
    using own by (auto simp: check_admin intro: related.intros)
  have mem: "fga_check ts (Tuple u ''member'' obj) \<Longrightarrow> related (set ts) u ''member'' obj" for u obj
    using adm by (auto simp: check_member intro: related.intros)
  have asg: "fga_check ts (Tuple u ''assignee'' obj) \<Longrightarrow> related (set ts) u ''assignee'' obj" for u obj
    by (metis check_assignee group_userset [OF ts] mem related.group_assignee related.stored)
  have gra: "fga_check ts (Tuple u ''granted'' obj) \<Longrightarrow> related (set ts) u ''granted'' obj" for u obj
    by (metis check_granted role_userset [OF ts] asg related.role_granted related.stored)
  show "fga_check ts (Tuple u r obj) \<Longrightarrow> related (set ts) u r obj"
  proof (cases "List.member [''admin'', ''member'', ''assignee'', ''granted''] r")
    case True
    then show "fga_check ts (Tuple u r obj) \<Longrightarrow> related (set ts) u r obj" using adm mem asg gra by auto
  next
    case False
    then show "fga_check ts (Tuple u r obj) \<Longrightarrow> related (set ts) u r obj"
      using check_other [OF False] related.stored by metis
  qed
qed

text \<open>Every tuple the services write is one the model admits.\<close>

lemma tuples_typed [simp]:
  "tuple_typed (RoleTenantTuple tid slug)" "tuple_typed (RoleAssignmentTuple tid slug uid)"
  "tuple_typed (GroupTenantTuple tid gid)" "tuple_typed (GroupMembershipTuple tid gid uid)"
  "tuple_typed (GroupRoleTuple tid gid slug)" "tuple_typed (PermissionTenantTuple tid p)" "tuple_typed (GrantTuple tid slug p)"
  "tuple_typed (MembershipTuple tid uid ''owner'')" "tuple_typed (MembershipTuple tid uid ''admin'')"
  "tuple_typed (MembershipTuple tid uid ''member'')"
proof -
  have suffix: "cut_suffix ''#member'' (GroupMembers tid gid) = Some (GroupObject tid gid)"
    "cut_suffix ''#assignee'' (RoleAssignees tid slug) = Some (RoleObject tid slug)"
    by (simp_all add: cut_suffix_Some_iff GroupMembers_def RoleAssignees_def)
  have types: "of_type ''user'' (UserObject uid)" "of_type ''tenant'' (TenantObject tid)" "of_type ''role'' (RoleObject tid slug)"
    "of_type ''role'' (RoleAssignees tid slug)" "of_type ''group'' (GroupObject tid gid)" "of_type ''group'' (GroupMembers tid gid)"
    "of_type ''permission'' (PermissionObject tid p)"
    by (simp_all add: of_type_def has_prefix_iff UserObject_def TenantObject_def RoleObject_def RoleAssignees_def GroupObject_def
        GroupMembers_def PermissionObject_def Object_def)
  show "tuple_typed (RoleTenantTuple tid slug)" "tuple_typed (RoleAssignmentTuple tid slug uid)"
    "tuple_typed (GroupTenantTuple tid gid)" "tuple_typed (GroupMembershipTuple tid gid uid)"
    "tuple_typed (GroupRoleTuple tid gid slug)" "tuple_typed (PermissionTenantTuple tid p)" "tuple_typed (GrantTuple tid slug p)"
    "tuple_typed (MembershipTuple tid uid ''owner'')" "tuple_typed (MembershipTuple tid uid ''admin'')"
    "tuple_typed (MembershipTuple tid uid ''member'')"
    by (simp_all add: tuple_typed_def types suffix RoleTenantTuple_def RoleAssignmentTuple_def GroupTenantTuple_def
        GroupMembershipTuple_def GroupRoleTuple_def PermissionTenantTuple_def GrantTuple_def MembershipTuple_def)
qed

text \<open>
  C15: The in-memory backend implements the authorization model: on tuples the model admits, a check
  answers yes exactly when the relation can be derived from the stored tuples by the rules of
  \<open>model.fga\<close>, that is by ownership and administration of the tenant, membership of a group that has
  the role, and assignment of a role that has the grant.
\<close>

theorem backend_implements_model:
  assumes "list_all tuple_typed ts"
  shows "fga_check ts (Tuple u r obj) \<longleftrightarrow> related (set ts) u r obj"
  using check_related [OF assms] related_check by blast

definition model_example :: "fga_tuple list" where
  "model_example =
     [GroupMembershipTuple ''T'' ''G'' ''U'', GroupRoleTuple ''T'' ''G'' ''auditor'',
      GrantTuple ''T'' ''auditor'' \<lparr>ref_module = ''billing'', ref_resource = ''invoices'', ref_action = ''read''\<rparr>]"

theorem backend_implements_model_witness:
  "list_all tuple_typed model_example
   \<and> related (set model_example) ''user:U'' ''granted'' ''permission:T/billing~invoices~read''
   \<and> \<not> related (set model_example) ''user:V'' ''granted'' ''permission:T/billing~invoices~read''"
proof -
  have typed: "list_all tuple_typed model_example" by (simp add: model_example_def)
  have "fga_check model_example (Tuple ''user:U'' ''granted'' ''permission:T/billing~invoices~read'')"
    "\<not> fga_check model_example (Tuple ''user:V'' ''granted'' ''permission:T/billing~invoices~read'')" by code_simp+
  with typed show ?thesis by (simp add: backend_implements_model [OF typed])
qed

section \<open>Chunked writes\<close>

definition apply_request :: "write_request \<Rightarrow> fga_tuple set \<Rightarrow> fga_tuple set" where
  "apply_request req T = (T \<union> set (fst req)) - set (snd req)"

abbreviation put_add :: "fga_tuple \<Rightarrow> write_request \<Rightarrow> write_request" where "put_add t \<equiv> \<lambda>(a, r). (a @ [t], r)"
abbreviation put_remove :: "fga_tuple \<Rightarrow> write_request \<Rightarrow> write_request" where "put_remove t \<equiv> \<lambda>(a, r). (a, r @ [t])"

definition request_size :: "write_request \<Rightarrow> nat" where "request_size req = length (fst req) + length (snd req)"

definition full_requests :: "write_request list \<Rightarrow> bool" where "full_requests out = list_all (\<lambda>req. request_size req = MaxTuplesPerWrite) out"

text \<open>
  Requests sent so far, followed by the current one, have the effect of all tuples seen so far; every
  request sent is full.
\<close>

lemma apply_request_pair: "apply_request (a, r) T = (T \<union> set a) - set r"
  by (simp add: apply_request_def)

lemma room_for_one: "Suc 0 \<le> MaxTuplesPerWrite" "0 < MaxTuplesPerWrite"
  unfolding MaxTuplesPerWrite_def by linarith+

lemma chunk_adds:
  assumes "chunk put_add ts cur n out = (cur', n', out')" "snd cur = []" "n = request_size cur" "n \<le> MaxTuplesPerWrite" "full_requests out"
  shows "snd cur' = [] \<and> n' = request_size cur' \<and> n' \<le> MaxTuplesPerWrite \<and> full_requests out'
    \<and> apply_request cur' (fold apply_request out' T) = apply_request cur (fold apply_request out T) \<union> set ts"
  using assms
proof (induction ts arbitrary: cur n out)
  case (Cons t ts)
  obtain a where cur: "cur = (a, [])" using Cons.prems(2) by (cases cur) simp
  show ?case
  proof (cases "n = MaxTuplesPerWrite")
    case True
    have "chunk put_add ts ([t], []) 1 (out @ [cur]) = (cur', n', out')" using Cons.prems(1) True by simp
    moreover have "full_requests (out @ [cur])" using Cons.prems(3,5) True by (simp add: full_requests_def)
    ultimately have "snd cur' = [] \<and> n' = request_size cur' \<and> n' \<le> MaxTuplesPerWrite \<and> full_requests out'
      \<and> apply_request cur' (fold apply_request out' T) = apply_request ([t], []) (fold apply_request (out @ [cur]) T) \<union> set ts"
      by (intro Cons.IH) (simp_all add: request_size_def, (use room_for_one in linarith)?)
    then show ?thesis by (simp add: apply_request_pair cur)
  next
    case False
    have "chunk put_add ts (a @ [t], []) (Suc n) out = (cur', n', out')" using Cons.prems(1) False cur by simp
    then have "snd cur' = [] \<and> n' = request_size cur' \<and> n' \<le> MaxTuplesPerWrite \<and> full_requests out'
      \<and> apply_request cur' (fold apply_request out' T) = apply_request (a @ [t], []) (fold apply_request out T) \<union> set ts"
      by (rule Cons.IH) (use Cons.prems False cur in \<open>simp_all add: request_size_def\<close>)
    then show ?thesis by (simp add: apply_request_pair cur)
  qed
qed simp

lemma chunk_removes:
  assumes "chunk put_remove ts cur n out = (cur', n', out')" "n = request_size cur" "n \<le> MaxTuplesPerWrite" "full_requests out"
  shows "n' = request_size cur' \<and> n' \<le> MaxTuplesPerWrite \<and> full_requests out'
    \<and> apply_request cur' (fold apply_request out' T) = apply_request cur (fold apply_request out T) - set ts"
  using assms
proof (induction ts arbitrary: cur n out)
  case (Cons t ts)
  obtain a r where cur: "cur = (a, r)" by (cases cur)
  show ?case
  proof (cases "n = MaxTuplesPerWrite")
    case True
    have "chunk put_remove ts ([], [t]) 1 (out @ [cur]) = (cur', n', out')" using Cons.prems(1) True by simp
    moreover have "full_requests (out @ [cur])" using Cons.prems(2,4) True by (simp add: full_requests_def)
    ultimately have "n' = request_size cur' \<and> n' \<le> MaxTuplesPerWrite \<and> full_requests out'
      \<and> apply_request cur' (fold apply_request out' T) = apply_request ([], [t]) (fold apply_request (out @ [cur]) T) - set ts"
      by (intro Cons.IH) (simp_all add: request_size_def, (use room_for_one in linarith)?)
    moreover have "apply_request ([], [t]) (fold apply_request (out @ [cur]) T) - set ts
        = apply_request cur (fold apply_request out T) - set (t # ts)"
      by (auto simp: apply_request_pair cur)
    ultimately show ?thesis by metis
  next
    case False
    have "chunk put_remove ts (a, r @ [t]) (Suc n) out = (cur', n', out')" using Cons.prems(1) False cur by simp
    then have "n' = request_size cur' \<and> n' \<le> MaxTuplesPerWrite \<and> full_requests out'
      \<and> apply_request cur' (fold apply_request out' T) = apply_request (a, r @ [t]) (fold apply_request out T) - set ts"
      by (rule Cons.IH) (use Cons.prems False cur in \<open>simp_all add: request_size_def\<close>)
    moreover have "apply_request (a, r @ [t]) (fold apply_request out T) - set ts
        = apply_request cur (fold apply_request out T) - set (t # ts)"
      by (auto simp: apply_request_pair cur)
    ultimately show ?thesis by metis
  qed
qed simp

lemma writeChunks_effect:
  "fold apply_request (writeChunks adds removes) T = (T \<union> set adds) - set removes
   \<and> list_all (\<lambda>req. 0 < request_size req \<and> request_size req \<le> MaxTuplesPerWrite) (writeChunks adds removes)"
proof -
  obtain c1 n1 o1 where c1: "chunk put_add adds ([], []) 0 [] = (c1, n1, o1)" by (metis prod_cases3)
  obtain c2 n2 o2 where c2: "chunk put_remove removes c1 n1 o1 = (c2, n2, o2)" by (metis prod_cases3)
  have start: "full_requests []" "request_size ([], []) = 0" by (simp_all add: full_requests_def request_size_def)
  note r1 = chunk_adds [OF c1, of T] note r2 = chunk_removes [OF c2, of T]
  have *: "n2 = request_size c2" "n2 \<le> MaxTuplesPerWrite" "full_requests o2"
    "apply_request c2 (fold apply_request o2 T) = (T \<union> set adds) - set removes"
    using r1 r2 start by (simp_all add: apply_request_pair)
  have chunks: "writeChunks adds removes = (if n2 > 0 then o2 @ [c2] else o2)"
    by (simp add: writeChunks_def c1 c2 Let_def)
  have full: "list_all (\<lambda>req. 0 < request_size req \<and> request_size req \<le> MaxTuplesPerWrite) o2"
    using *(3) by (simp add: full_requests_def list_all_iff room_for_one)
  show ?thesis
  proof (cases "n2 > 0")
    case True
    with * full chunks show ?thesis by simp
  next
    case False
    then have "c2 = ([], [])" using *(1) by (cases c2) (simp add: request_size_def)
    with * full chunks False show ?thesis by (simp add: apply_request_pair)
  qed
qed

text \<open>The requests hold only the tuples asked for.\<close>

definition within :: "fga_tuple set \<Rightarrow> fga_tuple set \<Rightarrow> write_request \<Rightarrow> bool" where
  "within A R req \<longleftrightarrow> set (fst req) \<subseteq> A \<and> set (snd req) \<subseteq> R"

lemma chunk_parts:
  assumes "chunk put ts cur n out = (cur', n', out')" "list_all (within A R) (out @ [cur])"
    and "\<And>t req. t \<in> set ts \<Longrightarrow> within A R req \<Longrightarrow> within A R (put t req)"
  shows "list_all (within A R) (out' @ [cur'])"
  using assms
proof (induction ts arbitrary: cur n out)
  case (Cons t ts)
  have put: "within A R req \<Longrightarrow> within A R (put t req)" for req using Cons.prems(3) by simp
  show ?case
  proof (cases "n = MaxTuplesPerWrite")
    case True
    then have c: "chunk put ts (put t ([], [])) 1 (out @ [cur]) = (cur', n', out')" using Cons.prems(1) by simp
    have "within A R ([], [])" by (simp add: within_def)
    with put Cons.prems(2) have "list_all (within A R) ((out @ [cur]) @ [put t ([], [])])" by simp
    with Cons.IH [OF c] Cons.prems(3) show ?thesis by simp
  next
    case False
    then have c: "chunk put ts (put t cur) (Suc n) out = (cur', n', out')" using Cons.prems(1) by simp
    with Cons.IH [OF c] Cons.prems(2,3) put show ?thesis by simp
  qed
qed simp

lemma writeChunks_parts: "list_all (within (set adds) (set removes)) (writeChunks adds removes)"
proof -
  let ?ok = "within (set adds) (set removes)"
  obtain c1 n1 o1 where c1: "chunk put_add adds ([], []) 0 [] = (c1, n1, o1)" by (metis prod_cases3)
  obtain c2 n2 o2 where c2: "chunk put_remove removes c1 n1 o1 = (c2, n2, o2)" by (metis prod_cases3)
  have "list_all ?ok (o1 @ [c1])" by (rule chunk_parts [OF c1]) (auto simp: within_def)
  then have "list_all ?ok (o2 @ [c2])" by (rule chunk_parts [OF c2]) (auto simp: within_def)
  then show ?thesis by (simp add: writeChunks_def c1 c2 Let_def)
qed

section \<open>The OpenFGA backend\<close>

text \<open>
  The checks of a batch carry their position as correlation id; an answer whose id is not a position
  is skipped, and a position without an answer is a refusal.  \<open>ask\<close> is the request to the service.
\<close>

definition batch_items :: "fga_tuple list \<Rightarrow> (string \<times> fga_tuple) list" where
  "batch_items qs = map (\<lambda>i. (FormatInt (int i), qs ! i)) [0..<length qs]"

definition put_answer :: "string \<times> bool \<Rightarrow> bool list \<Rightarrow> bool list" where
  "put_answer = (\<lambda>(ident, ok) out.
     case ParseInt ident of
       Inl _ \<Rightarrow> out | Inr i \<Rightarrow> if i < 0 \<or> i \<ge> int (length out) then out else out[nat i := ok])"

definition SDK_BatchCheck :: "((string \<times> fga_tuple) list \<Rightarrow> (world, (string \<times> bool) list) op) \<Rightarrow> fga_tuple list \<Rightarrow> (world, bool list) op" where
  "SDK_BatchCheck ask qs =
     (if qs = [] then ret []
      else
        try_op (ask (batch_items qs)) (\<lambda>r.
        case r of
          Inl _ \<Rightarrow> throw (ErrOther ''authz: batch check'')
        | Inr answers \<Rightarrow> ret (fold put_answer answers (replicate (length qs) False))))"

definition SDK_Check :: "(fga_tuple \<Rightarrow> (world, bool) op) \<Rightarrow> fga_tuple \<Rightarrow> (world, bool) op" where
  "SDK_Check one t = try_op (one t) (\<lambda>r. case r of Inl _ \<Rightarrow> throw (ErrOther ''authz: check'') | Inr ok \<Rightarrow> ret ok)"

record fga_service =
  sv_check :: "fga_tuple \<Rightarrow> (world, bool) op"
  sv_ask :: "(string \<times> fga_tuple) list \<Rightarrow> (world, (string \<times> bool) list) op"
  sv_send :: "write_request \<Rightarrow> (world, unit) op"

definition SDKBackend :: "fga_service \<Rightarrow> backend" where
  "SDKBackend S = \<lparr>be_Check = SDK_Check (sv_check S), be_BatchCheck = SDK_BatchCheck (sv_ask S), be_Write = SDK_Write (sv_send S)\<rparr>"

lemma put_answer_length [simp]: "length (fold put_answer answers out) = length out"
  by (induction answers arbitrary: out) (auto simp: put_answer_def split: sum.splits)

text \<open>Right answers end up at their positions, so a yes is right.\<close>

lemma ParseInt_position: "ParseInt (FormatInt (int j)) = Inr k \<Longrightarrow> k = int j"
proof -
  have d: "itoa (int j) \<noteq> []" "list_all is_09 (itoa (int j))" using itoa_is_digits [of "int j"] by auto
  then obtain c r where cr: "itoa (int j) = c # r" by (cases "itoa (int j)") auto
  with d have "is_09 c" by simp
  then have "c \<noteq> CHR ''-''" "c \<noteq> CHR ''+''" by (auto simp: char_classes)
  then show "ParseInt (FormatInt (int j)) = Inr k \<Longrightarrow> k = int j"
    using d digits_itoa [of "int j"] by (simp add: FormatInt_def ParseInt_def parse_digits_def cr split: if_splits)
qed

lemma put_answer_sound:
  assumes "list_all (\<lambda>(ident, ok). \<exists>j. ident = FormatInt (int j) \<and> (ok \<longrightarrow> j < length out \<longrightarrow> f j)) answers"
    and "\<And>i. i < length out \<Longrightarrow> out ! i \<Longrightarrow> f i" and "i < length out" and "fold put_answer answers out ! i"
  shows "f i"
  using assms
proof (induction answers arbitrary: out)
  case (Cons x answers)
  obtain j ok where x: "x = (FormatInt (int j), ok)" "ok \<Longrightarrow> j < length out \<Longrightarrow> f j" using Cons.prems(1) by (cases x) auto
  have put: "put_answer x out = out \<or> j < length out \<and> put_answer x out = out[j := ok]"
    using ParseInt_position [of j] by (auto simp: put_answer_def x(1) split: sum.split)
  have right: "i < length (put_answer x out) \<Longrightarrow> put_answer x out ! i \<Longrightarrow> f i" for i
    using put Cons.prems(2) x(2) by (auto simp: nth_list_update split: if_splits)
  have len: "length (put_answer x out) = length out" using put by auto
  show ?case by (rule Cons.IH [of "put_answer x out"]) (use Cons.prems len right in auto)
qed auto

end
