(* ===== verification/Authz_Safety.thy ===== *)
theory Authz_Safety
  imports Authz_Model
begin

text \<open>
  What the authorization services rely on of a backend, as an interface, and what they promise then:
  no request touches the tuples of another tenant, and nobody hands out what they do not hold.
\<close>

section \<open>Operations that leave the tuples alone\<close>

lemma keeps_fga_db: "keeps (\<lambda>w. P (fga w)) (on_db m)"
  by (rule keepsI, rule wp_db) auto

lemma keeps_fga_kv: "keeps (\<lambda>w. P (fga w)) (on_kv m)"
  by (rule keepsI, rule wp_kv) auto

lemma keeps_fga_emit: "keeps (\<lambda>w. P (fga w)) (emit e)"
  by (rule keepsI) (simp add: emit_def wp_simps)

lemma keeps_fga_KV:
  "keeps (\<lambda>w. P (fga w)) (kv_Get World_KV now k)" "keeps (\<lambda>w. P (fga w)) (kv_Set World_KV now k v ttl)"
  "keeps (\<lambda>w. P (fga w)) (kv_Incr World_KV now k ttl)"
  unfolding World_KV_def KV.simps by (rule keeps_fga_kv)+

lemma keeps_fga_require: "keeps (\<lambda>w. P (fga w)) (require ctx tid)"
  by (auto simp: require_def intro!: keeps_intros keeps_fga_emit split: prod.split option.split)

lemma keeps_fga_events:
  "keeps (\<lambda>w. P (fga w)) (role_event actor tid typ uid out)" "keeps (\<lambda>w. P (fga w)) (assign_refuse actor tid uid e)"
  "keeps (\<lambda>w. P (fga w)) (custom_event actor tid typ ident)" "keeps (\<lambda>w. P (fga w)) (system_event tid typ ident)"
  "keeps (\<lambda>w. P (fga w)) (group_event actor tid typ knd ident)" "keeps (\<lambda>w. P (fga w)) (group_refuse actor tid typ knd ident e)"
  "keeps (\<lambda>w. P (fga w)) (module_event tid typ knd sk sid reason)" "keeps (\<lambda>w. P (fga w)) (denied_event tid uid d)"
  by (simp_all add: role_event_def assign_refuse_def custom_event_def system_event_def group_event_def group_refuse_def
      module_event_def denied_event_def keeps_intros keeps_fga_emit)

lemmas fga_frame = keeps_intros keeps_fga_db keeps_fga_emit keeps_fga_KV keeps_fga_require keeps_fga_events

text \<open>The same for the tables.\<close>

lemma keeps_db_require: "keeps (\<lambda>w. P (db w)) (require ctx tid)"
  by (auto simp: require_def intro!: keeps_intros keeps_emit split: prod.split option.split)

section \<open>The interface of a backend\<close>

text \<open>What a write may do to the tuples, and what a successful one does.\<close>

definition written :: "fga_tuple list \<Rightarrow> fga_tuple list \<Rightarrow> fga_tuple set \<Rightarrow> fga_tuple set \<Rightarrow> unit result \<Rightarrow> bool" where
  "written adds removes T T' r \<longleftrightarrow>
     T' \<subseteq> T \<union> set adds \<and> T - set removes \<subseteq> T' \<and> (r = Inr () \<longrightarrow> T' = (T \<union> set adds) - set removes)"

locale fga_backend =
  fixes B :: backend
  assumes Check: "wp (be_Check B t) (\<lambda>r w'. db w' = db w \<and> fga w' = fga w \<and> (\<forall>b. r = Inr b \<longrightarrow> b = fga_check (fga w) t)) w"
    and BatchCheck: "wp (be_BatchCheck B qs)
          (\<lambda>r w'. db w' = db w \<and> fga w' = fga w \<and> (\<forall>bs. r = Inr bs \<longrightarrow> list_all2 (\<lambda>q ok. ok \<longrightarrow> fga_check (fga w) q) qs bs)) w"
    and Write: "wp (be_Write B adds removes) (\<lambda>r w'. db w' = db w \<and> written adds removes (set (fga w)) (set (fga w')) r) w"
begin

lemma keeps_Check: "keeps (\<lambda>w. P (fga w)) (be_Check B t)" "keeps (\<lambda>w. P (fga w)) (be_BatchCheck B qs)"
  by (rule keepsI, rule wp_mono [OF Check], simp, rule keepsI, rule wp_mono [OF BatchCheck], simp)

end

text \<open>The in-memory backend is one.\<close>

lemma wp_fga:
  assumes "\<And>r t fs. m (fga w) = (r, t) \<Longrightarrow> Q r (w\<lparr>faults := fs, fga := t\<rparr>)"
    and "\<And>r t fs. m (fga w) = (r, t) \<Longrightarrow> Q (Inl unavailable) (w\<lparr>faults := fs, fga := t\<rparr>)"
    and "\<And>fs. Q (Inl unavailable) (w\<lparr>faults := fs\<rparr>)"
  shows "wp (on_fga m) Q w"
proof -
  obtain r t where m: "m (fga w) = (r, t)" by force
  show ?thesis
  proof (cases "faults w")
    case Nil
    with assms(1) [OF m, of "[]"] m show ?thesis by (cases w) (simp add: wp_def on_fga_def call_def)
  next
    case (Cons f fs)
    with m assms(1,2) [OF m, of fs] assms(3) [of fs] show ?thesis
      by (cases f) (simp_all add: wp_def on_fga_def call_def)
  qed
qed

lemma fake_adds_between: "fake_adds adds ts = (r, ts') \<Longrightarrow> set ts' \<subseteq> set ts \<union> set adds \<and> set ts \<subseteq> set ts' \<and> (r = Inr () \<longrightarrow> set ts' = set ts \<union> set adds)"
proof (induction adds arbitrary: ts)
  case (Cons t adds)
  then show ?case by (fastforce simp: fake_add_def split: sum.splits if_splits)
qed auto

lemma Fake_Write_written: "Fake_Write adds removes ts = (r, ts') \<Longrightarrow> written adds removes (set ts) (set ts') r"
proof -
  assume w: "Fake_Write adds removes ts = (r, ts')"
  obtain r1 ts1 where a: "fake_adds adds ts = (r1, ts1)" by force
  show ?thesis
    using w fake_adds_between [OF a] by (cases r1) (auto simp: Fake_Write_def seq_op_def bind_op_def modify_op_def a written_def)
qed

lemma written_failed: "written adds removes T T' r \<Longrightarrow> written adds removes T T' (Inl e)"
  by (simp add: written_def)

lemma written_none: "written adds removes T T (Inl e)"
  by (simp add: written_def)

interpretation fake: fga_backend Fake
proof
  fix t :: fga_tuple and w :: world and qs adds removes :: "fga_tuple list"
  show "wp (be_Check Fake t) (\<lambda>r w'. db w' = db w \<and> fga w' = fga w \<and> (\<forall>b. r = Inr b \<longrightarrow> b = fga_check (fga w) t)) w"
    by (simp add: Fake_def, rule wp_fga) (auto simp: Fake_Check_def gets_op_def)
  show "wp (be_BatchCheck Fake qs) (\<lambda>r w'. db w' = db w \<and> fga w' = fga w \<and> (\<forall>bs. r = Inr bs \<longrightarrow> list_all2 (\<lambda>q ok. ok \<longrightarrow> fga_check (fga w) q) qs bs)) w"
    by (simp add: Fake_def, rule wp_fga) (auto simp: Fake_BatchCheck_def gets_op_def list_all2_conv_all_nth)
  show "wp (be_Write Fake adds removes) (\<lambda>r w'. db w' = db w \<and> written adds removes (set (fga w)) (set (fga w')) r) w"
    by (simp add: Fake_def, rule wp_fga) (auto simp: written_none dest: Fake_Write_written intro: written_failed)
qed

section \<open>The OpenFGA service\<close>

text \<open>
  What the service behind the OpenFGA backend does: it answers checks by the tuples it holds, the
  answers of a batch carry the ids of their questions, and each write request is applied or not.
\<close>

locale openfga =
  fixes S :: fga_service
  assumes one: "wp (sv_check S t) (\<lambda>r w'. db w' = db w \<and> fga w' = fga w \<and> (\<forall>b. r = Inr b \<longrightarrow> b = fga_check (fga w) t)) w"
    and ask: "wp (sv_ask S items) (\<lambda>r w'. db w' = db w \<and> fga w' = fga w
          \<and> (\<forall>as. r = Inr as \<longrightarrow> list_all (\<lambda>(ident, ok). \<exists>q. (ident, q) \<in> set items \<and> (ok \<longrightarrow> fga_check (fga w) q)) as)) w"
    and send: "wp (sv_send S req) (\<lambda>r w'. db w' = db w \<and> written (fst req) (snd req) (set (fga w)) (set (fga w')) r) w"
begin

lemma batch: "wp (SDK_BatchCheck (sv_ask S) qs)
    (\<lambda>r w'. db w' = db w \<and> fga w' = fga w \<and> (\<forall>bs. r = Inr bs \<longrightarrow> list_all2 (\<lambda>q ok. ok \<longrightarrow> fga_check (fga w) q) qs bs)) w"
proof (cases "qs = []")
  case False
  have "list_all2 (\<lambda>q ok. ok \<longrightarrow> fga_check (fga w) q) qs (fold put_answer as (replicate (length qs) False))"
    if as: "list_all (\<lambda>(ident, ok). \<exists>q. (ident, q) \<in> set (batch_items qs) \<and> (ok \<longrightarrow> fga_check (fga w) q)) as" for as
  proof (rule list_all2_all_nthI)
    fix i assume i: "i < length qs"
    have "list_all (\<lambda>(ident, ok). \<exists>j. ident = FormatInt (int j) \<and> (ok \<longrightarrow> j < length (replicate (length qs) False) \<longrightarrow> fga_check (fga w) (qs ! j))) as"
      using as unfolding list_all_iff batch_items_def by fastforce
    then show "fold put_answer as (replicate (length qs) False) ! i \<longrightarrow> fga_check (fga w) (qs ! i)"
      using put_answer_sound [of "replicate (length qs) False" "\<lambda>j. fga_check (fga w) (qs ! j)" as i] i by simp
  qed simp
  then show ?thesis unfolding SDK_BatchCheck_def using False
    by (simp add: wp_simps, intro wp_mono [OF ask]) (auto simp: wp_simps split: sum.split)
qed (simp add: SDK_BatchCheck_def wp_simps)

text \<open>A sequence of requests is between doing nothing and doing all, and does all when it succeeds.\<close>

lemma sends:
  "wp (for_op reqs (\<lambda>req. try_op (sv_send S req) (\<lambda>r. case r of Inl _ \<Rightarrow> throw e | Inr _ \<Rightarrow> ret ())))
     (\<lambda>r w'. db w' = db w \<and> set (fga w') \<subseteq> set (fga w) \<union> \<Union> (set ` fst ` set reqs)
        \<and> set (fga w) - \<Union> (set ` snd ` set reqs) \<subseteq> set (fga w')
        \<and> (r = Inr () \<longrightarrow> set (fga w') = fold apply_request reqs (set (fga w)))) w"
proof (induction reqs arbitrary: w)
  case (Cons req reqs)
  show ?case unfolding for_op.simps wp_simps
  proof (rule wp_mono [OF send], goal_cases)
    case (1 r w1)
    show ?case
    proof (cases r)
      case (Inl e')
      then show ?thesis using 1 by (auto simp: wp_simps written_def)
    next
      case (Inr x)
      then have w1: "db w1 = db w" "set (fga w1) = apply_request req (set (fga w))" using 1 by (auto simp: written_def apply_request_def)
      have "wp (for_op reqs (\<lambda>req. try_op (sv_send S req) (\<lambda>r. case r of Inl _ \<Rightarrow> throw e | Inr _ \<Rightarrow> ret ())))
        (\<lambda>r w'. db w' = db w \<and> set (fga w') \<subseteq> set (fga w) \<union> \<Union> (set ` fst ` set (req # reqs))
          \<and> set (fga w) - \<Union> (set ` snd ` set (req # reqs)) \<subseteq> set (fga w')
          \<and> (r = Inr () \<longrightarrow> set (fga w') = fold apply_request (req # reqs) (set (fga w)))) w1"
        by (rule wp_mono [OF Cons.IH [of w1]], cases req) (auto simp: w1 apply_request_pair)
      then show ?thesis using Inr by (simp only: wp_simps sum.case)
    qed
  qed
qed (simp add: wp_simps)

lemma SDK_write: "wp (SDK_Write (sv_send S) adds removes) (\<lambda>r w'. db w' = db w \<and> written adds removes (set (fga w)) (set (fga w')) r) w"
proof -
  have parts: "\<Union> (set ` fst ` set (writeChunks adds removes)) \<subseteq> set adds" "\<Union> (set ` snd ` set (writeChunks adds removes)) \<subseteq> set removes"
    using writeChunks_parts [of adds removes] by (auto simp: list_all_iff within_def)
  have all: "fold apply_request (writeChunks adds removes) T = (T \<union> set adds) - set removes" for T
    using writeChunks_effect [of adds removes T] by blast
  show ?thesis unfolding SDK_Write_def
  proof (rule wp_mono [OF sends], goal_cases)
    case (1 r w')
    then show ?case unfolding all written_def using parts by blast
  qed
qed

end

sublocale openfga \<subseteq> sdk: fga_backend "SDKBackend S"
proof
  fix t :: fga_tuple and w :: world and qs adds removes :: "fga_tuple list"
  show "wp (be_Check (SDKBackend S) t) (\<lambda>r w'. db w' = db w \<and> fga w' = fga w \<and> (\<forall>b. r = Inr b \<longrightarrow> b = fga_check (fga w) t)) w"
    by (simp add: SDKBackend_def SDK_Check_def wp_simps, rule wp_mono [OF one]) (auto simp: wp_simps split: sum.split)
  show "wp (be_BatchCheck (SDKBackend S) qs)
      (\<lambda>r w'. db w' = db w \<and> fga w' = fga w \<and> (\<forall>bs. r = Inr bs \<longrightarrow> list_all2 (\<lambda>q ok. ok \<longrightarrow> fga_check (fga w) q) qs bs)) w"
    unfolding SDKBackend_def backend.simps by (rule batch)
  show "wp (be_Write (SDKBackend S) adds removes) (\<lambda>r w'. db w' = db w \<and> written adds removes (set (fga w)) (set (fga w')) r) w"
    unfolding SDKBackend_def backend.simps by (rule SDK_write)
qed

text \<open>The in-memory backend behind the requests of the service.\<close>

definition Fake_service :: fga_service where
  "Fake_service =
     \<lparr>sv_check = be_Check Fake,
      sv_ask = (\<lambda>items. bind_op (be_BatchCheck Fake (map snd items)) (\<lambda>bs. ret (zip (map fst items) bs))),
      sv_send = (\<lambda>req. be_Write Fake (fst req) (snd req))\<rparr>"

interpretation fsv: openfga Fake_service
proof
  fix t :: fga_tuple and w :: world and items :: "(string \<times> fga_tuple) list" and req :: write_request
  show "wp (sv_check Fake_service t) (\<lambda>r w'. db w' = db w \<and> fga w' = fga w \<and> (\<forall>b. r = Inr b \<longrightarrow> b = fga_check (fga w) t)) w"
    unfolding Fake_service_def fga_service.simps by (rule fake.Check)
  show "wp (sv_send Fake_service req) (\<lambda>r w'. db w' = db w \<and> written (fst req) (snd req) (set (fga w)) (set (fga w')) r) w"
    unfolding Fake_service_def fga_service.simps by (rule fake.Write)
  have answers: "list_all (\<lambda>(ident, ok). \<exists>q. (ident, q) \<in> set items \<and> (ok \<longrightarrow> fga_check T q)) (zip (map fst items) bs)"
    if "list_all2 (\<lambda>q ok. ok \<longrightarrow> fga_check T q) (map snd items) bs" for bs T
    using that by (induction items arbitrary: bs) (auto simp: list_all2_Cons1 list_all_iff, fastforce+)
  show "wp (sv_ask Fake_service items) (\<lambda>r w'. db w' = db w \<and> fga w' = fga w
      \<and> (\<forall>as. r = Inr as \<longrightarrow> list_all (\<lambda>(ident, ok). \<exists>q. (ident, q) \<in> set items \<and> (ok \<longrightarrow> fga_check (fga w) q)) as)) w"
    unfolding Fake_service_def fga_service.simps wp_simps
    by (rule wp_mono [OF fake.BatchCheck]) (auto simp: answers split: sum.split)
qed

section \<open>Tenants stay apart\<close>

text \<open>The tuples that belong to none of the tenants \<open>A\<close>.\<close>

definition outside :: "string set \<Rightarrow> fga_tuple list \<Rightarrow> fga_tuple set" where
  "outside A ts = {t \<in> set ts. \<forall>tid \<in> A. ObjectTenant (tu_Object t) \<noteq> Inr tid}"

lemma own_objects_tenant: "own_objects tid objs = Inr () \<Longrightarrow> obj \<in> set objs \<Longrightarrow> ObjectTenant obj = Inr tid"
  by (induction objs) (auto split: sum.splits if_splits)

lemma outside_written:
  assumes "written adds removes (set ts) (set ts') r" "own_objects tid (map tu_Object (adds @ removes)) = Inr ()" "tid \<in> A"
  shows "outside A ts' = outside A ts"
proof -
  have "ObjectTenant (tu_Object t) = Inr tid" if "t \<in> set adds \<union> set removes" for t
    using own_objects_tenant [OF assms(2)] that by auto
  then show ?thesis using assms(1,3) by (auto simp: outside_def written_def)
qed

lemma keeps_stopped: "keeps P m \<Longrightarrow> keeps P (seq_op (seq_op m (of_result (Inl e))) n)"
  by (auto simp: keeps_def seq_op_def bind_op_def of_result_def split: prod.splits sum.splits)

lemma keeps_Bump: "keeps (\<lambda>w. P (fga w)) (BumpTenantVersion World_KV now tid)"
  by (simp add: BumpTenantVersion_def keeps_fga_KV)

context fga_backend
begin

lemma keeps_Client_Write:
  assumes "az_Backend C = B" "tid \<in> A"
  shows "keeps (\<lambda>w. outside A (fga w) = S) (Client_Write C ctx now tid adds removes)"
proof (cases "own_objects tid (map tu_Object (adds @ removes)) = Inr ()")
  case True
  have "keeps (\<lambda>w. outside A (fga w) = S) (be_Write B adds removes)"
    by (rule keepsI, rule wp_mono [OF Write]) (use outside_written [OF _ True assms(2)] in metis)
  then show ?thesis unfolding Client_Write_def scoped_def assms(1)
    by (intro fga_frame keeps_Bump)
next
  case False
  then obtain e where "own_objects tid (map tu_Object (adds @ removes)) = Inl e"
    by (cases "own_objects tid (map tu_Object (adds @ removes))") auto
  then show ?thesis unfolding Client_Write_def scoped_def by (simp only:) (intro keeps_seq keeps_check keeps_stopped keeps_fga_require)
qed

end

text \<open>Reading and checking.\<close>

lemma keeps_fga_known: "keeps (\<lambda>w. P (fga w)) (known_refs tid)"
  unfolding known_refs_def by (intro fga_frame)

lemma keeps_fga_parsePerms: "keeps (\<lambda>w. P (fga w)) (parsePerms tid refs kept)"
  unfolding parsePerms_def by (intro fga_frame keeps_fga_known)

lemma keeps_fga_granting: "keeps (\<lambda>w. P (fga w)) (granting_of tid roles)"
  by (induction roles) (simp_all only: granting_of.simps, (intro fga_frame | assumption)+)

lemma keeps_fga_roleGrants: "keeps (\<lambda>w. P (fga w)) (roleGrants tid roles)"
  by (induction roles) (simp_all only: roleGrants.simps, (intro fga_frame | assumption)+)

lemma keeps_fga_groupGrants: "keeps (\<lambda>w. P (fga w)) (groupGrants tid gid)"
  unfolding groupGrants_def by (intro fga_frame keeps_fga_roleGrants)

lemma keeps_fga_admin: "keeps (\<lambda>w. P (fga w)) (Groups_admin ctx tid typ knd ident)"
  unfolding Groups_admin_def by (intro fga_frame)

lemma keeps_fga_name_conflict: "keeps (\<lambda>w. P (fga w)) m \<Longrightarrow> keeps (\<lambda>w. P (fga w)) (name_conflict m)"
  unfolding name_conflict_def by (intro fga_frame)

lemma keeps_fga_add_each: "keeps (\<lambda>w. P (fga w)) (add_each actor now tid gid uids)"
  by (induction uids) (simp_all only: add_each.simps, (intro fga_frame | assumption)+)

lemma on_db_fga: "on_db m w = (r, w') \<Longrightarrow> fga w' = fga w"
  using keepsD [OF keeps_fga_db [of "\<lambda>t. t = fga w" m], of w] by simp

lemma member_pages_fga: "member_pages tid gid after w = (r, w') \<Longrightarrow> fga w' = fga w"
proof (induction tid gid after w arbitrary: r w' rule: member_pages.induct)
  case (1 tid gid after w)
  obtain p w1 where p: "on_db (Store_ListGroupMembers tid gid after GroupBatchMax) w = (p, w1)" by force
  note step = 1(1) [OF p [symmetric]]
  show ?case
  proof (cases p)
    case (Inl e)
    then show ?thesis using 1(2) p on_db_fga [OF p] by (simp add: member_pages.simps [of tid gid after w])
  next
    case (Inr page)
    obtain p2 w2 where p2: "member_pages tid gid (Some (gm_AddedAt (last page))) w1 = (p2, w2)" by force
    from step [OF Inr] p2 have "\<not> length page < GroupBatchMax \<Longrightarrow> fga w2 = fga w1" by blast
    then show ?thesis using 1(2) p Inr p2 on_db_fga [OF p]
      by (auto simp: member_pages.simps [of tid gid after w] split: if_splits sum.splits)
  qed
qed

lemma keeps_fga_member_pages: "keeps (\<lambda>w. P (fga w)) (member_pages tid gid after)"
  unfolding keeps_def using member_pages_fga by (metis prod.collapse)

lemmas fga_reading = fga_frame keeps_fga_known keeps_fga_parsePerms keeps_fga_granting keeps_fga_roleGrants keeps_fga_groupGrants
  keeps_fga_admin keeps_fga_name_conflict keeps_fga_add_each keeps_fga_member_pages

context fga_backend
begin

lemma keeps_AllowedMany: "az_Backend C = B \<Longrightarrow> keeps (\<lambda>w. P (fga w)) (AllowedMany C ctx tid uid ps)"
  unfolding AllowedMany_def scoped_def by (simp only:) (intro fga_reading keeps_Check)

lemma keeps_MayGrant: "az_Backend C = B \<Longrightarrow> keeps (\<lambda>w. P (fga w)) (MayGrant C ctx actor tid perms)"
  unfolding MayGrant_def by (intro fga_reading keeps_AllowedMany)

lemma keeps_MayAssign: "az_Backend C = B \<Longrightarrow> keeps (\<lambda>w. P (fga w)) (MayAssign C ctx actor tid ids)"
  unfolding MayAssign_def by (intro fga_reading keeps_MayGrant)

lemma keeps_group_escalation: "az_Backend C = B \<Longrightarrow> keeps (\<lambda>w. P (fga w)) (group_escalation C ctx actor tid typ ident perms privileged)"
  unfolding group_escalation_def by (intro fga_reading keeps_MayGrant)

lemmas reading = fga_reading keeps_AllowedMany keeps_MayGrant keeps_MayAssign keeps_group_escalation

end

text \<open>Every operation that writes, for a tenant of \<open>A\<close>.\<close>

context fga_backend
begin

lemmas writing = reading keeps_Client_Write

lemma keeps_AssignRoles:
  assumes "az_Backend C = B" "tid \<in> A"
  shows "keeps (\<lambda>w. outside A (fga w) = S) (AssignRoles C ctx now tid uid ids)"
  unfolding AssignRoles_def Let_def by (intro writing assms)

lemma keeps_create_role:
  assumes "az_Backend C = B" "tid \<in> A"
  shows "keeps (\<lambda>w. outside A (fga w) = S) (create_role C ctx now newID tid slug name refs cloned)"
  unfolding create_role_def Let_def by (intro writing assms)

lemma keeps_Roles:
  assumes "az_Backend C = B" "tid \<in> A"
  shows "keeps (\<lambda>w. outside A (fga w) = S) (Roles_Create C ctx now newID tid slug name refs)"
    and "keeps (\<lambda>w. outside A (fga w) = S) (Roles_Clone C ctx now newID tid ident slug name)"
    and "keeps (\<lambda>w. outside A (fga w) = S) (Roles_Update C ctx now tid ident name refs)"
    and "keeps (\<lambda>w. outside A (fga w) = S) (Roles_Remove C ctx now tid ident)"
  unfolding Roles_Create_def Roles_Clone_def Roles_Update_def Roles_Remove_def Let_def
  by (intro writing keeps_create_role assms)+

lemma keeps_setGrants:
  assumes "az_Backend C = B" "tid \<in> A"
  shows "keeps (\<lambda>w. outside A (fga w) = S) (setGrants C ctx now tid ro want)"
    and "keeps (\<lambda>w. outside A (fga w) = S) (addGrants C ctx now tid ro want)"
  unfolding addGrants_def setGrants_def Let_def by (intro writing assms)+

lemma keeps_GrantBuiltin:
  assumes "az_Backend C = B" "tid \<in> A"
  shows "keeps (\<lambda>w. outside A (fga w) = S) (GrantBuiltin C ctx now tid slug refs)"
  unfolding GrantBuiltin_def by (intro writing keeps_setGrants assms)

lemma keeps_revoke_from:
  assumes "az_Backend C = B" "tid \<in> A"
  shows "keeps (\<lambda>w. outside A (fga w) = S) (revoke_from C ctx now tid module keep roles n)"
  by (induction roles arbitrary: n) (simp_all only: revoke_from.simps Let_def, (intro writing keeps_setGrants assms | assumption)+)

lemma keeps_ensure_from:
  assumes "az_Backend C = B" "tid \<in> A"
  shows "keeps (\<lambda>w. outside A (fga w) = S) (ensure_from uu C ctx now tid roles slugs)"
proof (induction slugs)
  case (Cons x slugs)
  then show ?case by (cases x) (simp only: ensure_from.simps ensure_one_def, intro writing assms)
qed (simp add: writing)

lemma keeps_Builtin:
  assumes "az_Backend C = B" "tid \<in> A"
  shows "keeps (\<lambda>w. outside A (fga w) = S) (RevokeBuiltin C ctx now tid module keep)"
    and "keeps (\<lambda>w. outside A (fga w) = S) (EnsureBuiltin uu C ctx now tid slugs)"
  unfolding RevokeBuiltin_def EnsureBuiltin_def by (intro writing keeps_revoke_from keeps_ensure_from assms)+

lemma keeps_write_batches:
  assumes "az_Backend C = B" "tid \<in> A"
  shows "keeps (\<lambda>w. outside A (fga w) = S) (write_batches C ctx now tid removes)"
  using assms
proof (induction C ctx now tid removes rule: write_batches.induct)
  case (1 C ctx now tid removes)
  show ?case
  proof (cases "removes = []")
    case True
    then show ?thesis by (subst write_batches.simps) (simp add: keeps_ret)
  next
    case False
    have "keeps (\<lambda>w. outside A (fga w) = S) (seq_op (Client_Write C ctx now tid [] (take GroupBatchMax removes))
        (write_batches C ctx now tid (drop GroupBatchMax removes)))"
      by (intro keeps_seq keeps_Client_Write 1 False)
    then show ?thesis using False by (subst write_batches.simps) simp
  qed
qed

lemma keeps_Groups:
  assumes "az_Backend C = B" "tid \<in> A"
  shows "keeps (\<lambda>w. outside A (fga w) = S) (Groups_Create X C ctx now newID tid name desc)"
    and "keeps (\<lambda>w. outside A (fga w) = S) (Groups_Delete C ctx now tid ident n)"
    and "keeps (\<lambda>w. outside A (fga w) = S) (AddMembers C ctx now tid ident uids)"
    and "keeps (\<lambda>w. outside A (fga w) = S) (RemoveMember C ctx now tid ident uid)"
    and "keeps (\<lambda>w. outside A (fga w) = S) (SetRoles C ctx now tid ident roleIDs)"
  unfolding Groups_Create_def Groups_Delete_def AddMembers_def RemoveMember_def SetRoles_def Let_def
  by (intro writing keeps_write_batches assms)+

lemma keeps_Groups_Update: "keeps (\<lambda>w. P (fga w)) (Groups_Update X ctx now tid ident name desc)"
  unfolding Groups_Update_def by (intro reading)

lemma keeps_upsert_defs: "keeps (\<lambda>w. P (fga w)) (upsert_defs tid module known defs)"
  by (induction defs arbitrary: known) (simp_all only: upsert_defs.simps, (intro reading | assumption)+)

lemma keeps_Register:
  assumes "az_Backend C = B" "tid \<in> A"
  shows "keeps (\<lambda>w. outside A (fga w) = S) (Register C ctx now tid module defs)"
  unfolding Register_def Let_def by (intro writing keeps_upsert_defs assms)

lemma keeps_migrate_roles:
  assumes "az_Backend C = B" "tid \<in> A"
  shows "keeps (\<lambda>w. outside A (fga w) = S) (migrate_roles C ctx now tid module known roles)"
  by (induction roles) (simp_all only: migrate_roles.simps Let_def, (intro writing keeps_setGrants assms | assumption)+)

lemma keeps_migrate:
  assumes "az_Backend C = B" "tid \<in> A"
  shows "keeps (\<lambda>w. outside A (fga w) = S) (migrate C ctx now tid module)"
  unfolding migrate_def by (intro writing keeps_migrate_roles assms)

lemma keeps_sync_role:
  assumes "az_Backend C = B" "tid \<in> A"
  shows "keeps (\<lambda>w. outside A (fga w) = S) (sync_role C ctx now newID tid module roles known d)"
  unfolding sync_role_def create_copy_def moduleRole_def Let_def by (intro writing keeps_setGrants assms)

lemma keeps_syncRoles:
  assumes "az_Backend C = B" "tid \<in> A"
  shows "keeps (\<lambda>w. outside A (fga w) = S) (syncRoles C ctx now ids tid module defs)"
proof -
  have "keeps (\<lambda>w. outside A (fga w) = S) (sync_defs C ctx now ids tid module roles known defs)" for roles known
    by (induction defs) (simp_all only: sync_defs.simps, (intro writing keeps_sync_role assms | assumption)+)
  then show ?thesis unfolding syncRoles_def by (intro writing)
qed

lemma keeps_apply_grants:
  assumes "az_Backend C = B" "tid \<in> A"
  shows "keeps (\<lambda>w. outside A (fga w) = S) (apply_grants C ctx now tid module gs skipped)"
  by (induction gs arbitrary: skipped)
    (simp_all only: apply_grants.simps Modules_grantBuiltin_def, (intro writing keeps_GrantBuiltin assms | assumption)+)

lemma keeps_register_tenants:
  assumes "az_Backend C = B" "set tids \<subseteq> A"
  shows "keeps (\<lambda>w. outside A (fga w) = S) (register_tenants C sys now ids reg defs tids acc)"
  using assms(2)
proof (induction tids arbitrary: acc)
  case (Cons tid tids)
  then have tid: "tid \<in> A" and IH: "keeps (\<lambda>w. outside A (fga w) = S) (register_tenants C sys now ids reg defs tids acc)" for acc
    by auto
  obtain a b c where "acc = (a, b, c)" by (cases acc)
  then show ?case
    by (simp only: register_tenants.simps Modules_revokeBuiltin_def)
      (intro writing keeps_Register keeps_migrate keeps_syncRoles keeps_apply_grants keeps_Builtin assms(1) tid IH)
qed (simp add: writing)

lemma keeps_role_defs: "keeps (\<lambda>w. P (fga w)) (upsert_role_defs now defs)" "keeps (\<lambda>w. P (fga w)) (retire_role_defs now reg)"
proof -
  show "keeps (\<lambda>w. P (fga w)) (upsert_role_defs now defs)"
    by (induction defs) (simp_all only: upsert_role_defs.simps, (intro reading | assumption)+)
  show "keeps (\<lambda>w. P (fga w)) (retire_role_defs now reg)"
    unfolding retire_role_defs_def Let_def by (intro reading)
qed

lemma keeps_Modules_Register:
  assumes "az_Backend C = B" "set (rg_Tenants reg) \<subseteq> A"
  shows "keeps (\<lambda>w. outside A (fga w) = S) (Modules_Register C platform ctx now ids reg)"
  unfolding Modules_Register_def Let_def by (intro writing keeps_role_defs keeps_register_tenants assms)

lemma keeps_InstantiateTenant:
  assumes "az_Backend C = B" "tid \<in> A"
  shows "keeps (\<lambda>w. outside A (fga w) = S) (InstantiateTenant C ctx now ids tid)"
proof -
  have "keeps (\<lambda>w. outside A (fga w) = S) (instantiate_modules C sys now ids tid mods)" for sys mods
    by (induction mods)
      (simp_all only: instantiate_modules.simps, (intro writing keeps_Register keeps_migrate keeps_syncRoles assms | assumption)+)
  then show ?thesis unfolding InstantiateTenant_def by (intro writing)
qed

lemma keeps_RetireModule:
  assumes "az_Backend C = B" "set tenants \<subseteq> A"
  shows "keeps (\<lambda>w. outside A (fga w) = S) (Modules_RetireModule C platform (Some (ret tenants)) ctx now ids name)"
proof -
  have loop: "keeps (\<lambda>w. outside A (fga w) = S) (for_op tids (\<lambda>tid. bind_op (syncRoles C sys now ids tid name defs) (\<lambda>_. ret ())))"
    if "set tids \<subseteq> A" for tids sys defs
    using that by (induction tids) (auto intro!: keeps_ret keeps_seq keeps_bind keeps_syncRoles assms(1))
  have bind_ret: "bind_op (ret x) f = f x" for x :: "string list" and f :: "string list \<Rightarrow> (world, string list) op"
    by (rule ext) (simp add: bind_op_def ret_def)
  show ?thesis unfolding Modules_RetireModule_def Let_def option.case bind_ret by (intro writing loop assms(2))
qed

end

section \<open>Requests\<close>

text \<open>The operations of the services that change tuples, each with the tenants it is for.\<close>

datatype authz_request =
    Assign string string "string list"
  | Create_Role string string string string "string list"
  | Clone_Role string string string string string
  | Update_Role string string string "string list"
  | Remove_Role string string
  | Ensure_Builtin string "(string \<times> string) list"
  | Create_Group string string string string
  | Update_Group string string string string
  | Delete_Group string string int
  | Add_Members string string "string list"
  | Remove_Member string string string
  | Set_Roles string string "string list"
  | Register_Permissions string string "permission_def list"
  | Register_Module id_source registration
  | New_Tenant id_source string
  | Retire_Module id_source string "string list"

fun request_tenants :: "authz_request \<Rightarrow> string list" where
  "request_tenants (Assign tid uid ids) = [tid]"
| "request_tenants (Create_Role newID tid slug name refs) = [tid]"
| "request_tenants (Clone_Role newID tid ident slug name) = [tid]"
| "request_tenants (Update_Role tid ident name refs) = [tid]"
| "request_tenants (Remove_Role tid ident) = [tid]"
| "request_tenants (Ensure_Builtin tid slugs) = [tid]"
| "request_tenants (Create_Group newID tid name desc) = [tid]"
| "request_tenants (Update_Group tid ident name desc) = [tid]"
| "request_tenants (Delete_Group tid ident n) = [tid]"
| "request_tenants (Add_Members tid ident uids) = [tid]"
| "request_tenants (Remove_Member tid ident uid) = [tid]"
| "request_tenants (Set_Roles tid ident ids) = [tid]"
| "request_tenants (Register_Permissions tid module defs) = [tid]"
| "request_tenants (Register_Module ids reg) = rg_Tenants reg"
| "request_tenants (New_Tenant ids tid) = [tid]"
| "request_tenants (Retire_Module ids name tenants) = tenants"

definition forget :: "('s, 'a) op \<Rightarrow> ('s, unit) op" where "forget m = bind_op m (\<lambda>_. ret ())"

fun run_authz :: "externals \<Rightarrow> az_client \<Rightarrow> string \<Rightarrow> req_context \<Rightarrow> time \<Rightarrow> authz_request \<Rightarrow> (world, unit) op" where
  "run_authz X C platform ctx now (Assign tid uid ids) = forget (AssignRoles C ctx now tid uid ids)"
| "run_authz X C platform ctx now (Create_Role newID tid slug name refs) = forget (Roles_Create C ctx now newID tid slug name refs)"
| "run_authz X C platform ctx now (Clone_Role newID tid ident slug name) = forget (Roles_Clone C ctx now newID tid ident slug name)"
| "run_authz X C platform ctx now (Update_Role tid ident name refs) = forget (Roles_Update C ctx now tid ident name refs)"
| "run_authz X C platform ctx now (Remove_Role tid ident) = Roles_Remove C ctx now tid ident"
| "run_authz X C platform ctx now (Ensure_Builtin tid slugs) = forget (EnsureBuiltin (ex_uu X) C ctx now tid slugs)"
| "run_authz X C platform ctx now (Create_Group newID tid name desc) = forget (Groups_Create X C ctx now newID tid name desc)"
| "run_authz X C platform ctx now (Update_Group tid ident name desc) = forget (Groups_Update X ctx now tid ident name desc)"
| "run_authz X C platform ctx now (Delete_Group tid ident n) = Groups_Delete C ctx now tid ident n"
| "run_authz X C platform ctx now (Add_Members tid ident uids) = forget (AddMembers C ctx now tid ident uids)"
| "run_authz X C platform ctx now (Remove_Member tid ident uid) = RemoveMember C ctx now tid ident uid"
| "run_authz X C platform ctx now (Set_Roles tid ident ids) = forget (SetRoles C ctx now tid ident ids)"
| "run_authz X C platform ctx now (Register_Permissions tid module defs) = forget (Register C ctx now tid module defs)"
| "run_authz X C platform ctx now (Register_Module ids reg) = forget (Modules_Register C platform ctx now ids reg)"
| "run_authz X C platform ctx now (New_Tenant ids tid) = InstantiateTenant C ctx now ids tid"
| "run_authz X C platform ctx now (Retire_Module ids name tenants) =
     forget (Modules_RetireModule C platform (Some (ret tenants)) ctx now ids name)"

context fga_backend
begin

lemma isolation:
  assumes "az_Backend C = B"
  shows "keeps (\<lambda>w. outside (set (request_tenants req)) (fga w) = S) (run_authz X C platform ctx now req)"
proof -
  note rules = keeps_bind keeps_ret keeps_AssignRoles keeps_Roles keeps_Builtin keeps_Groups keeps_Groups_Update keeps_Register keeps_Modules_Register
    keeps_InstantiateTenant keeps_RetireModule
  show ?thesis
    by (cases req) (simp_all only: run_authz.simps request_tenants.simps forget_def, (intro rules assms; simp)+)
qed

end

text \<open>
  C10: No request of the authorization services touches the tuples of another tenant.  Whatever the
  caller, the arguments and the calls that fail, every tuple whose object belongs to none of the
  tenants of the request is there afterwards exactly when it was there before: for assignments, custom
  roles, groups, permissions, the registration and retirement of modules, and new tenants.
\<close>

theorem tenants_stay_apart:
  "outside (set (request_tenants req)) (fga (snd (run_authz X \<lparr>az_Backend = Fake, az_Cache = cached\<rparr> platform ctx now req w)))
   = outside (set (request_tenants req)) (fga w)"
  by (rule keepsD [OF fake.isolation]) simp_all

end
