(* ===== verification/Authz_Escalation.thy ===== *)
theory Authz_Escalation
  imports Authz_Safety
begin

text \<open>
  Nobody hands out what they do not hold: assignment of roles to users and groups and of users to
  groups, under any failing calls.
\<close>

section \<open>Reading roles and groups\<close>

lemma reads_roles [store_reads]:
  "reads (Store_RolesByID tid ids) (\<lambda>m. found (those (map (\<lambda>ident. role_in tid ident m) ids)))"
  "reads (Store_UserRoles tid uid) (\<lambda>m. Inr (List.map_filter (\<lambda>ident. role_in tid ident m) (get_list (Bindings m) (pair_key tid uid))))"
  "reads (Store_RolePermissions tid rid) (\<lambda>m. case role_in tid rid m of None \<Rightarrow> Inl ErrNotFound | Some _ \<Rightarrow> Inr (get_list (RolePerms m) rid))"
  "reads (Store_CountWithRole tid slug) (\<lambda>m. fst (Store_CountWithRole tid slug m))"
  "reads (Store_GetGroup tid gid) (\<lambda>m. found (group_in tid gid m))"
  "reads (Store_GroupRoles tid gid) (\<lambda>m. case group_in tid gid m of None \<Rightarrow> Inl ErrNotFound
     | Some _ \<Rightarrow> Inr (List.map_filter (\<lambda>ident. role_in tid ident m) (get_list (gs_roles m) gid)))"
  "reads (Store_IsGroupMember tid gid uid) (\<lambda>m. Inr (group_in tid gid m \<noteq> None \<and> uid \<in> set (get_list (gs_members m) gid)))"
  by (simp_all add: reads_def Store_RolesByID_def Store_UserRoles_def Store_RolePermissions_def Store_CountWithRole_def
      Store_GetGroup_def Store_GroupRoles_def Store_IsGroupMember_def split: option.split)

text \<open>Two states with the same tables and tuples.\<close>

definition alike :: "world \<Rightarrow> world \<Rightarrow> bool" where
  "alike w w' \<longleftrightarrow> db w' = db w \<and> fga w' = fga w"

lemma alike_refl [simp]: "alike w w"
  by (simp add: alike_def)

lemma alike_trans: "alike w w1 \<Longrightarrow> alike w1 w2 \<Longrightarrow> alike w w2"
  by (simp add: alike_def)

section \<open>Successful runs\<close>

text \<open>What holds of the result and the state when an operation does not fail.\<close>

definition good :: "(world, 'a) op \<Rightarrow> ('a \<Rightarrow> world \<Rightarrow> bool) \<Rightarrow> world \<Rightarrow> bool" where
  "good m R w \<longleftrightarrow> (\<forall>x w'. m w = (Inr x, w') \<longrightarrow> R x w')"

lemma goodD: "good m R w \<Longrightarrow> m w = (Inr x, w') \<Longrightarrow> R x w'"
  by (simp add: good_def)

lemma good_wp: "wp m (\<lambda>r w'. \<forall>x. r = Inr x \<longrightarrow> R x w') w \<Longrightarrow> good m R w"
  by (auto simp: good_def wp_def)

lemma good_mono: "good m R w \<Longrightarrow> (\<And>x w'. R x w' \<Longrightarrow> Q x w') \<Longrightarrow> good m Q w"
  by (simp add: good_def)

lemma good_conj: "good m R w \<Longrightarrow> good m Q w \<Longrightarrow> good m (\<lambda>x w'. R x w' \<and> Q x w') w"
  by (simp add: good_def)

lemma good_ret: "Q a w \<Longrightarrow> good (ret a) Q w"
  by (simp add: good_def ret_def)

lemma good_throw: "good (throw e) Q w"
  by (simp add: good_def throw_def)

lemma good_of_result: "(\<And>a. r = Inr a \<Longrightarrow> Q a w) \<Longrightarrow> good (of_result r) Q w"
  by (simp add: good_def of_result_def)

lemma good_check: "(b \<Longrightarrow> Q () w) \<Longrightarrow> good (check_op b e) Q w"
  by (simp add: good_def check_op_def ret_def throw_def)

lemma good_bind: "good m R w \<Longrightarrow> (\<And>x w1. R x w1 \<Longrightarrow> good (f x) Q w1) \<Longrightarrow> good (bind_op m f) Q w"
  by (fastforce simp: good_def bind_op_def split: prod.splits sum.splits)

lemma good_seq: "good m R w \<Longrightarrow> (\<And>x w1. R x w1 \<Longrightarrow> good n Q w1) \<Longrightarrow> good (seq_op m n) Q w"
  unfolding seq_op_def by (rule good_bind)

lemma good_try:
  "good m R w \<Longrightarrow> (\<And>x w1. R x w1 \<Longrightarrow> good (f (Inr x)) Q w1) \<Longrightarrow> (\<And>e w1. good (f (Inl e)) Q w1) \<Longrightarrow> good (try_op m f) Q w"
  unfolding good_def try_op_def by (auto split: prod.splits sum.splits) (metis sum.exhaust)

lemma good_refuse: "good (assign_refuse actor tid uid e) Q w" "good (group_refuse actor tid typ knd ident e) Q w"
  by (simp_all add: good_def assign_refuse_def group_refuse_def seq_op_def bind_op_def throw_def emit_def modify_op_def)

lemma good_keeps: "keeps P m \<Longrightarrow> P w \<Longrightarrow> good m (\<lambda>_. P) w"
  unfolding good_def keeps_def by (metis snd_conv)

lemma good_read:
  assumes "reads m f" "\<And>a w1. f (db w) = Inr a \<Longrightarrow> alike w w1 \<Longrightarrow> Q a w1"
  shows "good (on_db m) Q w"
  by (rule good_wp, rule wp_db_read [where r = "f (db w)"]) (use assms in \<open>auto simp: reads_def alike_def\<close>)

lemma good_update:
  assumes "\<And>a d w1. m (db w) = (Inr a, d) \<Longrightarrow> db w1 = d \<Longrightarrow> fga w1 = fga w \<Longrightarrow> Q a w1"
  shows "good (on_db m) Q w"
  by (rule good_wp, rule wp_db) (use assms in auto)

text \<open>A property of the tables in the state an operation leaves, whatever its outcome.\<close>

definition safe :: "(memstore \<Rightarrow> bool) \<Rightarrow> (world, 'a) op \<Rightarrow> world \<Rightarrow> bool" where
  "safe P m w \<longleftrightarrow> P (db (snd (m w)))"

lemma safe_keeps: "keeps (\<lambda>w. P (db w)) m \<Longrightarrow> P (db w) \<Longrightarrow> safe P m w"
  by (simp add: safe_def keeps_def)

lemma safe_bind: "safe P m w \<Longrightarrow> good m R w \<Longrightarrow> (\<And>x w1. R x w1 \<Longrightarrow> safe P (f x) w1) \<Longrightarrow> safe P (bind_op m f) w"
  by (cases "m w"; cases "fst (m w)") (auto simp: safe_def good_def bind_op_def)

lemma safe_seq: "safe P m w \<Longrightarrow> good m R w \<Longrightarrow> (\<And>x w1. R x w1 \<Longrightarrow> safe P n w1) \<Longrightarrow> safe P (seq_op m n) w"
  unfolding seq_op_def by (rule safe_bind)

lemma safe_try:
  "safe P m w \<Longrightarrow> good m R w \<Longrightarrow> (\<And>x w1. R x w1 \<Longrightarrow> safe P (f (Inr x)) w1) \<Longrightarrow> (\<And>e w1. P (db w1) \<Longrightarrow> safe P (f (Inl e)) w1)
    \<Longrightarrow> safe P (try_op m f) w"
  by (cases "m w"; cases "fst (m w)") (auto simp: safe_def good_def try_op_def)

lemma safe_seq_keeps: "safe P m w \<Longrightarrow> keeps (\<lambda>w. P (db w)) n \<Longrightarrow> safe P (seq_op m n) w"
  by (cases "m w"; cases "fst (m w)") (auto simp: safe_def keeps_def seq_op_def bind_op_def)

lemma safe_update: "P (db w) \<Longrightarrow> P (snd (m (db w))) \<Longrightarrow> safe P (on_db m) w"
  unfolding safe_def by (rule wpD, rule wp_db_fs) simp_all

lemma keeps_db_read: "reads m f \<Longrightarrow> keeps (\<lambda>w. P (db w)) (on_db m)"
  by (rule keeps_on_db, rule keeps_read)

lemmas db_reads = reads_roles [THEN keeps_db_read]

lemma keeps_db_refuse: "keeps (\<lambda>w. P (db w)) (assign_refuse actor tid uid e)" "keeps (\<lambda>w. P (db w)) (group_refuse actor tid typ knd ident e)"
  by (simp_all add: assign_refuse_def group_refuse_def keeps_intros keeps_emit)

lemma keeps_alike_require: "keeps (alike w) (require ctx tid)"
  by (rule keepsI) (auto simp: require_def wp_simps alike_def split: prod.split option.split)

lemma keeps_alike_emit: "keeps (alike w) (emit e)"
  by (rule keepsI) (simp add: alike_def)

lemma keeps_alike_events:
  "keeps (alike w) (role_event actor tid typ uid out)" "keeps (alike w) (group_event actor tid typ knd ident)"
  by (simp_all add: role_event_def group_event_def keeps_alike_emit)

section \<open>Who may hand out a role\<close>

definition holds :: "actor \<Rightarrow> string \<Rightarrow> world \<Rightarrow> perm_ref \<Rightarrow> bool" where
  "holds a tid w p \<longleftrightarrow> fga_check (fga w) (Tuple (UserObject (act_UserID a)) ''granted'' (PermissionObject tid p))"

definition top_role :: "role \<Rightarrow> bool" where
  "top_role ro \<longleftrightarrow> ro_Slug ro = ''owner'' \<or> ro_Slug ro = ''admin''"

definition may_hand_out :: "actor \<Rightarrow> string \<Rightarrow> world \<Rightarrow> role \<Rightarrow> bool" where
  "may_hand_out a tid w ro \<longleftrightarrow>
     List.member (act_Roles a) ''owner'' \<or> act_Kind a = KindSystem
     \<or> (\<not> top_role ro \<and> list_all (holds a tid w) (get_list (RolePerms (db w)) (ro_ID ro)))"

text \<open>Role rows are stored under their ids.\<close>

definition roles_keyed :: "memstore \<Rightarrow> bool" where
  "roles_keyed m \<longleftrightarrow> list_all (\<lambda>(k, r). ro_ID r = k) (RoleRows m)"

lemma role_in_ID: "roles_keyed m \<Longrightarrow> role_in tid ident m = Some r \<Longrightarrow> ro_ID r = ident"
  by (auto simp: roles_keyed_def role_in_def list_all_iff dest!: map_of_SomeD split: option.splits if_splits)

context fga_backend
begin

text \<open>A permission that may be granted is held, unless the actor is an owner or the system.\<close>

lemma good_AllowedMany:
  assumes "az_Backend C = B" "alike w w0"
  shows "good (AllowedMany C ctx tid (act_UserID a) ps) (\<lambda>bs w1. alike w w1 \<and> list_all2 (\<lambda>p ok. ok \<longrightarrow> holds a tid w p) ps bs) w0"
  unfolding AllowedMany_def scoped_def Let_def assms(1)
proof (rule good_seq [where R = "\<lambda>_. alike w"])
  show "good (seq_op (require ctx tid) (of_result (own_objects tid (map (PermissionObject tid) ps)))) (\<lambda>_. alike w) w0"
    by (rule good_keeps, intro keeps_intros keeps_alike_require) (rule assms(2))
  fix x w1 assume w1: "alike w w1"
  show "good (be_BatchCheck B (map (Tuple (UserObject (act_UserID a)) ''granted'') (map (PermissionObject tid) ps)))
    (\<lambda>bs w1. alike w w1 \<and> list_all2 (\<lambda>p ok. ok \<longrightarrow> holds a tid w p) ps bs) w1"
    by (rule good_wp, rule wp_mono [OF BatchCheck]) (use w1 in \<open>auto simp: alike_def holds_def list_all2_map1\<close>)
qed

lemma good_MayGrant:
  assumes "az_Backend C = B" "alike w w0"
  shows "good (MayGrant C ctx a tid perms)
    (\<lambda>_ w1. alike w w1 \<and> (List.member (act_Roles a) ''owner'' \<or> act_Kind a = KindSystem \<or> list_all (holds a tid w) perms)) w0"
proof -
  consider "perms = [] \<or> List.member (act_Roles a) ''owner'' \<or> act_Kind a = KindSystem"
    | "perms \<noteq> []" "\<not> List.member (act_Roles a) ''owner''" "act_Kind a \<noteq> KindSystem" by blast
  then show ?thesis
  proof cases
    case 1
    then have "MayGrant C ctx a tid perms = ret ()" by (auto simp: MayGrant_def)
    then show ?thesis using 1 assms(2) by (auto intro: good_ret)
  next
    case 2
    then have eq: "MayGrant C ctx a tid perms =
        bind_op (AllowedMany C ctx tid (act_UserID a) perms) (\<lambda>held. check_op (list_all (\<lambda>ok. ok) held) ErrSelfEscalation)"
      by (simp add: MayGrant_def)
    show ?thesis unfolding eq
      by (rule good_bind [OF good_AllowedMany [OF assms]], rule good_check) (auto simp: list_all2_conv_all_nth list_all_length)
  qed
qed

lemma good_granting:
  assumes "alike w w0"
  shows "good (granting_of tid roles) (\<lambda>perms w1. alike w w1 \<and> list_all (\<lambda>r. \<not> top_role r) roles
    \<and> perms = concat (map (\<lambda>r. get_list (RolePerms (db w)) (ro_ID r)) roles)) w0"
  using assms
proof (induction roles arbitrary: w0)
  case Nil
  then show ?case by (auto intro: good_ret)
next
  case (Cons r rs)
  show ?case
  proof (cases "ro_Slug r = ''owner'' \<or> ro_Slug r = ''admin''")
    case True
    then show ?thesis by (simp add: good_throw)
  next
    case False
    have read: "good (on_db (Store_RolePermissions tid (ro_ID r))) (\<lambda>ps w1. alike w w1 \<and> ps = get_list (RolePerms (db w)) (ro_ID r)) w0"
      by (rule good_read [OF reads_roles(3)]) (use Cons.prems in \<open>auto simp: alike_def split: option.splits\<close>)
    have "good (bind_op (on_db (Store_RolePermissions tid (ro_ID r))) (\<lambda>ps. bind_op (granting_of tid rs) (\<lambda>qs. ret (ps @ qs))))
      (\<lambda>perms w1. alike w w1 \<and> list_all (\<lambda>r. \<not> top_role r) (r # rs)
        \<and> perms = concat (map (\<lambda>r. get_list (RolePerms (db w)) (ro_ID r)) (r # rs))) w0"
      by (rule good_bind [OF read], rule good_bind, rule Cons.IH, simp, rule good_ret) (use False in \<open>auto simp: top_role_def\<close>)
    then show ?thesis using False by simp
  qed
qed

end

lemma set_dedupe_from: "set (dedupe_from seen ids) = set ids - set seen"
  by (induction ids arbitrary: seen) auto

lemma set_dedupe [simp]: "set (dedupe ids) = set ids"
  by (simp add: dedupe_def set_dedupe_from)

lemma those_set: "those (map f xs) = Some ys \<Longrightarrow> set ys = {y. \<exists>x \<in> set xs. f x = Some y}"
  by (induction xs arbitrary: ys) (auto split: option.splits)

lemma those_all: "those (map f xs) = Some ys \<Longrightarrow> x \<in> set xs \<Longrightarrow> \<exists>y \<in> set ys. f x = Some y"
  by (induction xs arbitrary: ys) (auto split: option.splits)

context fga_backend
begin

lemma good_MayAssign:
  assumes C: "az_Backend C = B" and w0: "alike w w0"
  shows "good (MayAssign C ctx a tid ids)
    (\<lambda>_ w1. alike w w1 \<and> (\<forall>ident r. ident \<in> set ids \<longrightarrow> role_in tid ident (db w) = Some r \<longrightarrow> ro_RetiredAt r = None \<and> may_hand_out a tid w r)) w0"
  (is "good _ (\<lambda>_ w1. alike w w1 \<and> ?ok) w0")
  unfolding MayAssign_def
proof (rule good_seq [where R = "\<lambda>_. alike w"])
  show "good (require ctx tid) (\<lambda>_. alike w) w0" by (rule good_keeps [OF keeps_alike_require w0])
  fix x w1 assume w1: "alike w w1"
  show "good (if ids = [] then ret ()
      else bind_op (on_db (Store_RolesByID tid (dedupe ids))) (\<lambda>roles. seq_op (of_result (refuseRetired roles))
        (if List.member (act_Roles a) ''owner'' then ret () else bind_op (granting_of tid roles) (\<lambda>granting. MayGrant C ctx a tid granting))))
    (\<lambda>_ w1. alike w w1 \<and> ?ok) w1"
  proof (cases "ids = []")
    case True
    then show ?thesis using w1 by (auto intro: good_ret)
  next
    case False
    have read: "good (on_db (Store_RolesByID tid (dedupe ids)))
        (\<lambda>roles w2. alike w w2 \<and> those (map (\<lambda>ident. role_in tid ident (db w)) (dedupe ids)) = Some roles) w1"
      by (rule good_read [OF reads_roles(1)]) (use w1 in \<open>auto simp: alike_def\<close>)
    have rest: "good (seq_op (of_result (refuseRetired roles))
        (if List.member (act_Roles a) ''owner'' then ret () else bind_op (granting_of tid roles) (\<lambda>granting. MayGrant C ctx a tid granting)))
      (\<lambda>_ w1. alike w w1 \<and> ?ok) w2"
      if w2: "alike w w2" and roles: "those (map (\<lambda>ident. role_in tid ident (db w)) (dedupe ids)) = Some roles" for roles w2
    proof (rule good_seq [OF good_of_result])
      have member: "r \<in> set roles" if "ident \<in> set ids" "role_in tid ident (db w) = Some r" for ident r
        using those_all [OF roles, of ident] that by auto
      fix u w3 assume "alike w w3 \<and> list_all (\<lambda>r. ro_RetiredAt r = None) roles"
      then have w3: "alike w w3" and live: "list_all (\<lambda>r. ro_RetiredAt r = None) roles" by auto
      show "good (if List.member (act_Roles a) ''owner'' then ret () else bind_op (granting_of tid roles) (\<lambda>granting. MayGrant C ctx a tid granting))
        (\<lambda>_ w1. alike w w1 \<and> ?ok) w3"
      proof (cases "List.member (act_Roles a) ''owner''")
        case True
        then show ?thesis using w3 live member by (auto simp: may_hand_out_def list_all_iff intro!: good_ret)
      next
        case False
        have "good (bind_op (granting_of tid roles) (\<lambda>granting. MayGrant C ctx a tid granting)) (\<lambda>_ w1. alike w w1 \<and> ?ok) w3"
          by (rule good_bind [OF good_granting [OF w3]], rule good_mono [OF good_MayGrant [OF C]])
            (use live member in \<open>auto simp: may_hand_out_def list_all_iff\<close>)
        then show ?thesis using False by simp
      qed
    next
      fix x assume "refuseRetired roles = Inr x"
      then show "alike w w2 \<and> list_all (\<lambda>r. ro_RetiredAt r = None) roles"
        using w2 by (auto simp: refuseRetired_def list_ex_iff list_all_iff split: if_splits)
    qed
    show ?thesis unfolding if_not_P [OF False] by (rule good_bind [OF read], erule conjE, rule rest)
  qed
qed

end

section \<open>Assignment to users\<close>

definition bound :: "memstore \<Rightarrow> string \<Rightarrow> string \<Rightarrow> string list" where
  "bound m tid uid = get_list (Bindings m) (pair_key tid uid)"

lemma get_list_update [simp]: "get_list (AList.update k v t) k' = (if k = k' then v else get_list t k')"
  by (simp add: get_list_def update_conv')

lemma map_filter_set: "set (List.map_filter f xs) = {y. \<exists>x \<in> set xs. f x = Some y}"
  by (induction xs) (auto simp: map_filter_simps split: option.splits)

lemma containsRole_iff:
  assumes "roles_keyed m" "set roles = {r. \<exists>ident \<in> I. role_in tid ident m = Some r}"
  shows "containsRole roles rid \<longleftrightarrow> rid \<in> I \<and> role_in tid rid m \<noteq> None"
  using assms role_in_ID [OF assms(1)] by (auto simp: containsRole_def list_ex_iff)

lemma keeps_db_KV_bump: "keeps (\<lambda>w. P (db w)) (BumpTenantVersion World_KV now tid)"
  by (simp add: BumpTenantVersion_def keeps_World_KV)

text \<open>A role somebody holds after an assignment was held before, or the actor may hand it out.\<close>

definition handed_out :: "actor \<Rightarrow> string \<Rightarrow> world \<Rightarrow> string list \<Rightarrow> string list \<Rightarrow> bool" where
  "handed_out a tid w before after \<longleftrightarrow>
     list_all (\<lambda>rid. List.member before rid \<or> (\<exists>r. role_in tid rid (db w) = Some r \<and> ro_RetiredAt r = None \<and> may_hand_out a tid w r)) after"

lemma handed_out_new:
  assumes keyed: "roles_keyed (db w)"
    and want: "those (map (\<lambda>ident. role_in tid ident (db w)) (dedupe ids)) = Some roles"
    and haves: "haves = List.map_filter (\<lambda>ident. role_in tid ident (db w)) before"
    and may: "\<And>r. r \<in> set (filter (\<lambda>r. \<not> containsRole haves (ro_ID r)) roles) \<Longrightarrow> role_in tid (ro_ID r) (db w) = Some r
      \<Longrightarrow> ro_RetiredAt r = None \<and> may_hand_out a tid w r"
  shows "handed_out a tid w before (map ro_ID roles)"
  unfolding handed_out_def list_all_iff
proof
  fix rid assume "rid \<in> set (map ro_ID roles)"
  then obtain r where r: "r \<in> set roles" "ro_ID r = rid" by auto
  then have row: "role_in tid rid (db w) = Some r" using those_set [OF want] role_in_ID [OF keyed] by force
  have H: "set haves = {r. \<exists>ident \<in> set before. role_in tid ident (db w) = Some r}"
    using haves by (simp add: map_filter_set)
  show "List.member before rid \<or> (\<exists>r. role_in tid rid (db w) = Some r \<and> ro_RetiredAt r = None \<and> may_hand_out a tid w r)"
  proof (cases "containsRole haves rid")
    case True
    then show ?thesis using containsRole_iff [OF keyed H] by simp
  next
    case False
    then show ?thesis using may [of r] r row by simp
  qed
qed

context fga_backend
begin

lemma keeps_db_Client_Write: "az_Backend C = B \<Longrightarrow> keeps (\<lambda>w. P (db w)) (Client_Write C ctx now tid adds removes)"
proof -
  assume C: "az_Backend C = B"
  have "keeps (\<lambda>w. P (db w)) (be_Write B adds removes)"
    by (rule keepsI, rule wp_mono [OF Write]) simp
  then show ?thesis unfolding Client_Write_def scoped_def C
    by (intro keeps_intros keeps_db_require keeps_db_KV_bump)
qed

lemma keeps_db_AllowedMany: "az_Backend C = B \<Longrightarrow> keeps (\<lambda>w. P (db w)) (AllowedMany C ctx tid uid ps)"
proof -
  assume C: "az_Backend C = B"
  have "keeps (\<lambda>w. P (db w)) (be_BatchCheck B qs)" for qs by (rule keepsI, rule wp_mono [OF BatchCheck]) simp
  then show ?thesis unfolding AllowedMany_def scoped_def Let_def C by (intro keeps_intros keeps_db_require)
qed

lemma keeps_db_MayGrant: "az_Backend C = B \<Longrightarrow> keeps (\<lambda>w. P (db w)) (MayGrant C ctx a tid ps)"
  unfolding MayGrant_def by (intro keeps_intros keeps_db_AllowedMany)

lemma keeps_db_granting: "keeps (\<lambda>w. P (db w)) (granting_of tid roles)"
  by (induction roles) (simp_all only: granting_of.simps, (intro keeps_intros db_reads | assumption)+)

lemma keeps_db_MayAssign: "az_Backend C = B \<Longrightarrow> keeps (\<lambda>w. P (db w)) (MayAssign C ctx a tid ids)"
  unfolding MayAssign_def by (intro keeps_intros keeps_db_require db_reads keeps_db_granting keeps_db_MayGrant)

text \<open>Assignment, whatever its outcome.\<close>

lemma safe_AssignRoles:
  assumes C: "az_Backend C = B" and ctx: "FromContext ctx = Some a" and keyed: "roles_keyed (db w)"
  shows "safe (\<lambda>d. handed_out a tid w (bound (db w) tid uid) (bound d tid uid)) (AssignRoles C ctx now tid uid ids) w"
  (is "safe ?ok _ w")
proof -
  have start: "?ok (db w)" by (simp add: handed_out_def list_all_iff)
  have alike: "alike w w' \<Longrightarrow> ?ok (db w')" for w' using start by (simp add: alike_def)
  have want: "good (on_db (Store_RolesByID tid (dedupe ids)))
      (\<lambda>roles w2. alike w w2 \<and> those (map (\<lambda>ident. role_in tid ident (db w)) (dedupe ids)) = Some roles) w1" if "alike w w1" for w1
    by (rule good_read [OF reads_roles(1)]) (use that in \<open>auto simp: alike_def\<close>)
  have old: "good (on_db (Store_UserRoles tid uid))
      (\<lambda>roles w2. alike w w2 \<and> roles = List.map_filter (\<lambda>ident. role_in tid ident (db w)) (bound (db w) tid uid)) w1" if "alike w w1" for w1
    by (rule good_read [OF reads_roles(2)]) (use that in \<open>auto simp: alike_def bound_def\<close>)
  have count: "good (if b then bind_op (on_db (Store_CountWithRole tid ''owner'')) (\<lambda>n. ret (n \<le> 1)) else ret False) (\<lambda>_. alike w) w3"
    if "alike w w3" for b w3
  proof -
    have "good (on_db (Store_CountWithRole tid ''owner'')) (\<lambda>_. alike w) w3"
      by (rule good_read [OF reads_roles(4)]) (use that alike_trans in blast)
    then show ?thesis using that by (auto intro!: good_bind good_ret)
  qed
  note reading = keeps_intros keeps_db_require db_reads keeps_db_MayAssign [OF C]
  note changing = keeps_intros keeps_db_Client_Write [OF C] keeps_emit
  have last_step: "safe ?ok (seq_op (on_db (Store_ReplaceBindings tid uid (map ro_ID roles))) n) w4"
    if "alike w w4" "handed_out a tid w (bound (db w) tid uid) (map ro_ID roles)" "\<And>P. keeps (\<lambda>w. P (db w)) n" for roles w4 and n :: "(world, string list) op"
    by (rule safe_seq_keeps [OF safe_update that(3)]) (use alike that(1,2) in \<open>auto simp: Store_ReplaceBindings_def bound_def\<close>)
  have kept: "keeps (\<lambda>w. ?ok (db w)) m \<Longrightarrow> alike w w1 \<Longrightarrow> safe ?ok m w1" for m :: "(world, 'x) op" and w1
    by (rule safe_keeps, assumption, rule alike)
  show ?thesis unfolding AssignRoles_def ctx option.case Let_def
  proof (rule safe_seq [OF kept [OF keeps_db_require] good_keeps [OF keeps_alike_require [of w]]], goal_cases)
    case (3 x w1)
    then show ?case
    proof (intro safe_bind [OF kept [OF db_reads(1)] want], goal_cases)
      case (3 roles w2)
      then have w2: "alike w w2" and roles: "those (map (\<lambda>ident. role_in tid ident (db w)) (dedupe ids)) = Some roles" by auto
      show ?case
      proof (intro safe_bind [OF kept [OF db_reads(2)] old] w2, goal_cases)
        case (1 haves w3)
        then have w3: "alike w w3" and haves: "haves = List.map_filter (\<lambda>ident. role_in tid ident (db w)) (bound (db w) tid uid)" by auto
        show ?case
        proof (rule safe_try [OF kept [OF keeps_db_MayAssign [OF C]] good_MayAssign [OF C, of w]], goal_cases)
          case (3 u w4)
          have new: "handed_out a tid w (bound (db w) tid uid) (map ro_ID roles)"
            by (rule handed_out_new [OF keyed roles haves]) (use conjunct2 [OF 3] in auto)
          show ?case unfolding sum.case
          proof (intro safe_bind [OF kept count] conjunct1 [OF 3], goal_cases)
            case (2 last_one w5)
            show ?case
            proof (cases last_one)
              case False
              show ?thesis unfolding if_not_P [OF False]
                by (rule last_step [OF 2 new], unfold role_event_def) (intro changing)
            qed (use alike [OF 2] in \<open>simp add: safe_keeps [OF keeps_db_refuse(1)]\<close>)
          qed (intro reading)
        qed (use w3 in \<open>auto intro!: safe_keeps keeps_intros keeps_db_refuse\<close>)
      qed
    qed
  qed simp_all
qed

end

section \<open>Groups\<close>

definition group_roles :: "memstore \<Rightarrow> string \<Rightarrow> string list" where "group_roles m gid = get_list (gs_roles m) gid"
definition group_members :: "memstore \<Rightarrow> string \<Rightarrow> string list" where "group_members m gid = get_list (gs_members m) gid"

lemma IsOwner_member: "IsOwner a \<longleftrightarrow> List.member (act_Roles a) ''owner''"
  by (auto simp: IsOwner_def HasRole_def list_ex_iff)

lemma good_roleGrants:
  assumes "alike w w0"
  shows "good (roleGrants tid roles) (\<lambda>g w1. alike w w1 \<and> g = (concat (map (\<lambda>r. get_list (RolePerms (db w)) (ro_ID r)) roles),
    list_ex top_role roles)) w0"
  using assms
proof (induction roles arbitrary: w0)
  case Nil
  then show ?case by (auto intro: good_ret)
next
  case (Cons r rs)
  have read: "good (on_db (Store_RolePermissions tid (ro_ID r))) (\<lambda>ps w1. alike w w1 \<and> ps = get_list (RolePerms (db w)) (ro_ID r)) w0"
    by (rule good_read [OF reads_roles(3)]) (use Cons.prems in \<open>auto simp: alike_def split: option.splits\<close>)
  show ?case unfolding roleGrants.simps
    by (rule good_bind [OF read], rule good_bind, rule Cons.IH, simp) (auto intro!: good_ret simp: top_role_def)
qed

context fga_backend
begin

lemma good_group_escalation:
  assumes C: "az_Backend C = B" and "alike w w0"
  shows "good (group_escalation C ctx a tid typ ident (concat (map (\<lambda>r. get_list (RolePerms (db w)) (ro_ID r)) roles))
      (list_ex top_role roles))
    (\<lambda>_ w1. alike w w1 \<and> list_all (may_hand_out a tid w) roles) w0"
proof (cases "list_ex top_role roles \<and> unprivileged a")
  case True
  then show ?thesis by (simp add: group_escalation_def good_refuse)
next
  case False
  let ?perms = "concat (map (\<lambda>r. get_list (RolePerms (db w)) (ro_ID r)) roles)"
  have out: "list_all (may_hand_out a tid w) roles"
    if "List.member (act_Roles a) ''owner'' \<or> act_Kind a = KindSystem \<or> list_all (holds a tid w) ?perms"
    using that False by (auto simp: may_hand_out_def unprivileged_def IsOwner_member list_all_iff list_ex_iff)
  show ?thesis unfolding group_escalation_def if_not_P [OF False]
    by (rule good_try [OF good_MayGrant [OF assms]]) (auto intro!: good_ret out good_refuse good_throw)
qed

lemma keeps_db_group_escalation: "az_Backend C = B \<Longrightarrow> keeps (\<lambda>w. P (db w)) (group_escalation C ctx a tid typ ident perms privileged)"
  unfolding group_escalation_def by (intro keeps_intros keeps_db_refuse keeps_db_MayGrant)

end

lemma keeps_db_roleGrants: "keeps (\<lambda>w. P (db w)) (roleGrants tid roles)"
  by (induction roles) (simp_all only: roleGrants.simps, (intro keeps_intros db_reads | assumption)+)

lemma keeps_db_admin: "keeps (\<lambda>w. P (db w)) (Groups_admin ctx tid typ knd ident)"
  unfolding Groups_admin_def by (intro keeps_intros keeps_db_require keeps_db_refuse)

lemma good_admin:
  assumes "FromContext ctx = Some a" "alike w w0"
  shows "good (Groups_admin ctx tid typ knd ident) (\<lambda>a' w1. alike w w1 \<and> a' = a) w0"
  unfolding Groups_admin_def assms(1) option.case
  by (rule good_seq [OF good_keeps [OF keeps_alike_require [of w]]]) (use assms(2) in \<open>auto intro!: good_ret good_refuse\<close>)

lemma good_get_group: "alike w w0 \<Longrightarrow> good (on_db (Store_GetGroup tid gid)) (\<lambda>_. alike w) w0"
  by (rule good_read [OF reads_roles(5)]) (use alike_trans in blast)

lemma good_group_roles:
  "alike w w0 \<Longrightarrow> good (on_db (Store_GroupRoles tid gid))
     (\<lambda>roles w1. alike w w1 \<and> roles = List.map_filter (\<lambda>ident. role_in tid ident (db w)) (group_roles (db w) gid)) w0"
  by (rule good_read [OF reads_roles(6)]) (auto simp: alike_def group_roles_def split: option.splits)

context fga_backend
begin

lemma safe_AddMembers:
  assumes C: "az_Backend C = B" and ctx: "FromContext ctx = Some a"
  shows "safe (\<lambda>d. group_members d gid = group_members (db w) gid
      \<or> list_all (\<lambda>rid. \<forall>r. role_in tid rid (db w) = Some r \<longrightarrow> may_hand_out a tid w r) (group_roles (db w) gid))
    (AddMembers C ctx now tid gid uids) w" (is "safe ?ok _ w")
proof -
  have alike: "alike w w' \<Longrightarrow> ?ok (db w')" for w' by (simp add: alike_def)
  have kept: "keeps (\<lambda>w. ?ok (db w)) m \<Longrightarrow> alike w w1 \<Longrightarrow> safe ?ok m w1" for m :: "(world, 'x) op" and w1
    by (rule safe_keeps, assumption, rule alike)
  let ?roles = "List.map_filter (\<lambda>ident. role_in tid ident (db w)) (group_roles (db w) gid)"
  have grants: "good (groupGrants tid gid) (\<lambda>g w1. alike w w1 \<and> g = (concat (map (\<lambda>r. get_list (RolePerms (db w)) (ro_ID r)) ?roles),
      list_ex top_role ?roles)) w1" if "alike w w1" for w1
    unfolding groupGrants_def by (rule good_bind [OF good_group_roles [OF that]]) (auto intro: good_roleGrants)
  have finish: "safe ?ok m w1" if "list_all (may_hand_out a tid w) ?roles" for m :: "(world, nat) op" and w1
    using that by (auto simp: safe_def list_all_iff map_filter_set)
  note reading = keeps_intros keeps_db_require db_reads keeps_db_roleGrants keeps_db_admin keeps_db_group_escalation [OF C]
  show ?thesis unfolding AddMembers_def Let_def
  proof (rule safe_bind [OF kept [OF keeps_db_admin] good_admin [OF ctx, of w]], goal_cases)
    case (3 x w1)
    then have w1: "alike w w1" and x: "x = a" by auto
    show ?case unfolding x
    proof (intro safe_bind [OF kept [OF db_reads(5)] good_get_group [of w]] w1, goal_cases)
      case (1 y w2)
      then show ?case
      proof (intro safe_seq [OF kept [OF keeps_check] good_keeps [OF keeps_check, of "alike w"]], goal_cases)
        case (3 z w3)
        have gg: "keeps (\<lambda>w. ?ok (db w)) (groupGrants tid gid)" unfolding groupGrants_def by (intro reading)
        show ?case
        proof (intro safe_bind [OF kept [OF gg] grants] 3, goal_cases)
          case (1 g w4)
          then have w4: "alike w w4" and g: "g = (concat (map (\<lambda>r. get_list (RolePerms (db w)) (ro_ID r)) ?roles), list_ex top_role ?roles)"
            by auto
          show ?case unfolding g prod.case
            by (rule safe_seq [OF kept [OF keeps_db_group_escalation [OF C] w4] good_group_escalation [OF C w4]], erule conjE, erule finish)
        qed
      qed
    qed
  qed simp_all
qed

lemma safe_SetRoles:
  assumes C: "az_Backend C = B" and ctx: "FromContext ctx = Some a" and keyed: "roles_keyed (db w)"
  shows "safe (\<lambda>d. handed_out a tid w (group_roles (db w) gid) (group_roles d gid)) (SetRoles C ctx now tid gid ids) w"
  (is "safe ?ok _ w")
proof -
  have start: "?ok (db w)" by (simp add: handed_out_def list_all_iff)
  have alike: "alike w w' \<Longrightarrow> ?ok (db w')" for w' using start by (simp add: alike_def)
  have kept: "keeps (\<lambda>w. ?ok (db w)) m \<Longrightarrow> alike w w1 \<Longrightarrow> safe ?ok m w1" for m :: "(world, 'x) op" and w1
    by (rule safe_keeps, assumption, rule alike)
  let ?haves = "List.map_filter (\<lambda>ident. role_in tid ident (db w)) (group_roles (db w) gid)"
  have want: "good (on_db (Store_RolesByID tid (dedupe ids)))
      (\<lambda>roles w2. alike w w2 \<and> those (map (\<lambda>ident. role_in tid ident (db w)) (dedupe ids)) = Some roles) w1" if "alike w w1" for w1
    by (rule good_read [OF reads_roles(1)]) (use that in \<open>auto simp: alike_def\<close>)
  have last_step: "safe ?ok (seq_op (on_db (Store_ReplaceGroupRoles tid gid (map ro_ID roles))) n) w4"
    if "alike w w4" "handed_out a tid w (group_roles (db w) gid) (map ro_ID roles)" "\<And>P. keeps (\<lambda>w. P (db w)) n"
    for roles w4 and n :: "(world, string list) op"
    by (rule safe_seq_keeps [OF safe_update that(3)])
      (use alike that(1,2) in \<open>auto simp: Store_ReplaceGroupRoles_def group_roles_def split: option.split\<close>)
  note changing = keeps_intros keeps_db_Client_Write [OF C] keeps_emit
  show ?thesis unfolding SetRoles_def Let_def
  proof (rule safe_bind [OF kept [OF keeps_db_admin] good_admin [OF ctx, of w]], goal_cases)
    case (3 x w1)
    then have w1: "alike w w1" and x: "x = a" by auto
    show ?case unfolding x
    proof (intro safe_bind [OF kept [OF db_reads(5)] good_get_group [of w]] w1, goal_cases)
      case (1 y w2)
      then show ?case
      proof (intro safe_seq [OF kept [OF keeps_check] good_keeps [OF keeps_check, of "alike w"]], goal_cases)
        case (3 z w3)
        then show ?case
        proof (intro safe_bind [OF kept [OF db_reads(1)] want], goal_cases)
          case (3 roles w4)
          then have w4: "alike w w4" and roles: "those (map (\<lambda>ident. role_in tid ident (db w)) (dedupe ids)) = Some roles" by auto
          show ?case
          proof (intro safe_bind [OF kept [OF db_reads(6)] good_group_roles [of w]] w4, goal_cases)
            case (1 haves w5)
            then have w5: "alike w w5" and haves: "haves = ?haves" by auto
            let ?adding = "filter (\<lambda>r. \<not> containsRole haves (ro_ID r)) roles"
            have grants: "good (roleGrants tid ?adding) (\<lambda>g w1. alike w w1
                \<and> g = (concat (map (\<lambda>r. get_list (RolePerms (db w)) (ro_ID r)) ?adding), list_ex top_role ?adding)) w5"
              by (rule good_roleGrants [OF w5])
            show ?case
            proof (cases "containsSlug roles ''owner''")
              case True
              then show ?thesis by (simp only: if_True) (rule kept [OF keeps_db_refuse(2) w5])
            next
              case no_owner: False
              show ?thesis
              proof (cases "refuseRetired ?adding")
                case (Inl e)
                show ?thesis unfolding if_not_P [OF no_owner] Inl sum.case by (rule kept [OF keeps_db_refuse(2) w5])
              next
                case (Inr u)
                then have live: "list_all (\<lambda>r. ro_RetiredAt r = None) ?adding"
                  by (auto simp: refuseRetired_def list_ex_iff list_all_iff split: if_splits)
                show ?thesis unfolding if_not_P [OF no_owner] Inr sum.case
                proof (rule safe_bind [OF kept [OF keeps_db_roleGrants w5] grants], goal_cases)
                  case (1 g w6)
                  then have w6: "alike w w6" and g: "g = (concat (map (\<lambda>r. get_list (RolePerms (db w)) (ro_ID r)) ?adding), list_ex top_role ?adding)"
                    by auto
                  show ?case unfolding g prod.case
                  proof (rule safe_seq [OF kept [OF keeps_db_group_escalation [OF C] w6] good_group_escalation [OF C w6]], erule conjE, goal_cases)
                    case (1 v w7)
                    have "handed_out a tid w (group_roles (db w) gid) (map ro_ID roles)"
                      by (rule handed_out_new [OF keyed roles haves]) (use live 1(2) in \<open>auto simp: list_all_iff\<close>)
                    then show ?case
                      by (rule last_step [OF 1(1)], unfold group_event_def) (intro changing)
                  qed
                qed
              qed
            qed
          qed
        qed
      qed
    qed
  qed simp_all
qed

end

section \<open>Nobody hands out more than they hold\<close>

text \<open>
  C9: Nobody hands out a role they could not use themselves.  After an assignment, finished or cut
  short by a failing call, every role the user is bound to is either one the user was already bound to
  or a role of this tenant that is not retired and that the actor may hand out: the actor is an owner or
  the system, or the role is neither owner nor admin and the authorization backend grants the actor
  every permission of the role.  The same holds for the roles of a group, and nobody joins a group
  through a request of an actor who may not hand out each of the group's roles.
\<close>

theorem nobody_hands_out_more:
  assumes "FromContext ctx = Some a" "roles_keyed (db w)" "C = \<lparr>az_Backend = Fake, az_Cache = cached\<rparr>"
  shows "handed_out a tid w (bound (db w) tid uid) (bound (db (snd (AssignRoles C ctx now tid uid ids w))) tid uid)
    \<and> handed_out a tid w (group_roles (db w) gid) (group_roles (db (snd (SetRoles C ctx now tid gid ids w))) gid)
    \<and> (group_members (db (snd (AddMembers C ctx now tid gid uids w))) gid = group_members (db w) gid
       \<or> list_all (\<lambda>rid. \<forall>r. role_in tid rid (db w) = Some r \<longrightarrow> may_hand_out a tid w r) (group_roles (db w) gid))"
  using fake.safe_AssignRoles [of C ctx a w tid uid now ids] fake.safe_SetRoles [of C ctx a w tid gid now ids]
    fake.safe_AddMembers [of C ctx a gid w tid now uids] assms
  by (simp add: safe_def)

definition demo_tid :: string where "demo_tid = ''0a1b2c3d-0000-4000-8000-00000000000a''"

definition demo_role :: "string \<Rightarrow> string \<Rightarrow> role" where
  "demo_role rid slug = \<lparr>ro_ID = rid, ro_TenantID = demo_tid, ro_Slug = slug, ro_DisplayName = slug, ro_Builtin = False, ro_CreatedAt = 0,
     ro_UpdatedAt = 0, ro_Origin = ''custom'', ro_Module = '''', ro_ModuleSlug = '''', ro_Description = '''', ro_RetiredAt = None\<rparr>"

definition demo_read :: perm_ref where "demo_read = \<lparr>ref_module = ''billing'', ref_resource = ''invoices'', ref_action = ''read''\<rparr>"
definition demo_pay :: perm_ref where "demo_pay = \<lparr>ref_module = ''billing'', ref_resource = ''invoices'', ref_action = ''pay''\<rparr>"

definition demo_roles :: world where
  "demo_roles = New_World\<lparr>
     db := New_Store\<lparr>RoleRows := [(''R'', demo_role ''R'' ''reader''), (''P'', demo_role ''P'' ''payer'')],
       RolePerms := [(''R'', [demo_read]), (''P'', [demo_pay])]\<rparr>,
     fga := [RoleAssignmentTuple demo_tid ''reader'' ''A'', GrantTuple demo_tid ''reader'' demo_read]\<rparr>"

definition demo_ctx :: "actor \<Rightarrow> req_context" where "demo_ctx a = \<lparr>ctx_actor = Some a, ctx_grant = None\<rparr>"

definition demo_helper :: actor where
  "demo_helper = no_actor\<lparr>act_Kind := ''user'', act_UserID := ''A'', act_TenantID := demo_tid, act_Roles := [''admin'']\<rparr>"

text \<open>An administrator who reads invoices passes that on, and may not make anybody a payer.\<close>

theorem nobody_hands_out_more_witness:
  "FromContext (demo_ctx demo_helper) = Some demo_helper \<and> roles_keyed (db demo_roles)
   \<and> bound (db (snd (AssignRoles \<lparr>az_Backend = Fake, az_Cache = False\<rparr> (demo_ctx demo_helper) 0 demo_tid ''U'' [''R''] demo_roles))) demo_tid ''U'' = [''R'']
   \<and> handed_out demo_helper demo_tid demo_roles [] [''R'']
   \<and> fst (AssignRoles \<lparr>az_Backend = Fake, az_Cache = False\<rparr> (demo_ctx demo_helper) 0 demo_tid ''U'' [''R'', ''P''] demo_roles)
       = Inl ErrSelfEscalation"
proof -
  have ctx: "FromContext (demo_ctx demo_helper) = Some demo_helper" by (simp add: FromContext_def demo_ctx_def)
  have keyed: "roles_keyed (db demo_roles)" by code_simp
  have before: "bound (db demo_roles) demo_tid ''U'' = []" by code_simp
  have after: "bound (db (snd (AssignRoles \<lparr>az_Backend = Fake, az_Cache = False\<rparr> (demo_ctx demo_helper) 0 demo_tid ''U'' [''R''] demo_roles))) demo_tid ''U''
      = [''R'']" by code_simp
  have refused: "fst (AssignRoles \<lparr>az_Backend = Fake, az_Cache = False\<rparr> (demo_ctx demo_helper) 0 demo_tid ''U'' [''R'', ''P''] demo_roles)
      = Inl ErrSelfEscalation" by code_simp
  have "handed_out demo_helper demo_tid demo_roles [] [''R'']"
    using conjunct1 [OF nobody_hands_out_more [OF ctx keyed refl, of demo_tid "''U''" False 0 "[''R'']"]] unfolding before after .
  with ctx keyed after refused show ?thesis by blast
qed


end
