(* ===== verification/Authz_Deletion.thy ===== *)
theory Authz_Deletion
  imports Authz_Escalation
begin

text \<open>
  Deleting a group: the loop over the pages of its members ends after one call per full page and one
  more, and a deletion that succeeds leaves none of the group's tuples behind.
\<close>

section \<open>Paging through the members\<close>

text \<open>Members carry the time they joined, later ones a later time.\<close>

definition joined_in_order :: "memstore \<Rightarrow> string \<Rightarrow> bool" where
  "joined_in_order m gid \<longleftrightarrow>
     list_all (\<lambda>uid. added_at m gid uid \<noteq> None) (get_list (gs_members m) gid)
     \<and> sorted_wrt (\<lambda>u v. the (added_at m gid u) < the (added_at m gid v)) (get_list (gs_members m) gid)"

definition joined :: "memstore \<Rightarrow> string \<Rightarrow> string \<Rightarrow> time" where "joined m gid uid = the (added_at m gid uid)"

lemma members_after_order:
  assumes "joined_in_order m gid"
  shows "sorted_wrt (\<lambda>u v. joined m gid u < joined m gid v) (members_after m gid after)"
  using assms unfolding joined_in_order_def members_after_def joined_def by (simp add: sorted_wrt_filter)

lemma filter_sorted_drop:
  assumes "sorted_wrt (\<lambda>u v. (f u :: int) < f v) xs" and "Suc n \<le> length xs"
  shows "filter (\<lambda>u. f (last (take (Suc n) xs)) < f u) xs = drop (Suc n) xs"
proof -
  have xs: "take (Suc n) xs @ drop (Suc n) xs = xs" by simp
  then have sw: "sorted_wrt (\<lambda>u v. f u < f v) (take (Suc n) xs @ drop (Suc n) xs)" using assms(1) by simp
  have ne: "take (Suc n) xs \<noteq> []" using assms(2) by auto
  have split: "take (Suc n) xs = butlast (take (Suc n) xs) @ [last (take (Suc n) xs)]" using ne by simp
  have early: "f u \<le> f (last (take (Suc n) xs))" if "u \<in> set (take (Suc n) xs)" for u
  proof -
    have "sorted_wrt (\<lambda>u v. f u < f v) (butlast (take (Suc n) xs) @ [last (take (Suc n) xs)])"
      using sw split by (metis sorted_wrt_append)
    moreover have "u \<in> set (butlast (take (Suc n) xs)) \<or> u = last (take (Suc n) xs)" using that split
      by (metis Un_iff empty_iff insert_iff list.set(1) list.set(2) set_append)
    ultimately show ?thesis by (auto simp: sorted_wrt_append less_imp_le)
  qed
  have late: "f (last (take (Suc n) xs)) < f u" if "u \<in> set (drop (Suc n) xs)" for u
    using sw that ne by (auto simp only: sorted_wrt_append) (use last_in_set in blast)
  have "filter (\<lambda>u. f (last (take (Suc n) xs)) < f u) (take (Suc n) xs @ drop (Suc n) xs) = [] @ drop (Suc n) xs"
    unfolding filter_append using early late by (intro arg_cong2 [of _ _ _ _ "(@)"]) (auto simp only: filter_empty_conv filter_id_conv not_less)
  then show ?thesis by simp
qed

lemma members_after_page:
  assumes ord: "joined_in_order m gid" and full: "Suc n \<le> length (members_after m gid after)"
  shows "members_after m gid (Some (joined m gid (last (take (Suc n) (members_after m gid after))))) = drop (Suc n) (members_after m gid after)"
proof -
  let ?M = "members_after m gid after" and ?l = "last (take (Suc n) (members_after m gid after))"
  have "?l \<in> set (take (Suc n) ?M)" using full by (intro last_in_set) auto
  then have l: "?l \<in> set ?M" using in_set_takeD by fast
  have step: "members_after m gid (Some at) = filter (\<lambda>u. at < joined m gid u) ?M"
    if "\<And>x. after = Some x \<Longrightarrow> x \<le> at" for at
    unfolding members_after_def filter_filter
    by (rule filter_cong [OF refl]) (use that in \<open>force simp: joined_def split: option.splits\<close>)
  have "x \<le> joined m gid ?l" if "after = Some x" for x
    using l that by (auto simp: members_after_def joined_def split: option.splits)
  from step [OF this] filter_sorted_drop [OF members_after_order [OF ord] full] show ?thesis by simp
qed

lemma page_call:
  assumes "on_db (Store_ListGroupMembers tid gid after (Suc n)) w = (r, w')"
  shows "alike w w' \<and> faults w' = drop 1 (faults w) \<and> (list_all (\<lambda>f. f = Works) (take 1 (faults w)) \<longrightarrow> r = Inr (map (member_row (db w) tid gid) (take (Suc n) (members_after (db w) gid after))))"
  using assms by (auto simp: on_db_def call_def alike_def Store_ListGroupMembers_rows take_Suc split: list.splits fault.splits)

lemma member_row_ids [simp]: "map (gm_UserID \<circ> member_row m tid gid) us = us"
  by (simp add: member_row_def Let_def comp_def)

text \<open>The calls of the loop: one for each full page and one that finds fewer.\<close>

definition page_calls :: "memstore \<Rightarrow> string \<Rightarrow> time option \<Rightarrow> nat" where
  "page_calls m gid after = length (members_after m gid after) div GroupBatchMax + 1"

lemma paging:
  assumes "joined_in_order (db w) gid"
  shows "\<exists>k \<le> page_calls (db w) gid after. alike w (snd (member_pages tid gid after w))
    \<and> faults (snd (member_pages tid gid after w)) = drop k (faults w)
    \<and> (\<forall>uids. fst (member_pages tid gid after w) = Inr uids \<longrightarrow> uids = members_after (db w) gid after)
    \<and> (list_all (\<lambda>f. f = Works) (take k (faults w)) \<longrightarrow> fst (member_pages tid gid after w) = Inr (members_after (db w) gid after))"
  using assms
proof (induction tid gid after w rule: member_pages.induct)
  case (1 tid gid after w)
  obtain n where n: "GroupBatchMax = Suc n" by (simp add: GroupBatchMax_def)
  let ?M = "members_after (db w) gid after"
  obtain r w1 where call: "on_db (Store_ListGroupMembers tid gid after GroupBatchMax) w = (r, w1)" by force
  note first = page_call [OF call [unfolded n]]
  have one: "1 \<le> page_calls (db w) gid after" by (simp add: page_calls_def)
  show ?case
  proof (cases r)
    case (Inl e)
    then have "member_pages tid gid after w = (Inl e, w1)" by (simp add: member_pages.simps [of tid gid after w] call)
    then show ?thesis using first one Inl by (intro exI [of _ 1]) auto
  next
    case (Inr page)
    note page = ListGroupMembers_page [OF call [unfolded n Inr]]
    show ?thesis
    proof (cases "length page < GroupBatchMax")
      case True
      then have short: "take (Suc n) ?M = ?M" using page(2) n by simp
      have "member_pages tid gid after w = (Inr (map gm_UserID page), w1)"
        using True by (simp add: member_pages.simps [of tid gid after w] call Inr)
      then show ?thesis using first one page(2) short by (intro exI [of _ 1]) simp
    next
      case False
      then have full: "Suc n \<le> length ?M" using page(2) n by simp
      let ?at = "Some (gm_AddedAt (last page))"
      have nonempty: "take (Suc n) ?M \<noteq> []" using full by auto
      have mem: "last (take (Suc n) ?M) \<in> set ?M" using last_in_set [OF nonempty] in_set_takeD by fast
      have "gm_AddedAt (last page) = joined (db w) gid (last (take (Suc n) ?M))"
        using member_row_time [OF mem, of tid] page(2) nonempty by (simp add: last_map joined_def)
      then have rest: "members_after (db w1) gid ?at = drop (Suc n) ?M"
        using members_after_page [OF 1(2) full] page(1) by simp
      have calls: "page_calls (db w) gid after = Suc (page_calls (db w1) gid ?at)"
        using full unfolding page_calls_def rest n by (simp add: le_div_geq)
      obtain k where k: "k \<le> page_calls (db w1) gid ?at" "alike w1 (snd (member_pages tid gid ?at w1))"
        "faults (snd (member_pages tid gid ?at w1)) = drop k (faults w1)"
        "\<And>uids. fst (member_pages tid gid ?at w1) = Inr uids \<Longrightarrow> uids = drop (Suc n) ?M"
        "list_all (\<lambda>f. f = Works) (take k (faults w1)) \<Longrightarrow> fst (member_pages tid gid ?at w1) = Inr (drop (Suc n) ?M)"
        using 1(1) [OF call [symmetric] Inr False] 1(2) page(1) unfolding rest by auto
      have ids: "map gm_UserID page = take (Suc n) ?M" using page(2) by simp
      have pages: "member_pages tid gid after w = (case member_pages tid gid ?at w1 of
          (Inl e, w'') \<Rightarrow> (Inl e, w'') | (Inr uids, w'') \<Rightarrow> (Inr (take (Suc n) ?M @ uids), w''))"
        using False unfolding ids [symmetric] by (simp add: member_pages.simps [of tid gid after w] call Inr)
      obtain r2 w2 where r2: "member_pages tid gid ?at w1 = (r2, w2)" by force
      have works: "list_all (\<lambda>f. f = Works) (take (Suc k) (faults w)) \<Longrightarrow> list_all (\<lambda>f. f = Works) (take k (faults w1))"
        using first by (cases "faults w") auto
      have "alike w w2" using alike_trans first k(2) r2 by auto
      moreover have "faults w2 = drop (Suc k) (faults w)" using k(3) r2 first by simp
      moreover have "Suc k \<le> page_calls (db w) gid after" using k(1) calls by simp
      moreover have "uids = ?M" if "fst (member_pages tid gid after w) = Inr uids" for uids
        using that k(4) unfolding pages r2 by (cases r2) auto
      moreover have "fst (member_pages tid gid after w) = Inr ?M" if "list_all (\<lambda>f. f = Works) (take (Suc k) (faults w))"
        using k(5) [OF works [OF that]] unfolding pages r2 by simp
      moreover have "snd (member_pages tid gid after w) = w2" unfolding pages r2 by (cases r2) simp_all
      ultimately show ?thesis by metis
    qed
  qed
qed


lemma members_after_None: "joined_in_order m gid \<Longrightarrow> members_after m gid None = get_list (gs_members m) gid"
  by (auto simp: joined_in_order_def members_after_def list_all_iff filter_id_conv)


section \<open>Removing the tuples\<close>

lemma good_emit: "Q () (w\<lparr>audit := audit w @ [e]\<rparr>) \<Longrightarrow> good (emit e) Q w"
  by (simp add: good_def emit_def modify_op_def)

lemma keeps_kv: "keeps (\<lambda>w. P (db w) \<and> Q (fga w)) (on_kv m)"
  by (auto simp: keeps_def on_kv_def call_def split: prod.splits list.splits fault.splits)

lemma good_member_pages:
  assumes order: "joined_in_order (db w) gid" and w1: "alike w w1"
  shows "good (member_pages tid gid None) (\<lambda>uids w2. alike w w2 \<and> uids = group_members (db w) gid) w1"
proof (unfold good_def, intro allI impI)
  fix uids w2 assume run: "member_pages tid gid None w1 = (Inr uids, w2)"
  have ord: "joined_in_order (db w1) gid" using order w1 by (simp add: alike_def)
  from paging [OF ord, of None tid] run have "alike w1 w2" "uids = members_after (db w1) gid None" by auto
  then show "alike w w2 \<and> uids = group_members (db w) gid"
    using w1 members_after_None [OF ord] by (auto simp: alike_def group_members_def)
qed

lemma good_count: "alike w w1 \<Longrightarrow> good (on_db (Store_CountGroupMembers tid gid)) (\<lambda>_. alike w) w1"
  by (rule good_update) (auto simp: alike_def Store_CountGroupMembers_def split: option.splits if_splits)

context fga_backend
begin

lemma good_Client_Write:
  assumes C: "az_Backend C = B"
  shows "good (Client_Write C ctx now tid adds removes) (\<lambda>_ w'. db w' = db w \<and> set (fga w') = (set (fga w) \<union> set adds) - set removes) w"
proof -
  let ?ok = "\<lambda>w'. db w' = db w \<and> set (fga w') = (set (fga w) \<union> set adds) - set removes"
  have bump: "keeps ?ok (BumpTenantVersion World_KV now tid)"
    unfolding BumpTenantVersion_def World_KV_def KV.simps by (rule keeps_kv)
  have sc: "keeps (alike w) (scoped ctx tid objs)" for objs
    unfolding scoped_def by (auto intro!: keeps_intros keeps_alike_require)
  have wrote: "good (be_Write B adds removes) (\<lambda>_. ?ok) w1" if "alike w w1" for w1
    by (rule good_wp, rule wp_mono [OF Write]) (use that in \<open>auto simp: alike_def written_def\<close>)
  show ?thesis unfolding Client_Write_def C
    by (rule good_seq [OF good_keeps [OF keeps_check alike_refl]], rule good_seq [OF good_keeps [OF sc]], assumption,
        rule good_seq [OF wrote], assumption, auto intro!: good_keeps [OF keeps_ignore [OF bump keeps_ret]] good_ret)
qed

lemma good_write_batches:
  assumes C: "az_Backend C = B"
  shows "good (write_batches C ctx now tid removes) (\<lambda>_ w'. db w' = db w \<and> set (fga w') = set (fga w) - set removes) w"
  using C
proof (induction C ctx now tid removes arbitrary: w rule: write_batches.induct)
  case (1 C ctx now tid removes)
  show ?case
  proof (cases "removes = []")
    case True
    then show ?thesis by (subst write_batches.simps) (simp add: good_ret)
  next
    case False
    have "set removes = set (take GroupBatchMax removes) \<union> set (drop GroupBatchMax removes)"
      by (metis append_take_drop_id set_append)
    moreover have "good (seq_op (Client_Write C ctx now tid [] (take GroupBatchMax removes)) (write_batches C ctx now tid (drop GroupBatchMax removes)))
        (\<lambda>_ w'. db w' = db w \<and> set (fga w') = set (fga w) - set (take GroupBatchMax removes) - set (drop GroupBatchMax removes)) w"
      by (rule good_seq [OF good_Client_Write [OF 1(2)]], rule good_mono [OF 1(1) [OF False 1(2)]]) simp
    ultimately show ?thesis using False by (subst write_batches.simps) (simp add: Diff_eq Int_assoc)
  qed
qed

lemma good_Groups_Delete:
  assumes C: "az_Backend C = B" and ctx: "FromContext ctx = Some a" and order: "joined_in_order (db w) gid"
  shows "good (Groups_Delete C ctx now tid gid n) (\<lambda>_ w'. group_in tid gid (db w') = None
    \<and> set (fga w') = set (fga w) - set (GroupTenantTuple tid gid # map (\<lambda>r. GroupRoleTuple tid gid (ro_Slug r))
         (List.map_filter (\<lambda>ident. role_in tid ident (db w)) (group_roles (db w) gid))
       @ map (GroupMembershipTuple tid gid) (group_members (db w) gid))) w"
  (is "good _ (\<lambda>_ w'. ?gone w' \<and> set (fga w') = set (fga w) - set ?removes) w")
proof -
  let ?roles = "List.map_filter (\<lambda>ident. role_in tid ident (db w)) (group_roles (db w) gid)"
  have delete: "good (on_db (Store_DeleteGroup tid gid)) (\<lambda>_ w2. ?gone w2 \<and> fga w2 = fga w) w1" if "alike w w1" for w1
    by (rule good_update) (use that in \<open>auto simp: alike_def Store_DeleteGroup_def group_in_def delete_conv' split: option.splits if_splits\<close>)
  have batches: "good (write_batches C ctx now tid ?removes) (\<lambda>_ w2. ?gone w2 \<and> set (fga w2) = set (fga w) - set ?removes) w1"
    if "?gone w1 \<and> fga w1 = fga w" for w1
    by (rule good_mono [OF good_write_batches [OF C]]) (use that in auto)
  have note_it: "good (group_event x tid ty k i) (\<lambda>_ w2. ?gone w2 \<and> set (fga w2) = set (fga w) - set ?removes) w1"
    if "?gone w1 \<and> set (fga w1) = set (fga w) - set ?removes" for w1 x ty k i
    unfolding group_event_def by (rule good_emit) (use that in simp)
  have tail: "good (bind_op (member_pages tid gid None) (\<lambda>uids.
       seq_op (on_db (Store_DeleteGroup tid gid)) (seq_op (write_batches C ctx now tid
         (GroupTenantTuple tid gid # map (\<lambda>r. GroupRoleTuple tid gid (ro_Slug r)) ?roles @ map (GroupMembershipTuple tid gid) uids))
         (group_event x tid ''group_deleted'' ''group'' gid))))
     (\<lambda>_ w2. ?gone w2 \<and> set (fga w2) = set (fga w) - set ?removes) w1" if "alike w w1" for w1 x
  proof (rule good_bind [OF good_member_pages [OF order that]], goal_cases)
    case (1 uids w2)
    then have w2: "alike w w2" and uids: "uids = group_members (db w) gid" by auto
    show ?case unfolding uids
      by (rule good_seq [OF delete [OF w2]], rule good_seq [OF batches], assumption, rule note_it)
  qed
  show ?thesis unfolding Groups_Delete_def Let_def
  proof (rule good_bind [OF good_admin [OF ctx alike_refl]], goal_cases)
    case (1 x w1)
    then have "alike w w1" by blast
    then show ?case
    proof (intro good_bind [OF good_get_group [of w] good_bind [OF good_count [of w]]], goal_cases)
      case (3 y w2 z w3)
      show ?case
      proof (cases "int z = n")
        case True
        then show ?thesis
        proof (simp only: simp_thms if_False, intro good_bind [OF good_group_roles [of w]], goal_cases)
          case (2 roles w4)
          then have w4: "alike w w4" and roles: "roles = ?roles" by auto
          show ?case unfolding roles by (rule tail [OF w4])
        qed (use 3 in simp)
      next
        case False
        then show ?thesis by (simp only: simp_thms if_True) (rule good_refuse)
      qed
    qed
  qed
qed

end

text \<open>The tuples a group has in the store's view of it.\<close>

definition group_tuples :: "memstore \<Rightarrow> string \<Rightarrow> string \<Rightarrow> fga_tuple list" where
  "group_tuples m tid gid =
     GroupTenantTuple tid gid # map (\<lambda>r. GroupRoleTuple tid gid (ro_Slug r)) (List.map_filter (\<lambda>ident. role_in tid ident m) (group_roles m gid))
     @ map (GroupMembershipTuple tid gid) (group_members m gid)"


lemma set_filter_member: "set (filter (\<lambda>x. \<not> List.member ys x) xs) = set xs - set ys"
  by auto

definition demo_owner :: actor where
  "demo_owner = no_actor\<lparr>act_Kind := ''user'', act_UserID := ''A'', act_TenantID := demo_tid, act_Roles := [''owner'']\<rparr>"

definition demo_group :: world where
  "demo_group = demo_roles\<lparr>
     db := (db demo_roles)\<lparr>gs_groups := [(''G'', \<lparr>gp_ID = ''G'', gp_TenantID = demo_tid, gp_Name = ''readers'', gp_Description = '''',
         gp_CreatedBy = None, gp_CreatedAt = 0, gp_UpdatedAt = 0\<rparr>)],
       gs_members := [(''G'', [''U'', ''V''])], gs_added := [(pair_key ''G'' ''U'', 1), (pair_key ''G'' ''V'', 2)],
       gs_roles := [(''G'', [''R''])]\<rparr>,
     fga := [GroupTenantTuple demo_tid ''G'', GroupRoleTuple demo_tid ''G'' ''reader'', GroupMembershipTuple demo_tid ''G'' ''U'',
       GroupMembershipTuple demo_tid ''G'' ''V'', GrantTuple demo_tid ''reader'' demo_read],
     faults := [Works, Works, Works, FailsBefore]\<rparr>"




section \<open>Removing a role\<close>

lemma GroupRoleTuple_others [simp]:
  "GroupRoleTuple tid gid slug \<noteq> RoleAssignmentTuple tid' slug' uid" "GroupRoleTuple tid gid slug \<noteq> GrantTuple tid' slug' p"
  "GroupRoleTuple tid gid slug \<noteq> RoleTenantTuple tid' slug'"
  by (simp_all add: GroupRoleTuple_def RoleAssignmentTuple_def GrantTuple_def RoleTenantTuple_def Tuple_def GroupMembers_def GroupObject_def UserObject_def)

context fga_backend
begin

lemma keeps_tuple_Write:
  assumes "az_Backend C = B" "t \<notin> set removes"
  shows "keeps (\<lambda>w. t \<in> set (fga w)) (Client_Write C ctx now tid adds removes)"
proof -
  have "keeps (\<lambda>w. t \<in> set (fga w)) (be_Write B adds removes)"
    by (rule keepsI, rule wp_mono [OF Write]) (use assms(2) in \<open>auto simp: written_def\<close>)
  then show ?thesis unfolding Client_Write_def scoped_def assms(1) by (intro fga_frame keeps_Bump)
qed

lemma keeps_GroupRole_Remove:
  assumes "az_Backend C = B"
  shows "keeps (\<lambda>w. GroupRoleTuple tid gid slug \<in> set (fga w)) (Roles_Remove C ctx now tid ident)"
  unfolding Roles_Remove_def Let_def by (intro fga_reading keeps_tuple_Write assms) auto

end

text \<open>
  C19: Removing a role does not take it from the groups that have it.  Whatever role is removed, and
  however the removal ends, the tuple that makes the members of a group assignees of the role's slug
  is still in the authorization backend: \<open>Roles.Remove\<close> deletes the tuples of the users the role is
  assigned to, and not those of the groups.
\<close>

theorem removed_role_stays_with_groups:
  assumes "List.member (fga w) (GroupRoleTuple tid gid slug)"
  shows "List.member (fga (snd (Roles_Remove \<lparr>az_Backend = Fake, az_Cache = cached\<rparr> ctx now tid ident w))) (GroupRoleTuple tid gid slug)"
  using keepsD [OF fake.keeps_GroupRole_Remove [of "\<lparr>az_Backend = Fake, az_Cache = cached\<rparr>" tid gid slug ctx now ident], of w] assms by simp

definition demo_catalogue :: world where
  "demo_catalogue = demo_group\<lparr>
     db := (db demo_group)\<lparr>Permissions := [(demo_tid, [\<lparr>pm_Module = ''billing'', pm_Resource = ''invoices'', pm_Action = ''pay'', pm_Description = ''''\<rparr>])]\<rparr>,
     faults := []\<rparr>"

definition demo_removed :: world where
  "demo_removed = snd (Roles_Remove \<lparr>az_Backend = Fake, az_Cache = False\<rparr> (demo_ctx demo_owner) 0 demo_tid ''R'' demo_catalogue)"

definition demo_again :: world where
  "demo_again = snd (Roles_Create \<lparr>az_Backend = Fake, az_Cache = False\<rparr> (demo_ctx demo_owner) 0 ''N'' demo_tid ''reader'' ''Readers''
     [''billing:invoices:pay''] demo_removed)"

lemma demo_reuse:
  "let w1 = snd (Roles_Remove \<lparr>az_Backend = Fake, az_Cache = False\<rparr> (demo_ctx demo_owner) 0 demo_tid ''R'' demo_catalogue);
       w2 = snd (Roles_Create \<lparr>az_Backend = Fake, az_Cache = False\<rparr> (demo_ctx demo_owner) 0 ''N'' demo_tid ''reader'' ''Readers''
         [''billing:invoices:pay''] w1)
   in role_in demo_tid ''R'' (db w1) = None
     \<and> fga_check (fga w2) (Tuple (UserObject ''U'') ''granted'' (PermissionObject demo_tid demo_pay))
     \<and> fst (Store_EffectiveRoles demo_tid ''U'' (db w2)) = Inr []"
  by code_simp

text \<open>
  A role created later under the same slug, with a permission the group never had, is at once in the
  hands of the group's members, although the store shows no role for them.
\<close>

theorem removed_role_stays_with_groups_witness:
  "List.member (fga demo_catalogue) (GroupRoleTuple demo_tid ''G'' ''reader'')
   \<and> List.member (fga demo_removed) (GroupRoleTuple demo_tid ''G'' ''reader'')
   \<and> role_in demo_tid ''R'' (db demo_removed) = None
   \<and> fga_check (fga demo_again) (Tuple (UserObject ''U'') ''granted'' (PermissionObject demo_tid demo_pay))
   \<and> fst (Store_EffectiveRoles demo_tid ''U'' (db demo_again)) = Inr []"
proof -
  have start: "List.member (fga demo_catalogue) (GroupRoleTuple demo_tid ''G'' ''reader'')" by code_simp
  moreover have "List.member (fga demo_removed) (GroupRoleTuple demo_tid ''G'' ''reader'')"
    unfolding demo_removed_def by (rule removed_role_stays_with_groups [OF start])
  ultimately show ?thesis using demo_reuse unfolding Let_def demo_again_def demo_removed_def by blast
qed


end
