(* ===== verification/Invite_Safety.thy ===== *)
theory Invite_Safety
  imports Invite Authz_Deletion
begin

text \<open>
  What invitations guarantee, whichever calls fail: a token is spent by the one acceptance that takes
  effect, an accepted account gets what the invitation names and no more, and nobody invites another
  to more than they hold themselves.
\<close>

section \<open>Transactions\<close>

lemma call_ret_alike: "call (ret x) w = (r, w') \<Longrightarrow> alike w w'"
  by (auto simp: call_def ret_def alike_def split: list.splits fault.splits)

lemma keeps_alike_call: "keeps (alike w) (call (ret x))"
  unfolding keeps_def using call_ret_alike alike_trans by (metis prod.collapse)

lemma keeps_alike_applyScope: "keeps (alike w) (applyScope sc)"
  unfolding applyScope_def by (intro keeps_for keeps_alike_call)

text \<open>A transaction left the tables alone, or they are as its function left them after succeeding.\<close>

lemma Tx_cases:
  assumes "Tx sc fn w = (r, w')"
  obtains (rolled_back) e where "r = Inl e" "db w' = db w"
  | (made) x w1 w2 where "alike w w1" "fn w1 = (Inr x, w2)" "db w' = db w2" "fga w' = fga w2" "r = Inr x \<or> (\<exists>e. r = Inl e)"
proof -
  obtain r0 w1 where start: "seq_op (call (ret ())) (applyScope sc) w = (r0, w1)" by force
  have "keeps (alike w) (seq_op (call (ret ())) (applyScope sc))"
    by (intro keeps_seq keeps_alike_call keeps_alike_applyScope)
  from keepsD [OF this alike_refl] start have w1: "alike w w1" by simp
  show ?thesis
  proof (cases r0)
    case (Inl e)
    then have "r = Inl e" "w' = w1" using assms start by (simp_all add: Tx_def)
    then show ?thesis using w1 by (auto simp: alike_def intro: rolled_back)
  next
    case (Inr u)
    obtain r1 w2 where fn: "fn w1 = (r1, w2)" by force
    show ?thesis
    proof (cases r1)
      case (Inl e)
      then show ?thesis using assms start Inr fn w1 rolled_back by (auto simp: Tx_def alike_def)
    next
      case x: (Inr x)
      then have "commit (db w1) x w2 = (r, w')" using assms start Inr fn by (simp add: Tx_def)
      then show ?thesis using made [OF w1 fn [unfolded x]] rolled_back w1
        by (auto simp: commit_def alike_def split: list.splits fault.splits)
    qed
  qed
qed

lemma good_Tx: "(\<And>w1. alike w w1 \<Longrightarrow> good fn R w1) \<Longrightarrow> (\<And>x w1 w2. R x w1 \<Longrightarrow> db w2 = db w1 \<Longrightarrow> fga w2 = fga w1 \<Longrightarrow> Q x w2) \<Longrightarrow> good (Tx sc fn) Q w"
  unfolding good_def [of "Tx sc fn"]
proof (intro allI impI)
  fix x w' assume fn: "\<And>w1. alike w w1 \<Longrightarrow> good fn R w1" and Q: "\<And>x w1 w2. R x w1 \<Longrightarrow> db w2 = db w1 \<Longrightarrow> fga w2 = fga w1 \<Longrightarrow> Q x w2"
    and run: "Tx sc fn w = (Inr x, w')"
  from run show "Q x w'"
  proof (cases rule: Tx_cases)
    case (made y w1 w2)
    then show ?thesis using Q [OF goodD [OF fn [OF made(1)] made(2)] made(3,4)] by auto
  qed simp
qed

lemma safe_Tx: "P (db w) \<Longrightarrow> (\<And>w1. alike w w1 \<Longrightarrow> good fn (\<lambda>_ w2. P (db w2)) w1) \<Longrightarrow> safe P (Tx sc fn) w"
proof -
  assume start: "P (db w)" and fn: "\<And>w1. alike w w1 \<Longrightarrow> good fn (\<lambda>_ w2. P (db w2)) w1"
  obtain r w' where run: "Tx sc fn w = (r, w')" by force
  then show ?thesis
  proof (cases rule: Tx_cases)
    case (made x w1 w2)
    then show ?thesis using goodD [OF fn [OF made(1)] made(2)] run by (simp add: safe_def)
  qed (use start run in \<open>simp add: safe_def\<close>)
qed

section \<open>One acceptance\<close>

text \<open>Invitation rows are stored under their ids.\<close>

definition invitations_keyed :: "memstore \<Rightarrow> bool" where
  "invitations_keyed m \<longleftrightarrow> distinct (map fst (Invitations m)) \<and> list_all (\<lambda>(k, i). iv_ID i = k) (Invitations m)"

definition invitation_for :: "memstore \<Rightarrow> string \<Rightarrow> invitation option" where
  "invitation_for m hash = map_option snd (find_row (\<lambda>i. iv_TokenHash i = hash) (Invitations m))"

definition spent :: "string \<Rightarrow> memstore \<Rightarrow> bool" where
  "spent hash m \<longleftrightarrow> (case invitation_for m hash of None \<Rightarrow> False | Some i \<Rightarrow> iv_AcceptedAt i \<noteq> None)"

lemma mark_spends:
  assumes keyed: "invitations_keyed m" and i: "invitation_for m hash = Some i"
    and mark: "Store_MarkInvitationAccepted now (iv_ID i) m = (Inr (), m')"
  shows "spent hash m'"
proof -
  from i obtain k where row: "find_row (\<lambda>i. iv_TokenHash i = hash) (Invitations m) = Some (k, i)"
    by (auto simp: invitation_for_def)
  then have k: "iv_ID i = k" and h: "iv_TokenHash i = hash"
    using keyed find_row_Some [OF row] by (auto simp: invitations_keyed_def list_all_iff)
  have "map_of (Invitations m) k = Some i" using find_row_map_of [OF row] keyed by (simp add: invitations_keyed_def)
  then have "m' = m\<lparr>Invitations := AList.update k (i\<lparr>iv_AcceptedAt := Some now\<rparr>) (Invitations m)\<rparr>"
    using mark k by (simp add: Store_MarkInvitationAccepted_def)
  moreover have "find_row (\<lambda>i. iv_TokenHash i = hash) (AList.update k (i\<lparr>iv_AcceptedAt := Some now\<rparr>) (Invitations m))
      = Some (k, i\<lparr>iv_AcceptedAt := Some now\<rparr>)"
    by (rule find_row_update [OF row]) (use keyed h in \<open>simp_all add: invitations_keyed_def\<close>)
  ultimately show ?thesis by (simp add: spent_def invitation_for_def)
qed

lemma good_redeemable:
  assumes "alike w w0"
  shows "good (redeemable now hash) (\<lambda>(iv, t, pol) w1. alike w w1 \<and> invitation_for (db w) hash = Some iv \<and> open_at now iv
    \<and> fst (Store_Tenant (iv_TenantID iv) (db w)) = Inr t \<and> tn_Status t = ''active''
    \<and> ParsePolicy (tn_Policy t) (tn_Kind t = ''platform'') = (pol, Inr ())) w0"
proof -
  have inv: "good (on_db (Store_InvitationByHash hash)) (\<lambda>iv w1. alike w w1 \<and> invitation_for (db w) hash = Some iv) w0"
    by (rule good_update) (use assms in \<open>auto simp: alike_def Store_InvitationByHash_def invitation_for_def found_def split: option.splits\<close>)
  have ten: "good (on_db (Store_Tenant tid)) (\<lambda>t w2. alike w w2 \<and> fst (Store_Tenant tid (db w)) = Inr t) w1" if "alike w w1" for tid w1
    by (rule good_update) (use that in \<open>auto simp: alike_def Store_Tenant_def found_def split: option.splits\<close>)
  show ?thesis unfolding redeemable_def
  proof (rule good_try [OF inv], goal_cases)
    case (1 iv w1)
    then have w1: "alike w w1" and iv: "invitation_for (db w) hash = Some iv" by auto
    show ?case
    proof (cases "open_at now iv")
      case True
      have "good (try_op (on_db (Store_Tenant (iv_TenantID iv))) (\<lambda>t. case t of Inl _ \<Rightarrow> throw ErrInviteToken
           | Inr t \<Rightarrow> if tn_Status t \<noteq> ''active'' then throw ErrInviteToken
               else (case ParsePolicy (tn_Policy t) (tn_Kind t = ''platform'') of (pol, Inr _) \<Rightarrow> ret (iv, t, pol) | (pol, Inl e) \<Rightarrow> throw e)))
        (\<lambda>(iv, t, pol) w1. alike w w1 \<and> invitation_for (db w) hash = Some iv \<and> open_at now iv
          \<and> fst (Store_Tenant (iv_TenantID iv) (db w)) = Inr t \<and> tn_Status t = ''active''
          \<and> ParsePolicy (tn_Policy t) (tn_Kind t = ''platform'') = (pol, Inr ())) w1"
        by (rule good_try [OF ten [OF w1]]) (use iv True in \<open>auto intro!: good_ret good_throw split: prod.splits sum.splits\<close>)
      then show ?thesis using True by simp
    next
      case False
      then show ?thesis by (simp add: good_throw)
    qed
  qed (simp add: good_throw)
qed

text \<open>What the steps on accounts and groups leave alone.\<close>

definition rest_of :: "memstore \<Rightarrow> invitation table \<times> role table \<times> string list table" where
  "rest_of m = (Invitations m, RoleRows m, Bindings m)"

lemma keeps_rest_store:
  "keeps (\<lambda>m. Q (rest_of m)) (Store_UserByEmail ul tid email)" "keeps (\<lambda>m. Q (rest_of m)) (Store_InsertUser ul u)"
  "keeps (\<lambda>m. Q (rest_of m)) (Store_SetPasswordHash tid uid h)" "keeps (\<lambda>m. Q (rest_of m)) (Store_UpdateUserStatus tid uid st)"
  "keeps (\<lambda>m. Q (rest_of m)) (Store_GetGroup tid gid)"
  by (auto simp: keeps_def rest_of_def Store_UserByEmail_def Store_InsertUser_def Store_SetPasswordHash_def Store_UpdateUserStatus_def
      Store_GetGroup_def with_user_def put_user_def map_users_def Let_def split: option.splits)

lemma rest_of_add_members: "rest_of (snd (add_members now tid gid uids n m)) = rest_of m"
  by (induction now tid gid uids n m rule: add_members.induct) (simp_all add: rest_of_def)

lemma keeps_rest_add: "keeps (\<lambda>m. Q (rest_of m)) (Store_AddGroupMembers now tid gid uids)"
  by (auto simp: keeps_def Store_AddGroupMembers_def rest_of_add_members split: option.splits)

lemma keeps_rest_account: "keeps (\<lambda>w. Q (rest_of (db w))) (account_of X newID iv displayName h)"
  unfolding account_of_def Let_def by (intro keeps_intros keeps_on_db keeps_rest_store)

lemma keeps_rest_join: "keeps (\<lambda>w. Q (rest_of (db w))) (join_groups now tid uid gids)"
  by (induction gids) (simp_all only: join_groups.simps, (intro keeps_intros keeps_on_db keeps_rest_store keeps_rest_add | assumption)+)

text \<open>What an acceptance gives: the roles of the invitation that are not retired.\<close>

definition invited_roles :: "memstore \<Rightarrow> invitation \<Rightarrow> role list" where
  "invited_roles m iv = filter (\<lambda>r. ro_RetiredAt r = None) (List.map_filter (\<lambda>ident. role_in (iv_TenantID iv) ident m) (iv_RoleIDs iv))"

lemma those_map_filter: "those (map f xs) = Some ys \<Longrightarrow> List.map_filter f xs = ys"
  by (induction xs arbitrary: ys) (auto simp: map_filter_simps split: option.splits)


definition accepted_from :: "memstore \<Rightarrow> time \<Rightarrow> string \<Rightarrow> string \<Rightarrow> accepted \<Rightarrow> memstore \<Rightarrow> bool" where
  "accepted_from m now hash pw acc m' \<longleftrightarrow>
     (case invitation_for m hash of
        None \<Rightarrow> False
      | Some iv \<Rightarrow>
          open_at now iv \<and> fst (Store_Tenant (iv_TenantID iv) m) = Inr (ac_Tenant acc) \<and> tn_Status (ac_Tenant acc) = ''active''
          \<and> ParsePolicy (tn_Policy (ac_Tenant acc)) (tn_Kind (ac_Tenant acc) = ''platform'') = (ac_Policy acc, Inr ())
          \<and> Check (ac_Policy acc) pw = Inr ()
          \<and> bound m' (iv_TenantID iv) (us_ID (ac_User acc)) = map ro_ID (invited_roles m iv))"

lemma good_accept_tx:
  assumes keyed: "invitations_keyed (db w)" and w0: "alike w w0"
  shows "good (accept_tx X now newID salt hash displayName pw)
    (\<lambda>(acc, ts) w'. spent hash (db w') \<and> accepted_from (db w) now hash pw acc (db w')) w0"
  unfolding accept_tx_def
proof (rule good_bind [OF good_redeemable [OF w0]], goal_cases)
  case (1 x w1)
  obtain iv t pol where x: "x = (iv, t, pol)" by (cases x)
  with 1 have w1: "alike w w1" and iv: "invitation_for (db w) hash = Some iv" and facts: "open_at now iv"
    "fst (Store_Tenant (iv_TenantID iv) (db w)) = Inr t" "tn_Status t = ''active''"
    "ParsePolicy (tn_Policy t) (tn_Kind t = ''platform'') = (pol, Inr ())" by auto
  let ?same = "\<lambda>w'. rest_of (db w') = rest_of (db w)"
  let ?gave = "\<lambda>uid w'. spent hash (db w') \<and> bound (db w') (iv_TenantID iv) uid = map ro_ID (invited_roles (db w) iv)"
  have role_rows: "?same w' \<Longrightarrow> role_in tid ident (db w') = role_in tid ident (db w)" for w' tid ident
    by (simp add: rest_of_def role_in_def)
  have roles: "good (on_db (Store_RolesByID (iv_TenantID iv) (iv_RoleIDs iv)))
      (\<lambda>rs w3. ?same w3 \<and> filter (\<lambda>r. ro_RetiredAt r = None) rs = invited_roles (db w) iv) w2" if "?same w2" for w2
    by (rule good_read [OF reads_roles(1)])
      (use that role_rows [OF that] in \<open>auto simp: alike_def found_def invited_roles_def those_map_filter split: option.splits\<close>)
  have bind: "good (on_db (Store_ReplaceBindings (iv_TenantID iv) uid (map ro_ID (invited_roles (db w) iv))))
      (\<lambda>_ w3. Invitations (db w3) = Invitations (db w) \<and> bound (db w3) (iv_TenantID iv) uid = map ro_ID (invited_roles (db w) iv)) w2"
    if "?same w2" for w2 uid
    by (rule good_update) (use that in \<open>auto simp: Store_ReplaceBindings_def bound_def rest_of_def\<close>)
  have mark: "good (on_db (Store_MarkInvitationAccepted now (iv_ID iv))) (\<lambda>_. ?gave uid) w2"
    if "Invitations (db w2) = Invitations (db w) \<and> bound (db w2) (iv_TenantID iv) uid = map ro_ID (invited_roles (db w) iv)" for w2 uid
  proof (rule good_update)
    fix a d w3 assume run: "Store_MarkInvitationAccepted now (iv_ID iv) (db w2) = (Inr a, d)" and d: "db w3 = d"
    have "spent hash d"
      by (rule mark_spends [of "db w2" hash iv now]) (use that keyed iv run in \<open>simp_all add: invitations_keyed_def invitation_for_def\<close>)
    moreover have "bound d (iv_TenantID iv) uid = bound (db w2) (iv_TenantID iv) uid"
      using run by (auto simp: Store_MarkInvitationAccepted_def bound_def split: option.splits)
    ultimately show "?gave uid w3" using that d by simp
  qed
  have join: "keeps (?gave uid) (join_groups now tid uid' gids)" for uid uid' tid gids
    using keeps_rest_join [of "\<lambda>(I, R, Bd). (case map_option snd (find_row (\<lambda>i. iv_TokenHash i = hash) I) of None \<Rightarrow> False | Some i \<Rightarrow> iv_AcceptedAt i \<noteq> None)
        \<and> get_list Bd (pair_key (iv_TenantID iv) uid) = map ro_ID (invited_roles (db w) iv)"]
    by (simp add: rest_of_def spent_def invitation_for_def bound_def)
  have slugs: "keeps (?gave uid) (on_db (Store_Roles tid uid'))" for uid uid' tid
    by (rule keeps_on_db) (simp add: keeps_def Store_Roles_def)
  have last_step: "good (bind_op (join_groups now tid uid gids) (\<lambda>ts. bind_op (on_db (Store_Roles tid uid)) (\<lambda>sl.
      seq_op (emit e) (ret (f ts sl))))) (\<lambda>z w'. ?gave uid w' \<and> (\<exists>ts sl. z = f ts sl)) w2" if "?gave uid w2"
    for tid uid gids e w2 and f :: "fga_tuple list \<Rightarrow> string list \<Rightarrow> accepted \<times> fga_tuple list"
    by (rule good_bind [OF good_keeps [OF join that]], rule good_bind [OF good_keeps [OF slugs]], assumption,
        rule good_seq [OF good_keeps [OF keeps_emit]], assumption, rule good_ret, blast)
  show ?case
  proof (cases "Check pol pw")
    case (Inl e)
    then show ?thesis by (simp add: x good_throw)
  next
    case ok: (Inr u)
    show ?thesis unfolding x prod.case ok sum.case Let_def
    proof (rule good_bind [OF good_of_result [where Q = "\<lambda>_. alike w"]], rule w1, goal_cases)
      case (1 h w2)
      then have same: "?same w2" by (simp add: alike_def)
      show ?case
      proof (rule good_bind [OF good_keeps [OF keeps_rest_account [of "\<lambda>T. T = rest_of (db w)"] same]], goal_cases)
        case (1 u w3)
        show ?case
        proof (rule good_bind [OF roles [OF 1]], goal_cases)
          case (1 all_roles w4)
          then have same: "?same w4" and eq: "filter (\<lambda>r. ro_RetiredAt r = None) all_roles = invited_roles (db w) iv" by auto
          show ?case unfolding eq
            by (rule good_seq [OF bind [OF same]], rule good_seq [OF mark], assumption, rule good_mono [OF last_step], assumption)
              (use iv facts ok in \<open>auto simp: accepted_from_def\<close>)
        qed
      qed
    qed
  qed
qed

lemma good_accept_spent: "spent hash (db w) \<Longrightarrow> alike w w0 \<Longrightarrow> good (accept_tx X now newID salt hash displayName pw) (\<lambda>_ _. False) w0"
  unfolding accept_tx_def by (rule good_bind [OF good_redeemable]) (auto simp: spent_def open_at_def)

lemma safe_bind_keeps: "safe P m w \<Longrightarrow> (\<And>x. keeps (\<lambda>w. P (db w)) (f x)) \<Longrightarrow> safe P (bind_op m f) w"
  by (auto simp: safe_def keeps_def bind_op_def split: prod.splits sum.splits)

lemma keeps_fga_Tx: "keeps (\<lambda>w. P (fga w)) fn \<Longrightarrow> keeps (\<lambda>w. P (fga w)) (Tx sc fn)"
  unfolding keeps_def
proof (intro allI impI)
  fix w :: world assume fn: "\<forall>w. P (fga w) \<longrightarrow> P (fga (snd (fn w)))" and w: "P (fga w)"
  have start: "P (fga (snd (seq_op (call (ret ())) (applyScope sc) w)))"
    using keepsD [OF keeps_seq [OF keeps_alike_call keeps_alike_applyScope] alike_refl, of w "()" sc] w by (simp add: alike_def)
  show "P (fga (snd (Tx sc fn w)))"
    using start fn by (auto simp: Tx_def commit_def split: prod.splits sum.splits list.splits fault.splits)
qed

lemma keeps_fga_accept_tx: "keeps (\<lambda>w. P (fga w)) (accept_tx X now newID salt hash displayName pw)"
proof -
  have join: "keeps (\<lambda>w. P (fga w)) (join_groups n tid uid gids)" for n tid uid gids
    by (induction gids) (simp_all only: join_groups.simps, (intro fga_frame | assumption)+)
  show ?thesis unfolding accept_tx_def redeemable_def account_of_def Let_def by (intro fga_frame join)
qed

lemma no_Tx: "(\<And>w1. alike w w1 \<Longrightarrow> good fn (\<lambda>_ _. False) w1) \<Longrightarrow> Tx sc fn w = (r, w') \<Longrightarrow> (\<exists>e. r = Inl e) \<and> db w' = db w"
  by (erule Tx_cases) (auto simp: good_def)

text \<open>
  C11: An invitation is accepted once.  However an acceptance ends and whichever calls fail, either the
  tables are as before or its token is spent; and with a spent token every acceptance fails, under any
  name and password and at any time, and changes neither the tables nor the authorization tuples.
\<close>

theorem invitation_accepted_once:
  assumes keyed: "invitations_keyed (db w)" and S: "is_Authz S = \<lparr>az_Backend = Fake, az_Cache = cached\<rparr>"
  shows "(db (snd (Accept X S ctx now newID salt token displayName pw w)) = db w
      \<or> spent (HashToken X token) (db (snd (Accept X S ctx now newID salt token displayName pw w))))
    \<and> (spent (HashToken X token) (db w) \<longrightarrow>
         (\<exists>e. fst (Accept X S ctx now newID salt token displayName pw w) = Inl e)
         \<and> db (snd (Accept X S ctx now newID salt token displayName pw w)) = db w
         \<and> fga (snd (Accept X S ctx now newID salt token displayName pw w)) = fga w)"
proof (cases "token = '''' \<or> length token > 256")
  case True
  then have "Accept X S ctx now newID salt token displayName pw = throw ErrInviteToken" by (simp add: Accept_def)
  then show ?thesis by (simp add: throw_def)
next
  case False
  let ?tx = "Tx system_scope (accept_tx X now newID salt (HashToken X token) displayName pw)"
  have run: "Accept X S ctx now newID salt token displayName pw = bind_op ?tx (\<lambda>(out, tuples).
      seq_op (Client_Write (is_Authz S) (system_ctx ctx) now (tn_ID (ac_Tenant out)) tuples []) (ret out))"
    unfolding Accept_def if_not_P [OF False] ..
  have once: "safe (\<lambda>d. d = db w \<or> spent (HashToken X token) d) ?tx w"
    by (rule safe_Tx, simp, rule good_mono [OF good_accept_tx [OF keyed]]) auto
  have wrote: "keeps (\<lambda>w'. db w' = db w \<or> spent (HashToken X token) (db w')) (seq_op (Client_Write (is_Authz S) (system_ctx ctx) now tid ts []) (ret out))"
    for tid ts and out :: accepted
    unfolding S by (intro keeps_seq keeps_ret fake.keeps_db_Client_Write) simp
  have "safe (\<lambda>d. d = db w \<or> spent (HashToken X token) d) (bind_op ?tx (\<lambda>(out, tuples).
      seq_op (Client_Write (is_Authz S) (system_ctx ctx) now (tn_ID (ac_Tenant out)) tuples []) (ret out))) w"
    by (rule safe_bind_keeps [OF once]) (simp only: split_beta, rule wrote)
  moreover have "(\<exists>e. fst (bind_op ?tx f w) = Inl e) \<and> db (snd (bind_op ?tx f w)) = db w \<and> fga (snd (bind_op ?tx f w)) = fga w"
    if "spent (HashToken X token) (db w)" for f :: "accepted \<times> fga_tuple list \<Rightarrow> (world, accepted) op"
  proof -
    note spent_one = that
    obtain r w' where tx: "?tx w = (r, w')" by force
    obtain e where "r = Inl e" "db w' = db w" using no_Tx [OF good_accept_spent [OF spent_one] tx] by auto
    moreover have "fga w' = fga w"
      using keepsD [OF keeps_fga_Tx [OF keeps_fga_accept_tx [of "\<lambda>t. t = fga w"]], of w] tx by (metis snd_conv)
    ultimately show ?thesis by (simp add: bind_op_def tx)
  qed
  ultimately show ?thesis unfolding run safe_def by blast
qed


text \<open>
  C18: An accepted invitation gives what it names.  When an acceptance succeeds, the token belongs to an
  invitation that was open at that moment, neither accepted nor revoked nor expired, of a tenant that is
  active; the password meets that tenant's policy; and the account is bound to exactly the roles the
  invitation names, without those retired since.
\<close>

theorem accepted_account_bounded:
  assumes "invitations_keyed (db w)" "is_Authz S = \<lparr>az_Backend = Fake, az_Cache = cached\<rparr>"
    and run: "Accept X S ctx now newID salt token displayName pw w = (Inr acc, w')"
  shows "accepted_from (db w) now (HashToken X token) pw acc (db w')"
proof -
  let ?R = "\<lambda>acc w'. accepted_from (db w) now (HashToken X token) pw acc (db w')"
  have tx: "good (Tx system_scope (accept_tx X now newID salt (HashToken X token) displayName pw)) (\<lambda>(acc, ts). ?R acc) w"
    by (rule good_Tx [OF good_accept_tx [OF assms(1)]]) auto
  have "good (Accept X S ctx now newID salt token displayName pw) ?R w"
    unfolding Accept_def
    by (auto intro!: good_throw good_bind [OF tx] good_seq [OF fake.good_Client_Write] good_ret simp: assms(2))
  from goodD [OF this run] show ?thesis .
qed


definition demo_invitation :: invitation where
  "demo_invitation = \<lparr>iv_ID = ''I'', iv_TenantID = demo_tid, iv_Email = ''ada@example.org'', iv_RoleIDs = [''R''], iv_GroupIDs = [],
     iv_FirstName = ''Ada'', iv_LastName = ''Byron'', iv_TokenHash = HashToken demo_X ''tok'', iv_InvitedBy = None, iv_ExpiresAt = 100,
     iv_AcceptedAt = None, iv_RevokedAt = None\<rparr>"

definition demo_invited :: world where
  "demo_invited = demo_roles\<lparr>
     db := (db demo_roles)\<lparr>
       Tenants := [(demo_tid, \<lparr>tn_ID = demo_tid, tn_Slug = ''acme'', tn_DisplayName = ''Acme'', tn_Status = ''active'', tn_Kind = ''customer'',
         tn_Policy = NoBytes, tn_CreatedAt = 0, tn_UpdatedAt = 0\<rparr>)],
       Invitations := [(''I'', demo_invitation)]\<rparr>\<rparr>"

definition demo_inviting :: invite_service where
  "demo_inviting = \<lparr>is_Issuer = ''https://auth'', is_Escalation = True, is_Authz = \<lparr>az_Backend = Fake, az_Cache = False\<rparr>\<rparr>"

definition demo_accept :: "(world, accepted) op" where
  "demo_accept = Accept demo_X demo_inviting background 50 ''U'' (Some ''salt'') ''tok'' '''' ''correct horse battery''"

lemma demo_accepted:
  "case demo_accept demo_invited of (r, w') \<Rightarrow>
     \<not> isl r \<and> invitations_keyed (db w') \<and> spent (HashToken demo_X ''tok'') (db w') \<and> bound (db w') demo_tid ''U'' = [''R'']"
  by code_simp

lemma demo_invited_keyed: "invitations_keyed (db demo_invited)"
  by (simp add: invitations_keyed_def demo_invited_def demo_invitation_def)

lemma demo_inviting_backend: "is_Authz demo_inviting = \<lparr>az_Backend = Fake, az_Cache = False\<rparr>"
  by (simp add: demo_inviting_def)

text \<open>Accepted once, and a second time in vain.\<close>

theorem invitation_accepted_once_witness:
  "invitations_keyed (db demo_invited)
   \<and> \<not> isl (fst (demo_accept demo_invited)) \<and> spent (HashToken demo_X ''tok'') (db (snd (demo_accept demo_invited)))
   \<and> (\<exists>e. fst (demo_accept (snd (demo_accept demo_invited))) = Inl e)"
proof -
  have start: "invitations_keyed (db demo_invited)" by (rule demo_invited_keyed)
  have first: "\<not> isl (fst (demo_accept demo_invited))" "invitations_keyed (db (snd (demo_accept demo_invited)))"
    "spent (HashToken demo_X ''tok'') (db (snd (demo_accept demo_invited)))"
    using demo_accepted by (simp_all add: split_beta)
  have "\<exists>e. fst (demo_accept (snd (demo_accept demo_invited))) = Inl e"
    using invitation_accepted_once [OF first(2) demo_inviting_backend, of demo_X background 50 "''U''" "Some ''salt''" "''tok''" "''''" "''correct horse battery''"]
      first(3) unfolding demo_accept_def [symmetric] by blast
  with start first show ?thesis by blast
qed

theorem accepted_account_bounded_witness:
  "\<exists>acc. fst (demo_accept demo_invited) = Inr acc
     \<and> accepted_from (db demo_invited) 50 (HashToken demo_X ''tok'') ''correct horse battery'' acc (db (snd (demo_accept demo_invited)))"
proof -
  have start: "invitations_keyed (db demo_invited)" by (rule demo_invited_keyed)
  obtain acc where acc: "fst (demo_accept demo_invited) = Inr acc"
    using demo_accepted by (cases "fst (demo_accept demo_invited)") (simp_all add: split_beta)
  then have "demo_accept demo_invited = (Inr acc, snd (demo_accept demo_invited))" by (metis prod.collapse)
  with accepted_account_bounded [OF start demo_inviting_backend] acc show ?thesis unfolding demo_accept_def by blast
qed

section \<open>Nobody invites to more than they hold\<close>

text \<open>What an actor may put into an invitation: roles of the tenant and groups they may hand out.\<close>

definition within_reach :: "actor \<Rightarrow> string \<Rightarrow> world \<Rightarrow> string list \<Rightarrow> string list \<Rightarrow> bool" where
  "within_reach a tid w roleIDs groupIDs \<longleftrightarrow> act_Kind a = KindOperator
     \<or> list_all (\<lambda>rid. \<exists>r. role_in tid rid (db w) = Some r \<and> ro_RetiredAt r = None \<and> may_hand_out a tid w r) roleIDs
       \<and> list_all (\<lambda>gid. list_all (\<lambda>rid. \<forall>r. role_in tid rid (db w) = Some r \<longrightarrow> may_hand_out a tid w r) (group_roles (db w) gid)) groupIDs"

definition invitations_within :: "actor \<Rightarrow> string \<Rightarrow> world \<Rightarrow> memstore \<Rightarrow> bool" where
  "invitations_within a tid w m \<longleftrightarrow>
     list_all (\<lambda>(k, i). List.member (Invitations (db w)) (k, i) \<or> iv_TenantID i = tid \<and> within_reach a tid w (iv_RoleIDs i) (iv_GroupIDs i)) (Invitations m)"

lemma keeps_db_Tx: "keeps (\<lambda>w. P (db w)) fn \<Longrightarrow> keeps (\<lambda>w. P (db w)) (Tx sc fn)"
proof (unfold keeps_def [of _ "Tx sc fn"], intro allI impI)
  fix w :: world assume fn: "keeps (\<lambda>w. P (db w)) fn" and w: "P (db w)"
  obtain r w' where run: "Tx sc fn w = (r, w')" by force
  then show "P (db (snd (Tx sc fn w)))"
  proof (cases rule: Tx_cases)
    case (made x w1 w2)
    then have "P (db w2)" using keepsD [OF fn, of w1] w by (simp add: alike_def)
    then show ?thesis using made run by simp
  qed (use w run in simp)
qed

text \<open>Permissions that include what a group's roles grant, with no top role unless the actor is privileged.\<close>

definition covered :: "actor \<Rightarrow> string \<Rightarrow> world \<Rightarrow> perm_ref list \<Rightarrow> string \<Rightarrow> bool" where
  "covered a tid w perms gid \<longleftrightarrow> (\<forall>r \<in> set (List.map_filter (\<lambda>ident. role_in tid ident (db w)) (group_roles (db w) gid)).
     set (get_list (RolePerms (db w)) (ro_ID r)) \<subseteq> set perms \<and> (top_role r \<longrightarrow> \<not> unprivileged a))"

lemma covered_append: "covered a tid w perms gid \<Longrightarrow> covered a tid w (ps @ perms) gid"
  unfolding covered_def by fastforce

lemma covered_own:
  "roles = List.map_filter (\<lambda>ident. role_in tid ident (db w)) (group_roles (db w) gid) \<Longrightarrow> \<not> (list_ex top_role roles \<and> unprivileged a)
   \<Longrightarrow> covered a tid w (concat (map (\<lambda>r. get_list (RolePerms (db w)) (ro_ID r)) roles) @ perms) gid"
  unfolding covered_def list_ex_iff by auto

lemma good_join_grants:
  assumes "alike w w0"
  shows "good (join_grants a tid gids) (\<lambda>perms w1. alike w w1 \<and> list_all (covered a tid w perms) gids) w0"
  using assms
proof (induction gids arbitrary: w0)
  case Nil
  then show ?case by (auto intro: good_ret)
next
  case (Cons gid gids)
  let ?roles = "List.map_filter (\<lambda>ident. role_in tid ident (db w)) (group_roles (db w) gid)"
  have grants: "good (groupGrants tid gid) (\<lambda>g w1. alike w w1 \<and> g = (concat (map (\<lambda>r. get_list (RolePerms (db w)) (ro_ID r)) ?roles),
      list_ex top_role ?roles)) w1" if "alike w w1" for w1
    unfolding groupGrants_def by (rule good_bind [OF good_group_roles [OF that]], elim conjE, simp only:) (rule good_roleGrants)
  show ?case unfolding join_grants.simps
  proof (rule good_bind [OF good_get_group [OF Cons.prems]], goal_cases)
    case (1 x w1)
    show ?case
    proof (rule good_bind [OF grants [OF 1]], goal_cases)
      case (1 g w2)
      then have w2: "alike w w2" and g: "g = (concat (map (\<lambda>r. get_list (RolePerms (db w)) (ro_ID r)) ?roles), list_ex top_role ?roles)" by auto
      show ?case unfolding g prod.case
      proof (cases "list_ex top_role ?roles \<and> unprivileged a")
        case True
        then show "good (if list_ex top_role ?roles \<and> unprivileged a then throw ErrSelfEscalation else n) Q w2" for n Q by (simp add: good_throw)
      next
        case False
        have "good (bind_op (join_grants a tid gids) (\<lambda>perms. ret (concat (map (\<lambda>r. get_list (RolePerms (db w)) (ro_ID r)) ?roles) @ perms)))
            (\<lambda>perms w1. alike w w1 \<and> list_all (covered a tid w perms) (gid # gids)) w2"
          by (rule good_bind [OF Cons.IH [OF w2]], rule good_ret)
            (use covered_own [OF refl False] covered_append in \<open>auto simp: list_all_iff\<close>)
        then show "good (if list_ex top_role ?roles \<and> unprivileged a then throw ErrSelfEscalation else
            bind_op (join_grants a tid gids) (\<lambda>perms. ret (concat (map (\<lambda>r. get_list (RolePerms (db w)) (ro_ID r)) ?roles) @ perms)))
            (\<lambda>perms w1. alike w w1 \<and> list_all (covered a tid w perms) (gid # gids)) w2"
          unfolding if_not_P [OF False] .
      qed
    qed
  qed
qed

context fga_backend
begin

lemma good_MayJoin:
  assumes C: "az_Backend C = B" and w0: "alike w w0"
  shows "good (MayJoin C ctx a tid gids) (\<lambda>_ w1. alike w w1
    \<and> list_all (\<lambda>gid. list_all (\<lambda>rid. \<forall>r. role_in tid rid (db w) = Some r \<longrightarrow> may_hand_out a tid w r) (group_roles (db w) gid)) gids) w0"
proof -
  have out: "may_hand_out a tid w r"
    if "list_all (covered a tid w perms) (dedupe gids)" "List.member (act_Roles a) ''owner'' \<or> act_Kind a = KindSystem \<or> list_all (holds a tid w) perms"
      "gid \<in> set gids" "rid \<in> set (group_roles (db w) gid)" "role_in tid rid (db w) = Some r" for perms gid rid r
    using that by (auto simp: may_hand_out_def unprivileged_def IsOwner_member list_all_iff covered_def map_filter_set)
  show ?thesis unfolding MayJoin_def
    by (rule good_bind [OF good_join_grants [OF w0]], elim conjE, rule good_mono [OF good_MayGrant [OF C]])
      (use out in \<open>auto simp: list_all_iff\<close>)
qed

lemma good_Invite_MayAssign:
  assumes C: "az_Backend C = B" and w0: "alike w w0"
    and known: "list_all (\<lambda>rid. role_in tid rid (db w) \<noteq> None) roleIDs"
  shows "good (Invite_MayAssign C ctx a tid roleIDs gids) (\<lambda>_ w1. alike w w1 \<and> within_reach a tid w roleIDs gids) w0"
proof -
  let ?groups = "list_all (\<lambda>gid. list_all (\<lambda>rid. \<forall>r. role_in tid rid (db w) = Some r \<longrightarrow> may_hand_out a tid w r) (group_roles (db w) gid)) gids"
  show ?thesis
  proof (cases "act_Kind a = KindOperator \<or> act_Kind a = KindSystem")
    case True
    have read: "good (on_db (Store_RolesByID tid (dedupe roleIDs)))
        (\<lambda>roles w2. alike w w2 \<and> those (map (\<lambda>ident. role_in tid ident (db w)) (dedupe roleIDs)) = Some roles) w1" if "alike w w1" for w1
      by (rule good_read [OF reads_roles(1)]) (use that in \<open>auto simp: alike_def\<close>)
    have fine: "within_reach a tid w roleIDs gids"
      if "those (map (\<lambda>ident. role_in tid ident (db w)) (dedupe roleIDs)) = Some roles" "refuseRetired roles = Inr u" for roles u
    proof (cases "act_Kind a = KindOperator")
      case False
      then have "may_hand_out a tid w r" for r using True by (simp add: may_hand_out_def)
      moreover have "\<exists>r. role_in tid rid (db w) = Some r \<and> ro_RetiredAt r = None" if "rid \<in> set roleIDs" for rid
        using those_all [OF \<open>those _ = _\<close>, of rid] \<open>refuseRetired roles = Inr u\<close> that
        by (auto simp: refuseRetired_def list_ex_iff split: if_splits)
      ultimately show ?thesis by (auto simp: within_reach_def list_all_iff)
    qed (simp add: within_reach_def)
    show ?thesis unfolding Invite_MayAssign_def if_P [OF True]
      by (rule good_seq [OF good_keeps [OF keeps_alike_require w0]], rule good_bind [OF read], assumption, elim conjE,
          rule good_of_result) (use fine in blast)
  next
    case False
    have fine: "within_reach a tid w roleIDs gids"
      if "\<forall>ident r. ident \<in> set roleIDs \<longrightarrow> role_in tid ident (db w) = Some r \<longrightarrow> ro_RetiredAt r = None \<and> may_hand_out a tid w r" ?groups
      using that known unfolding within_reach_def list_all_iff by blast
    show ?thesis unfolding Invite_MayAssign_def if_not_P [OF False]
      by (rule good_seq [OF good_MayAssign [OF C w0]], elim conjE, rule good_mono [OF good_MayJoin [OF C]]) (use fine in auto)
  qed
qed

end

lemma good_relabel: "good m R w \<Longrightarrow> good (relabel e m) (\<lambda>_ w1. \<exists>x. R x w1) w"
  unfolding relabel_def by (erule good_try) (auto intro: good_ret good_throw)

lemma keeps_db_groups: "keeps (\<lambda>w. P (db w)) (for_op gids (\<lambda>gid. relabel e (on_db (Store_GetGroup tid gid))))"
  unfolding relabel_def by (intro keeps_for keeps_intros db_reads)

lemma keeps_alike_groups: "keeps (alike w) (for_op gids (\<lambda>gid. relabel e (on_db (Store_GetGroup tid gid))))"
  unfolding relabel_def alike_def
  by (intro keeps_for keeps_intros) (auto simp: keeps_def on_db_def call_def Store_GetGroup_def split: list.splits fault.splits prod.splits)

lemma keeps_db_join_grants: "keeps (\<lambda>w. P (db w)) (join_grants a tid gids)"
  by (induction gids) (simp_all only: join_grants.simps groupGrants_def, (intro keeps_intros db_reads keeps_db_roleGrants | assumption)+)

text \<open>Writing an invitation within the actor's reach.\<close>

lemma invitations_within_insert:
  assumes "invitations_within a tid w m" "iv_TenantID i = tid" "within_reach a tid w (iv_RoleIDs i) (iv_GroupIDs i)"
  shows "invitations_within a tid w (m\<lparr>Invitations := AList.update (iv_ID i) i (Invitations m)\<rparr>)"
proof -
  have "set (AList.update k v t) \<subseteq> insert (k, v) (set t)" for k v and t :: "invitation table"
    by (induction t) auto
  from this [of "iv_ID i" i "Invitations m"] show ?thesis using assms unfolding invitations_within_def list_all_iff by auto
qed

lemma keeps_within_invite:
  assumes "within_reach a tid w (ip_RoleIDs p) (ip_GroupIDs p)"
  shows "keeps (\<lambda>w'. invitations_within a tid w (db w')) (invite X S now D actor tid addr p)"
proof -
  have other: "keeps (\<lambda>m. invitations_within a tid w m) (Store_Enqueue it)" "keeps (\<lambda>m. invitations_within a tid w m) (Store_Tenant tid)" for it
    by (auto simp: keeps_def Store_Enqueue_def Store_Tenant_def invitations_within_def)
  have insert: "keeps (\<lambda>m. invitations_within a tid w m) (Store_InsertInvitation (invitation_of X now actor tid ident addr p tok))" for ident tok
    using invitations_within_insert [of a tid w _ "invitation_of X now actor tid ident addr p tok"] assms
    by (simp add: keeps_def Store_InsertInvitation_def invitation_of_def)
  show ?thesis unfolding invite_def queue_def Let_def by (intro keeps_intros keeps_on_db insert other)
qed

lemma keeps_within_activate:
  assumes "within_reach a tid w (ip_RoleIDs p) (ip_GroupIDs p)"
  shows "keeps (\<lambda>w'. invitations_within a tid w (db w')) (activate X S now D actor tid u p)"
proof -
  have status: "keeps (\<lambda>m. invitations_within a tid w m) (Store_UpdateUserStatus tid uid st)" for uid st
    by (auto simp: keeps_def Store_UpdateUserStatus_def with_user_def put_user_def invitations_within_def split: option.splits)
  show ?thesis unfolding activate_def invite_event_def
    by (intro keeps_intros keeps_on_db keeps_within_invite assms status keeps_emit)
qed

lemma keeps_within_reads:
  "keeps (\<lambda>w'. P (db w')) (on_db (Store_UserByEmail ul tid addr))" "keeps (\<lambda>w'. P (db w')) (on_db (Store_User tid uid))"
  "keeps (\<lambda>w'. P (db w')) (on_db (Store_UserAnyTenant uid))"
  by (rule keeps_on_db, simp add: keeps_def Store_UserByEmail_def Store_User_def Store_UserAnyTenant_def)+

context fga_backend
begin

lemma keeps_db_Invite_MayAssign: "az_Backend C = B \<Longrightarrow> keeps (\<lambda>w. P (db w)) (Invite_MayAssign C ctx a tid roleIDs gids)"
  unfolding Invite_MayAssign_def MayJoin_def
  by (intro keeps_intros keeps_db_require db_reads keeps_db_MayAssign keeps_db_MayGrant keeps_db_join_grants)

lemma good_checkGrants:
  assumes S: "az_Backend (is_Authz S) = B" "is_Escalation S"
  shows "good (checkGrants S ctx a tid p) (\<lambda>_ w1. alike w w1 \<and> within_reach a tid w (ip_RoleIDs p) (ip_GroupIDs p)) w"
proof (cases "length (ip_GroupIDs p) > GroupsMax")
  case True
  then show ?thesis by (simp add: checkGrants_def good_throw)
next
  case False
  let ?known = "list_all (\<lambda>rid. role_in tid rid (db w) \<noteq> None) (ip_RoleIDs p)"
  have read: "good (on_db (Store_RolesByID tid (ip_RoleIDs p))) (\<lambda>_ w2. alike w w2 \<and> ?known) w1" if "alike w w1" for w1
    by (rule good_read [OF reads_roles(1)])
      (use that those_all [of "\<lambda>ident. role_in tid ident (db w)"] in \<open>force simp: alike_def list_all_iff found_def split: option.splits\<close>)
  have tx: "good (Tx (tenant_scope tid) (seq_op (relabel ErrBadEmail (on_db (Store_RolesByID tid (ip_RoleIDs p))))
      (for_op (ip_GroupIDs p) (\<lambda>gid. relabel ErrBadEmail (on_db (Store_GetGroup tid gid)))))) (\<lambda>_ w1. alike w w1 \<and> ?known) w"
  proof (rule good_Tx [where R = "\<lambda>_ w1. alike w w1 \<and> ?known"])
    fix w1 assume "alike w w1"
    show "good (seq_op (relabel ErrBadEmail (on_db (Store_RolesByID tid (ip_RoleIDs p))))
      (for_op (ip_GroupIDs p) (\<lambda>gid. relabel ErrBadEmail (on_db (Store_GetGroup tid gid))))) (\<lambda>_ w1. alike w w1 \<and> ?known) w1"
      by (rule good_seq [OF good_relabel [OF read [OF \<open>alike w w1\<close>]]], rule good_conj [OF good_keeps [OF keeps_alike_groups]])
        (auto simp: good_def)
  qed (auto simp: alike_def)
  show ?thesis unfolding checkGrants_def if_not_P [OF False]
    by (rule good_seq [OF tx], elim conjE)
      (auto simp: S(2) intro!: good_try [OF good_Invite_MayAssign [OF S(1)]] good_ret good_throw)
qed

lemma keeps_db_checkGrants: "az_Backend (is_Authz S) = B \<Longrightarrow> keeps (\<lambda>w. P (db w)) (checkGrants S ctx a tid p)"
  unfolding checkGrants_def
  by (intro keeps_intros keeps_db_Tx keeps_db_groups keeps_db_Invite_MayAssign) (auto simp: relabel_def intro!: keeps_intros db_reads)

lemma safe_CreateWith:
  assumes S: "az_Backend (is_Authz S) = B" "is_Escalation S"
  shows "safe (invitations_within a tid w) (CreateWith X S ctx now D a tid p) w"
proof -
  have start: "invitations_within a tid w (db w)" by (auto simp: invitations_within_def list_all_iff)
  note steps = keeps_intros keeps_db_Tx keeps_within_reads keeps_emit
  have checked: "safe (invitations_within a tid w) (checkGrants S ctx a tid p) w"
    by (rule safe_keeps, rule keeps_db_checkGrants [OF S(1)], rule start)
  have body: "keeps (\<lambda>w'. invitations_within a tid w (db w')) (Tx sc (create_tx X S now D a tid addr fn ln p))"
    if "within_reach a tid w (ip_RoleIDs p) (ip_GroupIDs p)" for sc addr fn ln
    unfolding create_tx_def Let_def invite_event_def by (intro steps keeps_within_invite keeps_within_activate) (use that in simp_all)
  have after: "safe (invitations_within a tid w) (seq_op (checkGrants S ctx a tid p) (Tx sc (create_tx X S now D a tid addr fn ln p))) w" for sc addr fn ln
    by (rule safe_seq [OF checked good_checkGrants [OF S]], elim conjE,
        rule safe_keeps [OF body]) (use start in \<open>simp_all add: alike_def\<close>)
  show ?thesis
    using after start unfolding safe_def CreateWith_def
    by (auto simp: bind_op_def of_result_def throw_def split: sum.splits)
qed

lemma safe_Activate:
  assumes S: "az_Backend (is_Authz S) = B" "is_Escalation S"
  shows "safe (invitations_within a tid w) (Activate X S ctx now Ds a tid uids p) w"
proof -
  have start: "invitations_within a tid w (db w)" by (auto simp: invitations_within_def list_all_iff)
  note steps = keeps_intros keeps_db_Tx keeps_within_reads keeps_emit
  have checked: "safe (invitations_within a tid w) (checkGrants S ctx a tid p) w"
    by (rule safe_keeps, rule keeps_db_checkGrants [OF S(1)], rule start)
  have one: "keeps (\<lambda>w'. invitations_within a tid w (db w')) (activateOne X S now D a tid uid p)"
    if "within_reach a tid w (ip_RoleIDs p) (ip_GroupIDs p)" for D uid
    unfolding activateOne_def auditForeign_def Let_def by (intro steps keeps_within_activate) (use that in simp_all)
  have each: "keeps (\<lambda>w'. invitations_within a tid w (db w')) (activate_each X S now Es a tid p us)"
    if "within_reach a tid w (ip_RoleIDs p) (ip_GroupIDs p)" for Es us
    by (induction Es arbitrary: us)
      (case_tac [!] us, simp_all only: activate_each.simps, (intro steps one that | assumption)+)
  show ?thesis
  proof (cases "uids = [] \<or> length uids > ActivateMax \<or> \<not> distinct uids")
    case True
    then have "Activate X S ctx now Ds a tid uids p = throw ErrBadEmail" by (simp add: Activate_def)
    then show ?thesis using start by (simp add: safe_def throw_def)
  next
    case False
    show ?thesis unfolding Activate_def if_not_P [OF False]
      by (rule safe_seq [OF checked good_checkGrants [OF S]], elim conjE,
          rule safe_keeps [OF each]) (use start in \<open>simp_all add: alike_def\<close>)
  qed
qed

end

text \<open>
  C12: Nobody invites anybody to more than they hold.  After an invitation or an activation of imported
  users, finished or cut short, each invitation in the store either was there before or is one of the
  request's tenant whose roles exist, are not retired and may be handed out by the actor, and whose
  groups have only such roles; operators alone are exempt.
\<close>

theorem invitations_hand_out_no_more:
  assumes "is_Authz S = \<lparr>az_Backend = Fake, az_Cache = cached\<rparr>" "is_Escalation S"
  shows "invitations_within a tid w (db (snd (CreateWith X S ctx now D a tid p w)))
    \<and> invitations_within a tid w (db (snd (Activate X S ctx now Ds a tid uids p w)))"
  using fake.safe_CreateWith [of S a tid w X ctx now D p] fake.safe_Activate [of S a tid w X ctx now Ds uids p] assms by (simp add: safe_def)

definition demo_invite :: "string list \<Rightarrow> (world, string) op" where
  "demo_invite roles = CreateWith demo_X demo_inviting (demo_ctx demo_helper) 7 \<lparr>iw_ID = ''J'', iw_Token = Some ''random'', iw_Message = ''M'',
     iw_Seal = Some (''dek'', ''nonce1'', ''nonce2'')\<rparr> demo_helper demo_tid
     \<lparr>ip_Email = ''Grace@Example.org'', ip_RoleIDs = roles, ip_GroupIDs = [], ip_FirstName = ''Grace'', ip_LastName = ''Hopper''\<rparr>"

theorem invitations_hand_out_no_more_witness:
  "is_Escalation demo_inviting
   \<and> map fst (Invitations (db (snd (demo_invite [''R''] demo_invited)))) = [''I'', ''J'']
   \<and> invitations_within demo_helper demo_tid demo_invited (db (snd (demo_invite [''R''] demo_invited)))
   \<and> fst (demo_invite [''P''] demo_invited) = Inl ErrSelfEscalation"
proof -
  have esc: "is_Escalation demo_inviting" by (simp add: demo_inviting_def)
  moreover have "map fst (Invitations (db (snd (demo_invite [''R''] demo_invited)))) = [''I'', ''J'']" by code_simp
  moreover have "fst (demo_invite [''P''] demo_invited) = Inl ErrSelfEscalation" by code_simp
  ultimately show ?thesis
    using invitations_hand_out_no_more [OF demo_inviting_backend esc] unfolding demo_invite_def by blast
qed


end
