(* ===== verification/Recovery.thy ===== *)
theory Recovery
  imports Signin Outbox
begin

text \<open>
  Forgotten and changed passwords: \<open>internal/password/recovery.go\<close> and
  \<open>internal/password/change.go\<close>.  The timing pad has no effect on the result; fresh identifiers,
  tokens, salts and sealing randomness are arguments.
\<close>

section \<open>Forgotten passwords\<close>

definition RecoveryLifetime :: duration where "RecoveryLifetime = 30 * minute"
definition RecoveryValidFor :: string where "RecoveryValidFor = ''30 minutes''"
definition ResetPath :: string where "ResetPath = ''/console/reset''"
definition ReasonPassword :: string where "ReasonPassword = ''password_changed''"

record recovery_draws =
  rw_ID :: string
  rw_Token :: "string option"
  rw_Message :: string
  rw_Seal :: "(string \<times> string \<times> string) option"

definition recovery_event :: "string \<Rightarrow> string \<Rightarrow> string \<Rightarrow> string \<Rightarrow> string \<Rightarrow> (world, unit) op" where
  "recovery_event typ tid uid out reason = emit (event typ tid ''user'' uid '''' '''' out reason)"

text \<open>The message of a recovery; whatever goes wrong, the caller is told nothing.\<close>

definition send_reset :: "externals \<Rightarrow> string \<Rightarrow> time \<Rightarrow> recovery_draws \<Rightarrow> tenant \<Rightarrow> user \<Rightarrow> string \<Rightarrow> (world, unit) op" where
  "send_reset X issuer now D t u addr =
     (case RandomToken (rw_Token D) of
        Inl _ \<Rightarrow> ret ()
      | Inr tok \<Rightarrow>
          try_op (on_db (Store_InsertRecoveryRequest \<lparr>rr_ID = rw_ID D, rr_TenantID = tn_ID t, rr_UserID = us_ID u,
              rr_TokenHash = HashToken X tok, rr_ExpiresAt = now + RecoveryLifetime, rr_UsedAt = None\<rparr>)) (\<lambda>r.
          case r of
            Inl _ \<Rightarrow> ret ()
          | Inr _ \<Rightarrow>
              (case Outbox_Encode X (rw_Seal D) addr (Recovery_payload (issuer @ ResetPath @ ''?token='' @ tok) RecoveryValidFor) of
                 Inl _ \<Rightarrow> ret ()
               | Inr blob \<Rightarrow>
                   ignore_op (on_db (Store_Enqueue \<lparr>ob_ID = rw_Message D, ob_TenantID = tn_ID t, ob_Kind = ''recovery'',
                       ob_ToEmail = addr, ob_PayloadEnc = blob, ob_Attempts = 0, ob_NextAttemptAt = now\<rparr>))
                     (recovery_event ''recovery_requested'' (tn_ID t) (us_ID u) ''ok'' ''''))))"

definition Recovery_Request :: "externals \<Rightarrow> string \<Rightarrow> time \<Rightarrow> recovery_draws \<Rightarrow> string \<Rightarrow> string \<Rightarrow> (world, unit) op" where
  "Recovery_Request X issuer now D tenantSlug emailAddr =
     (let addr = to_lower (ex_ul X) (trim_space emailAddr) in
      try_op (lookup_tenant X tenantSlug addr) (\<lambda>r.
      case r of
        Inl _ \<Rightarrow> ret ()
      | Inr t \<Rightarrow>
          if tn_Status t \<noteq> ''active'' then ret ()
          else
            try_op (on_db (Store_UserByEmail (ex_ul X) (tn_ID t) addr)) (\<lambda>r.
            let unknown = recovery_event ''recovery_requested'' (tn_ID t) '''' ''refused'' ''unknown_account'' in
            case r of
              Inl _ \<Rightarrow> unknown
            | Inr u \<Rightarrow> if us_Status u \<noteq> ''active'' then unknown else send_reset X issuer now D t u addr)))"

definition Recovery_peek :: "externals \<Rightarrow> time \<Rightarrow> string \<Rightarrow> (world, recovery_request \<times> policy) op" where
  "Recovery_peek X now token =
     (if token = '''' \<or> length token > 256 then throw ErrInvalidToken
      else
        try_op (on_db (Store_PeekRecovery now (HashToken X token))) (\<lambda>r.
        case r of
          Inl _ \<Rightarrow> throw ErrInvalidToken
        | Inr req \<Rightarrow>
            try_op (on_db (Store_Tenant (rr_TenantID req))) (\<lambda>t.
            case t of
              Inl _ \<Rightarrow> throw ErrInvalidToken
            | Inr t \<Rightarrow>
                if tn_Status t \<noteq> ''active'' then throw ErrInvalidToken
                else bind_op (of_result (tenant_policy t)) (\<lambda>pol. ret (req, pol)))))"

definition Recovery_Requirements :: "externals \<Rightarrow> time \<Rightarrow> string \<Rightarrow> (world, requirements) op" where
  "Recovery_Requirements X now token = bind_op (Recovery_peek X now token) (\<lambda>(req, pol). ret (RequirementsFor pol))"

definition Recovery_Complete :: "externals \<Rightarrow> req_context \<Rightarrow> time \<Rightarrow> string option \<Rightarrow> string \<Rightarrow> string \<Rightarrow> (world, unit) op" where
  "Recovery_Complete X ctx now salt token next_pw =
     bind_op (Recovery_peek X now token) (\<lambda>(req, pol).
     seq_op (of_result (Check pol next_pw))
    (seq_op
      (try_op (on_db (Store_UseRecoveryRequest now (HashToken X token))) (\<lambda>r.
       case r of Inl _ \<Rightarrow> throw ErrInvalidToken | Inr _ \<Rightarrow> ret ()))
    (bind_op (of_result (Hash X salt next_pw)) (\<lambda>h.
     seq_op (on_db (Store_SetPassword now (rr_TenantID req) (rr_UserID req) h))
    (seq_op (RevokeUser ctx now (rr_TenantID req) (rr_UserID req) ReasonPassword '''')
       (recovery_event ''recovery_completed'' (rr_TenantID req) (rr_UserID req) ''ok'' ''''))))))"

section \<open>Changed passwords\<close>

definition Changer_Requirements :: "actor \<Rightarrow> (world, requirements) op" where
  "Changer_Requirements actor =
     bind_op (on_db (Store_Tenant (act_TenantID actor))) (\<lambda>t.
     bind_op (of_result (tenant_policy t)) (\<lambda>pol. ret (RequirementsFor pol)))"

definition change_event :: "actor \<Rightarrow> string \<Rightarrow> string \<Rightarrow> (world, unit) op" where
  "change_event actor out reason =
     emit (event ''password_changed'' (act_TenantID actor) (act_Kind actor) (act_UserID actor) '''' '''' out reason)"

definition Change :: "externals \<Rightarrow> req_context \<Rightarrow> time \<Rightarrow> string option \<Rightarrow> actor \<Rightarrow> string \<Rightarrow> string \<Rightarrow> (world, unit) op" where
  "Change X ctx now salt actor current next_pw =
     bind_op (on_db (Store_User (act_TenantID actor) (act_UserID actor))) (\<lambda>u.
     if \<not> fst (Password_Verify X current (case us_PasswordHash u of None \<Rightarrow> '''' | Some h \<Rightarrow> h)) then
       seq_op (change_event actor ''refused'' ''wrong_current_password'') (throw ErrCurrent)
     else
       bind_op (on_db (Store_Tenant (act_TenantID actor))) (\<lambda>t.
       bind_op (of_result (tenant_policy t)) (\<lambda>pol.
       seq_op (of_result (Check pol next_pw))
      (bind_op (of_result (Hash X salt next_pw)) (\<lambda>h.
       seq_op (on_db (Store_SetPassword now (act_TenantID actor) (act_UserID actor) h))
      (seq_op (RevokeUser ctx now (act_TenantID actor) (act_UserID actor) ReasonPassword (act_SessionID actor))
         (change_event actor ''ok'' '''')))))))"

end
