(* ===== verification/Recovery_Safety.thy ===== *)
theory Recovery_Safety
  imports Recovery Authz_Deletion
begin

text \<open>
  What password recovery guarantees, whichever calls fail: a reset token is spent by the one request
  that takes effect, and a completed recovery stores the new password and revokes every session.
\<close>

section \<open>Reset tokens\<close>

text \<open>Request rows under distinct keys with distinct token hashes.\<close>

definition recoveries_keyed :: "memstore \<Rightarrow> bool" where
  "recoveries_keyed m \<longleftrightarrow> distinct (map fst (Recoveries m)) \<and> distinct (map (rr_TokenHash \<circ> snd) (Recoveries m))"

definition reset_spent :: "string \<Rightarrow> memstore \<Rightarrow> bool" where
  "reset_spent hash m \<longleftrightarrow> list_all (\<lambda>(_, r). rr_TokenHash r = hash \<longrightarrow> rr_UsedAt r \<noteq> None) (Recoveries m)"

lemma set_update_row: "(k1, v1) \<in> set (AList.update k v t) \<Longrightarrow> distinct (map fst t) \<Longrightarrow> (k1 = k \<and> v1 = v) \<or> (k1 \<noteq> k \<and> (k1, v1) \<in> set t)"
  by (induction t) (auto split: if_splits simp: image_iff)

lemma use_spends:
  assumes keyed: "recoveries_keyed m" and use: "Store_UseRecoveryRequest now hash m = (Inr r, m')"
  shows "reset_spent hash m'"
proof -
  obtain k r0 where row: "find_row (recovery_open now hash) (Recoveries m) = Some (k, r0)"
    and m': "m' = m\<lparr>Recoveries := AList.update k (r0\<lparr>rr_UsedAt := Some now\<rparr>) (Recoveries m)\<rparr>"
    using use by (auto simp: Store_UseRecoveryRequest_def Let_def split: option.splits)
  from find_row_Some [OF row] have r0: "rr_TokenHash r0 = hash" "(k, r0) \<in> set (Recoveries m)" by (auto simp: recovery_open_def)
  have "rr_UsedAt r1 \<noteq> None" if "(k1, r1) \<in> set (AList.update k (r0\<lparr>rr_UsedAt := Some now\<rparr>) (Recoveries m))" "rr_TokenHash r1 = hash" for k1 r1
  proof -
    note new = that
    consider "r1 = r0\<lparr>rr_UsedAt := Some now\<rparr>" | "k1 \<noteq> k" "(k1, r1) \<in> set (Recoveries m)"
      using set_update_row [OF new(1)] keyed by (auto simp: recoveries_keyed_def)
    then show ?thesis
    proof cases
      case 2
      then have "(k1, r1) = (k, r0)"
        using keyed r0 new(2) unfolding recoveries_keyed_def distinct_map
        by (metis (no_types, lifting) comp_apply inj_onD snd_conv)
      with 2 show ?thesis by simp
    qed simp
  qed
  then show ?thesis by (auto simp: reset_spent_def list_all_iff m')
qed

lemma peek_spent: "reset_spent hash m \<Longrightarrow> find_row (recovery_open now hash) (Recoveries m) = None"
  by (auto simp: reset_spent_def list_all_iff find_row_def find_None_iff recovery_open_def)

lemma good_peek:
  assumes "alike w w0"
  shows "good (Recovery_peek X now token) (\<lambda>(req, pol) w1. alike w w1
    \<and> map_option snd (find_row (recovery_open now (HashToken X token)) (Recoveries (db w))) = Some req) w0"
proof -
  have req: "good (on_db (Store_PeekRecovery now hash)) (\<lambda>req w1. alike w w1
      \<and> map_option snd (find_row (recovery_open now hash) (Recoveries (db w))) = Some req) w0" for hash
    by (rule good_update) (use assms in \<open>auto simp: alike_def Store_PeekRecovery_def found_def split: option.splits\<close>)
  have ten: "good (on_db (Store_Tenant tid)) (\<lambda>_. alike w) w1" if "alike w w1" for tid w1
    by (rule good_update) (use that in \<open>auto simp: alike_def Store_Tenant_def\<close>)
  show ?thesis unfolding Recovery_peek_def
    by (auto intro!: good_throw good_try [OF req] good_try [OF ten] good_bind [OF good_of_result] good_ret)
qed

text \<open>What a completed recovery leaves: the password of the user set, and every session of theirs revoked.\<close>

definition all_revoked :: "string \<Rightarrow> string \<Rightarrow> memstore \<Rightarrow> bool" where
  "all_revoked tid uid m \<longleftrightarrow> list_all (\<lambda>(k, s). k \<noteq> '''' \<and> ss_TenantID s = tid \<and> ss_UserID s = uid \<longrightarrow> ss_RevokedAt s \<noteq> None) (Sessions m)"

definition recovered :: "externals \<Rightarrow> string option \<Rightarrow> string \<Rightarrow> recovery_request \<Rightarrow> memstore \<Rightarrow> bool" where
  "recovered X salt pw req m \<longleftrightarrow>
     (case (userByID (rr_TenantID req) (rr_UserID req) m, Hash X salt pw) of
        (Some (_, u), Inr h) \<Rightarrow> us_PasswordHash u = Some h | _ \<Rightarrow> False)
     \<and> all_revoked (rr_TenantID req) (rr_UserID req) m"

lemma userByID_with_user:
  assumes "with_user tid uid f m = (Inr x, m')" "distinct (map fst (Users m))" "\<And>u. us_TenantID (f u) = us_TenantID u \<and> us_ID (f u) = us_ID u"
  obtains k u where "userByID tid uid m' = Some (k, f u)"
proof -
  obtain k u where row: "userByID tid uid m = Some (k, u)" and m': "m' = put_user k (f u) m"
    using assms(1) by (auto simp: with_user_def split: option.splits)
  have "find_row (\<lambda>u. us_TenantID u = tid \<and> us_ID u = uid) (AList.update k (f u) (Users m)) = Some (k, f u)"
    using find_row_update [OF row [unfolded userByID_def] assms(2)] find_row_Some [OF row [unfolded userByID_def]] assms(3) by simp
  then show ?thesis using that by (simp add: userByID_def m' put_user_def)
qed

text \<open>Publishing a revocation touches neither users nor sessions.\<close>

lemma keeps_publish: "keeps (\<lambda>w. Q (Users (db w)) (Sessions (db w))) (publish now r)"
proof -
  have "keeps (\<lambda>m. Q (Users m) (Sessions m)) (Store_InsertRevocation r)" by (simp add: keeps_def Store_InsertRevocation_def)
  then have "keeps (\<lambda>w. Q (Users (db w)) (Sessions (db w))) (on_db (Store_InsertRevocation r))"
    by (rule keeps_on_db [of "\<lambda>m. Q (Users m) (Sessions m)"])
  moreover have "keeps (\<lambda>w. Q (Users (db w)) (Sessions (db w))) (MarkRevoked World_KV now key ts ttl)" for key ts ttl
    unfolding MarkRevoked_def by (intro keeps_intros keeps_World_KV)
  ultimately show ?thesis unfolding publish_def by (auto intro!: keeps_intros split: option.split)
qed

lemma good_RevokeUser:
  assumes "Q (Users (db w))"
  shows "good (RevokeUser ctx now tid uid reason '''') (\<lambda>_ w'. Q (Users (db w')) \<and> all_revoked tid uid (db w')) w"
proof -
  have revoke: "good (on_db (Store_RevokeUser now tid uid reason '''')) (\<lambda>_ w'. Q (Users (db w')) \<and> all_revoked tid uid (db w')) w1"
    if "Q (Users (db w1))" for w1
    by (rule good_update)
      (use that in \<open>auto simp: Store_RevokeUser_def revoke_where_def revoke_session_def all_revoked_def list_all_iff split: if_splits\<close>)
  have pub: "keeps (\<lambda>w'. Q (Users (db w')) \<and> all_revoked tid uid (db w')) (publish now r)" for r
    using keeps_publish [of "\<lambda>U S. Q U \<and> list_all (\<lambda>(k, s). k \<noteq> '''' \<and> ss_TenantID s = tid \<and> ss_UserID s = uid \<longrightarrow> ss_RevokedAt s \<noteq> None) S"]
    by (simp add: all_revoked_def)
  show ?thesis unfolding RevokeUser_def simp_thms if_False if_True
    by (rule good_bind [OF good_ret [where Q = "\<lambda>_ w'. Q (Users (db w'))"]], rule assms, rule good_seq [OF revoke], assumption,
        rule good_keeps [OF keeps_seq [OF pub keeps_emit]], assumption)
qed

text \<open>The steps before the request is used up leave the tables alone, those after it the requests.\<close>

lemma keeps_requests:
  "keeps (\<lambda>w. Q (Recoveries (db w))) (on_db (Store_SetPassword now tid uid h))"
  "keeps (\<lambda>w. Q (Recoveries (db w))) (RevokeUser ctx now tid uid reason '''')"
proof -
  show "keeps (\<lambda>w. Q (Recoveries (db w))) (on_db (Store_SetPassword now tid uid h))"
    by (rule keeps_on_db [of "\<lambda>m. Q (Recoveries m)"])
      (auto simp: keeps_def Store_SetPassword_def with_user_def put_user_def split: option.splits)
  have "keeps (\<lambda>w. Q (Recoveries (db w))) (on_db (Store_InsertRevocation r))" for r
    by (rule keeps_on_db [of "\<lambda>m. Q (Recoveries m)"]) (simp add: keeps_def Store_InsertRevocation_def)
  moreover have "keeps (\<lambda>w. Q (Recoveries (db w))) (MarkRevoked World_KV now key ts ttl)" for key ts ttl
    unfolding MarkRevoked_def by (intro keeps_intros keeps_World_KV)
  moreover have "keeps (\<lambda>w. Q (Recoveries (db w))) (on_db (Store_RevokeUser now tid uid reason ''''))"
    by (rule keeps_on_db [of "\<lambda>m. Q (Recoveries m)"]) (simp add: keeps_def Store_RevokeUser_def revoke_where_def)
  ultimately show "keeps (\<lambda>w. Q (Recoveries (db w))) (RevokeUser ctx now tid uid reason '''')"
    unfolding RevokeUser_def publish_def simp_thms if_False if_True
    by (auto intro!: keeps_intros keeps_emit split: option.split)
qed

lemma use_users: "Store_UseRecoveryRequest now hash m = (r, m') \<Longrightarrow> Users m' = Users m"
  by (auto simp: Store_UseRecoveryRequest_def Let_def split: option.splits)

lemma good_used:
  assumes "alike w w0" "recoveries_keyed (db w)"
  shows "good (try_op (on_db (Store_UseRecoveryRequest now hash)) (\<lambda>r. case r of Inl _ \<Rightarrow> throw ErrInvalidToken | Inr _ \<Rightarrow> ret ()))
    (\<lambda>_ w1. reset_spent hash (db w1) \<and> Users (db w1) = Users (db w)) w0"
proof -
  have "good (on_db (Store_UseRecoveryRequest now hash)) (\<lambda>_ w1. reset_spent hash (db w1) \<and> Users (db w1) = Users (db w)) w0"
  proof (rule good_update)
    fix a d w1 assume run: "Store_UseRecoveryRequest now hash (db w0) = (Inr a, d)" and d: "db w1 = d"
    show "reset_spent hash (db w1) \<and> Users (db w1) = Users (db w)"
      using use_spends [OF _ run] use_users [OF run] assms d by (simp add: alike_def)
  qed
  then show ?thesis by (rule good_try) (auto intro: good_ret good_throw)
qed

lemma keeps_alike_read: "(\<And>d. snd (m d) = d) \<Longrightarrow> keeps (alike w) (on_db m)"
  by (auto simp: keeps_def on_db_def call_def alike_def split: list.splits fault.splits prod.splits) (metis snd_conv)+

lemma keeps_alike_peek: "keeps (alike w) (Recovery_peek X now token)"
  unfolding Recovery_peek_def by (intro keeps_intros keeps_alike_read) (simp_all add: Store_PeekRecovery_def Store_Tenant_def)

lemma good_complete:
  assumes keyed: "recoveries_keyed (db w)" "distinct (map fst (Users (db w)))"
  shows "good (Recovery_Complete X ctx now salt token pw) (\<lambda>_ w'. case find_row (recovery_open now (HashToken X token)) (Recoveries (db w)) of
      None \<Rightarrow> False | Some (_, req) \<Rightarrow> recovered X salt pw req (db w')) w"
  unfolding Recovery_Complete_def
proof (rule good_bind [OF good_peek [OF alike_refl]], goal_cases)
  case (1 x w1)
  obtain req pol where x: "x = (req, pol)" by (cases x)
  with 1 obtain k where w1: "alike w w1" and row: "find_row (recovery_open now (HashToken X token)) (Recoveries (db w)) = Some (k, req)" by auto
  let ?hash = "\<lambda>h U. case find_row (\<lambda>u. us_TenantID u = rr_TenantID req \<and> us_ID u = rr_UserID req) U of Some (_, u) \<Rightarrow> us_PasswordHash u = Some h | None \<Rightarrow> False"
  have stored: "good (on_db (Store_SetPassword now (rr_TenantID req) (rr_UserID req) h)) (\<lambda>_ w3. ?hash h (Users (db w3))) w2"
    if "Users (db w2) = Users (db w)" for w2 h
  proof (rule good_update)
    fix a d w3 assume set_it: "Store_SetPassword now (rr_TenantID req) (rr_UserID req) h (db w2) = (Inr a, d)" and d: "db w3 = d"
    show "?hash h (Users (db w3))"
      by (rule userByID_with_user [OF set_it [unfolded Store_SetPassword_def]]) (use that keyed(2) d in \<open>auto simp: userByID_def\<close>)
  qed
  have last_step: "good (seq_op (RevokeUser ctx now (rr_TenantID req) (rr_UserID req) ReasonPassword '''')
      (recovery_event ''recovery_completed'' (rr_TenantID req) (rr_UserID req) ''ok'' '''')) (\<lambda>_ w'. recovered X salt pw req (db w')) w2"
    if "?hash h (Users (db w2))" "Hash X salt pw = Inr h" for w2 h
    unfolding recovery_event_def
    by (rule good_seq [OF good_RevokeUser [where Q = "?hash h", OF that(1)]], rule good_emit)
      (use that(2) in \<open>auto simp: recovered_def userByID_def split: option.splits prod.splits\<close>)
  have hashed: "good (of_result (Hash X salt pw)) (\<lambda>h w3. Hash X salt pw = Inr h \<and> Users (db w3) = Users (db w)) w2"
    if "Users (db w2) = Users (db w)" for w2
    by (rule good_of_result) (use that in simp)
  show ?case unfolding x prod.case row option.case
    by (rule good_seq [OF good_of_result [where Q = "\<lambda>_. alike w"]], rule w1, rule good_seq [OF good_used [OF _ keyed(1)]], assumption, elim conjE,
        rule good_bind [OF hashed], assumption, elim conjE, rule good_seq [OF stored], assumption, rule last_step)
qed

lemma keeps_spent:
  "keeps (\<lambda>w. reset_spent hash (db w)) (on_db (Store_SetPassword now tid uid h))"
  "keeps (\<lambda>w. reset_spent hash (db w)) (RevokeUser ctx now tid uid reason '''')"
  unfolding reset_spent_def by (rule keeps_requests)+

lemma safe_complete:
  assumes keyed: "recoveries_keyed (db w)"
  shows "safe (\<lambda>d. Users d = Users (db w) \<or> reset_spent (HashToken X token) d) (Recovery_Complete X ctx now salt token pw) w"
  (is "safe ?P _ w")
proof -
  let ?use = "try_op (on_db (Store_UseRecoveryRequest now (HashToken X token))) (\<lambda>r. case r of Inl _ \<Rightarrow> throw ErrInvalidToken | Inr _ \<Rightarrow> ret ())"
  have same: "alike w w1 \<Longrightarrow> ?P (db w1)" for w1 by (simp add: alike_def)
  have peek: "safe ?P (Recovery_peek X now token) w"
    using keepsD [OF keeps_alike_peek alike_refl, of w X now token] same by (simp add: safe_def)
  have "keeps (\<lambda>m. Users m = Users (db w)) (Store_UseRecoveryRequest now (HashToken X token))"
    unfolding keeps_def by (metis prod.collapse use_users)
  then have "keeps (\<lambda>w'. Users (db w') = Users (db w)) ?use"
    by (intro keeps_intros keeps_on_db [of "\<lambda>m. Users m = Users (db w)"])
  then have used: "safe ?P ?use w1" if "alike w w1" for w1
    using that unfolding safe_def keeps_def by (simp add: alike_def)
  have rest: "keeps (\<lambda>w. reset_spent (HashToken X token) (db w)) (bind_op (of_result (Hash X salt pw)) (\<lambda>h.
      seq_op (on_db (Store_SetPassword now tid uid h)) (seq_op (RevokeUser ctx now tid uid ReasonPassword '''')
        (recovery_event ''recovery_completed'' tid uid ''ok'' ''''))))" for tid uid
    unfolding recovery_event_def by (intro keeps_intros keeps_spent keeps_emit)
  have tail: "safe ?P (seq_op ?use (bind_op (of_result (Hash X salt pw)) (\<lambda>h.
      seq_op (on_db (Store_SetPassword now tid uid h)) (seq_op (RevokeUser ctx now tid uid ReasonPassword '''')
        (recovery_event ''recovery_completed'' tid uid ''ok'' ''''))))) w1" if "alike w w1" for w1 tid uid
    by (rule safe_seq [OF used [OF that] good_used [OF that keyed]]) (use keepsD [OF rest] in \<open>simp add: safe_def\<close>)
  show ?thesis unfolding Recovery_Complete_def
  proof (rule safe_bind [OF peek good_peek [OF alike_refl]], goal_cases)
    case (1 x w1)
    then have w1: "alike w w1" by (cases x) auto
    show ?case unfolding split_beta
      by (rule safe_seq [where R = "\<lambda>_. alike w"]) (use w1 same tail in \<open>auto simp: safe_def of_result_def good_def\<close>)
  qed
qed

text \<open>
  C13: A reset link works once.  However a recovery ends and whichever calls fail, either no account
  has changed or the token is spent, and with a spent token every recovery fails and changes nothing.
  A recovery that succeeds was asked for with an open request; the hash of the new password is stored
  for its user, and every session of that user is revoked.
\<close>

theorem reset_link_works_once:
  assumes keyed: "recoveries_keyed (db w)" "distinct (map fst (Users (db w)))"
    and run: "Recovery_Complete X ctx now salt token pw w = (r, w')"
  shows "(Users (db w') = Users (db w) \<or> reset_spent (HashToken X token) (db w'))
    \<and> (reset_spent (HashToken X token) (db w) \<longrightarrow> (\<exists>e. r = Inl e) \<and> db w' = db w)
    \<and> (r = Inr () \<longrightarrow> (case find_row (recovery_open now (HashToken X token)) (Recoveries (db w)) of
         None \<Rightarrow> False | Some (_, req) \<Rightarrow> recovered X salt pw req (db w')))"
proof (intro conjI impI)
  show "Users (db w') = Users (db w) \<or> reset_spent (HashToken X token) (db w')"
    using safe_complete [OF keyed(1), of X token ctx now salt pw] run by (simp add: safe_def)
next
  assume spent: "reset_spent (HashToken X token) (db w)"
  obtain r1 w1 where peek: "Recovery_peek X now token w = (r1, w1)" by force
  have "alike w w1" using keepsD [OF keeps_alike_peek alike_refl, of w X now token] peek by simp
  moreover obtain e where "r1 = Inl e"
    using goodD [OF good_peek [OF alike_refl], of X now token w] peek peek_spent [OF spent, of now] by (cases r1) auto
  ultimately show "\<exists>e. r = Inl e" "db w' = db w" using run peek by (auto simp: Recovery_Complete_def bind_op_def alike_def)
next
  assume "r = Inr ()"
  with goodD [OF good_complete [OF keyed]] run show "case find_row (recovery_open now (HashToken X token)) (Recoveries (db w)) of
      None \<Rightarrow> False | Some (_, req) \<Rightarrow> recovered X salt pw req (db w')" by blast
qed

definition demo_lost :: world where
  "demo_lost = New_World\<lparr>db := New_Store\<lparr>
     Tenants := [(''T'', \<lparr>tn_ID = ''T'', tn_Slug = ''acme'', tn_DisplayName = ''Acme'', tn_Status = ''active'', tn_Kind = ''customer'',
       tn_Policy = NoBytes, tn_CreatedAt = 0, tn_UpdatedAt = 0\<rparr>)],
     Users := [(''T/ada'', zero_user\<lparr>us_ID := ''U'', us_TenantID := ''T'', us_Email := ''ada'', us_Status := ''active''\<rparr>)],
     Recoveries := [(''Q'', \<lparr>rr_ID = ''Q'', rr_TenantID = ''T'', rr_UserID = ''U'', rr_TokenHash = HashToken demo_X ''tok'', rr_ExpiresAt = 100,
       rr_UsedAt = None\<rparr>)]\<rparr>\<rparr>"

definition demo_reset :: "(world, unit) op" where
  "demo_reset = Recovery_Complete demo_X background 50 (Some ''salt'') ''tok'' ''correct horse battery''"

theorem reset_link_works_once_witness:
  "recoveries_keyed (db demo_lost) \<and> distinct (map fst (Users (db demo_lost)))
   \<and> fst (demo_reset demo_lost) = Inr ()
   \<and> recovered demo_X (Some ''salt'') ''correct horse battery'' (snd (hd (Recoveries (db demo_lost)))) (db (snd (demo_reset demo_lost)))"
proof -
  have keyed: "recoveries_keyed (db demo_lost)" "distinct (map fst (Users (db demo_lost)))"
    by (simp_all add: recoveries_keyed_def demo_lost_def)
  have ok: "fst (demo_reset demo_lost) = Inr ()" by code_simp
  have row: "find_row (recovery_open 50 (HashToken demo_X ''tok'')) (Recoveries (db demo_lost)) = Some (''Q'', snd (hd (Recoveries (db demo_lost))))"
    by code_simp
  have run: "Recovery_Complete demo_X background 50 (Some ''salt'') ''tok'' ''correct horse battery'' demo_lost = (Inr (), snd (demo_reset demo_lost))"
    using ok unfolding demo_reset_def by (metis prod.collapse)
  from reset_link_works_once [OF keyed run] row keyed ok show ?thesis by simp
qed


end
