(* ===== verification/Tenant_Service.thy ===== *)
theory Tenant_Service
  imports Invite Session_Manager
begin

text \<open>
  The life of tenants and operator access to them: \<open>internal/tenant/tenant.go\<close> and
  \<open>internal/tenant/grants.go\<close>.  What runs after a tenant and its roles exist (\<open>OnCreated\<close>) is set by
  the application and is an argument.
\<close>

section \<open>Tenants\<close>

definition ReasonSuspended :: string where "ReasonSuspended = ''tenant_suspended''"

definition BuiltinRoles :: "string list" where "BuiltinRoles = [''owner'', ''admin'', ''member'', ''auditor'']"

record tenant_view =
  tv_ID :: string
  tv_Slug :: string
  tv_DisplayName :: string
  tv_Status :: string
  tv_Kind :: string
  tv_CreatedAt :: string

definition tenant_view_of :: "tenant \<Rightarrow> tenant_view" where
  "tenant_view_of t =
     \<lparr>tv_ID = tn_ID t, tv_Slug = tn_Slug t, tv_DisplayName = tn_DisplayName t, tv_Status = tn_Status t, tv_Kind = tn_Kind t,
      tv_CreatedAt = RFC3339 (tn_CreatedAt t)\<rparr>"

definition requireOperator :: "req_context \<Rightarrow> actor result" where
  "requireOperator ctx =
     (case FromContext ctx of
        None \<Rightarrow> Inl ErrNotOperator
      | Some a \<Rightarrow> if act_Kind a \<noteq> KindOperator then Inl ErrNotOperator else Inr a)"

definition tenant_event :: "actor \<Rightarrow> string \<Rightarrow> string \<Rightarrow> (world, unit) op" where
  "tenant_event operator typ tid = emit (event typ tid ''operator'' (act_UserID operator) ''tenant'' tid ''ok'' '''')"

definition Tenants_List :: "req_context \<Rightarrow> (world, tenant_view list) op" where
  "Tenants_List ctx =
     seq_op (of_result (requireOperator ctx))
    (bind_op (on_db Store_ListTenants) (\<lambda>ts. ret (map tenant_view_of ts)))"

text \<open>The draws of a creation: the tenant's id, an id for each role, the draws of the invitation.\<close>

record tenant_draws =
  td_ID :: string
  td_Roles :: "string list"
  td_Invite :: invite_draws

definition upper_first :: "string \<Rightarrow> string" where
  "upper_first s = (case s of [] \<Rightarrow> [] | c # cs \<Rightarrow> (if is_az c then char_of ((of_char c :: nat) - 32) else c) # cs)"

definition builtin_role :: "string \<Rightarrow> string \<Rightarrow> string \<Rightarrow> role" where
  "builtin_role ident tid slug =
     \<lparr>ro_ID = ident, ro_TenantID = tid, ro_Slug = slug, ro_DisplayName = upper_first slug, ro_Builtin = True, ro_CreatedAt = zero_time,
      ro_UpdatedAt = zero_time, ro_Origin = '''', ro_Module = '''', ro_ModuleSlug = '''', ro_Description = '''', ro_RetiredAt = None\<rparr>"

fun insert_roles :: "string \<Rightarrow> (string \<times> string) list \<Rightarrow> (world, unit) op" where
  "insert_roles tid [] = ret ()"
| "insert_roles tid ((ident, slug) # rs) =
     seq_op (on_db (Store_InsertRole (builtin_role ident tid slug))) (insert_roles tid rs)"

definition contains_at :: "string \<Rightarrow> bool" where "contains_at s = (index_byte (CHR ''@'') s \<noteq> None)"

definition Tenants_Create ::
    "externals \<Rightarrow> invite_service \<Rightarrow> (string \<Rightarrow> (world, unit) op) option \<Rightarrow> req_context \<Rightarrow> time \<Rightarrow> tenant_draws
     \<Rightarrow> string \<Rightarrow> string \<Rightarrow> string \<Rightarrow> (world, tenant_view \<times> string) op" where
  "Tenants_Create X S onCreated ctx now D slug displayName0 ownerEmail =
     bind_op (of_result (requireOperator ctx)) (\<lambda>operator.
     let displayName = trim_space displayName0;
         t = \<lparr>tn_ID = td_ID D, tn_Slug = slug, tn_DisplayName = displayName, tn_Status = ''active'', tn_Kind = ''customer'',
              tn_Policy = Policy_JSON DefaultPolicy, tn_CreatedAt = now, tn_UpdatedAt = now\<rparr>;
         roles = zip (td_Roles D) BuiltinRoles
     in case ParseSlug slug of
          Inl _ \<Rightarrow> throw ErrValidation
        | Inr _ \<Rightarrow>
            if displayName = '''' \<or> length displayName > 120 \<or> \<not> contains_at ownerEmail then throw ErrValidation
            else
              seq_op (try_op (on_db (Store_InsertTenant t)) (\<lambda>r.
                case r of Inl e \<Rightarrow> throw (if e = ErrConflict then ErrValidation else e) | Inr _ \<Rightarrow> ret ()))
             (seq_op (insert_roles (td_ID D) roles)
             (seq_op (Client_Write (is_Authz S) (system_ctx ctx) now (td_ID D) (map (\<lambda>(_, slug). RoleTenantTuple (td_ID D) slug) roles) [])
             (seq_op (case onCreated of None \<Rightarrow> ret () | Some f \<Rightarrow> ignore_op (f (td_ID D)) (ret ()))
             (bind_op (Invite_Create X S (WithOperatorGrant ctx ''tenant-creation'' (td_ID D)) now (td_Invite D) operator (td_ID D) ownerEmail
                 (map fst (filter (\<lambda>(_, slug). slug = ''owner'') roles))) (\<lambda>invitation.
              seq_op (tenant_event operator ''tenant_created'' (td_ID D))
                (ret (tenant_view_of t, invitation))))))))"

definition bump :: "time \<Rightarrow> string \<Rightarrow> (world, unit) op" where
  "bump now tid = ignore_op (BumpTenantVersion World_KV now tid) (ret ())"

definition Suspend :: "req_context \<Rightarrow> time \<Rightarrow> bool \<Rightarrow> string \<Rightarrow> (world, unit) op" where
  "Suspend ctx now cached tid =
     bind_op (of_result (requireOperator ctx)) (\<lambda>operator.
     bind_op (on_db (Store_Tenant tid)) (\<lambda>t.
     if tn_Kind t = ''platform'' then throw ErrValidation
     else
       seq_op (when_op (tn_Status t \<noteq> ''suspended'') (on_db (Store_UpdateTenantStatus tid ''suspended'')))
      (seq_op (RevokeTenant ctx now tid ReasonSuspended)
      (seq_op (when_op cached (bump now tid))
         (tenant_event operator ''tenant_suspended'' tid)))))"

definition Tenants_Reactivate :: "req_context \<Rightarrow> time \<Rightarrow> bool \<Rightarrow> string \<Rightarrow> (world, unit) op" where
  "Tenants_Reactivate ctx now cached tid =
     bind_op (of_result (requireOperator ctx)) (\<lambda>operator.
     bind_op (on_db (Store_Tenant tid)) (\<lambda>t.
     if tn_Status t = ''active'' then ret ()
     else
       seq_op (on_db (Store_UpdateTenantStatus tid ''active''))
      (seq_op (when_op cached (bump now tid))
         (tenant_event operator ''tenant_reactivated'' tid))))"

section \<open>Policies\<close>

definition GetPolicy :: "req_context \<Rightarrow> string \<Rightarrow> (world, policy) op" where
  "GetPolicy ctx tid =
     seq_op (require ctx tid)
    (bind_op (on_db (Store_Tenant tid)) (\<lambda>t.
     case ParsePolicy (tn_Policy t) (tn_Kind t = ''platform'') of (pol, Inr _) \<Rightarrow> ret pol | (pol, Inl e) \<Rightarrow> throw e))"

text \<open>The refusal joins \<open>ErrValidation\<close>, which callers compare, with the detail of the policy.\<close>

definition UpdatePolicy :: "req_context \<Rightarrow> time \<Rightarrow> bool \<Rightarrow> string \<Rightarrow> policy \<Rightarrow> (world, policy) op" where
  "UpdatePolicy ctx now cached tid p0 =
     (case FromContext ctx of
        None \<Rightarrow> throw ErrNoActor
      | Some a \<Rightarrow>
          seq_op (require ctx tid)
         (bind_op (on_db (Store_Tenant tid)) (\<lambda>t.
          let p = (if tn_Kind t = ''platform'' then p0\<lparr>MFARequired := True\<rparr> else p0) in
          seq_op (of_result (case Validate p of Inl _ \<Rightarrow> Inl ErrValidation | Inr _ \<Rightarrow> Inr ()))
         (seq_op (on_db (Store_UpdateTenantPolicy tid (Policy_JSON p)))
         (seq_op (when_op cached (bump now tid))
         (seq_op (emit (event ''policy_updated'' tid (act_Kind a) (act_UserID a) ''tenant'' tid ''ok'' ''''))
            (ret p)))))))"

section \<open>Operator access\<close>

definition MaxGrant :: duration where "MaxGrant = 4 * hour"
definition MinGrantReason :: nat where "MinGrantReason = 10"

record grant_view =
  gv_ID :: string
  gv_TenantID :: string
  gv_Reason :: string
  gv_ExpiresAt :: string

definition grant_event :: "actor \<Rightarrow> string \<Rightarrow> string \<Rightarrow> string \<Rightarrow> (world, unit) op" where
  "grant_event operator typ tid ident = emit (event typ tid ''operator'' (act_UserID operator) ''operator_grant'' ident ''ok'' '''')"

definition Grants_Create :: "req_context \<Rightarrow> time \<Rightarrow> string \<Rightarrow> string \<Rightarrow> string \<Rightarrow> duration \<Rightarrow> (world, grant_view) op" where
  "Grants_Create ctx now newID tid reason0 dur =
     bind_op (of_result (requireOperator ctx)) (\<lambda>operator.
     let reason = trim_space reason0;
         gr = \<lparr>og_ID = newID, og_OperatorUserID = act_UserID operator, og_TenantID = tid, og_Reason = reason, og_GrantedAt = now,
               og_ExpiresAt = now + dur, og_RevokedAt = None\<rparr>
     in if length reason < MinGrantReason \<or> length reason > 500 \<or> dur \<le> 0 \<or> dur > MaxGrant \<or> \<not> ValidTenantID tid
        then throw ErrValidation
        else
          bind_op (on_db (Store_Tenant tid)) (\<lambda>t.
          if tn_Kind t = ''platform'' then throw ErrValidation
          else
            seq_op (on_db (Store_InsertOperatorGrant gr))
           (seq_op (grant_event operator ''operator_grant_created'' tid newID)
              (ret \<lparr>gv_ID = newID, gv_TenantID = tid, gv_Reason = reason, gv_ExpiresAt = RFC3339 (now + dur)\<rparr>))))"

definition Grants_Apply :: "req_context \<Rightarrow> time \<Rightarrow> string \<Rightarrow> (world, req_context) op" where
  "Grants_Apply ctx now tid =
     bind_op (of_result (requireOperator ctx)) (\<lambda>operator.
     if act_TenantID operator = tid then ret ctx
     else
       try_op (on_db (Store_ActiveOperatorGrant now (act_UserID operator) tid)) (\<lambda>r.
       case r of
         Inl _ \<Rightarrow>
           seq_op (emit (event ''cross_tenant_refused'' tid ''operator'' (act_UserID operator) '''' '''' ''refused'' ''no_operator_grant''))
             (throw ErrNoOperatorGrant)
       | Inr gr \<Rightarrow>
           if \<not> now < og_ExpiresAt gr then throw ErrNoOperatorGrant
           else
             seq_op (grant_event operator ''operator_grant_used'' tid (og_ID gr))
               (ret (WithOperatorGrant ctx (og_ID gr) tid))))"

end
