(* ===== verification/Operator_Safety.thy ===== *)
theory Operator_Safety
  imports Tenant_Service Authz_Deletion
begin

text \<open>
  Operator access to customer tenants: only under a stored grant with a reason, of four hours at most,
  that has not run out.
\<close>

definition grant_bounded :: "operator_grant \<Rightarrow> bool" where
  "grant_bounded g \<longleftrightarrow> og_GrantedAt g < og_ExpiresAt g \<and> og_ExpiresAt g \<le> og_GrantedAt g + MaxGrant
     \<and> 10 \<le> length (og_Reason g) \<and> length (og_Reason g) \<le> 500 \<and> ValidTenantID (og_TenantID g)"

definition grants_bounded :: "memstore \<Rightarrow> bool" where
  "grants_bounded m \<longleftrightarrow> list_all (\<lambda>(_, g). grant_bounded g) (Grants m)"

lemma keeps_bounded_Create: "keeps (\<lambda>w. grants_bounded (db w)) (Grants_Create ctx now newID tid reason dur)"
proof -
  have read: "keeps (\<lambda>w. grants_bounded (db w)) (on_db (Store_Tenant tid))"
    by (rule keeps_on_db) (simp add: keeps_def Store_Tenant_def)
  have insert: "keeps (\<lambda>w. grants_bounded (db w)) (on_db (Store_InsertOperatorGrant g))" if "grant_bounded g" for g
    by (rule keeps_on_db)
      (use that set_update_subset [of "og_ID g" g] in \<open>fastforce simp: keeps_def Store_InsertOperatorGrant_def grants_bounded_def list_all_iff\<close>)
  show ?thesis
  proof (cases "length (trim_space reason) < MinGrantReason \<or> length (trim_space reason) > 500 \<or> dur \<le> 0 \<or> dur > MaxGrant \<or> \<not> ValidTenantID tid")
    case True
    show ?thesis unfolding Grants_Create_def Let_def if_P [OF True] by (intro keeps_intros)
  next
    case False
    show ?thesis unfolding Grants_Create_def Let_def grant_event_def if_not_P [OF False]
      by (intro keeps_intros keeps_emit read insert) (use False in \<open>auto simp: grant_bounded_def MinGrantReason_def\<close>)
  qed
qed

lemma Apply_foreign:
  assumes run: "Grants_Apply ctx now tid w = (Inr ctx', w')" and a: "FromContext ctx = Some a" "act_TenantID a \<noteq> tid"
  shows "act_Kind a = KindOperator \<and> (\<exists>k g. (k, g) \<in> set (Grants (db w)) \<and> og_OperatorUserID g = act_UserID a \<and> og_TenantID g = tid
    \<and> og_RevokedAt g = None \<and> now < og_ExpiresAt g \<and> ctx' = WithOperatorGrant ctx (og_ID g) tid)"
proof -
  have op: "act_Kind a = KindOperator"
    using run a by (auto simp: Grants_Apply_def requireOperator_def bind_op_def of_result_def split: if_splits)
  let ?open = "\<lambda>g. og_OperatorUserID g = act_UserID a \<and> og_TenantID g = tid \<and> og_RevokedAt g = None \<and> now < og_ExpiresAt g"
  have read: "good (on_db (Store_ActiveOperatorGrant now (act_UserID a) tid)) (\<lambda>g _. \<exists>k. (k, g) \<in> set (Grants (db w)) \<and> ?open g) w"
    by (rule good_update) (auto simp: Store_ActiveOperatorGrant_def found_def dest!: find_row_Some split: option.splits)
  have run': "try_op (on_db (Store_ActiveOperatorGrant now (act_UserID a) tid)) (\<lambda>r.
       case r of
         Inl _ \<Rightarrow>
           seq_op (emit (event ''cross_tenant_refused'' tid ''operator'' (act_UserID a) '''' '''' ''refused'' ''no_operator_grant''))
             (throw ErrNoOperatorGrant)
       | Inr gr \<Rightarrow>
           if \<not> now < og_ExpiresAt gr then throw ErrNoOperatorGrant
           else seq_op (grant_event a ''operator_grant_used'' tid (og_ID gr)) (ret (WithOperatorGrant ctx (og_ID gr) tid))) w = (Inr ctx', w')"
    (is "?apply w = _")
    using run a op by (simp add: Grants_Apply_def requireOperator_def bind_op_def of_result_def)
  have "good ?apply (\<lambda>c _. \<exists>k g. (k, g) \<in> set (Grants (db w)) \<and> ?open g \<and> c = WithOperatorGrant ctx (og_ID g) tid) w"
    unfolding grant_event_def
    by (rule good_try [OF read]) (auto intro!: good_throw good_seq [OF good_emit [where Q = "\<lambda>_ _. True"]] good_ret)
  from goodD [OF this run'] op show ?thesis by auto
qed

text \<open>
  C14: An operator enters a customer tenant only under a grant.  Every grant the service stores names a
  valid tenant, gives a reason of 10 to 500 bytes and runs out at most four hours after it was made,
  whichever calls fail.  When \<open>Apply\<close> lets an operator into a tenant other than their own, such a grant
  of this operator for this tenant is stored, not revoked and not run out.
\<close>

theorem operator_access_bounded:
  assumes "grants_bounded (db w)"
  shows "grants_bounded (db (snd (Grants_Create ctx now newID tid reason dur w)))
    \<and> (\<forall>a ctx' w'. Grants_Apply ctx now tid w = (Inr ctx', w') \<longrightarrow> FromContext ctx = Some a \<longrightarrow> act_TenantID a \<noteq> tid \<longrightarrow>
         act_Kind a = KindOperator
         \<and> (\<exists>k g. (k, g) \<in> set (Grants (db w)) \<and> og_OperatorUserID g = act_UserID a \<and> og_TenantID g = tid \<and> og_RevokedAt g = None
              \<and> now < og_ExpiresAt g \<and> og_ExpiresAt g \<le> og_GrantedAt g + 4 * hour))"
proof (intro conjI allI impI)
  show "grants_bounded (db (snd (Grants_Create ctx now newID tid reason dur w)))"
    by (rule keepsD [OF keeps_bounded_Create assms])
next
  fix a ctx' w' assume run: "Grants_Apply ctx now tid w = (Inr ctx', w')" "FromContext ctx = Some a" "act_TenantID a \<noteq> tid"
  from Apply_foreign [OF this] show "act_Kind a = KindOperator" by blast
  from Apply_foreign [OF run] obtain k g where g: "(k, g) \<in> set (Grants (db w))" "og_OperatorUserID g = act_UserID a" "og_TenantID g = tid"
    "og_RevokedAt g = None" "now < og_ExpiresAt g" by blast
  moreover have "og_ExpiresAt g \<le> og_GrantedAt g + 4 * hour"
    using assms g(1) by (auto simp: grants_bounded_def grant_bounded_def list_all_iff MaxGrant_def)
  ultimately show "\<exists>k g. (k, g) \<in> set (Grants (db w)) \<and> og_OperatorUserID g = act_UserID a \<and> og_TenantID g = tid \<and> og_RevokedAt g = None
      \<and> now < og_ExpiresAt g \<and> og_ExpiresAt g \<le> og_GrantedAt g + 4 * hour" by blast
qed

definition demo_operator :: actor where
  "demo_operator = no_actor\<lparr>act_Kind := ''operator'', act_UserID := ''O'', act_TenantID := ''platform''\<rparr>"

definition demo_customer :: world where
  "demo_customer = New_World\<lparr>db := New_Store\<lparr>Tenants := [(demo_tid, \<lparr>tn_ID = demo_tid, tn_Slug = ''acme'', tn_DisplayName = ''Acme'', tn_Status = ''active'',
     tn_Kind = ''customer'', tn_Policy = NoBytes, tn_CreatedAt = 0, tn_UpdatedAt = 0\<rparr>)]\<rparr>\<rparr>"

definition demo_granted :: world where
  "demo_granted = snd (Grants_Create (demo_ctx demo_operator) 0 ''G1'' demo_tid ''looking into a ticket'' hour demo_customer)"

theorem operator_access_bounded_witness:
  "grants_bounded (db demo_customer) \<and> grants_bounded (db demo_granted)
   \<and> fst (Grants_Apply (demo_ctx demo_operator) 5 demo_tid demo_granted) = Inr (WithOperatorGrant (demo_ctx demo_operator) ''G1'' demo_tid)
   \<and> (\<exists>k g. (k, g) \<in> set (Grants (db demo_granted)) \<and> og_OperatorUserID g = ''O'' \<and> 5 < og_ExpiresAt g)
   \<and> fst (Grants_Apply (demo_ctx demo_operator) hour demo_tid demo_granted) = Inl ErrNoOperatorGrant"
proof -
  let ?apply = "Grants_Apply (demo_ctx demo_operator) 5 demo_tid demo_granted"
  have start: "grants_bounded (db demo_customer)" by code_simp
  have bounded: "grants_bounded (db demo_granted)"
    unfolding demo_granted_def using operator_access_bounded [OF start] by blast
  have ok: "fst ?apply = Inr (WithOperatorGrant (demo_ctx demo_operator) ''G1'' demo_tid)" by code_simp
  have late: "fst (Grants_Apply (demo_ctx demo_operator) hour demo_tid demo_granted) = Inl ErrNoOperatorGrant" by code_simp
  have run: "?apply = (Inr (WithOperatorGrant (demo_ctx demo_operator) ''G1'' demo_tid), snd ?apply)" using ok by (metis prod.collapse)
  have who: "FromContext (demo_ctx demo_operator) = Some demo_operator" "act_TenantID demo_operator \<noteq> demo_tid" by code_simp+
  have "\<exists>k g. (k, g) \<in> set (Grants (db demo_granted)) \<and> og_OperatorUserID g = act_UserID demo_operator \<and> 5 < og_ExpiresAt g"
    using operator_access_bounded [OF bounded, of "demo_ctx demo_operator" 5] run who by blast
  then show ?thesis using start bounded ok late by (simp add: demo_operator_def)
qed


end
